(* ===== verification/Prelude.thy ===== *)
theory Prelude
  imports Main "HOL-Library.Sublist" "HOL-Library.List_Lexorder" "HOL-Library.Char_ord"
begin

text \<open>
  What every component shares: the outcome of a fallible Rust function, the ordered maps that stand
  for \<open>BTreeMap\<close> and \<open>HashMap\<close>, and list facts about first matches and updates in place.
\<close>

section \<open>Outcomes of Rust functions\<close>

text \<open>
  \<open>Result<T, E>\<close> with a rendered error, and a third case for a panic (an out-of-range slice, an
  unwrap of nothing), which in Rust is neither an \<open>Ok\<close> nor an \<open>Err\<close>.
\<close>

datatype 'a outcome = Ok 'a | Err string | Panic

fun obind :: "'a outcome \<Rightarrow> ('a \<Rightarrow> 'b outcome) \<Rightarrow> 'b outcome" where
  "obind (Ok a) f = f a"
| "obind (Err e) f = Err e"
| "obind Panic f = Panic"

definition unwrap_or_default :: "'a list outcome \<Rightarrow> 'a list outcome" where
  "unwrap_or_default r = (case r of Ok xs \<Rightarrow> Ok xs | Err _ \<Rightarrow> Ok [] | Panic \<Rightarrow> Panic)"

text \<open>\<open>r.map_err(f)\<close>, and \<open>r.context(c)\<close> with the rendering of the outermost context.\<close>

fun map_err :: "(string \<Rightarrow> string) \<Rightarrow> 'a outcome \<Rightarrow> 'a outcome" where
  "map_err f (Ok a) = Ok a"
| "map_err f (Err e) = Err (f e)"
| "map_err f Panic = Panic"

lemma obind_eq_Ok: "obind r f = Ok b \<longleftrightarrow> (\<exists>a. r = Ok a \<and> f a = Ok b)"
  by (cases r) auto

lemma obind_eq_Err: "obind r f = Err e \<longleftrightarrow> r = Err e \<or> (\<exists>a. r = Ok a \<and> f a = Err e)"
  by (cases r) auto

lemma obind_eq_Panic: "obind r f = Panic \<longleftrightarrow> r = Panic \<or> (\<exists>a. r = Ok a \<and> f a = Panic)"
  by (cases r) auto

lemma map_err_eq:
  "map_err f r = Ok a \<longleftrightarrow> r = Ok a"
  "map_err f r = Err e \<longleftrightarrow> (\<exists>e'. r = Err e' \<and> e = f e')"
  "map_err f r = Panic \<longleftrightarrow> r = Panic"
  by (cases r; auto)+

lemmas obind_iffs = obind_eq_Ok obind_eq_Err obind_eq_Panic map_err_eq

section \<open>Fallible steps over a state\<close>

type_synonym ('h, 'a) io = "'h \<Rightarrow> 'a outcome \<times> 'h"

definition io_ok :: "'a \<Rightarrow> ('h, 'a) io" where
  "io_ok a = (\<lambda>h. (Ok a, h))"

definition io_lift :: "'a outcome \<Rightarrow> ('h, 'a) io" where
  "io_lift r = (\<lambda>h. (r, h))"

text \<open>The \<open>?\<close> operator: an error or a panic ends the function, the effects so far stay.\<close>

definition io_bind :: "('h, 'a) io \<Rightarrow> ('a \<Rightarrow> ('h, 'b) io) \<Rightarrow> ('h, 'b) io" where
  "io_bind m f = (\<lambda>h. case m h of (Ok a, h') \<Rightarrow> f a h' | (Err e, h') \<Rightarrow> (Err e, h') | (Panic, h') \<Rightarrow> (Panic, h'))"

text \<open>A \<open>match\<close> on the result, and \<open>let _ =\<close>: an error is a value, a panic still ends the function.\<close>

definition io_try :: "('h, 'a) io \<Rightarrow> ('h, 'a outcome) io" where
  "io_try m = (\<lambda>h. case m h of (Panic, h') \<Rightarrow> (Panic, h') | (r, h') \<Rightarrow> (Ok r, h'))"

definition io_ignore :: "('h, 'a) io \<Rightarrow> ('h, unit) io" where
  "io_ignore m = io_bind (io_try m) (\<lambda>_. io_ok ())"

definition io_get :: "('h \<Rightarrow> 'a) \<Rightarrow> ('h, 'a) io" where
  "io_get f = (\<lambda>h. (Ok (f h), h))"

definition io_put :: "('h \<Rightarrow> 'h) \<Rightarrow> ('h, unit) io" where
  "io_put f = (\<lambda>h. (Ok (), f h))"

definition io_when :: "bool \<Rightarrow> ('h, unit) io \<Rightarrow> ('h, unit) io" where
  "io_when b m = (if b then m else io_ok ())"

fun io_each :: "('a \<Rightarrow> ('h, unit) io) \<Rightarrow> 'a list \<Rightarrow> ('h, unit) io" where
  "io_each f [] = io_ok ()"
| "io_each f (x # xs) = io_bind (f x) (\<lambda>_. io_each f xs)"

text \<open>A step on a part of the state.\<close>

definition io_zoom :: "('s \<Rightarrow> 'h) \<Rightarrow> ('h \<Rightarrow> 's \<Rightarrow> 's) \<Rightarrow> ('h, 'a) io \<Rightarrow> ('s, 'a) io" where
  "io_zoom get put m = (\<lambda>s. let (r, h') = m (get s) in (r, put h' s))"

lemma io_bind_Ok: "io_bind m f h = (Ok b, h') \<longleftrightarrow> (\<exists>a h1. m h = (Ok a, h1) \<and> f a h1 = (Ok b, h'))"
  by (auto simp: io_bind_def split: prod.splits outcome.splits)

lemma io_lift_Ok: "io_lift r h = (Ok a, h') \<longleftrightarrow> r = Ok a \<and> h' = h"
  by (auto simp: io_lift_def)

lemma io_ok_Ok: "io_ok x h = (Ok a, h') \<longleftrightarrow> x = a \<and> h' = h"
  by (auto simp: io_ok_def)

lemmas io_defs = io_bind_def io_ok_def io_lift_def io_get_def io_put_def io_when_def io_zoom_def io_try_def
  io_ignore_def

text \<open>For evaluation: steps applied to a state only.\<close>

lemma io_app:
  "io_bind m f h = (case m h of (Ok a, h') \<Rightarrow> f a h' | (Err e, h') \<Rightarrow> (Err e, h') | (Panic, h') \<Rightarrow> (Panic, h'))"
  "io_ok a h = (Ok a, h)" "io_lift r h = (r, h)" "io_get g h = (Ok (g h), h)" "io_put u h = (Ok (), u h)"
  "io_try m h = (case m h of (Panic, h') \<Rightarrow> (Panic, h') | (r, h') \<Rightarrow> (Ok r, h'))"
  "io_ignore m' h = (case m' h of (Panic, h') \<Rightarrow> (Panic, h') | (r, h') \<Rightarrow> (Ok (), h'))"
  "io_when b u' h = (if b then u' h else (Ok (), h))"
  by (simp_all add: io_defs split: prod.split outcome.split)

text \<open>Triples: from a state with \<open>P\<close>, the result and the state after satisfy \<open>Q\<close>.\<close>

definition io_spec :: "('h \<Rightarrow> bool) \<Rightarrow> ('h, 'a) io \<Rightarrow> ('a outcome \<Rightarrow> 'h \<Rightarrow> bool) \<Rightarrow> bool" where
  "io_spec P m Q \<longleftrightarrow> (\<forall>h. P h \<longrightarrow> Q (fst (m h)) (snd (m h)))"

lemma io_specI: "(\<And>h. P h \<Longrightarrow> Q (fst (m h)) (snd (m h))) \<Longrightarrow> io_spec P m Q"
  by (simp add: io_spec_def)

lemma io_specD: "io_spec P m Q \<Longrightarrow> P h \<Longrightarrow> m h = (r, h') \<Longrightarrow> Q r h'"
  by (force simp: io_spec_def)

text \<open>An invariant of the state, whatever the result.\<close>

definition io_keeps :: "('h \<Rightarrow> bool) \<Rightarrow> ('h, 'a) io \<Rightarrow> bool" where
  "io_keeps P m \<longleftrightarrow> io_spec P m (\<lambda>_. P)"

named_theorems keeps

lemma io_keepsI: "(\<And>h. P h \<Longrightarrow> P (snd (m h))) \<Longrightarrow> io_keeps P m"
  by (simp add: io_keeps_def io_spec_def)

lemma io_keepsD: "io_keeps P m \<Longrightarrow> P h \<Longrightarrow> P (snd (m h))"
  by (simp add: io_keeps_def io_spec_def)

lemma keeps_ok [keeps]: "io_keeps P (io_ok a)" and keeps_lift [keeps]: "io_keeps P (io_lift r)"
  and keeps_get [keeps]: "io_keeps P (io_get f)" and keeps_pure [keeps]: "io_keeps P (\<lambda>h. (g h, h))"
  by (simp_all add: io_keeps_def io_spec_def io_defs)

lemma keeps_bind [keeps]: "io_keeps P m \<Longrightarrow> (\<And>a. io_keeps P (f a)) \<Longrightarrow> io_keeps P (io_bind m f)"
  by (force simp: io_keeps_def io_spec_def io_bind_def split: outcome.split prod.split)

lemma keeps_try [keeps]: "io_keeps P m \<Longrightarrow> io_keeps P (io_try m)"
  by (force simp: io_keeps_def io_spec_def io_try_def split: outcome.split prod.split)

lemma keeps_ignore [keeps]: "io_keeps P m \<Longrightarrow> io_keeps P (io_ignore m)"
  unfolding io_ignore_def by (intro keeps)

lemma keeps_when [keeps]: "io_keeps P m \<Longrightarrow> io_keeps P (io_when b m)"
  by (simp add: io_when_def keeps_ok)

lemma keeps_each [keeps]: "(\<And>x. x \<in> set xs \<Longrightarrow> io_keeps P (f x)) \<Longrightarrow> io_keeps P (io_each f xs)"
  by (induction xs) (auto intro!: keeps)

lemma keeps_map_err [keeps]: "io_keeps P m \<Longrightarrow> io_keeps P (\<lambda>h. apfst g (m h))"
  by (simp add: io_keeps_def io_spec_def)

lemma keeps_option_case [keeps]:
  "io_keeps P m \<Longrightarrow> (\<And>a. x = Some a \<Longrightarrow> io_keeps P (f a)) \<Longrightarrow> io_keeps P (case x of None \<Rightarrow> m | Some a \<Rightarrow> f a)"
  by (cases x) auto

lemma keeps_outcome_case [keeps]:
  "(\<And>a. x = Ok a \<Longrightarrow> io_keeps P (f a)) \<Longrightarrow> (\<And>e. x = Err e \<Longrightarrow> io_keeps P (g e)) \<Longrightarrow> io_keeps P h \<Longrightarrow>
    io_keeps P (case x of Ok a \<Rightarrow> f a | Err e \<Rightarrow> g e | Panic \<Rightarrow> h)"
  by (cases x) auto

lemma keeps_if [keeps]: "io_keeps P m \<Longrightarrow> io_keeps P m' \<Longrightarrow> io_keeps P (if b then m else m')"
  by simp

lemma keeps_Let [keeps]: "io_keeps P (f x) \<Longrightarrow> io_keeps P (let y = x in f y)"
  by simp

text \<open>Every result of a step has a property.\<close>

definition io_yields :: "('a \<Rightarrow> bool) \<Rightarrow> ('h, 'a) io \<Rightarrow> bool" where
  "io_yields R m \<longleftrightarrow> (\<forall>h a h'. m h = (Ok a, h') \<longrightarrow> R a)"

lemma yields_bind: "(\<And>a. io_yields R (f a)) \<Longrightarrow> io_yields R (io_bind m f)"
  by (auto simp: io_yields_def io_bind_Ok)

lemma yields_ok: "R a \<Longrightarrow> io_yields R (io_ok a)"
  by (simp add: io_yields_def io_ok_def)

lemma yields_lift: "(\<And>a. r = Ok a \<Longrightarrow> R a) \<Longrightarrow> io_yields R (io_lift r)"
  by (auto simp: io_yields_def io_lift_def)

lemma yields_bind': "io_yields Q m \<Longrightarrow> (\<And>a. Q a \<Longrightarrow> io_yields R (f a)) \<Longrightarrow> io_yields R (io_bind m f)"
  unfolding io_yields_def io_bind_Ok by blast

section \<open>Updating the first match of a list\<close>

text \<open>\<open>if let Some(x) = xs.iter_mut().find(p) { f(x) }\<close>: only the first match is touched.\<close>

fun update_first :: "('a \<Rightarrow> bool) \<Rightarrow> ('a \<Rightarrow> 'a) \<Rightarrow> 'a list \<Rightarrow> 'a list" where
  "update_first p f [] = []"
| "update_first p f (x # xs) = (if p x then f x # xs else x # update_first p f xs)"

lemma length_update_first [simp]: "length (update_first p f xs) = length xs"
  by (induction xs) auto

lemma update_first_noop: "\<forall>x\<in>set xs. \<not> p x \<Longrightarrow> update_first p f xs = xs"
  by (induction xs) auto

lemma map_update_first: "(\<And>x. p x \<Longrightarrow> g (f x) = g x) \<Longrightarrow> map g (update_first p f xs) = map g xs"
  by (induction xs) auto

lemma set_update_first_subset: "set (update_first p f xs) \<subseteq> set xs \<union> f ` {x \<in> set xs. p x}"
  by (induction xs) auto

lemma update_first_other: "x \<in> set xs \<Longrightarrow> \<not> p x \<Longrightarrow> x \<in> set (update_first p f xs)"
  by (induction xs) auto

lemma update_first_key:
  "distinct (map k xs) \<Longrightarrow> update_first (\<lambda>x. k x = a) f xs = map (\<lambda>x. if k x = a then f x else x) xs"
proof (induction xs)
  case (Cons x xs)
  then show ?case
    by (cases "k x = a") (auto simp: image_iff intro!: map_idI[symmetric])
qed simp

lemma find_Some_mem: "List.find p xs = Some x \<Longrightarrow> x \<in> set xs \<and> p x"
  by (auto simp: find_Some_iff)

lemma find_None_all: "List.find p xs = None \<Longrightarrow> \<forall>x\<in>set xs. \<not> p x"
  by (simp add: find_None_iff)

lemma find_eq_SomeI: "x \<in> set xs \<Longrightarrow> p x \<Longrightarrow> \<exists>y. List.find p xs = Some y"
  by (cases "List.find p xs") (auto simp: find_None_iff)

lemma length_filter_less:
  "x \<in> set xs \<Longrightarrow> p x \<Longrightarrow> \<not> q x \<Longrightarrow> (\<And>y. q y \<Longrightarrow> p y) \<Longrightarrow> length (filter q xs) < length (filter p xs)"
proof (induction xs)
  case (Cons y ys)
  have le: "length (filter q ys) \<le> length (filter p ys)"
    using Cons.prems(4) by (induction ys) auto
  show ?case
    using Cons le by (cases "x = y") (auto split: if_splits)
qed simp

lemma length_filter_le_imp: "(\<And>x. p x \<Longrightarrow> q x) \<Longrightarrow> length (filter p xs) \<le> length (filter q xs)"
  by (induction xs) auto

lemma set_map_filter: "y \<in> set (List.map_filter f xs) \<longleftrightarrow> (\<exists>x\<in>set xs. f x = Some y)"
  by (induction xs) (auto simp: List.map_filter_def)

lemma map_filter_key:
  "(\<And>x y. f x = Some y \<Longrightarrow> k y = g x) \<Longrightarrow> map k (List.map_filter f xs) = map g (filter (\<lambda>x. f x \<noteq> None) xs)"
  by (induction xs) (auto simp: List.map_filter_def split: option.splits)

section \<open>Ordered maps\<close>

text \<open>
  \<open>BTreeMap<K, V>\<close> is the list of its entries in strictly increasing key order; the order of keys
  is the byte-wise lexicographic order of \<open>String\<close>. A \<open>HashMap\<close> whose iteration order the code
  does not use is the same list.
\<close>

type_synonym ('k, 'v) omap = "('k \<times> 'v) list"

definition om_ok :: "('k::linorder, 'v) omap \<Rightarrow> bool" where
  "om_ok m \<longleftrightarrow> sorted_wrt (<) (map fst m)"

definition om_get :: "('k, 'v) omap \<Rightarrow> 'k \<Rightarrow> 'v option" where
  "om_get m k = map_of m k"

definition om_keys :: "('k, 'v) omap \<Rightarrow> 'k list" where
  "om_keys m = map fst m"

definition om_has :: "('k, 'v) omap \<Rightarrow> 'k \<Rightarrow> bool" where
  "om_has m k \<longleftrightarrow> om_get m k \<noteq> None"

fun om_insert :: "'k::linorder \<Rightarrow> 'v \<Rightarrow> ('k, 'v) omap \<Rightarrow> ('k, 'v) omap" where
  "om_insert k v [] = [(k, v)]"
| "om_insert k v ((k', v') # m) =
     (if k < k' then (k, v) # (k', v') # m
      else if k = k' then (k, v) # m
      else (k', v') # om_insert k v m)"

definition om_remove :: "'k \<Rightarrow> ('k, 'v) omap \<Rightarrow> ('k, 'v) omap" where
  "om_remove k m = filter (\<lambda>e. fst e \<noteq> k) m"

lemma om_ok_Nil [simp, intro]: "om_ok []"
  by (simp add: om_ok_def)

lemma om_get_Nil [simp]: "om_get [] k = None"
  by (simp add: om_get_def)

lemma om_get_insert [simp]: "om_get (om_insert k v m) = (om_get m)(k \<mapsto> v)"
proof
  fix x show "om_get (om_insert k v m) x = ((om_get m)(k \<mapsto> v)) x"
    by (induction k v m rule: om_insert.induct) (auto simp: om_get_def)
qed

lemma om_get_remove [simp]: "om_get (om_remove k m) = (om_get m)(k := None)"
proof
  fix x show "om_get (om_remove k m) x = ((om_get m)(k := None)) x"
    by (induction m) (auto simp: om_get_def om_remove_def)
qed

lemma fst_set_om_insert: "fst ` set (om_insert k v m) = insert k (fst ` set m)"
  by (induction k v m rule: om_insert.induct) auto

lemma om_ok_insert [simp, intro]: "om_ok m \<Longrightarrow> om_ok (om_insert k v m)"
proof (induction k v m rule: om_insert.induct)
  case (2 k v k' v' m)
  then show ?case
    using fst_set_om_insert[of k v m] by (force simp: om_ok_def)
qed (simp add: om_ok_def)

lemma om_ok_remove [simp, intro]: "om_ok m \<Longrightarrow> om_ok (om_remove k m)"
  by (induction m) (auto simp: om_ok_def om_remove_def)

lemma om_ok_distinct: "om_ok m \<Longrightarrow> distinct (om_keys m)"
  unfolding om_ok_def om_keys_def by (rule strict_sorted_iff[THEN iffD1, THEN conjunct2])

lemma om_ok_sorted: "om_ok m \<Longrightarrow> sorted (om_keys m)"
  unfolding om_ok_def om_keys_def by (rule strict_sorted_iff[THEN iffD1, THEN conjunct1])

lemma set_om_keys: "set (om_keys m) = dom (om_get m)"
proof -
  have "om_get m = map_of m"
    by (simp add: om_get_def fun_eq_iff)
  then show ?thesis
    by (simp add: om_keys_def dom_map_of_conv_image_fst)
qed

lemma om_has_iff: "om_has m k \<longleftrightarrow> k \<in> set (om_keys m)"
  by (auto simp: om_has_def set_om_keys)

lemma om_get_iff: "om_ok m \<Longrightarrow> om_get m k = Some v \<longleftrightarrow> (k, v) \<in> set m"
  unfolding om_get_def using om_ok_distinct[of m] by (simp add: om_keys_def)

lemma om_eqI:
  assumes "om_ok m" "om_ok n" "om_get m = om_get n"
  shows "m = n"
proof -
  have "set (om_keys m) = set (om_keys n)"
    using assms(3) by (simp add: set_om_keys)
  then have keys: "om_keys m = om_keys n"
    using assms(1,2) by (simp add: om_ok_sorted om_ok_distinct sorted_distinct_set_unique)
  have "m = map (\<lambda>k. (k, the (om_get m k))) (om_keys m)"
    using assms(1) by (auto simp: om_keys_def om_get_iff[THEN iffD2] intro!: map_idI[symmetric])
  moreover have "n = map (\<lambda>k. (k, the (om_get n k))) (om_keys n)"
    using assms(2) by (auto simp: om_keys_def om_get_iff[THEN iffD2] intro!: map_idI[symmetric])
  ultimately show ?thesis
    using keys assms(3) by metis
qed

end
