(* ===== verification/RustStr.thy ===== *)
theory RustStr
  imports Prelude
begin

text \<open>
  The part of \<open>str\<close>, \<open>String\<close> and \<open>Vec<u8>\<close> of the Rust standard library that the program uses. A
  \<open>String\<close> is the list of its UTF-8 bytes (one \<open>char\<close> per byte), so \<open>len()\<close> is \<open>length\<close> and a
  slice is \<open>take\<close>/\<open>drop\<close>. White space is the Unicode \<open>White_Space\<close> property in its UTF-8 encoding.
  \<open>to_lowercase\<close> and \<open>is_alphanumeric\<close> are modelled on ASCII: other bytes are unchanged by the
  first and not alphanumeric for the second.
\<close>

section \<open>Prefixes, suffixes and substrings\<close>

definition starts_with :: "string \<Rightarrow> string \<Rightarrow> bool" where
  "starts_with s p = prefix p s"

definition ends_with :: "string \<Rightarrow> string \<Rightarrow> bool" where
  "ends_with s p = suffix p s"

definition strip_prefix :: "string \<Rightarrow> string \<Rightarrow> string option" where
  "strip_prefix p s = (if prefix p s then Some (drop (length p) s) else None)"

definition strip_suffix :: "string \<Rightarrow> string \<Rightarrow> string option" where
  "strip_suffix p s = (if ends_with s p then Some (take (length s - length p) s) else None)"

fun str_find :: "string \<Rightarrow> string \<Rightarrow> nat option" where
  "str_find p [] = (if p = [] then Some 0 else None)"
| "str_find p (c # s) = (if prefix p (c # s) then Some 0 else map_option Suc (str_find p s))"

fun str_rfind :: "char \<Rightarrow> string \<Rightarrow> nat option" where
  "str_rfind c [] = None"
| "str_rfind c (x # s) =
     (case str_rfind c s of Some i \<Rightarrow> Some (Suc i) | None \<Rightarrow> (if x = c then Some 0 else None))"

definition contains :: "string \<Rightarrow> string \<Rightarrow> bool" where
  "contains s p \<longleftrightarrow> str_find p s \<noteq> None"

lemma str_find_Some:
  "str_find p s = Some i \<Longrightarrow> i + length p \<le> length s \<and> prefix p (drop i s)"
proof (induction s arbitrary: i)
  case (Cons c s)
  then show ?case
    by (auto split: if_splits dest: prefix_length_le)
qed (auto split: if_splits)

lemma str_find_least: "str_find p s = Some i \<Longrightarrow> j < i \<Longrightarrow> \<not> prefix p (drop j s)"
proof (induction s arbitrary: i j)
  case (Cons c s)
  then show ?case
    by (cases j) (auto split: if_splits)
qed (auto split: if_splits)

lemma contains_iff_sublist: "contains s p \<longleftrightarrow> sublist p s"
  unfolding contains_def by (induction s) (auto simp: sublist_Cons_right)

lemma contains_Cons: "contains (c # s) p \<longleftrightarrow> prefix p (c # s) \<or> contains s p"
  by (simp add: contains_iff_sublist sublist_Cons_right)

lemma str_find_skip:
  "\<not> contains (butlast (a @ p)) p \<Longrightarrow> p \<noteq> [] \<Longrightarrow> str_find p (a @ p @ b) = Some (length a)"
proof (induction a)
  case Nil
  then show ?case by (cases p) auto
next
  case (Cons x a)
  have bl: "butlast ((x # a) @ p) = x # butlast (a @ p)"
    using Cons.prems(2) by simp
  have "\<not> prefix p (x # a @ p @ b)"
  proof
    assume pre: "prefix p (x # a @ p @ b)"
    have len: "length p \<le> length (butlast ((x # a) @ p))"
      using Cons.prems(2) by simp
    have "prefix (butlast ((x # a) @ p)) (x # a @ p @ b)"
      using Cons.prems(2)
      by (metis append.assoc append_Cons append_butlast_last_id append_is_Nil_conv prefixI)
    then have "prefix p (butlast ((x # a) @ p))"
      using pre len by (meson prefix_length_prefix)
    then show False
      using Cons.prems(1) bl by (simp add: contains_Cons)
  qed
  moreover have "\<not> contains (butlast (a @ p)) p"
    using Cons.prems(1) bl by (simp add: contains_Cons)
  ultimately show ?case
    using Cons.IH Cons.prems(2) by simp
qed

lemma str_find_char: "str_find [c] s = Some i \<Longrightarrow> i < length s \<and> s ! i = c"
  by (induction s arbitrary: i) (auto split: if_splits)

lemma str_rfind_Some: "str_rfind c s = Some i \<Longrightarrow> i < length s \<and> s ! i = c"
  by (induction s arbitrary: i) (auto split: option.splits if_splits)

lemma str_rfind_None: "str_rfind c s = None \<longleftrightarrow> c \<notin> set s"
  by (induction s) (auto split: option.splits)

lemma str_find_None_char: "str_find [c] s = None \<longleftrightarrow> c \<notin> set s"
  by (induction s) auto

lemma str_rfind_last: "str_rfind c (s @ [c]) = Some (length s)"
  by (induction s) auto

section \<open>UTF-8\<close>

text \<open>The number of bytes of the scalar value that starts at the head of a string.\<close>

definition char_len :: "string \<Rightarrow> nat" where
  "char_len s = (case s of [] \<Rightarrow> 1 | c # _ \<Rightarrow>
     (let b = (of_char c :: nat) in
      if b < 0xC0 then 1 else if b < 0xE0 then 2 else if b < 0xF0 then 3 else 4))"

lemma char_len_pos [simp]: "0 < char_len s"
  by (auto simp: char_len_def Let_def split: list.splits)

text \<open>\<open>s.chars().take(n).collect()\<close>.\<close>

fun chars_take :: "nat \<Rightarrow> string \<Rightarrow> string" where
  "chars_take 0 s = []"
| "chars_take (Suc n) s = (if s = [] then [] else take (char_len s) s @ chars_take n (drop (char_len s) s))"

definition cont_byte :: "char \<Rightarrow> bool" where
  "cont_byte c \<longleftrightarrow> 0x80 \<le> (of_char c :: nat) \<and> (of_char c :: nat) < 0xC0"

text \<open>\<open>str::is_char_boundary\<close>: slicing anywhere else panics.\<close>

definition is_char_boundary :: "string \<Rightarrow> nat \<Rightarrow> bool" where
  "is_char_boundary s i \<longleftrightarrow> i = length s \<or> (i < length s \<and> \<not> cont_byte (s ! i))"

text \<open>\<open>&s[..n]\<close> and \<open>&s[n..]\<close>.\<close>

definition str_slice_to :: "string \<Rightarrow> nat \<Rightarrow> string outcome" where
  "str_slice_to s n = (if is_char_boundary s n then Ok (take n s) else Panic)"

definition str_slice :: "string \<Rightarrow> nat \<Rightarrow> nat \<Rightarrow> string outcome" where
  "str_slice s a b = (if a \<le> b \<and> b \<le> length s \<and> is_char_boundary s a \<and> is_char_boundary s b
     then Ok (take (b - a) (drop a s)) else Panic)"

text \<open>\<open>String::from_utf8(bytes).is_ok()\<close>: the well-formed byte sequences of the Unicode standard.\<close>

function utf8_valid :: "string \<Rightarrow> bool" where
  "utf8_valid s = (case s of [] \<Rightarrow> True | c # r \<Rightarrow>
     (let b = (of_char c :: nat); n = (\<lambda>i. of_char (s ! i) :: nat);
          cont = (\<lambda>i. i < length s \<and> cont_byte (s ! i)) in
      if b < 0x80 then utf8_valid r
      else if 0xC2 \<le> b \<and> b < 0xE0 then cont 1 \<and> utf8_valid (drop 2 s)
      else if 0xE0 \<le> b \<and> b < 0xF0 then
        cont 1 \<and> cont 2 \<and> (b = 0xE0 \<longrightarrow> 0xA0 \<le> n 1) \<and> (b = 0xED \<longrightarrow> n 1 < 0xA0) \<and> utf8_valid (drop 3 s)
      else if 0xF0 \<le> b \<and> b < 0xF5 then
        cont 1 \<and> cont 2 \<and> cont 3 \<and> (b = 0xF0 \<longrightarrow> 0x90 \<le> n 1) \<and> (b = 0xF4 \<longrightarrow> n 1 < 0x90) \<and> utf8_valid (drop 4 s)
      else False))"
  by pat_completeness auto
termination
  by (relation "measure length") auto

declare utf8_valid.simps [simp del]

lemma utf8_valid_ascii: "\<forall>c\<in>set s. (of_char c :: nat) < 128 \<Longrightarrow> utf8_valid s"
  by (induction s) (subst utf8_valid.simps, simp add: Let_def)+

lemma utf8_valid_replicate: "(of_char c :: nat) < 128 \<Longrightarrow> utf8_valid (replicate n c)"
  by (rule utf8_valid_ascii) auto

lemma utf8_step:
  assumes "utf8_valid s" "s \<noteq> []"
  shows "\<exists>n. 0 < n \<and> n \<le> length s \<and> utf8_valid (drop n s) \<and> \<not> cont_byte (s ! 0)
    \<and> (\<forall>j<n. (of_char (s ! j) :: nat) < 128 \<longrightarrow> n = 1)"
proof -
  obtain c r where s: "s = c # r"
    using assms(2) by (cases s) auto
  have v: "utf8_valid (c # r)"
    using assms(1) s by simp
  let ?b = "of_char c :: nat"
  let ?ok = "\<lambda>n. n \<le> length s \<and> utf8_valid (drop n s) \<and> (\<forall>j<n. 0 < j \<longrightarrow> cont_byte (s ! j))"
  have "?b < 128 \<and> utf8_valid r \<or> 0xC2 \<le> ?b \<and> (\<exists>n. 0 < n \<and> ?ok n)"
  proof -
    consider "?b < 0x80" | "0x80 \<le> ?b" "?b < 0xC2" | "0xC2 \<le> ?b" "?b < 0xE0" | "0xE0 \<le> ?b" "?b < 0xF0" | "0xF0 \<le> ?b"
      by linarith
    then show ?thesis
    proof cases
      case 3
      then have "2 \<le> length s \<and> utf8_valid (drop 2 s) \<and> cont_byte (s ! 1)"
        using v unfolding s by (subst (asm) utf8_valid.simps) (simp add: Let_def Suc_le_eq)
      moreover have "j = 0 \<or> j = 1" if "j < 2" for j :: nat
        using that by linarith
      ultimately have "?ok 2"
        by fastforce
      then show ?thesis
        using 3 by (intro disjI2 conjI exI[of _ 2]) simp_all
    next
      case 4
      then have "3 \<le> length s \<and> utf8_valid (drop 3 s) \<and> cont_byte (s ! 1) \<and> cont_byte (s ! 2)"
        using v unfolding s by (subst (asm) utf8_valid.simps) (simp add: Let_def Suc_le_eq)
      moreover have "j = 0 \<or> j = 1 \<or> j = 2" if "j < 3" for j :: nat
        using that by linarith
      ultimately have "?ok 3"
        by fastforce
      then show ?thesis
        using 4 by (intro disjI2 conjI exI[of _ 3]) simp_all
    next
      case 5
      then have "4 \<le> length s \<and> utf8_valid (drop 4 s) \<and> cont_byte (s ! 1) \<and> cont_byte (s ! 2) \<and> cont_byte (s ! 3)"
        using v unfolding s by (subst (asm) utf8_valid.simps) (auto simp: Let_def Suc_le_eq split: if_splits)
      moreover have "j = 0 \<or> j = 1 \<or> j = 2 \<or> j = 3" if "j < 4" for j :: nat
        using that by linarith
      ultimately have "?ok 4"
        by fastforce
      then show ?thesis
        using 5 by (intro disjI2 conjI exI[of _ 4]) simp_all
    qed (use v in \<open>subst (asm) utf8_valid.simps, simp add: Let_def\<close>)+
  qed
  then consider "?b < 128" "utf8_valid r" | n where "0xC2 \<le> ?b" "0 < n" "?ok n"
    by blast
  then show ?thesis
  proof cases
    case 1
    then show ?thesis using s by (intro exI[of _ 1]) (auto simp: cont_byte_def)
  next
    case (2 n)
    have "\<not> (of_char (s ! j) :: nat) < 128" if "j < n" for j
      using that 2 s by (cases j) (auto simp: cont_byte_def)
    then show ?thesis
      using 2 s by (intro exI[of _ n]) (auto simp: cont_byte_def)
  qed
qed

lemma utf8_head: "utf8_valid s \<Longrightarrow> is_char_boundary s 0"
  using utf8_step[of s] by (cases s) (auto simp: is_char_boundary_def)

lemma utf8_after_ascii:
  "utf8_valid s \<Longrightarrow> i < length s \<Longrightarrow> (of_char (s ! i) :: nat) < 128 \<Longrightarrow> is_char_boundary s (Suc i)"
proof (induction "length s" arbitrary: s i rule: less_induct)
  case less
  obtain n where n: "0 < n" "n \<le> length s" "utf8_valid (drop n s)"
    "\<forall>j<n. (of_char (s ! j) :: nat) < 128 \<longrightarrow> n = 1"
    using utf8_step[OF less.prems(1)] less.prems(2) by force
  show ?case
  proof (cases "i < n")
    case True
    then have "n = 1" "i = 0"
      using n(4) less.prems(3) by auto
    then show ?thesis
      using utf8_head[OF n(3)] n(2) by (auto simp: is_char_boundary_def)
  next
    case False
    then have "is_char_boundary (drop n s) (Suc (i - n))"
      using n less.prems by (intro less.hyps) auto
    then show ?thesis
      using False n by (auto simp: is_char_boundary_def Suc_diff_le)
  qed
qed

section \<open>White space, lines and words\<close>

definition unicode_ws :: "string list" where
  "unicode_ws =
     [[CHR 0x20], [CHR 0x0A], [CHR 0x0D], [CHR 0x09], [CHR 0x0B], [CHR 0x0C],
      [CHR 0xC2, CHR 0x85], [CHR 0xC2, CHR 0xA0], [CHR 0xE1, CHR 0x9A, CHR 0x80],
      [CHR 0xE2, CHR 0x80, CHR 0x80], [CHR 0xE2, CHR 0x80, CHR 0x81], [CHR 0xE2, CHR 0x80, CHR 0x82],
      [CHR 0xE2, CHR 0x80, CHR 0x83], [CHR 0xE2, CHR 0x80, CHR 0x84], [CHR 0xE2, CHR 0x80, CHR 0x85],
      [CHR 0xE2, CHR 0x80, CHR 0x86], [CHR 0xE2, CHR 0x80, CHR 0x87], [CHR 0xE2, CHR 0x80, CHR 0x88],
      [CHR 0xE2, CHR 0x80, CHR 0x89], [CHR 0xE2, CHR 0x80, CHR 0x8A], [CHR 0xE2, CHR 0x80, CHR 0xA8],
      [CHR 0xE2, CHR 0x80, CHR 0xA9], [CHR 0xE2, CHR 0x80, CHR 0xAF], [CHR 0xE2, CHR 0x81, CHR 0x9F],
      [CHR 0xE3, CHR 0x80, CHR 0x80]]"

definition ws_len :: "string \<Rightarrow> nat" where
  "ws_len s = (case List.find (\<lambda>w. prefix w s) unicode_ws of None \<Rightarrow> 0 | Some w \<Rightarrow> length w)"

definition ws_len_end :: "string \<Rightarrow> nat" where
  "ws_len_end s = (case List.find (\<lambda>w. suffix w s) unicode_ws of None \<Rightarrow> 0 | Some w \<Rightarrow> length w)"

lemma unicode_ws_nonempty: "w \<in> set unicode_ws \<Longrightarrow> w \<noteq> []"
  by (auto simp: unicode_ws_def)

lemma ws_len_le: "ws_len s \<le> length s"
  by (auto simp: ws_len_def split: option.splits dest!: find_Some_mem prefix_length_le)

lemma ws_len_end_le: "ws_len_end s \<le> length s"
  by (auto simp: ws_len_end_def split: option.splits dest!: find_Some_mem suffix_length_le)

lemma ws_len_Nil [simp]: "ws_len [] = 0" "ws_len_end [] = 0"
  using ws_len_le[of "[]"] ws_len_end_le[of "[]"] by simp_all

function trim_start :: "string \<Rightarrow> string" where
  "trim_start s = (if ws_len s = 0 then s else trim_start (drop (ws_len s) s))"
  by pat_completeness auto
termination
proof (relation "measure length", goal_cases)
  case (2 s)
  then show ?case using ws_len_le[of s] by simp
qed simp

function trim_end :: "string \<Rightarrow> string" where
  "trim_end s = (if ws_len_end s = 0 then s else trim_end (take (length s - ws_len_end s) s))"
  by pat_completeness auto
termination
proof (relation "measure length", goal_cases)
  case (2 s)
  then show ?case using ws_len_end_le[of s] by simp
qed simp

declare trim_start.simps [simp del] trim_end.simps [simp del]

definition trim :: "string \<Rightarrow> string" where
  "trim s = trim_end (trim_start s)"

lemma trim_start_suffix: "suffix (trim_start s) s"
proof (induction s rule: trim_start.induct)
  case (1 s)
  then show ?case
    by (subst trim_start.simps) (auto intro: suffix_order.trans[OF _ suffix_drop])
qed

lemma trim_end_prefix: "prefix (trim_end s) s"
proof (induction s rule: trim_end.induct)
  case (1 s)
  then show ?case
    by (subst trim_end.simps) (auto intro: prefix_order.trans[OF _ take_is_prefix])
qed

lemma trim_sublist: "sublist (trim s) s"
  unfolding trim_def
  by (meson prefix_imp_sublist sublist_order.order_trans suffix_imp_sublist trim_end_prefix trim_start_suffix)

lemma trim_end_idem: "ws_len_end (trim_end s) = 0"
proof (induction s rule: trim_end.induct)
  case (1 s)
  then show ?case by (cases "ws_len_end s = 0") (simp_all add: trim_end.simps[of s])
qed

lemma trim_start_idem: "ws_len (trim_start s) = 0"
proof (induction s rule: trim_start.induct)
  case (1 s)
  then show ?case by (cases "ws_len s = 0") (simp_all add: trim_start.simps[of s])
qed

lemma trim_clean: "ws_len s = 0 \<Longrightarrow> ws_len_end s = 0 \<Longrightarrow> trim s = s"
  by (simp add: trim_def trim_start.simps[of s] trim_end.simps[of s])

abbreviation NL :: char where "NL \<equiv> CHR 0x0A"
abbreviation CR :: char where "CR \<equiv> CHR 0x0D"
abbreviation DQ :: char where "DQ \<equiv> CHR 0x22"

text \<open>\<open>str::lines\<close>: split at line feeds, a carriage return before one is dropped, and a last empty
  line is not produced. The accumulator holds the current line reversed.\<close>

definition drop_cr :: "string \<Rightarrow> string" where
  "drop_cr r = (case r of [] \<Rightarrow> [] | c # r' \<Rightarrow> if c = CR then r' else r)"

fun lines_acc :: "string \<Rightarrow> string \<Rightarrow> string list" where
  "lines_acc acc [] = (if acc = [] then [] else [rev acc])"
| "lines_acc acc (c # s) =
     (if c = NL then rev (drop_cr acc) # lines_acc [] s else lines_acc (c # acc) s)"

definition str_lines :: "string \<Rightarrow> string list" where
  "str_lines s = lines_acc [] s"

fun str_join :: "string \<Rightarrow> string list \<Rightarrow> string" where
  "str_join sep [] = []"
| "str_join sep [x] = x"
| "str_join sep (x # y # xs) = x @ sep @ str_join sep (y # xs)"

function split_ws_acc :: "string \<Rightarrow> string \<Rightarrow> string list" where
  "split_ws_acc acc s =
     (if s = [] then (if acc = [] then [] else [rev acc])
      else if ws_len s = 0 then split_ws_acc (hd s # acc) (tl s)
      else (if acc = [] then [] else [rev acc]) @ split_ws_acc [] (drop (ws_len s) s))"
  by pat_completeness auto
termination
proof (relation "measure (\<lambda>(acc, s). length s)", goal_cases)
  case (3 acc s)
  then show ?case using ws_len_le[of s] by (cases s) auto
qed auto

declare split_ws_acc.simps [simp del]

definition split_whitespace :: "string \<Rightarrow> string list" where
  "split_whitespace s = split_ws_acc [] s"

text \<open>\<open>s.split(c)\<close> for one ASCII character: always at least one piece.\<close>

fun split_char :: "char \<Rightarrow> string \<Rightarrow> string list" where
  "split_char c [] = [[]]"
| "split_char c (x # s) =
     (if x = c then [] # split_char c s
      else (case split_char c s of [] \<Rightarrow> [[x]] | p # ps \<Rightarrow> (x # p) # ps))"

text \<open>\<open>s.split(p)\<close> for a predicate on characters.\<close>

fun split_where :: "(char \<Rightarrow> bool) \<Rightarrow> string \<Rightarrow> string list" where
  "split_where p [] = [[]]"
| "split_where p (x # s) =
     (if p x then [] # split_where p s
      else (case split_where p s of [] \<Rightarrow> [[x]] | w # ws \<Rightarrow> (x # w) # ws))"

text \<open>\<open>s.rsplit_once(c)\<close>.\<close>

definition rsplit_once :: "char \<Rightarrow> string \<Rightarrow> (string \<times> string) option" where
  "rsplit_once c s = (case str_rfind c s of None \<Rightarrow> None | Some i \<Rightarrow> Some (take i s, drop (Suc i) s))"

text \<open>\<open>s.trim_matches(p)\<close> for a predicate on ASCII characters.\<close>

definition trim_matches :: "(char \<Rightarrow> bool) \<Rightarrow> string \<Rightarrow> string" where
  "trim_matches p s = rev (dropWhile p (rev (dropWhile p s)))"

section \<open>Replacement\<close>

text \<open>\<open>s.replace(p, r)\<close>: non-overlapping matches from the left. Every pattern the program passes is
  non-empty; an empty pattern leaves the string as it is here.\<close>

function str_replace :: "string \<Rightarrow> string \<Rightarrow> string \<Rightarrow> string" where
  "str_replace p r s =
     (if s = [] then []
      else if p \<noteq> [] \<and> prefix p s then r @ str_replace p r (drop (length p) s)
      else hd s # str_replace p r (tl s))"
  by pat_completeness auto
termination
  by (relation "measure (\<lambda>(p, r, s). length s)") auto

declare str_replace.simps [simp del]

text \<open>\<open>s.replacen(p, r, 1)\<close>: the first match only; an empty pattern matches at the front.\<close>

definition str_replace_first :: "string \<Rightarrow> string \<Rightarrow> string \<Rightarrow> string" where
  "str_replace_first p r s =
     (case str_find p s of None \<Rightarrow> s | Some i \<Rightarrow> take i s @ r @ drop (i + length p) s)"

lemma str_replace_absent: "\<not> contains s p \<Longrightarrow> str_replace p r s = s"
proof (induction p r s rule: str_replace.induct)
  case (1 p r s)
  show ?case
  proof (cases s)
    case (Cons c s')
    then have "\<not> prefix p s" "\<not> contains s' p"
      using 1(3) by (auto simp: contains_Cons)
    then show ?thesis
      using Cons 1(2) by (subst str_replace.simps) simp
  qed (simp add: str_replace.simps)
qed

definition normalize_crlf :: "string \<Rightarrow> string" where
  "normalize_crlf s = str_replace [CR, NL] [NL] s"

section \<open>Case and digits\<close>

definition lower_char :: "char \<Rightarrow> char" where
  "lower_char c = (let b = (of_char c :: nat) in if 65 \<le> b \<and> b \<le> 90 then char_of (b + 32) else c)"

definition to_lowercase :: "string \<Rightarrow> string" where
  "to_lowercase s = map lower_char s"

definition is_digit :: "char \<Rightarrow> bool" where
  "is_digit c \<longleftrightarrow> 48 \<le> (of_char c :: nat) \<and> (of_char c :: nat) \<le> 57"

definition is_alphanumeric :: "char \<Rightarrow> bool" where
  "is_alphanumeric c \<longleftrightarrow> is_digit c
     \<or> (65 \<le> (of_char c :: nat) \<and> (of_char c :: nat) \<le> 90)
     \<or> (97 \<le> (of_char c :: nat) \<and> (of_char c :: nat) \<le> 122)"

text \<open>\<open>format!("{n}")\<close> for an unsigned integer.\<close>

fun show_nat :: "nat \<Rightarrow> string" where
  "show_nat n = (if n < 10 then [char_of (48 + n)] else show_nat (n div 10) @ [char_of (48 + n mod 10)])"

declare show_nat.simps [simp del]

text \<open>Reading a number back.\<close>

definition digits_value :: "string \<Rightarrow> nat" where
  "digits_value s = foldl (\<lambda>v c. 10 * v + (of_char c - 48)) 0 s"

lemma digits_value_show [simp]: "digits_value (show_nat n) = n"
proof (induction n rule: show_nat.induct)
  case (1 n)
  then show ?case
    by (subst show_nat.simps) (auto simp: digits_value_def)
qed

lemma show_nat_inj: "show_nat m = show_nat n \<Longrightarrow> m = n"
  by (metis digits_value_show)

lemma show_nat_digits: "c \<in> set (show_nat n) \<Longrightarrow> is_digit c"
proof (induction n rule: show_nat.induct)
  case (1 n)
  show ?case
  proof (cases "n < 10")
    case True
    then show ?thesis
      using 1(2) by (subst (asm) show_nat.simps) (auto simp: is_digit_def)
  next
    case False
    have "n mod 10 < 10"
      by simp
    then show ?thesis
      using 1 False by (subst (asm) (2) show_nat.simps) (auto simp: is_digit_def)
  qed
qed

text \<open>\<open>{:?}\<close> of a string: escapes for the quote, the backslash and the control characters. Bytes
  outside ASCII are taken to be printable.\<close>

definition hex_digit :: "nat \<Rightarrow> char" where
  "hex_digit d = (if d < 10 then char_of (48 + d) else char_of (87 + d))"

definition show_debug_char :: "char \<Rightarrow> string" where
  "show_debug_char c =
     (let b = (of_char c :: nat) in
      if c = DQ \<or> b = 0x5C then [CHR 0x5C, c]
      else if c = NL then [CHR 0x5C, CHR ''n'']
      else if c = CR then [CHR 0x5C, CHR ''r'']
      else if b = 9 then [CHR 0x5C, CHR ''t'']
      else if b = 0 then [CHR 0x5C, CHR ''0'']
      else if b < 16 then [CHR 0x5C] @ ''u{'' @ [hex_digit b] @ ''}''
      else if b < 32 \<or> b = 127 then [CHR 0x5C] @ ''u{'' @ [hex_digit (b div 16), hex_digit (b mod 16)] @ ''}''
      else [c])"

definition show_debug_str :: "string \<Rightarrow> string" where
  "show_debug_str s = [DQ] @ concat (map show_debug_char s) @ [DQ]"

end
