(* ===== verification/InferTypes.thy ===== *)
theory InferTypes
  imports RustStr "HOL-Library.Word"
begin

text \<open>
  The data the inference client exchanges with its callers
  (\<open>crates/inference-client/src/types.rs\<close>). A \<open>f32\<close> nobody computes with is its bit pattern.
\<close>

type_synonym f32_bits = "32 word"

datatype backend_kind = Claude | Ollama

datatype complexity = Simple | Medium | Complex

record chat_message =
  cm_role :: string
  cm_content :: string

definition msg_system :: "string \<Rightarrow> chat_message" where
  "msg_system c = \<lparr>cm_role = ''system'', cm_content = c\<rparr>"

definition msg_user :: "string \<Rightarrow> chat_message" where
  "msg_user c = \<lparr>cm_role = ''user'', cm_content = c\<rparr>"

definition msg_assistant :: "string \<Rightarrow> chat_message" where
  "msg_assistant c = \<lparr>cm_role = ''assistant'', cm_content = c\<rparr>"

record inference_options =
  io_preferred_backend :: "backend_kind option"
  io_preferred_model :: "string option"
  io_temperature :: "f32_bits option"
  io_max_tokens :: "nat option"
  io_stop :: "string list option"

definition default_inference_options :: inference_options where
  "default_inference_options = \<lparr>io_preferred_backend = None, io_preferred_model = None,
     io_temperature = None, io_max_tokens = None, io_stop = None\<rparr>"

record inference_response =
  ir_content :: string
  ir_model :: string
  ir_backend :: backend_kind
  ir_tokens_input :: nat
  ir_tokens_output :: nat
  ir_cached_tokens :: nat
  ir_duration_ms :: nat

record model_info =
  mi_name :: string
  mi_backend :: backend_kind
  mi_family :: string
  mi_parameter_size :: string
  mi_context_window :: nat
  mi_ready :: bool

end
