(* ===== verification/PlanTypes.thy ===== *)
theory PlanTypes
  imports InferTypes
begin

text \<open>
  The planner's data and validation (\<open>crates/orchestrator/src/planner_types.rs\<close>): sub-tasks, the tolerant plan parser, the scope guard
  and cycle detection. \<open>serde_json::from_str\<close> is the parameter \<open>from_json\<close>; log lines are dropped.
\<close>

section \<open>Data\<close>

record direct_edit =
  de_path :: string
  de_old :: string
  de_new :: string

record sub_task =
  t_id :: string
  t_description :: string
  t_files :: "string list"
  t_complexity :: complexity
  t_depends_on :: "string list"
  t_edit :: "direct_edit option"
  t_template :: "string option"

definition MAX_TASKS :: nat where
  "MAX_TASKS = 5"

section \<open>Paths mentioned in free text\<close>

definition path_extensions :: "string list" where
  "path_extensions = [''.rs'', ''.ts'', ''.tsx'', ''.js'', ''.jsx'', ''.py'', ''.go'', ''.toml'',
     ''.json'', ''.yaml'', ''.yml'', ''.md'', ''.css'', ''.html'']"

definition path_edge_char :: "char \<Rightarrow> bool" where
  "path_edge_char c \<longleftrightarrow> \<not> is_alphanumeric c \<and> c \<noteq> CHR ''/'' \<and> c \<noteq> CHR ''.'' \<and> c \<noteq> CHR ''_'' \<and> c \<noteq> CHR ''-''"

definition push_new :: "'a list \<Rightarrow> 'a \<Rightarrow> 'a list" where
  "push_new xs x = (if x \<in> set xs then xs else xs @ [x])"

definition extract_file_paths_from_text :: "string \<Rightarrow> string list" where
  "extract_file_paths_from_text text =
     foldl (\<lambda>paths word.
       let clean = trim_matches path_edge_char word in
       if contains clean ''/'' \<and> list_ex (ends_with clean) path_extensions
       then push_new paths clean else paths) [] (split_whitespace text)"

section \<open>Cycle detection\<close>

text \<open>\<open>ids\<close> and \<open>adj\<close> of \<open>detect_cycle\<close>. Tasks with the same id share one adjacency list.\<close>

definition task_ids :: "sub_task list \<Rightarrow> string list" where
  "task_ids tasks = remdups (map t_id tasks)"

definition dep_adj :: "sub_task list \<Rightarrow> string \<Rightarrow> string list" where
  "dep_adj tasks n = concat (map (\<lambda>t. if t_id t = n
     then filter (\<lambda>d. d \<in> set (map t_id tasks)) (t_depends_on t) else []) tasks)"

text \<open>
  The depth-first search: 0 is unvisited, 1 on the stack, 2 done. The recursion of \<open>dfs\<close> goes into
  unvisited nodes only, which there are at most as many of as ids, so that much fuel is enough
  (\<open>dfs_total\<close> below). \<open>None\<close> is out of fuel.
\<close>

type_synonym visit = "string \<Rightarrow> nat option"

fun dfs :: "(string \<Rightarrow> string list) \<Rightarrow> nat \<Rightarrow> string \<Rightarrow> visit \<Rightarrow> (bool \<times> visit) option"
  and dfs_all :: "(string \<Rightarrow> string list) \<Rightarrow> nat \<Rightarrow> string list \<Rightarrow> visit \<Rightarrow> (bool \<times> visit) option"
where
  "dfs adj 0 node st = None"
| "dfs adj (Suc k) node st =
     (case dfs_all adj k (adj node) (st(node \<mapsto> 1)) of
        None \<Rightarrow> None
      | Some (True, st') \<Rightarrow> Some (True, st')
      | Some (False, st') \<Rightarrow> Some (False, st'(node \<mapsto> 2)))"
| "dfs_all adj k [] st = Some (False, st)"
| "dfs_all adj k (m # ms) st =
     (if st m = Some 1 then Some (True, st)
      else if st m = Some 0 then
        (case dfs adj k m st of
           None \<Rightarrow> None
         | Some (True, st') \<Rightarrow> Some (True, st')
         | Some (False, st') \<Rightarrow> dfs_all adj k ms st')
      else dfs_all adj k ms st)"

text \<open>The outer loop, over the ids in the (unspecified) iteration order of the hash set.\<close>

fun dfs_roots :: "(string \<Rightarrow> string list) \<Rightarrow> nat \<Rightarrow> string list \<Rightarrow> visit \<Rightarrow> bool option" where
  "dfs_roots adj k [] st = Some False"
| "dfs_roots adj k (n # ns) st =
     (if st n = Some 0 then
        (case dfs adj k n st of
           None \<Rightarrow> None
         | Some (True, _) \<Rightarrow> Some True
         | Some (False, st') \<Rightarrow> dfs_roots adj k ns st')
      else dfs_roots adj k ns st)"

definition detect_cycle_in :: "string list \<Rightarrow> sub_task list \<Rightarrow> bool option" where
  "detect_cycle_in order tasks =
     dfs_roots (dep_adj tasks) (length order) order (\<lambda>n. if n \<in> set order then Some 0 else None)"

definition detect_cycle :: "sub_task list \<Rightarrow> bool" where
  "detect_cycle tasks = (detect_cycle_in (task_ids tasks) tasks = Some True)"

section \<open>Parsing and validating a plan\<close>

text \<open>Markdown code fences: three back quotes, then \<open>json\<close> if there is one.\<close>

definition fence :: string where
  "fence = replicate 3 (CHR 0x60)"

definition json_fence :: string where
  "json_fence = fence @ ''json''"

definition until_fence :: "string \<Rightarrow> string" where
  "until_fence after = (case str_find fence after of Some e \<Rightarrow> trim (take e after) | None \<Rightarrow> [])"

definition extract_fenced :: "string \<Rightarrow> string" where
  "extract_fenced input =
     (case str_find json_fence input of
        Some start \<Rightarrow> until_fence (drop (start + 7) input)
      | None \<Rightarrow>
          (case str_find fence input of
             Some start \<Rightarrow> until_fence (drop (start + 3) input)
           | None \<Rightarrow> []))"

text \<open>Attempts 1 to 3. The slice of attempt 3 panics when the last bracket closes before the first opens.\<close>

definition parse_tasks :: "(string \<Rightarrow> sub_task list option) \<Rightarrow> string \<Rightarrow> sub_task list outcome" where
  "parse_tasks from_json input =
     (let tasks = (case from_json input of
            Some t \<Rightarrow> t
          | None \<Rightarrow>
              (let extracted = extract_fenced input in
               if extracted \<noteq> [] then (case from_json extracted of Some t \<Rightarrow> t | None \<Rightarrow> []) else []))
      in if tasks \<noteq> [] then Ok tasks
      else (case (str_find ''['' input, str_rfind CHR '']'' input) of
          (Some start, Some finish) \<Rightarrow>
             obind (str_slice input start (Suc finish))
               (\<lambda>s. Ok (case from_json s of Some t \<Rightarrow> t | None \<Rightarrow> tasks))
        | _ \<Rightarrow> Ok tasks))"

definition fallback_files :: "string \<Rightarrow> string list \<Rightarrow> string list" where
  "fallback_files json_str repo_files =
     (let files = foldl (\<lambda>fs f. if contains json_str f \<and> f \<notin> set fs then fs @ [f] else fs)
                    (extract_file_paths_from_text json_str) repo_files
      in if files \<noteq> [] then files
         else take 5 (filter (\<lambda>f. \<not> starts_with f ''target/'' \<and> \<not> starts_with f ''.git/'') repo_files))"

definition fallback_task :: "string \<Rightarrow> string list \<Rightarrow> sub_task" where
  "fallback_task json_str repo_files =
     \<lparr>t_id = ''task-1'', t_description = chars_take 500 json_str,
      t_files = fallback_files json_str repo_files, t_complexity = Medium,
      t_depends_on = [], t_edit = None, t_template = None\<rparr>"

text \<open>Near-miss resolution: a repository file in the same directory with the same stem (the file name
  up to its first dot).\<close>

definition file_stem :: "string \<Rightarrow> string" where
  "file_stem f = hd (split_char CHR ''.'' (last (split_char CHR ''/'' f)))"

definition resolve_path :: "string list \<Rightarrow> string \<Rightarrow> string" where
  "resolve_path repo_files f =
     (if f \<in> set repo_files then f
      else (case rsplit_once CHR ''/'' f of
          None \<Rightarrow> f
        | Some (dir, _) \<Rightarrow>
            (case List.find (\<lambda>rf. starts_with rf (dir @ ''/'' @ file_stem f @ ''.'')) repo_files of
               Some m \<Rightarrow> m
             | None \<Rightarrow> f)))"

definition keep_planned_file :: "string list \<Rightarrow> bool \<Rightarrow> string \<Rightarrow> bool" where
  "keep_planned_file repo_files has_existing f =
     (if f \<in> set repo_files then True
      else if \<not> contains f ''.'' \<or> contains f '' '' then False
      else if \<not> has_existing then True
      else (case rsplit_once CHR ''/'' f of
          Some (dir, _) \<Rightarrow> \<not> list_ex (\<lambda>rf. starts_with rf (dir @ ''/'')) repo_files
        | None \<Rightarrow> True))"

definition validate_task :: "string list \<Rightarrow> sub_task \<Rightarrow> sub_task" where
  "validate_task repo_files t =
     (let files = map (resolve_path repo_files) (filter (\<lambda>f. \<not> contains f ''*'') (t_files t));
          has_existing = list_ex (\<lambda>f. f \<in> set repo_files) files
      in t\<lparr>t_files := filter (keep_planned_file repo_files has_existing) files\<rparr>)"

definition validate_plan :: "string list \<Rightarrow> sub_task list \<Rightarrow> sub_task list outcome" where
  "validate_plan repo_files tasks =
     (let kept = filter (\<lambda>t. t_files t \<noteq> []) (map (validate_task repo_files) (take MAX_TASKS tasks))
      in if kept = [] then Err ''All planned tasks have no valid files''
         else if detect_cycle kept then Err ''Dependency cycle detected in planned tasks''
         else Ok kept)"

definition parse_plan :: "(string \<Rightarrow> sub_task list option) \<Rightarrow> string \<Rightarrow> string list \<Rightarrow> sub_task list outcome" where
  "parse_plan from_json json_str repo_files =
     obind (parse_tasks from_json (trim json_str)) (\<lambda>tasks.
       if tasks = [] then Ok [fallback_task json_str repo_files]
       else validate_plan repo_files tasks)"

section \<open>Scope guard\<close>

definition base_name :: "string \<Rightarrow> string" where
  "base_name f = last (split_char CHR ''/'' f)"

definition named_files_in_goal :: "string \<Rightarrow> string list \<Rightarrow> string list" where
  "named_files_in_goal goal repo_files =
     (let g = to_lowercase goal;
          full = filter (\<lambda>f. contains g (to_lowercase f)) repo_files
      in if full \<noteq> [] then full
         else filter (\<lambda>f. let base = to_lowercase (base_name f) in
                5 \<le> length base \<and> contains base ''.'' \<and> contains g base) repo_files)"

definition clamp_task :: "string list \<Rightarrow> string list \<Rightarrow> sub_task \<Rightarrow> sub_task" where
  "clamp_task named repo_files t =
     t\<lparr>t_files := filter (\<lambda>f. f \<in> set named \<or> f \<notin> set repo_files) (t_files t)\<rparr>"

definition collapse_same_file :: "sub_task list \<Rightarrow> sub_task list" where
  "collapse_same_file tasks =
     (let all_files = remdups (concat (map t_files tasks)) in
      if 1 < length tasks \<and> length all_files = 1 then
        [\<lparr>t_id = ''task-1'',
          t_description = chars_take 800 (str_join ''; '' (map t_description tasks)),
          t_files = [hd all_files], t_complexity = Complex, t_depends_on = [], t_edit = None,
          t_template = (case List.find (\<lambda>t. t_template t \<noteq> None) tasks of
             Some t \<Rightarrow> t_template t | None \<Rightarrow> None)\<rparr>]
      else tasks)"

definition constrain_to_named_files :: "string \<Rightarrow> sub_task list \<Rightarrow> string list \<Rightarrow> sub_task list" where
  "constrain_to_named_files goal tasks repo_files =
     (let named = named_files_in_goal goal repo_files in
      if named = [] then tasks
      else
        (let clamped = filter (\<lambda>t. t_files t \<noteq> []) (map (clamp_task named repo_files) tasks);
             scoped = (if clamped = [] then
                 [\<lparr>t_id = ''task-1'', t_description = chars_take 500 goal, t_files = named,
                   t_complexity = Medium, t_depends_on = [], t_edit = None, t_template = None\<rparr>]
               else clamped)
         in collapse_same_file scoped))"

end
