(* ===== verification/PlanCycles.thy ===== *)
theory PlanCycles
  imports PlanTypes
begin

text \<open>
  The depth-first search of \<open>detect_cycle\<close> is correct: it terminates within its fuel and answers
  \<open>True\<close> exactly when the dependency graph of the tasks has a cycle, in whatever order the hash set
  of ids is enumerated. The search is analysed once, in the locale of a finite graph closed under
  its adjacency lists; the interpretation supplies the task graph.
\<close>

locale dfs_graph =
  fixes adj :: "string \<Rightarrow> string list" and nodes :: "string list"
  assumes adj_closed: "n \<in> set nodes \<Longrightarrow> set (adj n) \<subseteq> set nodes"
begin

definition edges :: "(string \<times> string) set" where
  "edges = {(n, m). n \<in> set nodes \<and> m \<in> set (adj n)}"

definition has_cycle :: bool where
  "has_cycle \<longleftrightarrow> (\<exists>n. (n, n) \<in> edges\<^sup>+)"

definition black :: "visit \<Rightarrow> string set" where
  "black st = {n. st n = Some 2}"

definition gray :: "visit \<Rightarrow> string set" where
  "gray st = {n. st n = Some 1}"

definition white :: "visit \<Rightarrow> string set" where
  "white st = {n \<in> set nodes. st n = Some 0}"

definition visit_ok :: "visit \<Rightarrow> bool" where
  "visit_ok st \<longleftrightarrow> dom st = set nodes \<and> ran st \<subseteq> {0, 1, 2}
     \<and> edges `` black st \<subseteq> black st \<and> (\<forall>b\<in>black st. (b, b) \<notin> edges\<^sup>+)"

definition grows :: "visit \<Rightarrow> visit \<Rightarrow> bool" where
  "grows st st' \<longleftrightarrow> visit_ok st' \<and> gray st' = gray st \<and> black st \<subseteq> black st'"

lemma finite_white [simp]: "finite (white st)"
  by (simp add: white_def)

lemma grows_trans: "grows a b \<Longrightarrow> grows b c \<Longrightarrow> grows a c"
  by (auto simp: grows_def)

lemma visit_value:
  assumes "visit_ok st" "n \<in> set nodes"
  shows "st n = Some 0 \<or> st n = Some 1 \<or> st n = Some 2"
proof -
  obtain v where v: "st n = Some v"
    using assms unfolding visit_ok_def by blast
  then have "v \<in> {0, 1, 2}"
    using assms(1) by (auto simp: visit_ok_def ran_def)
  then show ?thesis using v by auto
qed

lemma grows_white: "visit_ok st \<Longrightarrow> grows st st' \<Longrightarrow> white st' \<subseteq> white st"
proof
  fix n assume a: "visit_ok st" "grows st st'" "n \<in> white st'"
  then have n: "n \<in> set nodes" "n \<notin> gray st'" "n \<notin> black st'"
    by (auto simp: white_def gray_def black_def)
  then have "n \<notin> gray st" "n \<notin> black st"
    using a(2) by (auto simp: grows_def)
  then show "n \<in> white st"
    using visit_value[OF a(1) n(1)] n(1) by (auto simp: white_def gray_def black_def)
qed

lemma visit_ok_gray: "visit_ok st \<Longrightarrow> st n = Some 0 \<Longrightarrow> visit_ok (st(n \<mapsto> 1))"
  by (auto simp: visit_ok_def black_def ran_def split: if_splits)

lemma gray_upd: "gray (st(n \<mapsto> 1)) = insert n (gray st)"
  by (auto simp: gray_def)

lemma black_upd1: "st n = Some 0 \<Longrightarrow> black (st(n \<mapsto> 1)) = black st"
  by (auto simp: black_def)

lemmas enter_upd = gray_upd[unfolded One_nat_def] black_upd1[unfolded One_nat_def]

lemma closed_no_return:
  assumes "edges `` B \<subseteq> B" "(m, n) \<in> edges\<^sup>*" "m \<in> B"
  shows "n \<in> B"
  using assms(2,3) by (induction rule: rtrancl_induct) (use assms(1) in auto)

text \<open>Finishing a node whose successors are all done.\<close>

lemma finish_node:
  assumes ok: "visit_ok st'" and g: "gray st' = insert n (gray st)" and n0: "n \<notin> gray st"
    and succ: "edges `` {n} \<subseteq> black st'" and nn: "n \<in> set nodes"
  shows "visit_ok (st'(n \<mapsto> 2))" "gray (st'(n \<mapsto> 2)) = gray st"
    "black (st'(n \<mapsto> 2)) = insert n (black st')"
proof -
  have n1: "st' n = Some 1"
    using g by (auto simp: gray_def)
  show gr: "gray (st'(n \<mapsto> 2)) = gray st"
    using g n0 by (auto simp: gray_def split: if_splits)
  show bl: "black (st'(n \<mapsto> 2)) = insert n (black st')"
    by (auto simp: black_def)
  have closed: "edges `` black st' \<subseteq> black st'"
    using ok by (simp add: visit_ok_def)
  have "(n, n) \<notin> edges\<^sup>+"
  proof
    assume "(n, n) \<in> edges\<^sup>+"
    then obtain m where "(n, m) \<in> edges" "(m, n) \<in> edges\<^sup>*"
      by (meson tranclD)
    then have "n \<in> black st'"
      using closed_no_return[OF closed] succ by auto
    then show False using n1 by (simp add: black_def)
  qed
  then show "visit_ok (st'(n \<mapsto> 2))"
    using ok succ nn bl by (auto simp: visit_ok_def ran_def split: if_splits)
qed

text \<open>Partial correctness of the search: first the loop over the neighbours, for a fuel at which the
  search itself is correct, then the search by induction on the fuel.\<close>

definition search_ok :: "string \<Rightarrow> visit \<Rightarrow> bool \<Rightarrow> visit \<Rightarrow> bool" where
  "search_ok n st b st' \<longleftrightarrow> (if b then has_cycle else grows st st' \<and> n \<in> black st')"

definition enterable :: "string \<Rightarrow> visit \<Rightarrow> bool" where
  "enterable n st \<longleftrightarrow> visit_ok st \<and> st n = Some 0 \<and> (\<forall>g\<in>gray st. (g, n) \<in> edges\<^sup>*)"

lemma dfs_all_correct:
  assumes dfs_ok: "\<And>n st b st'. dfs adj k n st = Some (b, st') \<Longrightarrow> enterable n st \<Longrightarrow> search_ok n st b st'"
  shows "dfs_all adj k ms st = Some (b, st') \<Longrightarrow> visit_ok st \<Longrightarrow> n \<in> gray st \<Longrightarrow> set ms \<subseteq> edges `` {n}
     \<Longrightarrow> \<forall>g\<in>gray st. (g, n) \<in> edges\<^sup>* \<Longrightarrow> if b then has_cycle else grows st st' \<and> set ms \<subseteq> black st'"
proof (induction ms arbitrary: st)
  case Nil
  then show ?case by (auto simp: grows_def)
next
  case (Cons m ms)
  have nm: "(n, m) \<in> edges" and "m \<in> set nodes"
    using Cons.prems(4) adj_closed by (auto simp: edges_def)
  then consider "st m = Some 1" | "st m = Some 0" | "st m = Some 2"
    using visit_value[OF Cons.prems(2)] by blast
  then show ?case
  proof cases
    case 1
    then have "m \<in> gray st"
      by (simp add: gray_def)
    then have "(m, n) \<in> edges\<^sup>*"
      using Cons.prems(5) by blast
    then have "(m, m) \<in> edges\<^sup>+"
      using nm by (rule rtrancl_into_trancl1)
    then show ?thesis
      using 1 Cons.prems(1) by (auto simp: has_cycle_def)
  next
    case 2
    then obtain b1 st1 where d: "dfs adj k m st = Some (b1, st1)"
      using Cons.prems(1) by (auto split: option.splits)
    have "enterable m st"
      using 2 Cons.prems(2,5) nm by (auto simp: enterable_def intro: rtrancl_into_rtrancl)
    then have ok: "search_ok m st b1 st1"
      by (rule dfs_ok[OF d])
    show ?thesis
    proof (cases b1)
      case True
      then show ?thesis
        using 2 d ok Cons.prems(1) by (auto simp: search_ok_def)
    next
      case False
      then have g: "grows st st1" "m \<in> black st1"
        using ok by (simp_all add: search_ok_def)
      then have gr: "gray st1 = gray st" "visit_ok st1"
        by (simp_all add: grows_def)
      have "if b then has_cycle else grows st1 st' \<and> set ms \<subseteq> black st'"
        using 2 d False Cons.prems gr by (intro Cons.IH) auto
      then show ?thesis
        using g grows_trans by (auto simp: grows_def split: if_splits)
    qed
  next
    case 3
    have "if b then has_cycle else grows st st' \<and> set ms \<subseteq> black st'"
      using 3 Cons.prems by (intro Cons.IH) auto
    then show ?thesis
      using 3 by (auto simp: grows_def black_def split: if_splits)
  qed
qed

lemma dfs_correct:
  "dfs adj k n st = Some (b, st') \<Longrightarrow> enterable n st \<Longrightarrow> search_ok n st b st'"
proof (induction k arbitrary: n st b st')
  case (Suc k)
  have en: "visit_ok st" "st n = Some 0" "\<forall>g\<in>gray st. (g, n) \<in> edges\<^sup>*"
    using Suc.prems(2) by (auto simp: enterable_def)
  have nn: "n \<in> set nodes"
    using en(1,2) by (auto simp: visit_ok_def)
  obtain b1 st1 where d: "dfs_all adj k (adj n) (st(n \<mapsto> 1)) = Some (b1, st1)"
    using Suc.prems(1) by (auto split: option.splits)
  have "if b1 then has_cycle else grows (st(n \<mapsto> 1)) st1 \<and> set (adj n) \<subseteq> black st1"
  proof (rule dfs_all_correct[OF Suc.IH d])
    show "visit_ok (st(n \<mapsto> 1))"
      using en(1,2) by (rule visit_ok_gray)
    show "n \<in> gray (st(n \<mapsto> 1))" "set (adj n) \<subseteq> edges `` {n}"
      using nn by (auto simp: gray_upd edges_def simp del: One_nat_def)
    show "\<forall>g\<in>gray (st(n \<mapsto> 1)). (g, n) \<in> edges\<^sup>*"
      unfolding gray_upd using en(3) by simp
  qed
  note all = this
  show ?case
  proof (cases b1)
    case True
    then show ?thesis
      using all d Suc.prems(1) by (auto simp: search_ok_def)
  next
    case False
    then have eq: "b = False" "st' = st1(n \<mapsto> 2)"
      using d Suc.prems(1) by auto
    have g: "visit_ok st1" "gray st1 = insert n (gray st)" "black st \<subseteq> black st1"
      using all False en(2) by (simp_all add: grows_def enter_upd)
    have "n \<notin> gray st" "edges `` {n} \<subseteq> black st1"
      using all False en(2) by (auto simp: gray_def edges_def)
    then have "visit_ok st'" "gray st' = gray st" "black st' = insert n (black st1)"
      using finish_node[OF g(1,2)] nn eq by auto
    then show ?thesis
      using g(3) eq(1) by (auto simp: search_ok_def grows_def)
  qed
qed simp

text \<open>Totality: each nested call enters one more node, so as much fuel as there are unvisited nodes
  is enough.\<close>

lemma white_enter: "st n = Some 0 \<Longrightarrow> n \<in> set nodes \<Longrightarrow> white st = insert n (white (st(n \<mapsto> 1)))"
  by (auto simp: white_def)

lemma white_enter_card:
  "st n = Some 0 \<Longrightarrow> n \<in> set nodes \<Longrightarrow> card (white st) = Suc (card (white (st(n \<mapsto> 1))))"
  using white_enter[of st n] by (simp add: white_def)

definition shrinks :: "visit \<Rightarrow> visit \<Rightarrow> bool" where
  "shrinks st st' \<longleftrightarrow> white st' \<subseteq> white st \<and> dom st' = dom st"

lemma dfs_all_total:
  assumes dfs_ok: "\<And>n st. st n = Some 0 \<Longrightarrow> n \<in> set nodes \<Longrightarrow> card (white st) \<le> k
      \<Longrightarrow> \<exists>b st'. dfs adj k n st = Some (b, st') \<and> shrinks st st'"
  shows "set ms \<subseteq> set nodes \<Longrightarrow> card (white st) \<le> k \<Longrightarrow> \<exists>b st'. dfs_all adj k ms st = Some (b, st') \<and> shrinks st st'"
proof (induction ms arbitrary: st)
  case Nil
  have "dfs_all adj k [] st = Some (False, st) \<and> shrinks st st"
    by (simp add: shrinks_def)
  then show ?case by blast
next
  case (Cons m ms)
  show ?case
  proof (cases "st m = Some 0")
    case True
    moreover have "m \<in> set nodes"
      using Cons.prems(1) by simp
    ultimately obtain b1 st1 where d: "dfs adj k m st = Some (b1, st1)" "shrinks st st1"
      using dfs_ok[OF _ _ Cons.prems(2)] by blast
    then have "card (white st1) \<le> k"
      using Cons.prems(2) card_mono[OF finite_white] by (metis le_trans shrinks_def)
    then obtain b2 st2 where "dfs_all adj k ms st1 = Some (b2, st2)" "shrinks st1 st2"
      using Cons.IH Cons.prems(1) by (metis insert_subset list.simps(15))
    then show ?thesis
      using True d by (cases b1) (auto simp: shrinks_def)
  next
    case False
    then show ?thesis
      using Cons by (cases "st m = Some 1") (auto simp: shrinks_def)
  qed
qed

lemma dfs_total:
  "st n = Some 0 \<Longrightarrow> n \<in> set nodes \<Longrightarrow> card (white st) \<le> k
     \<Longrightarrow> \<exists>b st'. dfs adj k n st = Some (b, st') \<and> shrinks st st'"
proof (induction k arbitrary: n st)
  case 0
  then have "n \<in> white st"
    by (simp add: white_def)
  then show ?case
    using 0 by simp
next
  case (Suc k)
  have "card (white (st(n \<mapsto> 1))) \<le> k"
    using Suc.prems white_enter_card by (metis Suc_le_mono)
  then obtain b st' where d: "dfs_all adj k (adj n) (st(n \<mapsto> 1)) = Some (b, st')" "shrinks (st(n \<mapsto> 1)) st'"
    using dfs_all_total[OF Suc.IH] adj_closed[OF Suc.prems(2)] by metis
  then show ?case
    using Suc.prems(1) by (cases b) (auto simp: shrinks_def white_def dom_def split: if_splits)
qed

text \<open>The outer loop.\<close>

lemma dfs_roots_correct:
  assumes "visit_ok st" "gray st = {}" "set ns \<subseteq> set nodes" "card (white st) \<le> k"
  shows "\<exists>b. dfs_roots adj k ns st = Some b \<and>
           (if b then has_cycle else \<exists>st'. grows st st' \<and> set ns \<subseteq> black st')"
  using assms
proof (induction ns arbitrary: st)
  case Nil
  then show ?case by (auto simp: grows_def)
next
  case (Cons n ns)
  show ?case
  proof (cases "st n = Some 0")
    case True
    moreover have "n \<in> set nodes"
      using Cons.prems(3) by simp
    ultimately obtain b st1 where d: "dfs adj k n st = Some (b, st1)" "shrinks st st1"
      using dfs_total[OF _ _ Cons.prems(4)] by blast
    have ok: "search_ok n st b st1"
      using d(1) True Cons.prems(1,2) by (intro dfs_correct) (auto simp: enterable_def)
    show ?thesis
    proof (cases b)
      case True
      then show ?thesis
        using d(1) ok \<open>st n = Some 0\<close> by (auto simp: search_ok_def)
    next
      case False
      then have g: "grows st st1" "n \<in> black st1"
        using ok by (simp_all add: search_ok_def)
      moreover have "card (white st1) \<le> k"
        using d(2) Cons.prems(4) card_mono[OF finite_white] by (metis le_trans shrinks_def)
      ultimately obtain b' where b': "dfs_roots adj k ns st1 = Some b'"
        "if b' then has_cycle else \<exists>st'. grows st1 st' \<and> set ns \<subseteq> black st'"
        using Cons.IH[of st1] Cons.prems(2,3) by (auto simp: grows_def)
      have "dfs_roots adj k (n # ns) st = Some b'"
        using d(1) False True b'(1) by simp
      moreover have "if b' then has_cycle else \<exists>st'. grows st st' \<and> set (n # ns) \<subseteq> black st'"
      proof (cases b')
        case False
        then obtain st2 where "grows st1 st2" "set ns \<subseteq> black st2"
          using b'(2) by auto
        moreover from this have "grows st st2" "black st1 \<subseteq> black st2"
          using grows_trans[OF g(1)] by (auto simp: grows_def)
        ultimately show ?thesis
          using False g(2) by auto
      qed (use b'(2) in simp)
      ultimately show ?thesis by blast
    qed
  next
    case False
    then have "n \<in> black st"
      using visit_value[OF Cons.prems(1)] Cons.prems(2,3) by (auto simp: black_def gray_def)
    then have "grows st st' \<Longrightarrow> n \<in> black st'" for st'
      by (auto simp: grows_def)
    moreover obtain b' where b': "dfs_roots adj k ns st = Some b'"
      "if b' then has_cycle else \<exists>st'. grows st st' \<and> set ns \<subseteq> black st'"
      using Cons.IH[of st] Cons.prems by auto
    ultimately have "if b' then has_cycle else \<exists>st'. grows st st' \<and> set (n # ns) \<subseteq> black st'"
      by (cases b') auto
    then show ?thesis
      using b'(1) False by auto
  qed
qed

theorem dfs_decides_cycle:
  assumes "set order = set nodes" "distinct order"
  shows "dfs_roots adj (length order) order (\<lambda>n. if n \<in> set order then Some 0 else None) = Some has_cycle"
proof -
  let ?st = "\<lambda>n. if n \<in> set order then Some (0::nat) else None"
  have ok: "visit_ok ?st" "gray ?st = {}"
    using assms by (auto simp: visit_ok_def black_def gray_def ran_def dom_def split: if_splits)
  have "card (white ?st) \<le> length order"
    using assms by (simp add: white_def distinct_card[symmetric] card_mono)
  then obtain b where b: "dfs_roots adj (length order) order ?st = Some b"
    "if b then has_cycle else \<exists>st'. grows ?st st' \<and> set order \<subseteq> black st'"
    using dfs_roots_correct[OF ok, of order "length order"] assms by auto
  have "b = has_cycle"
  proof (rule ccontr)
    assume "b \<noteq> has_cycle"
    then obtain st' n where "visit_ok st'" "set order \<subseteq> black st'" "(n, n) \<in> edges\<^sup>+"
      using b(2) by (auto simp: grows_def has_cycle_def split: if_splits)
    moreover from this have "n \<in> set nodes"
      by (metis (mono_tags, lifting) case_prodD edges_def mem_Collect_eq tranclD)
    ultimately show False
      using assms(1) by (auto simp: visit_ok_def)
  qed
  then show ?thesis using b(1) by simp
qed

end

section \<open>The task graph\<close>

lemma dep_adj_closed: "set (dep_adj tasks n) \<subseteq> set (task_ids tasks)"
  by (auto simp: dep_adj_def task_ids_def split: if_splits)

interpretation plan: dfs_graph "dep_adj tasks" "task_ids tasks" for tasks
  by unfold_locales (rule dep_adj_closed)

text \<open>The edges that matter: from a task to a task it depends on.\<close>

definition dep_edges :: "sub_task list \<Rightarrow> (string \<times> string) set" where
  "dep_edges tasks = {(t_id t, d) | t d. t \<in> set tasks \<and> d \<in> set (t_depends_on t) \<and> d \<in> t_id ` set tasks}"

lemma plan_edges: "plan.edges tasks = dep_edges tasks"
  unfolding plan.edges_def unfolding dep_edges_def dep_adj_def task_ids_def by (auto split: if_splits) metis

definition dep_cyclic :: "sub_task list \<Rightarrow> bool" where
  "dep_cyclic tasks \<longleftrightarrow> (\<exists>n. (n, n) \<in> (dep_edges tasks)\<^sup>+)"

lemma plan_has_cycle: "plan.has_cycle tasks = dep_cyclic tasks"
  by (simp add: plan.has_cycle_def dep_cyclic_def plan_edges)

lemma detect_cycle_any_order:
  "set order = set (task_ids tasks) \<Longrightarrow> distinct order \<Longrightarrow> detect_cycle_in order tasks = Some (dep_cyclic tasks)"
  unfolding detect_cycle_in_def plan_has_cycle[symmetric] by (rule plan.dfs_decides_cycle)

text \<open>Which also makes the relation executable.\<close>

lemma detect_cycle_iff: "detect_cycle tasks \<longleftrightarrow> dep_cyclic tasks"
proof -
  have "distinct (task_ids tasks)"
    by (simp add: task_ids_def)
  then show ?thesis
    by (simp add: detect_cycle_def detect_cycle_any_order)
qed

lemma dep_cyclic_code [code]: "dep_cyclic tasks \<longleftrightarrow> detect_cycle tasks"
  by (simp add: detect_cycle_iff)

end
