(* ===== verification/Planner.thy ===== *)
theory Planner
  imports PlanCycles "HOL-Library.Product_Lexorder"
begin

text \<open>
  The planner (\<open>crates/orchestrator/src/planner.rs\<close>): ranking the repository files into the prompt,
  the prompts themselves, and decoding a response into a validated, scope-guarded plan; and the
  parallel-overlap warning of \<open>planner_types.rs\<close>. The language model is the argument \<open>chat\<close>, which
  takes the user message; \<open>show_score\<close> is the two-decimal rendering of a similarity score.
\<close>

section \<open>Ranking the files\<close>

definition FILE_RANK_TOKEN_MIN :: nat where "FILE_RANK_TOKEN_MIN = 3"
definition FILE_RANK_PATH_MENTION_BOOST :: nat where "FILE_RANK_PATH_MENTION_BOOST = 1000"
definition MAX_REPLAN_FILES :: nat where "MAX_REPLAN_FILES = 100"
definition MAX_REPLAN_ERROR_CHARS :: nat where "MAX_REPLAN_ERROR_CHARS = 600"

definition goal_relevance :: "string \<Rightarrow> string \<Rightarrow> string list \<Rightarrow> nat" where
  "goal_relevance file goal_lower goal_tokens =
     (let f = to_lowercase file in
      if contains goal_lower f then FILE_RANK_PATH_MENTION_BOOST
      else length (filter (contains f) goal_tokens))"

definition goal_tokens :: "string \<Rightarrow> string list" where
  "goal_tokens goal =
     filter (\<lambda>t. FILE_RANK_TOKEN_MIN \<le> length t) (split_where (\<lambda>c. \<not> is_alphanumeric c) (to_lowercase goal))"

definition file_relevance :: "string \<Rightarrow> string \<Rightarrow> nat" where
  "file_relevance goal f = goal_relevance f (to_lowercase goal) (goal_tokens goal)"

definition in_target :: "string \<Rightarrow> bool" where
  "in_target f \<longleftrightarrow> contains f ''/target/'' \<or> starts_with f ''target/''"

text \<open>The sort is by descending relevance, then by path.\<close>

definition rank_files :: "string \<Rightarrow> string list \<Rightarrow> string list" where
  "rank_files goal files = sort_key (\<lambda>f. (- int (file_relevance goal f), f)) files"

definition remaining_files :: "string \<Rightarrow> nat \<Rightarrow> string list \<Rightarrow> string list \<Rightarrow> string list" where
  "remaining_files goal max_context_files already repo_files =
     take (min max_context_files 100 - length (remdups already))
       (rank_files goal (filter (\<lambda>f. \<not> in_target f \<and> f \<notin> set already) repo_files))"

section \<open>Prompts\<close>

definition plan_file_list ::
  "('score \<Rightarrow> string) \<Rightarrow> string \<Rightarrow> nat \<Rightarrow> (string \<times> 'score) list option \<Rightarrow> string list \<Rightarrow> string" where
  "plan_file_list show_score goal max_context_files relevant repo_files =
     (let shown = (case relevant of None \<Rightarrow> [] | Some r \<Rightarrow> take 20 r);
          already = (case relevant of None \<Rightarrow> [] | Some r \<Rightarrow> map fst r);
          remaining = remaining_files goal max_context_files already repo_files
      in str_join [NL]
           ((if shown = [] then []
             else [''MOST RELEVANT FILES (by semantic similarity to goal):'']
                @ map (\<lambda>(p, s). ''  '' @ p @ '' (relevance: '' @ show_score s @ '')'') shown @ [[]])
            @ (if remaining = [] then []
               else [''ALL REPOSITORY FILES:'', str_join [NL] remaining])))"

definition past_block :: "string option \<Rightarrow> string" where
  "past_block past = (case past of
     None \<Rightarrow> []
   | Some p \<Rightarrow> if p = [] then []
       else ''PRIOR RUN MEMORY (reuse what worked, avoid what failed '' @ [CHR 0xE2, CHR 0x80, CHR 0x94]
            @ '' adapt to current files):'' @ [NL] @ p @ [NL, NL])"

definition plan_user_msg ::
  "('score \<Rightarrow> string) \<Rightarrow> string \<Rightarrow> nat \<Rightarrow> (string \<times> 'score) list option \<Rightarrow> string option \<Rightarrow> string list \<Rightarrow> string" where
  "plan_user_msg show_score goal max_context_files relevant past repo_files =
     ''GOAL: '' @ goal @ [NL, NL] @ past_block past
       @ plan_file_list show_score goal max_context_files relevant repo_files"

text \<open>\<open>{changed:?}\<close>: the \<open>Debug\<close> form of a vector of strings.\<close>

definition show_debug_list :: "string list \<Rightarrow> string" where
  "show_debug_list xs = ''['' @ str_join '', '' (map show_debug_str xs) @ '']''"

definition replan_user_msg ::
  "string \<Rightarrow> string \<Rightarrow> string \<Rightarrow> string \<Rightarrow> string list \<Rightarrow> string list \<Rightarrow> string" where
  "replan_user_msg goal completed failed error changed repo_files =
     ''GOAL: '' @ goal @ [NL, NL] @ ''STEPS ALREADY DONE (do not redo):'' @ [NL]
       @ (if completed = [] then ''(none)'' else completed) @ [NL, NL]
       @ ''FAILED STEP:'' @ [NL] @ failed @ [NL]
       @ ''ERROR:'' @ [NL] @ chars_take MAX_REPLAN_ERROR_CHARS error @ [NL, NL]
       @ ''FILES ALREADY CHANGED: '' @ show_debug_list changed @ [NL, NL]
       @ ''REPOSITORY FILE LIST:'' @ [NL]
       @ str_join [NL] (take MAX_REPLAN_FILES (filter (\<lambda>f. \<not> in_target f) repo_files))"

section \<open>From a response to a plan\<close>

text \<open>The text from the first opening to the last closing bracket, which panics when the last closing
  bracket stands before the first opening one.\<close>

definition json_span :: "string \<Rightarrow> string outcome" where
  "json_span response =
     (let content = trim response in
      case str_find ''['' content of
        None \<Rightarrow> Ok content
      | Some start \<Rightarrow>
          (case str_rfind CHR '']'' content of
             None \<Rightarrow> Ok content
           | Some finish \<Rightarrow> str_slice content start (Suc finish)))"

definition plan_goal ::
  "(string \<Rightarrow> sub_task list option) \<Rightarrow> (string \<Rightarrow> string outcome) \<Rightarrow> ('score \<Rightarrow> string) \<Rightarrow> string \<Rightarrow> string list
     \<Rightarrow> nat \<Rightarrow> (string \<times> 'score) list option \<Rightarrow> string option \<Rightarrow> sub_task list outcome" where
  "plan_goal from_json chat show_score goal repo_files max_context_files relevant past =
     obind (map_err (\<lambda>_. ''Planning inference failed'')
              (chat (plan_user_msg show_score goal max_context_files relevant past repo_files))) (\<lambda>response.
     obind (json_span response) (\<lambda>json_str.
     obind (parse_plan from_json json_str repo_files) (\<lambda>tasks.
     Ok (constrain_to_named_files goal tasks repo_files))))"

definition replan_goal ::
  "(string \<Rightarrow> sub_task list option) \<Rightarrow> (string \<Rightarrow> string outcome) \<Rightarrow> string \<Rightarrow> string \<Rightarrow> string \<Rightarrow> string
     \<Rightarrow> string list \<Rightarrow> string list \<Rightarrow> sub_task list outcome" where
  "replan_goal from_json chat goal completed failed error changed repo_files =
     obind (map_err (\<lambda>_. ''Replanning inference failed'')
              (chat (replan_user_msg goal completed failed error changed repo_files))) (\<lambda>response.
     obind (json_span response) (\<lambda>json_str.
     obind (map_err (\<lambda>e. ''Replan validation failed: '' @ e) (parse_plan from_json json_str repo_files)) (\<lambda>tasks.
     Ok (constrain_to_named_files goal tasks repo_files))))"

end
