(* ===== verification/WfModel.thy ===== *)
theory WfModel
  imports PlanFacts
begin

text \<open>
  The workflow document and its pure state machine (\<open>crates/workflow/src/model.rs\<close>), and the seed
  definitions of \<open>templates.rs\<close>. Timestamps are strings supplied by the caller, as in the code.
  File contents are byte lists; \<open>u32\<close> counters are naturals: they count replans, of which the engine
  allows three, and attempts of one step.
\<close>

section \<open>Data\<close>

datatype workflow_state = WfCreated | WfRunning | WfPaused | WfCompleted | WfCancelled | WfFailed

datatype step_state = StPending | StRunning | StPassed | StFailed | StSkipped

datatype step_kind = AgentTask | HumanApproval | QualityGate

datatype condition = FileExists string | FilesChanged "string list"

record workflow_step =
  s_id :: string
  s_kind :: step_kind
  s_task :: sub_task
  s_state :: step_state
  s_attempts :: nat
  s_max_attempts :: nat
  s_preconditions :: "condition list"
  s_effects :: "condition list"
  s_error :: "string option"
  s_agent_run_id :: "string option"

record workflow_def =
  d_id :: "string option"
  d_name :: string
  d_version :: nat
  d_description :: string
  d_steps :: "workflow_step list"
  d_schema_version :: nat
  d_created_at :: string

text \<open>\<open>CapturedFile\<close> is the pair of a path and a content.\<close>

record workflow_run =
  w_id :: "string option"
  w_def_name :: "string option"
  w_def_version :: "nat option"
  w_project :: string
  w_goal :: string
  w_run_id :: string
  w_state :: workflow_state
  w_steps :: "workflow_step list"
  w_replan_attempts :: nat
  w_schema_version :: nat
  w_created_at :: string
  w_updated_at :: string
  w_captured :: "(string \<times> string) list"
  w_checkpoint_complete :: bool

definition WORKFLOW_SCHEMA_VERSION :: nat where "WORKFLOW_SCHEMA_VERSION = 1"
definition MAX_REPLAN_ATTEMPTS :: nat where "MAX_REPLAN_ATTEMPTS = 3"
definition DEFAULT_STEP_MAX_ATTEMPTS :: nat where "DEFAULT_STEP_MAX_ATTEMPTS = 2"
definition REPLAN_STEP_ID_PREFIX :: string where "REPLAN_STEP_ID_PREFIX = ''r''"
definition MAX_CHECKPOINT_FILE_BYTES :: nat where "MAX_CHECKPOINT_FILE_BYTES = 262144"
definition MAX_CHECKPOINT_TOTAL_BYTES :: nat where "MAX_CHECKPOINT_TOTAL_BYTES = 2097152"

section \<open>States\<close>

fun can_transition :: "workflow_state \<Rightarrow> workflow_state \<Rightarrow> bool" where
  "can_transition WfCreated WfRunning = True"
| "can_transition WfCreated WfCancelled = True"
| "can_transition WfRunning WfPaused = True"
| "can_transition WfRunning WfCompleted = True"
| "can_transition WfRunning WfCancelled = True"
| "can_transition WfRunning WfFailed = True"
| "can_transition WfPaused WfRunning = True"
| "can_transition WfPaused WfCancelled = True"
| "can_transition _ _ = False"

definition is_terminal :: "workflow_state \<Rightarrow> bool" where
  "is_terminal s \<longleftrightarrow> s = WfCompleted \<or> s = WfCancelled \<or> s = WfFailed"

definition is_control :: "step_kind \<Rightarrow> bool" where
  "is_control k \<longleftrightarrow> k = HumanApproval \<or> k = QualityGate"

text \<open>\<open>transition\<close> returns whether the transition was legal, and the document.\<close>

definition transition :: "workflow_run \<Rightarrow> workflow_state \<Rightarrow> string \<Rightarrow> bool \<times> workflow_run" where
  "transition w to_st now =
     (if can_transition (w_state w) to_st then (True, w\<lparr>w_state := to_st, w_updated_at := now\<rparr>)
      else (False, w))"

section \<open>Construction\<close>

definition from_task :: "sub_task \<Rightarrow> workflow_step" where
  "from_task t = \<lparr>s_id = t_id t, s_kind = AgentTask, s_task = t, s_state = StPending, s_attempts = 0,
     s_max_attempts = DEFAULT_STEP_MAX_ATTEMPTS, s_preconditions = [], s_effects = [], s_error = None,
     s_agent_run_id = None\<rparr>"

definition from_tasks :: "string \<Rightarrow> string \<Rightarrow> string \<Rightarrow> sub_task list \<Rightarrow> string \<Rightarrow> workflow_run" where
  "from_tasks project goal run_id tasks now =
     \<lparr>w_id = None, w_def_name = None, w_def_version = None, w_project = project, w_goal = goal,
      w_run_id = run_id, w_state = WfCreated, w_steps = map from_task tasks, w_replan_attempts = 0,
      w_schema_version = WORKFLOW_SCHEMA_VERSION, w_created_at = now, w_updated_at = now,
      w_captured = [], w_checkpoint_complete = True\<rparr>"

definition instantiate_step :: "string list \<Rightarrow> workflow_step \<Rightarrow> workflow_step" where
  "instantiate_step files s =
     (let tmpl = (case t_template (s_task s) of Some t \<Rightarrow> t | None \<Rightarrow> []) in
      s\<lparr>s_task := (s_task s)\<lparr>t_files := files\<rparr>, s_state := StPending, s_attempts := 0,
        s_error := None, s_agent_run_id := None,
        s_preconditions := (if tmpl = ''edit'' \<or> tmpl = ''refactor'' then map FileExists files
                            else s_preconditions s),
        s_effects := (if files \<noteq> [] then [FilesChanged files] else s_effects s)\<rparr>)"

definition def_instantiate ::
  "workflow_def \<Rightarrow> string \<Rightarrow> string \<Rightarrow> string \<Rightarrow> string list \<Rightarrow> string \<Rightarrow> workflow_run" where
  "def_instantiate d project goal run_id files now =
     \<lparr>w_id = None, w_def_name = Some (d_name d), w_def_version = Some (d_version d),
      w_project = project, w_goal = goal, w_run_id = run_id, w_state = WfCreated,
      w_steps = map (instantiate_step files) (d_steps d), w_replan_attempts = 0,
      w_schema_version = WORKFLOW_SCHEMA_VERSION, w_created_at = now, w_updated_at = now,
      w_captured = [], w_checkpoint_complete = True\<rparr>"

definition quality_gate_id :: string where
  "quality_gate_id = ''quality-gate''"

definition quality_gate_step :: "string list \<Rightarrow> workflow_step" where
  "quality_gate_step deps =
     \<lparr>s_id = quality_gate_id, s_kind = QualityGate,
      s_task = \<lparr>t_id = quality_gate_id, t_description = ''Run build/test quality gate'', t_files = [],
        t_complexity = Simple, t_depends_on = deps, t_edit = None, t_template = None\<rparr>,
      s_state = StPending, s_attempts = 0, s_max_attempts = DEFAULT_STEP_MAX_ATTEMPTS,
      s_preconditions = [], s_effects = [], s_error = None, s_agent_run_id = None\<rparr>"

definition with_trailing_quality_gate :: "workflow_run \<Rightarrow> workflow_run" where
  "with_trailing_quality_gate w =
     (if list_ex (\<lambda>s. s_kind s = QualityGate) (w_steps w) \<or> w_steps w = [] then w
      else w\<lparr>w_steps := w_steps w @ [quality_gate_step (map s_id (w_steps w))]\<rparr>)"

section \<open>Checkpointed outputs\<close>

definition total_bytes :: "(string \<times> string) list \<Rightarrow> nat" where
  "total_bytes fs = sum_list (map (length \<circ> snd) fs)"

definition absorb_file :: "string \<times> string \<Rightarrow> workflow_run \<Rightarrow> workflow_run" where
  "absorb_file e w =
     (let (path, bytes) = e; skip = w\<lparr>w_checkpoint_complete := False\<rparr> in
      if \<not> utf8_valid bytes then skip
      else if MAX_CHECKPOINT_FILE_BYTES < length bytes then skip
      else (case List.find (\<lambda>f. fst f = path) (w_captured w) of
          Some _ \<Rightarrow> w\<lparr>w_captured := update_first (\<lambda>f. fst f = path) (\<lambda>f. (fst f, bytes)) (w_captured w)\<rparr>
        | None \<Rightarrow>
            if MAX_CHECKPOINT_TOTAL_BYTES < total_bytes (w_captured w) + length bytes then skip
            else w\<lparr>w_captured := w_captured w @ [(path, bytes)]\<rparr>))"

definition absorb_captured :: "(string \<times> string) list \<Rightarrow> workflow_run \<Rightarrow> workflow_run" where
  "absorb_captured modified w = fold absorb_file modified w"

definition reset_passed_steps :: "workflow_run \<Rightarrow> nat \<times> workflow_run" where
  "reset_passed_steps w =
     (length (filter (\<lambda>s. s_state s = StPassed) (w_steps w)),
      w\<lparr>w_steps := map (\<lambda>s. if s_state s = StPassed then s\<lparr>s_state := StPending\<rparr> else s) (w_steps w),
        w_captured := [], w_checkpoint_complete := True\<rparr>)"

section \<open>Readiness\<close>

text \<open>\<open>HashSet\<close>s of ids that are only tested for membership are lists.\<close>

definition completed_ids :: "workflow_run \<Rightarrow> string list" where
  "completed_ids w = map s_id (filter (\<lambda>s. s_state s = StPassed) (w_steps w))"

definition is_ready :: "string list \<Rightarrow> workflow_step \<Rightarrow> bool" where
  "is_ready completed s \<longleftrightarrow> s_state s = StPending \<and> list_all (\<lambda>d. d \<in> set completed) (t_depends_on (s_task s))"

definition ready_steps :: "workflow_run \<Rightarrow> workflow_step list" where
  "ready_steps w = filter (is_ready (completed_ids w)) (w_steps w)"

definition has_pending :: "workflow_run \<Rightarrow> bool" where
  "has_pending w \<longleftrightarrow> list_ex (\<lambda>s. s_state s = StPending) (w_steps w)"

definition ready_control_step :: "workflow_run \<Rightarrow> (string \<times> step_kind) option" where
  "ready_control_step w =
     map_option (\<lambda>s. (s_id s, s_kind s))
       (List.find (\<lambda>s. is_ready (completed_ids w) s \<and> is_control (s_kind s)) (w_steps w))"

definition ready_agent_tasks :: "workflow_run \<Rightarrow> sub_task list" where
  "ready_agent_tasks w =
     map s_task (filter (\<lambda>s. is_ready (completed_ids w) s \<and> \<not> is_control (s_kind s)) (w_steps w))"

definition mark_step :: "string \<Rightarrow> step_state \<Rightarrow> string option \<Rightarrow> workflow_run \<Rightarrow> workflow_run" where
  "mark_step i st err w =
     w\<lparr>w_steps := update_first (\<lambda>s. s_id s = i)
         (\<lambda>s. s\<lparr>s_state := st, s_attempts := s_attempts s + 1, s_error := err\<rparr>) (w_steps w)\<rparr>"

definition failed_step :: "workflow_run \<Rightarrow> workflow_step option" where
  "failed_step w = List.find (\<lambda>s. s_state s = StFailed) (w_steps w)"

definition all_passed :: "workflow_run \<Rightarrow> bool" where
  "all_passed w \<longleftrightarrow> list_all (\<lambda>s. s_state s = StPassed \<or> s_state s = StSkipped) (w_steps w)"

section \<open>Replanning\<close>

text \<open>One pass of the loop that collects the failed step and its transitive dependents, then the loop:
  it stops when a pass adds nothing.\<close>

definition doom_round :: "workflow_step list \<Rightarrow> string list \<Rightarrow> string list" where
  "doom_round steps doomed =
     fold (\<lambda>s d. if list_ex (\<lambda>x. x \<in> set d) (t_depends_on (s_task s)) then List.insert (s_id s) d else d)
       steps doomed"

lemma doom_round_grows: "\<exists>new. doom_round steps d = new @ d \<and> set new \<subseteq> s_id ` set steps - set d"
proof (induction steps arbitrary: d)
  case (Cons s steps)
  let ?d = "if list_ex (\<lambda>x. x \<in> set d) (t_depends_on (s_task s)) then List.insert (s_id s) d else d"
  obtain n where "doom_round steps ?d = n @ ?d" "set n \<subseteq> s_id ` set steps - set ?d"
    using Cons by blast
  moreover have "\<exists>m. ?d = m @ d \<and> set m \<subseteq> {s_id s} - set d"
    by (auto simp: List.insert_def)
  ultimately show ?case
    unfolding doom_round_def fold_Cons comp_def by fastforce
qed (simp add: doom_round_def)

function doom_closure :: "workflow_step list \<Rightarrow> string list \<Rightarrow> string list" where
  "doom_closure steps doomed =
     (let d = doom_round steps doomed in
      if length d = length doomed then d else doom_closure steps d)"
  by pat_completeness auto
termination
proof (relation "measure (\<lambda>(steps, d). card (s_id ` set steps - set d))", goal_cases)
  case (2 steps d d')
  then obtain n where n: "d' = n @ d" "set n \<subseteq> s_id ` set steps - set d" "n \<noteq> []"
    using doom_round_grows[of steps d] by auto
  then have "s_id ` set steps - set d' \<subset> s_id ` set steps - set d"
    by (cases n) auto
  then show ?case
    by (simp add: psubset_card_mono)
qed simp

declare doom_closure.simps [simp del]

definition replan_prefix :: "nat \<Rightarrow> string" where
  "replan_prefix n = REPLAN_STEP_ID_PREFIX @ show_nat n @ ''-''"

definition respliced_task :: "string \<Rightarrow> string list \<Rightarrow> string list \<Rightarrow> sub_task \<Rightarrow> sub_task" where
  "respliced_task pre new_ids doomed t =
     t\<lparr>t_id := pre @ t_id t,
       t_depends_on := filter (\<lambda>d. d \<noteq> [])
         (map (\<lambda>d. if d \<in> set new_ids then pre @ d else if d \<in> set doomed then [] else d) (t_depends_on t))\<rparr>"

definition splice_replan :: "string \<Rightarrow> sub_task list \<Rightarrow> string \<Rightarrow> workflow_run \<Rightarrow> nat \<times> workflow_run" where
  "splice_replan failed_id new_tasks now w =
     (let doomed = doom_closure (w_steps w) [failed_id];
          removed = length (filter (\<lambda>s. s_id s \<in> set doomed) (w_steps w));
          kept = filter (\<lambda>s. s_id s \<notin> set doomed) (w_steps w);
          n = w_replan_attempts w + 1;
          tasks = map (respliced_task (replan_prefix n) (map t_id new_tasks) doomed) new_tasks
      in (removed, w\<lparr>w_steps := kept @ map from_task tasks, w_replan_attempts := n, w_updated_at := now\<rparr>))"

section \<open>Seed definitions\<close>

definition template_step :: "string \<Rightarrow> string \<Rightarrow> workflow_step" where
  "template_step template description =
     \<lparr>s_id = template @ ''-1'', s_kind = AgentTask,
      s_task = \<lparr>t_id = template @ ''-1'', t_description = description, t_files = [], t_complexity = Simple,
        t_depends_on = [], t_edit = None, t_template = Some template\<rparr>,
      s_state = StPending, s_attempts = 0, s_max_attempts = DEFAULT_STEP_MAX_ATTEMPTS,
      s_preconditions = [], s_effects = [], s_error = None, s_agent_run_id = None\<rparr>"

definition SEED_TEMPLATE_VERSION :: nat where "SEED_TEMPLATE_VERSION = 1"

definition seed_defs :: "string \<Rightarrow> workflow_def list" where
  "seed_defs now =
     (let mk = (\<lambda>name description steps.
            \<lparr>d_id = None, d_name = name, d_version = SEED_TEMPLATE_VERSION, d_description = description,
             d_steps = steps, d_schema_version = WORKFLOW_SCHEMA_VERSION, d_created_at = now\<rparr>)
      in [mk ''edit-file'' ''Modify one existing code file via the graph executor''
            [template_step ''edit'' ''Edit the target file''],
          mk ''create-file'' ''Create a new file via the graph executor (modest expectations for local models)''
            [template_step ''create'' ''Create the target file''],
          mk ''refactor'' ''Modify multiple files together via the graph executor''
            [template_step ''refactor'' ''Refactor the target files''],
          mk ''doc'' ''Edit docs/config files (no build check) via the graph executor''
            [template_step ''doc'' ''Update the documentation'']])"

end
