(* ===== verification/WfFacts.thy ===== *)
theory WfFacts
  imports WfModel
begin

text \<open>
  What the workflow document guarantees: the life cycle, the closure computed by a replan and the
  well-formedness of the spliced document, progress of a well-formed document, and exactness of a
  complete checkpoint.
\<close>

section \<open>The dependency graph of the steps\<close>

definition step_deps :: "workflow_step \<Rightarrow> string list" where
  "step_deps s = t_depends_on (s_task s)"

definition step_tasks :: "workflow_step list \<Rightarrow> sub_task list" where
  "step_tasks steps = map (\<lambda>s. (s_task s)\<lparr>t_id := s_id s\<rparr>) steps"

definition dependents :: "workflow_step list \<Rightarrow> (string \<times> string) set" where
  "dependents steps = {(d, s_id s) | s d. s \<in> set steps \<and> d \<in> set (step_deps s)}"

text \<open>A well-formed document: distinct ids, no dependency on an unknown id, no cycle.\<close>

definition wf_dag :: "workflow_step list \<Rightarrow> bool" where
  "wf_dag steps \<longleftrightarrow> distinct (map s_id steps)
     \<and> (\<forall>s\<in>set steps. set (step_deps s) \<subseteq> s_id ` set steps) \<and> \<not> dep_cyclic (step_tasks steps)"

lemma step_tasks_ids: "map t_id (step_tasks steps) = map s_id steps"
  by (simp add: step_tasks_def)

lemma dep_edges_steps:
  "dep_edges (step_tasks steps) = {(s_id s, d) | s d. s \<in> set steps \<and> d \<in> set (step_deps s) \<and> d \<in> s_id ` set steps}"
  by (force simp: dep_edges_def step_tasks_def step_deps_def)

lemma dep_edges_closed:
  assumes "\<forall>s\<in>set steps. set (step_deps s) \<subseteq> s_id ` set steps"
  shows "dep_edges (step_tasks steps) = (dependents steps)\<inverse>"
  using assms unfolding dep_edges_steps dependents_def by blast

section \<open>Progress\<close>

text \<open>In a well-formed document whose other steps have all passed, some pending step is ready.\<close>

lemma acyclic_has_min:
  assumes "finite E" "\<not> (\<exists>n. (n, n) \<in> E\<^sup>+)" "a \<in> A"
  shows "\<exists>m\<in>A. \<forall>x. (m, x) \<in> E \<longrightarrow> x \<notin> A"
proof -
  have "wf (E\<inverse>)"
    using assms(1,2) by (intro finite_acyclic_wf) (auto simp: acyclic_def trancl_converse)
  then show ?thesis
    using assms(3) by (metis converse_iff wf_eq_minimal)
qed

lemma finite_dep_edges [simp]: "finite (dep_edges ts)"
proof -
  have "dep_edges ts \<subseteq> (\<Union>t\<in>set ts. {t_id t} \<times> set (t_depends_on t))"
    by (auto simp: dep_edges_def)
  then show ?thesis
    by (rule finite_subset) simp
qed

lemma wf_dag_progress:
  assumes wf: "wf_dag (w_steps w)" and p: "has_pending w"
    and rest: "\<forall>s\<in>set (w_steps w). s_state s = StPending \<or> s_state s = StPassed"
  shows "ready_steps w \<noteq> []"
proof -
  define P where "P = {s_id s | s. s \<in> set (w_steps w) \<and> s_state s = StPending}"
  obtain a where "a \<in> P"
    using p by (auto simp: has_pending_def list_ex_iff P_def)
  moreover have "\<not> (\<exists>n. (n, n) \<in> (dep_edges (step_tasks (w_steps w)))\<^sup>+)"
    using wf by (simp add: wf_dag_def dep_cyclic_def)
  ultimately obtain m where m: "m \<in> P" "\<forall>x. (m, x) \<in> dep_edges (step_tasks (w_steps w)) \<longrightarrow> x \<notin> P"
    using acyclic_has_min[OF finite_dep_edges] by blast
  then obtain s where s: "s \<in> set (w_steps w)" "s_state s = StPending" "s_id s = m"
    by (auto simp: P_def)
  have "d \<in> set (completed_ids w)" if d: "d \<in> set (step_deps s)" for d
  proof -
    obtain u where u: "u \<in> set (w_steps w)" "s_id u = d"
      using wf s(1) d by (fastforce simp: wf_dag_def)
    have "(m, d) \<in> dep_edges (step_tasks (w_steps w))"
      using s u d by (auto simp: dep_edges_steps)
    then have "s_state u \<noteq> StPending"
      using m(2) u by (auto simp: P_def)
    then have "s_state u = StPassed"
      using rest u(1) by auto
    then show ?thesis
      using u by (auto simp: completed_ids_def)
  qed
  then have "s \<in> set (ready_steps w)"
    using s by (auto simp: ready_steps_def is_ready_def step_deps_def list_all_iff)
  then show ?thesis by auto
qed

section \<open>The steps a replan removes\<close>

lemma doom_round_mono: "set d \<subseteq> set (doom_round steps d)"
  using doom_round_grows[of steps d] by auto

lemma doom_round_adds:
  "s \<in> set steps \<Longrightarrow> x \<in> set (step_deps s) \<Longrightarrow> x \<in> set d \<Longrightarrow> s_id s \<in> set (doom_round steps d)"
proof (induction steps arbitrary: d)
  case (Cons u steps)
  let ?d = "if list_ex (\<lambda>x. x \<in> set d) (t_depends_on (s_task u)) then List.insert (s_id u) d else d"
  have r: "doom_round (u # steps) d = doom_round steps ?d"
    by (simp add: doom_round_def)
  show ?case
  proof (cases "s = u")
    case True
    then have "s_id s \<in> set ?d"
      using Cons.prems(2,3) by (auto simp: step_deps_def list_ex_iff)
    then show ?thesis
      using r doom_round_mono[of ?d steps] by auto
  next
    case False
    then show ?thesis
      using r Cons.IH[of ?d] Cons.prems by auto
  qed
qed simp

lemma doom_round_sound: "set (doom_round steps d) \<subseteq> (dependents steps)\<^sup>* `` set d"
proof -
  have "set (doom_round us d) \<subseteq> (dependents steps)\<^sup>* `` D"
    if "set us \<subseteq> set steps" "set d \<subseteq> (dependents steps)\<^sup>* `` D" for us D
    using that
  proof (induction us arbitrary: d)
    case (Cons u us)
    let ?d = "if list_ex (\<lambda>x. x \<in> set d) (t_depends_on (s_task u)) then List.insert (s_id u) d else d"
    have "s_id u \<in> (dependents steps)\<^sup>* `` D" if "x \<in> set (step_deps u)" "x \<in> set d" for x
    proof -
      have "(x, s_id u) \<in> dependents steps"
        using that(1) Cons.prems(1) by (auto simp: dependents_def)
      then show ?thesis
        using that(2) Cons.prems(2) by (meson Image_iff rtrancl.rtrancl_into_rtrancl subsetD)
    qed
    then have "set ?d \<subseteq> (dependents steps)\<^sup>* `` D"
      using Cons.prems(2) by (auto simp: list_ex_iff step_deps_def)
    then show ?case
      using Cons.IH[of ?d] Cons.prems(1) by (simp add: doom_round_def)
  qed (simp add: doom_round_def)
  from this[of steps "set d"] show ?thesis by auto
qed

lemma doom_closure_eq: "set (doom_closure steps d) = (dependents steps)\<^sup>* `` set d"
proof (induction steps d rule: doom_closure.induct)
  case (1 steps d)
  let ?d = "doom_round steps d"
  obtain n where n: "?d = n @ d"
    using doom_round_grows by blast
  show ?case
  proof (cases "length ?d = length d")
    case True
    then have eq: "?d = d"
      using n by simp
    have "dependents steps `` set d \<subseteq> set d"
      using doom_round_adds[of _ steps _ d] by (auto simp: eq dependents_def)
    then have "(dependents steps)\<^sup>* `` set d = set d"
      by (rule Image_closed_trancl)
    then show ?thesis
      by (simp add: doom_closure.simps[of steps d] eq)
  next
    case False
    then have "set (doom_closure steps d) = (dependents steps)\<^sup>* `` set ?d"
      using 1[OF refl] by (simp add: doom_closure.simps[of steps d] Let_def)
    moreover have "(dependents steps)\<^sup>* `` set ?d \<subseteq> (dependents steps)\<^sup>* `` set d"
      using doom_round_sound[of steps d] by (meson Image_iff rtrancl_trans subset_iff)
    moreover have "(dependents steps)\<^sup>* `` set d \<subseteq> (dependents steps)\<^sup>* `` set ?d"
      using doom_round_mono by (rule Image_mono[OF subset_refl])
    ultimately show ?thesis by blast
  qed
qed

section \<open>The spliced document\<close>

definition doomed_steps :: "workflow_step list \<Rightarrow> string \<Rightarrow> string set" where
  "doomed_steps steps f = (dependents steps)\<^sup>* `` {f}"

lemma splice_steps:
  "w_steps (snd (splice_replan f ts now w)) =
     filter (\<lambda>s. s_id s \<notin> doomed_steps (w_steps w) f) (w_steps w)
     @ map (from_task \<circ> respliced_task (replan_prefix (Suc (w_replan_attempts w))) (map t_id ts)
                          (doom_closure (w_steps w) [f])) ts"
  by (simp add: splice_replan_def Let_def doom_closure_eq doomed_steps_def)

lemma splice_counts:
  "fst (splice_replan f ts now w) = length (filter (\<lambda>s. s_id s \<in> doomed_steps (w_steps w) f) (w_steps w))"
  "w_replan_attempts (snd (splice_replan f ts now w)) = Suc (w_replan_attempts w)"
  by (simp_all add: splice_replan_def Let_def doom_closure_eq doomed_steps_def)

lemma splice_keeps [simp]:
  "w_state (snd (splice_replan f ts now w)) = w_state w"
  "w_captured (snd (splice_replan f ts now w)) = w_captured w"
  "w_checkpoint_complete (snd (splice_replan f ts now w)) = w_checkpoint_complete w"
  "w_goal (snd (splice_replan f ts now w)) = w_goal w"
  by (simp_all add: splice_replan_def Let_def)

lemma doomed_step:
  "s \<in> set steps \<Longrightarrow> d \<in> set (step_deps s) \<Longrightarrow> d \<in> doomed_steps steps f \<Longrightarrow> s_id s \<in> doomed_steps steps f"
  by (auto simp: doomed_steps_def dependents_def intro: rtrancl_into_rtrancl)

lemma doomed_ids: "doomed_steps steps f \<subseteq> insert f (s_id ` set steps)"
proof
  fix x assume "x \<in> doomed_steps steps f"
  then have "(f, x) \<in> (dependents steps)\<^sup>*"
    by (simp add: doomed_steps_def)
  then show "x \<in> insert f (s_id ` set steps)"
    by (induction rule: rtrancl_induct) (auto simp: dependents_def)
qed

text \<open>Gluing two acyclic relations with edges in one direction only.\<close>

lemma acyclic_glue:
  assumes E: "E \<subseteq> A \<union> B \<union> N \<times> K" and A: "A \<subseteq> K \<times> K" and B: "B \<subseteq> N \<times> N" and dis: "N \<inter> K = {}"
    and acA: "\<And>x. (x, x) \<notin> A\<^sup>+" and acB: "\<And>x. (x, x) \<notin> B\<^sup>+"
  shows "(x, x) \<notin> E\<^sup>+"
proof -
  have path: "(x \<in> K \<longrightarrow> y \<in> K \<and> (x, y) \<in> A\<^sup>+) \<and> (x \<in> N \<longrightarrow> y \<in> N \<longrightarrow> (x, y) \<in> B\<^sup>+) \<and> x \<in> N \<union> K" if "(x, y) \<in> E\<^sup>+" for x y
    using that
  proof (induction rule: trancl_induct)
    case (base y)
    then show ?case using E A B dis by blast
  next
    case (step y z)
    have "x \<in> K \<Longrightarrow> (y, z) \<in> A" "x \<in> N \<Longrightarrow> z \<in> N \<Longrightarrow> y \<in> N \<and> (y, z) \<in> B"
      using step E A B dis by blast+
    then show ?case
      using step.IH A by (auto intro: trancl_into_trancl)
  qed
  then show ?thesis
    using acA acB by blast
qed

lemma dep_cyclic_image:
  assumes "\<And>x y. (x, y) \<in> B \<Longrightarrow> \<exists>a b. x = p @ a \<and> y = p @ b \<and> (a, b) \<in> E" "(x, y) \<in> B\<^sup>+"
  shows "\<exists>a b. x = p @ a \<and> y = p @ b \<and> (a, b) \<in> E\<^sup>+"
  using assms(2)
proof (induction rule: trancl_induct)
  case (base y)
  then show ?case using assms(1) by blast
next
  case (step y z)
  then show ?case using assms(1) by (metis same_append_eq trancl.trancl_into_trancl)
qed

text \<open>When a replan fits the document: the failed step is one of its steps, no step carries the
  prefix of the coming round, and the new tasks have distinct ids, no cycle, and depend on each other
  and on steps of the document only.\<close>

definition replan_fits :: "workflow_run \<Rightarrow> string \<Rightarrow> sub_task list \<Rightarrow> bool" where
  "replan_fits w failed ts \<longleftrightarrow> wf_dag (w_steps w) \<and> failed \<in> s_id ` set (w_steps w)
     \<and> (\<forall>s\<in>set (w_steps w). \<not> prefix (replan_prefix (Suc (w_replan_attempts w))) (s_id s))
     \<and> distinct (map t_id ts) \<and> \<not> dep_cyclic ts
     \<and> (\<forall>t\<in>set ts. \<forall>d\<in>set (t_depends_on t). d = [] \<or> d \<in> t_id ` set ts \<or> d \<in> s_id ` set (w_steps w))"

abbreviation next_prefix :: "workflow_run \<Rightarrow> string" where
  "next_prefix w \<equiv> replan_prefix (Suc (w_replan_attempts w))"

abbreviation kept_steps :: "workflow_run \<Rightarrow> string \<Rightarrow> workflow_step list" where
  "kept_steps w f \<equiv> filter (\<lambda>s. s_id s \<notin> doomed_steps (w_steps w) f) (w_steps w)"

abbreviation renewed :: "workflow_run \<Rightarrow> string \<Rightarrow> sub_task list \<Rightarrow> sub_task \<Rightarrow> sub_task" where
  "renewed w f ts \<equiv> respliced_task (next_prefix w) (map t_id ts) (doom_closure (w_steps w) [f])"

lemma replan_prefix_nonempty [simp]: "replan_prefix n \<noteq> []"
  by (simp add: replan_prefix_def REPLAN_STEP_ID_PREFIX_def)

text \<open>The two halves of the new document and the edges between them.\<close>

abbreviation new_steps :: "workflow_run \<Rightarrow> string \<Rightarrow> sub_task list \<Rightarrow> workflow_step list" where
  "new_steps w f ts \<equiv> map (from_task \<circ> renewed w f ts) ts"

definition new_edges :: "string \<Rightarrow> sub_task list \<Rightarrow> (string \<times> string) set" where
  "new_edges pre ts = {(pre @ a, pre @ b) | a b. (a, b) \<in> dep_edges ts}"

lemma renew_dep:
  assumes fits: "replan_fits w f ts" and "t \<in> set ts" "d' \<in> set (t_depends_on (renewed w f ts t))"
  shows "(\<exists>d\<in>set (t_depends_on t). d \<in> t_id ` set ts \<and> d' = next_prefix w @ d) \<or> d' \<in> s_id ` set (kept_steps w f)"
proof -
  let ?dm = "doomed_steps (w_steps w) f"
  have "\<exists>d\<in>set (t_depends_on t). d' \<noteq> [] \<and> d' = (if d \<in> t_id ` set ts then next_prefix w @ d else if d \<in> ?dm then [] else d)"
    using assms(3) by (auto simp: respliced_task_def doom_closure_eq doomed_steps_def)
  then obtain d where d: "d \<in> set (t_depends_on t)" "d' \<noteq> []"
    "d' = (if d \<in> t_id ` set ts then next_prefix w @ d else if d \<in> ?dm then [] else d)"
    by blast
  have "d = [] \<or> d \<in> t_id ` set ts \<or> d \<in> s_id ` set (w_steps w)"
    using fits assms(2) d(1) by (simp add: replan_fits_def)
  then show ?thesis
    using d by (auto split: if_splits)
qed

lemma kept_dep:
  assumes "replan_fits w f ts" "s \<in> set (kept_steps w f)" "d \<in> set (step_deps s)"
  shows "d \<in> s_id ` set (kept_steps w f)"
proof -
  have "d \<in> s_id ` set (w_steps w)"
    using assms by (auto simp: replan_fits_def wf_dag_def)
  moreover have "d \<notin> doomed_steps (w_steps w) f"
    using assms(2,3) doomed_step by auto
  ultimately show ?thesis by auto
qed

lemma new_ids: "map s_id (new_steps w f ts) = map ((@) (next_prefix w)) (map t_id ts)"
  by (simp add: from_task_def respliced_task_def)

lemma new_id_set: "s_id ` set (new_steps w f ts) = (@) (next_prefix w) ` t_id ` set ts"
  by (auto simp: from_task_def respliced_task_def image_image)

lemma kept_not_new:
  "replan_fits w f ts \<Longrightarrow> s_id ` set (kept_steps w f) \<inter> (@) (next_prefix w) ` t_id ` set ts = {}"
  by (fastforce simp: replan_fits_def)

lemma spliced_edges:
  assumes fits: "replan_fits w f ts"
  shows "dep_edges (step_tasks (kept_steps w f @ new_steps w f ts))
     \<subseteq> dep_edges (step_tasks (kept_steps w f)) \<union> new_edges (next_prefix w) ts
        \<union> (@) (next_prefix w) ` t_id ` set ts \<times> s_id ` set (kept_steps w f)"
proof
  fix e assume "e \<in> dep_edges (step_tasks (kept_steps w f @ new_steps w f ts))"
  then obtain s d where e: "e = (s_id s, d)" "s \<in> set (kept_steps w f @ new_steps w f ts)" "d \<in> set (step_deps s)"
    unfolding dep_edges_steps by blast
  show "e \<in> dep_edges (step_tasks (kept_steps w f)) \<union> new_edges (next_prefix w) ts
        \<union> (@) (next_prefix w) ` t_id ` set ts \<times> s_id ` set (kept_steps w f)"
  proof (cases "s \<in> set (kept_steps w f)")
    case True
    then have "e \<in> dep_edges (step_tasks (kept_steps w f))"
      using e kept_dep[OF fits True e(3)] unfolding dep_edges_steps by blast
    then show ?thesis by blast
  next
    case False
    then obtain t where t: "t \<in> set ts" "s = from_task (renewed w f ts t)"
      using e(2) by auto
    have s: "s_id s = next_prefix w @ t_id t" "d \<in> set (t_depends_on (renewed w f ts t))"
      using e(3) unfolding t(2) by (simp_all add: from_task_def respliced_task_def step_deps_def)
    consider d0 where "d0 \<in> set (t_depends_on t)" "d0 \<in> t_id ` set ts" "d = next_prefix w @ d0"
      | "d \<in> s_id ` set (kept_steps w f)"
      using renew_dep[OF fits t(1) s(2)] by blast
    then show ?thesis
    proof cases
      case (1 d0)
      then have "(t_id t, d0) \<in> dep_edges ts"
        using t(1) unfolding dep_edges_def by blast
      then show ?thesis
        using 1(3) s(1) e(1) unfolding new_edges_def by blast
    next
      case 2
      then show ?thesis using s(1) e(1) t(1) by blast
    qed
  qed
qed

lemma new_edges_acyclic: "\<not> dep_cyclic ts \<Longrightarrow> (x, x) \<notin> (new_edges pre ts)\<^sup>+"
proof
  assume ac: "\<not> dep_cyclic ts" and "(x, x) \<in> (new_edges pre ts)\<^sup>+"
  then have "\<exists>a b. x = pre @ a \<and> x = pre @ b \<and> (a, b) \<in> (dep_edges ts)\<^sup>+"
    by (intro dep_cyclic_image[of "new_edges pre ts"]) (auto simp: new_edges_def)
  then show False
    using ac by (auto simp: dep_cyclic_def)
qed

lemma kept_acyclic: "\<not> dep_cyclic (step_tasks (w_steps w)) \<Longrightarrow> (x, x) \<notin> (dep_edges (step_tasks (kept_steps w f)))\<^sup>+"
proof -
  assume ac: "\<not> dep_cyclic (step_tasks (w_steps w))"
  have "deps_of ` set (step_tasks (kept_steps w f)) \<subseteq> deps_of ` set (step_tasks (w_steps w))"
    by (auto simp: step_tasks_def)
  then show ?thesis
    using ac dep_cyclic_mono unfolding dep_cyclic_def by blast
qed

lemma spliced_acyclic:
  assumes fits: "replan_fits w f ts"
  shows "\<not> dep_cyclic (step_tasks (kept_steps w f @ new_steps w f ts))"
  unfolding dep_cyclic_def
proof (rule notI, elim exE)
  fix x
  have 1: "dep_edges (step_tasks (kept_steps w f)) \<subseteq> s_id ` set (kept_steps w f) \<times> s_id ` set (kept_steps w f)"
    unfolding dep_edges_steps by blast
  have 2: "new_edges (next_prefix w) ts \<subseteq> (@) (next_prefix w) ` t_id ` set ts \<times> (@) (next_prefix w) ` t_id ` set ts"
    unfolding new_edges_def dep_edges_def by blast
  have 3: "(@) (next_prefix w) ` t_id ` set ts \<inter> s_id ` set (kept_steps w f) = {}"
    using kept_not_new[OF fits] by blast
  have 4: "(y, y) \<notin> (dep_edges (step_tasks (kept_steps w f)))\<^sup>+" for y
    using fits by (intro kept_acyclic) (simp add: replan_fits_def wf_dag_def)
  have 5: "(y, y) \<notin> (new_edges (next_prefix w) ts)\<^sup>+" for y
    using fits by (intro new_edges_acyclic) (simp add: replan_fits_def)
  have "(x, x) \<notin> (dep_edges (step_tasks (kept_steps w f @ new_steps w f ts)))\<^sup>+"
    by (rule acyclic_glue[OF spliced_edges[OF fits] 1 2 3 4 5])
  moreover assume "(x, x) \<in> (dep_edges (step_tasks (kept_steps w f @ new_steps w f ts)))\<^sup>+"
  ultimately show False by blast
qed

lemma spliced_dag:
  assumes fits: "replan_fits w f ts"
  shows "wf_dag (w_steps (snd (splice_replan f ts now w)))"
proof -
  have "distinct (map s_id (new_steps w f ts))"
    using fits unfolding new_ids by (simp add: replan_fits_def distinct_map inj_on_def)
  moreover have "distinct (map s_id (kept_steps w f))"
    using fits by (simp add: replan_fits_def wf_dag_def distinct_map_filter)
  ultimately have 1: "distinct (map s_id (kept_steps w f @ new_steps w f ts))"
    using kept_not_new[OF fits] new_id_set[where w = w and f = f and ts = ts] by (simp only: map_append distinct_append set_map)
  have 2: "set (step_deps s) \<subseteq> s_id ` set (kept_steps w f @ new_steps w f ts)"
    if s: "s \<in> set (kept_steps w f @ new_steps w f ts)" for s
  proof (cases "s \<in> set (kept_steps w f)")
    case True
    then show ?thesis using kept_dep[OF fits] by (auto simp only: set_append image_Un)
  next
    case False
    then obtain t where t: "t \<in> set ts" "step_deps s = t_depends_on (renewed w f ts t)"
      using s by (auto simp: from_task_def step_deps_def)
    show ?thesis
      unfolding t(2) set_append image_Un new_id_set using renew_dep[OF fits t(1)] by blast
  qed
  show ?thesis
    unfolding splice_steps wf_dag_def using 1 2 spliced_acyclic[OF fits] by blast
qed

section \<open>Checkpoints\<close>

definition captured_ok :: "workflow_run \<Rightarrow> bool" where
  "captured_ok w \<longleftrightarrow> distinct (map fst (w_captured w))
     \<and> (\<forall>(p, c)\<in>set (w_captured w). utf8_valid c \<and> length c \<le> MAX_CHECKPOINT_FILE_BYTES)"

lemma map_of_update_first:
  "map_of (update_first (\<lambda>f. fst f = p) (\<lambda>f. (fst f, b)) xs) =
     (if p \<in> fst ` set xs then (map_of xs)(p \<mapsto> b) else map_of xs)"
  by (induction xs) (auto simp: fun_eq_iff)

lemma map_of_append_fresh: "p \<notin> fst ` set xs \<Longrightarrow> map_of (xs @ [(p, b)]) = (map_of xs)(p \<mapsto> b)"
  by (induction xs) (auto simp: fun_eq_iff)

lemma find_key: "List.find (\<lambda>f. fst f = p) xs = None \<longleftrightarrow> p \<notin> fst ` set xs"
  by (force simp: find_None_iff)

lemma absorb_file_cases:
  obtains (skip) "absorb_file (p, b) w = w\<lparr>w_checkpoint_complete := False\<rparr>"
  | (overwrite) "p \<in> fst ` set (w_captured w)" "utf8_valid b" "length b \<le> MAX_CHECKPOINT_FILE_BYTES"
      "absorb_file (p, b) w =
         w\<lparr>w_captured := update_first (\<lambda>f. fst f = p) (\<lambda>f. (fst f, b)) (w_captured w)\<rparr>"
  | (new) "p \<notin> fst ` set (w_captured w)" "utf8_valid b" "length b \<le> MAX_CHECKPOINT_FILE_BYTES"
      "total_bytes (w_captured w) + length b \<le> MAX_CHECKPOINT_TOTAL_BYTES"
      "absorb_file (p, b) w = w\<lparr>w_captured := w_captured w @ [(p, b)]\<rparr>"
proof (cases "utf8_valid b \<and> length b \<le> MAX_CHECKPOINT_FILE_BYTES")
  case False
  then show thesis by (intro skip) (auto simp: absorb_file_def Let_def)
next
  case True
  show thesis
  proof (cases "List.find (\<lambda>f. fst f = p) (w_captured w)")
    case None
    then have fresh: "p \<notin> fst ` set (w_captured w)"
      by (simp add: find_key)
    show thesis
    proof (cases "MAX_CHECKPOINT_TOTAL_BYTES < total_bytes (w_captured w) + length b")
      case over: True
      show thesis
        using True None over by (intro skip) (simp add: absorb_file_def)
    next
      case False
      then show thesis
        using True None fresh by (intro new) (simp_all add: absorb_file_def)
    qed
  next
    case (Some f)
    then have "p \<in> fst ` set (w_captured w)"
      by (auto dest!: find_Some_mem)
    then show thesis
      using True Some by (intro overwrite) (simp_all add: absorb_file_def Let_def)
  qed
qed

lemma absorb_file_ok: "captured_ok w \<Longrightarrow> captured_ok (absorb_file e w)"
proof -
  assume ok: "captured_ok w"
  obtain p b where e: "e = (p, b)"
    by (cases e)
  show ?thesis
    unfolding e
  proof (cases p b w rule: absorb_file_cases)
    case overwrite
    have "map fst (update_first (\<lambda>f. fst f = p) (\<lambda>f. (fst f, b)) (w_captured w)) = map fst (w_captured w)"
      by (rule map_update_first) simp
    then show "captured_ok (absorb_file (p, b) w)"
      using ok overwrite(2,3) set_update_first_subset[of "\<lambda>f. fst f = p" "\<lambda>f. (fst f, b)" "w_captured w"]
      unfolding overwrite(4) by (fastforce simp: captured_ok_def)
  qed (use ok in \<open>auto simp: captured_ok_def\<close>)
qed

lemma absorb_captured_ok: "captured_ok w \<Longrightarrow> captured_ok (absorb_captured m w)"
  unfolding absorb_captured_def by (induction m arbitrary: w) (auto intro: absorb_file_ok)

lemma absorb_file_complete:
  assumes "w_checkpoint_complete (absorb_file (p, b) w)"
  shows "w_checkpoint_complete w \<and> map_of (w_captured (absorb_file (p, b) w)) = (map_of (w_captured w))(p \<mapsto> b)"
  using assms
  by (cases p b w rule: absorb_file_cases) (simp_all add: map_of_update_first map_of_append_fresh del: map_of_append)

lemma absorb_captured_complete:
  "w_checkpoint_complete (absorb_captured m w) \<Longrightarrow>
     w_checkpoint_complete w \<and> map_of (w_captured (absorb_captured m w)) = map_of (w_captured w) ++ map_of (rev m)"
proof (induction m arbitrary: w)
  case (Cons e m)
  obtain p b where e: "e = (p, b)"
    by (cases e)
  have ih: "w_checkpoint_complete (absorb_file e w)"
    "map_of (w_captured (absorb_captured (e # m) w)) = map_of (w_captured (absorb_file e w)) ++ map_of (rev m)"
    using Cons.IH[of "absorb_file e w"] Cons.prems by (simp_all add: absorb_captured_def)
  then show ?case
    using absorb_file_complete[of p b w] e by (auto simp: fun_eq_iff map_add_def split: option.splits)
qed (simp add: absorb_captured_def)

lemma absorb_keeps [simp]:
  "w_steps (absorb_captured m w) = w_steps w" "w_state (absorb_captured m w) = w_state w"
  "w_replan_attempts (absorb_captured m w) = w_replan_attempts w"
proof -
  have "w_steps (absorb_file e w) = w_steps w \<and> w_state (absorb_file e w) = w_state w
      \<and> w_replan_attempts (absorb_file e w) = w_replan_attempts w" for e w
    by (cases e) (auto simp: absorb_file_def Let_def split: option.splits)
  then have "w_steps (absorb_captured m w) = w_steps w \<and> w_state (absorb_captured m w) = w_state w
      \<and> w_replan_attempts (absorb_captured m w) = w_replan_attempts w"
    unfolding absorb_captured_def by (induction m arbitrary: w) auto
  then show "w_steps (absorb_captured m w) = w_steps w" "w_state (absorb_captured m w) = w_state w"
    "w_replan_attempts (absorb_captured m w) = w_replan_attempts w"
    by blast+
qed

section \<open>The trailing gate\<close>

lemma trailing_gate_idem: "with_trailing_quality_gate (with_trailing_quality_gate w) = with_trailing_quality_gate w"
  by (auto simp: with_trailing_quality_gate_def quality_gate_step_def)

lemma trailing_gate_dag:
  assumes "wf_dag (w_steps w)" "quality_gate_id \<notin> s_id ` set (w_steps w)"
  shows "wf_dag (w_steps (with_trailing_quality_gate w))"
proof (cases "list_ex (\<lambda>s. s_kind s = QualityGate) (w_steps w) \<or> w_steps w = []")
  case False
  let ?g = "quality_gate_step (map s_id (w_steps w))"
  have deps: "\<forall>s\<in>set (w_steps w). set (step_deps s) \<subseteq> s_id ` set (w_steps w)"
    using assms by (simp add: wf_dag_def)
  have g: "s_id ?g = quality_gate_id" "step_deps ?g = map s_id (w_steps w)"
    by (simp_all add: quality_gate_step_def step_deps_def)
  have sub: "dep_edges (step_tasks (w_steps w @ [?g]))
      \<subseteq> dep_edges (step_tasks (w_steps w)) \<union> {} \<union> {quality_gate_id} \<times> s_id ` set (w_steps w)"
  proof
    fix e assume "e \<in> dep_edges (step_tasks (w_steps w @ [?g]))"
    then obtain s d where e: "e = (s_id s, d)" "s \<in> set (w_steps w @ [?g])" "d \<in> set (step_deps s)"
      unfolding dep_edges_steps by blast
    then consider "s \<in> set (w_steps w)" | "s = ?g"
      by auto
    then show "e \<in> dep_edges (step_tasks (w_steps w)) \<union> {} \<union> {quality_gate_id} \<times> s_id ` set (w_steps w)"
    proof cases
      case 1
      then show ?thesis using e deps unfolding dep_edges_steps by blast
    next
      case 2
      then show ?thesis using e g by auto
    qed
  qed
  have "(x, x) \<notin> (dep_edges (step_tasks (w_steps w @ [?g])))\<^sup>+" for x
  proof (rule acyclic_glue[OF sub])
    show "dep_edges (step_tasks (w_steps w)) \<subseteq> s_id ` set (w_steps w) \<times> s_id ` set (w_steps w)"
      unfolding dep_edges_steps by blast
  qed (use assms in \<open>auto simp: wf_dag_def dep_cyclic_def\<close>)
  then have "\<not> dep_cyclic (step_tasks (w_steps w @ [?g]))"
    by (simp add: dep_cyclic_def)
  moreover have "set (step_deps s) \<subseteq> s_id ` set (w_steps w @ [?g])" if "s \<in> set (w_steps w @ [?g])" for s
    using that deps g by auto
  moreover have "distinct (map s_id (w_steps w @ [?g]))"
    using assms g by (auto simp: wf_dag_def)
  ultimately show ?thesis
    using False by (simp add: with_trailing_quality_gate_def wf_dag_def)
qed (use assms in \<open>auto simp: with_trailing_quality_gate_def\<close>)

section \<open>The life cycle\<close>

definition request_all :: "(workflow_state \<times> string) list \<Rightarrow> workflow_run \<Rightarrow> workflow_run" where
  "request_all rs w = fold (\<lambda>(st, now) w. snd (transition w st now)) rs w"

lemma can_transition_iff:
  "can_transition a b \<longleftrightarrow> (a, b) \<in> {(WfCreated, WfRunning), (WfCreated, WfCancelled), (WfRunning, WfPaused),
     (WfRunning, WfCompleted), (WfRunning, WfCancelled), (WfRunning, WfFailed), (WfPaused, WfRunning),
     (WfPaused, WfCancelled)}"
  by (cases a; cases b; simp)

lemma terminal_absorbs: "is_terminal (w_state w) \<Longrightarrow> transition w st now = (False, w)"
  by (auto simp: transition_def is_terminal_def)

lemma request_all_terminal: "is_terminal (w_state w) \<Longrightarrow> request_all rs w = w"
  by (induction rs) (auto simp: request_all_def terminal_absorbs)

section \<open>Properties\<close>

text \<open>A document for the examples.\<close>

definition ex_run :: "workflow_step list \<Rightarrow> workflow_run" where
  "ex_run steps = (from_tasks ''p'' ''g'' ''run'' [] ''t0'')\<lparr>w_steps := steps\<rparr>"

definition ex_step :: "string \<Rightarrow> string list \<Rightarrow> step_state \<Rightarrow> workflow_step" where
  "ex_step i ds st = (from_task (ex_task i [] ds))\<lparr>s_state := st\<rparr>"

lemma distinct_ids_eq:
  "distinct (map s_id xs) \<Longrightarrow> u \<in> set xs \<Longrightarrow> v \<in> set xs \<Longrightarrow> s_id u = s_id v \<Longrightarrow> u = v"
  by (simp add: distinct_map inj_on_def)

text \<open>C9: a replan that fits the document gives a well-formed document again (distinct ids, no dangling
  dependency, no cycle). It removes exactly the failed step and its transitive dependents, keeps every
  other step as it was, and appends the new tasks as pending steps under the prefix of the round.\<close>

theorem splice_replan_sound:
  assumes "replan_fits w f ts"
  shows "wf_dag (w_steps (snd (splice_replan f ts now w)))
    \<and> (\<exists>new. w_steps (snd (splice_replan f ts now w)) =
          filter (\<lambda>s. s_id s \<notin> (dependents (w_steps w))\<^sup>* `` {f}) (w_steps w) @ new
        \<and> map s_id new = map (\<lambda>t. replan_prefix (w_replan_attempts w + 1) @ t_id t) ts
        \<and> (\<forall>s\<in>set new. s_state s = StPending \<and> s_kind s = AgentTask))
    \<and> fst (splice_replan f ts now w) = length (filter (\<lambda>s. s_id s \<in> (dependents (w_steps w))\<^sup>* `` {f}) (w_steps w))
    \<and> w_replan_attempts (snd (splice_replan f ts now w)) = w_replan_attempts w + 1"
proof -
  have "map s_id (new_steps w f ts) = map (\<lambda>t. replan_prefix (w_replan_attempts w + 1) @ t_id t) ts"
    unfolding new_ids by simp
  moreover have "\<forall>s\<in>set (new_steps w f ts). s_state s = StPending \<and> s_kind s = AgentTask"
    by (simp add: from_task_def)
  ultimately show ?thesis
    using spliced_dag[OF assms] splice_counts splice_steps unfolding doomed_steps_def by auto
qed

theorem splice_replan_sound_witness:
  "let w = ex_run [ex_step ''a'' [] StPassed, ex_step ''b'' [''a''] StFailed, ex_step ''c'' [''b''] StPending]
   in replan_fits w ''b'' [ex_task ''b'' [] [''a''], ex_task ''x'' [] [''b'', ''c'']]
      \<and> wf_dag (w_steps (snd (splice_replan ''b'' [ex_task ''b'' [] [''a''], ex_task ''x'' [] [''b'', ''c'']] ''t1'' w)))
      \<and> map s_id (w_steps (snd (splice_replan ''b'' [ex_task ''b'' [] [''a''], ex_task ''x'' [] [''b'', ''c'']] ''t1'' w)))
          = [''a'', ''r1-b'', ''r1-x'']"
proof -
  let ?w = "ex_run [ex_step ''a'' [] StPassed, ex_step ''b'' [''a''] StFailed, ex_step ''c'' [''b''] StPending]"
  let ?ts = "[ex_task ''b'' [] [''a''], ex_task ''x'' [] [''b'', ''c'']]"
  have f: "replan_fits ?w ''b'' ?ts"
    by code_simp
  have m: "map s_id (w_steps (snd (splice_replan ''b'' ?ts ''t1'' ?w))) = [''a'', ''r1-b'', ''r1-x'']"
    by code_simp
  show ?thesis
    unfolding Let_def using f m splice_replan_sound[OF f] by blast
qed

text \<open>C10: a well-formed document never gets stuck on its own: when every step that is not pending has
  passed and some step is pending, some step is ready.\<close>

theorem workflow_progress:
  assumes "wf_dag (w_steps w)" "has_pending w"
    "\<forall>s\<in>set (w_steps w). s_state s = StPending \<or> s_state s = StPassed"
  shows "ready_steps w \<noteq> []"
  using assms by (rule wf_dag_progress)

theorem workflow_progress_witness:
  "ready_steps (ex_run [ex_step ''c'' [''b'', ''a''] StPending, ex_step ''a'' [] StPassed, ex_step ''b'' [''a''] StPending]) \<noteq> []"
  by (rule workflow_progress) (code_simp+)

text \<open>A skipped dependency blocks its dependents for good: it counts as done for the whole run but
  not for readiness, so a well-formed document can have pending steps of which none is ready.\<close>

theorem skipped_dependency_blocks:
  assumes "distinct (map s_id (w_steps w))" "s \<in> set (w_steps w)" "u \<in> set (w_steps w)"
    "s_state u = StSkipped" "s_id u \<in> set (step_deps s)"
  shows "s \<notin> set (ready_steps w)"
proof
  assume "s \<in> set (ready_steps w)"
  then have "s_id u \<in> set (completed_ids w)"
    using assms(5) by (auto simp: ready_steps_def is_ready_def list_all_iff step_deps_def)
  then obtain v where "v \<in> set (w_steps w)" "s_state v = StPassed" "s_id v = s_id u"
    by (auto simp: completed_ids_def)
  then show False
    using assms(4) distinct_ids_eq[OF assms(1) _ assms(3), of v] by simp
qed

theorem skipped_dependency_blocks_witness:
  "let w = ex_run [ex_step ''a'' [] StSkipped, ex_step ''b'' [''a''] StPending]
   in wf_dag (w_steps w) \<and> has_pending w \<and> ex_step ''b'' [''a''] StPending \<notin> set (ready_steps w)"
proof -
  let ?w = "ex_run [ex_step ''a'' [] StSkipped, ex_step ''b'' [''a''] StPending]"
  have "ex_step ''b'' [''a''] StPending \<notin> set (ready_steps ?w)"
    by (rule skipped_dependency_blocks[where u = "ex_step ''a'' [] StSkipped"])
      (simp_all add: ex_run_def ex_step_def from_task_def ex_task_def step_deps_def)
  moreover have "wf_dag (w_steps ?w)" "has_pending ?w"
    by code_simp+
  ultimately show ?thesis by simp
qed

text \<open>C11: a checkpoint that is still marked complete is exact: every path written in the round has
  the content of its last write, and every other path keeps the content it had. Its paths are
  distinct and each content is valid UTF-8 within the per-file bound.\<close>

theorem checkpoint_exact:
  assumes "w_checkpoint_complete (absorb_captured m w)" "captured_ok w"
  shows "map_of (w_captured (absorb_captured m w)) = map_of (w_captured w) ++ map_of (rev m)
    \<and> w_checkpoint_complete w \<and> captured_ok (absorb_captured m w)"
  using absorb_captured_complete[OF assms(1)] absorb_captured_ok[OF assms(2)] by blast

theorem checkpoint_exact_witness:
  "map_of (w_captured (absorb_captured [(''a'', ''1''), (''b'', ''2''), (''a'', ''3'')] (ex_run []))) ''a'' = Some ''3''"
proof -
  have c: "w_checkpoint_complete (absorb_captured [(''a'', ''1''), (''b'', ''2''), (''a'', ''3'')] (ex_run []))"
    "captured_ok (ex_run [])"
    by (simp_all add: absorb_captured_def absorb_file_def ex_run_def from_tasks_def utf8_valid_ascii
        MAX_CHECKPOINT_FILE_BYTES_def MAX_CHECKPOINT_TOTAL_BYTES_def total_bytes_def captured_ok_def)
  show ?thesis
    using checkpoint_exact[OF c] by simp
qed

text \<open>The total cap of the checkpoint does not hold across overwrites: an overwrite is checked
  against the per-file cap only, so a checkpoint within the total cap can exceed it after one round
  and still be marked complete.\<close>

theorem checkpoint_cap_overshoot:
  "\<exists>w m. captured_ok w \<and> total_bytes (w_captured w) \<le> MAX_CHECKPOINT_TOTAL_BYTES
     \<and> w_checkpoint_complete (absorb_captured m w)
     \<and> MAX_CHECKPOINT_TOTAL_BYTES < total_bytes (w_captured (absorb_captured m w))"
proof -
  define big where "big = replicate MAX_CHECKPOINT_FILE_BYTES (CHR ''x'')"
  define fs where "fs = map (\<lambda>n. ([n], big)) ''abcdefgh'' @ [(''i'', [])]"
  define w where "w = (ex_run [])\<lparr>w_captured := fs\<rparr>"
  have big: "utf8_valid big" "length big = MAX_CHECKPOINT_FILE_BYTES"
    by (simp_all add: big_def utf8_valid_replicate)
  have keys: "map fst fs = [''a'', ''b'', ''c'', ''d'', ''e'', ''f'', ''g'', ''h'', ''i'']"
    by (simp add: fs_def)
  have ok: "captured_ok w"
    using big keys by (auto simp: captured_ok_def w_def fs_def utf8_valid_ascii)
  have total: "total_bytes (w_captured w) = 8 * MAX_CHECKPOINT_FILE_BYTES"
    using big(2) by (simp add: w_def fs_def total_bytes_def)
  have "absorb_captured [(''i'', big)] w = w\<lparr>w_captured := map (\<lambda>n. ([n], big)) ''abcdefgh'' @ [(''i'', big)]\<rparr>"
    using big by (simp add: absorb_captured_def absorb_file_def w_def fs_def)
  then have "w_checkpoint_complete (absorb_captured [(''i'', big)] w)"
    "total_bytes (w_captured (absorb_captured [(''i'', big)] w)) = 9 * MAX_CHECKPOINT_FILE_BYTES"
    using big(2) by (simp_all add: w_def ex_run_def from_tasks_def total_bytes_def)
  then show ?thesis
    using ok total by (intro exI[of _ w] exI[of _ "[(''i'', big)]"])
      (simp add: MAX_CHECKPOINT_FILE_BYTES_def MAX_CHECKPOINT_TOTAL_BYTES_def)
qed

text \<open>C13: the trailing quality gate keeps the document well-formed, waits for every other step, and
  adding it twice adds it once.\<close>

theorem trailing_gate_sound:
  assumes "wf_dag (w_steps w)" "quality_gate_id \<notin> s_id ` set (w_steps w)"
  shows "wf_dag (w_steps (with_trailing_quality_gate w))
    \<and> with_trailing_quality_gate (with_trailing_quality_gate w) = with_trailing_quality_gate w
    \<and> (\<forall>g\<in>set (ready_steps (with_trailing_quality_gate w)). s_id g = quality_gate_id
         \<longrightarrow> (\<forall>s\<in>set (w_steps w). s_state s = StPassed))"
proof -
  have "s_state s = StPassed"
    if g: "g \<in> set (ready_steps (with_trailing_quality_gate w))" "s_id g = quality_gate_id" and s: "s \<in> set (w_steps w)" for g s
  proof -
    have g_eq: "w_steps (with_trailing_quality_gate w) = w_steps w @ [quality_gate_step (map s_id (w_steps w))]
        \<and> g = quality_gate_step (map s_id (w_steps w))"
      using g assms(2) imageI[of g "set (w_steps w)" s_id]
      by (auto simp: ready_steps_def with_trailing_quality_gate_def split: if_splits)
    have "is_ready (completed_ids (with_trailing_quality_gate w)) g"
      using g(1) by (simp add: ready_steps_def)
    then have "s_id s \<in> set (completed_ids (with_trailing_quality_gate w))"
      unfolding g_eq[THEN conjunct2] using s by (simp add: is_ready_def list_all_iff quality_gate_step_def)
    then obtain u where "u \<in> set (w_steps w)" "s_state u = StPassed" "s_id u = s_id s"
      using g_eq by (auto simp: completed_ids_def quality_gate_step_def)
    then show ?thesis
      using assms(1) s distinct_ids_eq[of "w_steps w" u s] by (simp add: wf_dag_def)
  qed
  then show ?thesis
    using trailing_gate_dag[OF assms] trailing_gate_idem by blast
qed

theorem trailing_gate_sound_witness:
  "wf_dag (w_steps (with_trailing_quality_gate (ex_run [ex_step ''a'' [] StPending, ex_step ''b'' [''a''] StPending])))"
proof -
  let ?w = "ex_run [ex_step ''a'' [] StPending, ex_step ''b'' [''a''] StPending]"
  have "wf_dag (w_steps ?w)" "quality_gate_id \<notin> s_id ` set (w_steps ?w)"
    by code_simp+
  then show ?thesis
    using trailing_gate_sound by blast
qed

text \<open>C12: the life cycle of a run is enforced: whatever sequence of transitions is requested, a run in
  a terminal state never changes again, a run never returns to the created state, and a run that
  completes or fails was running before.\<close>

theorem lifecycle_enforced:
  "(is_terminal (w_state w) \<longrightarrow> request_all rs w = w)
   \<and> (w_state (request_all rs w) = WfCreated \<longrightarrow> request_all rs w = w)
   \<and> (w_state (snd (transition w st now)) \<in> {WfCompleted, WfFailed} \<longrightarrow>
        w_state w = WfRunning \<or> snd (transition w st now) = w)"
proof -
  have "w_state (request_all rs w) = WfCreated \<longrightarrow> request_all rs w = w"
  proof (induction rs rule: rev_induct)
    case (snoc r rs)
    obtain st now where r: "r = (st, now)"
      by (cases r)
    have "request_all (rs @ [r]) w = snd (transition (request_all rs w) st now)"
      by (simp add: request_all_def r)
    then show ?case
      using snoc by (auto simp: transition_def can_transition_iff)
  qed (simp add: request_all_def)
  then show ?thesis
    by (auto simp: request_all_terminal transition_def can_transition_iff)
qed

theorem lifecycle_enforced_witness:
  "w_state (request_all [(WfRunning, ''t1''), (WfCompleted, ''t2'')] (ex_run [])) = WfCompleted
   \<and> request_all [(WfRunning, ''t3'')] (request_all [(WfRunning, ''t1''), (WfCompleted, ''t2'')] (ex_run []))
       = request_all [(WfRunning, ''t1''), (WfCompleted, ''t2'')] (ex_run [])"
proof -
  let ?w = "request_all [(WfRunning, ''t1''), (WfCompleted, ''t2'')] (ex_run [])"
  have "w_state ?w = WfCompleted"
    by code_simp
  then show ?thesis
    using lifecycle_enforced[of ?w "[(WfRunning, ''t3'')]"] by (simp add: is_terminal_def)
qed

end
