(* ===== verification/EditParser.thy ===== *)
theory EditParser
  imports RustStr
begin

text \<open>
  The parser of the action blocks in a model's response (\<open>crates/edit-parser/src/lib.rs\<close>). The
  scanning position of the source is the rest of the response here; all its slices are cut at ASCII
  markers, except the one between the two markers of an edit, which panics when they are in the wrong
  order.
\<close>

section \<open>Data\<close>

datatype file_edit = Edit string string string | Create string string | Delete string

fun edit_path :: "file_edit \<Rightarrow> string" where
  "edit_path (Edit p _ _) = p"
| "edit_path (Create p _) = p"
| "edit_path (Delete p) = p"

record tool_call =
  tc_name :: string
  tc_params_json :: string

datatype agent_action = ActTool tool_call | ActEdit file_edit | ActAgent string "string list" string | ActDone string

section \<open>One block\<close>

definition block_header :: "string \<Rightarrow> string" where
  "block_header block = trim (case str_find [NL] block of Some i \<Rightarrow> take i block | None \<Rightarrow> block)"

definition block_body :: "string \<Rightarrow> string" where
  "block_body block = (case str_find [NL] block of Some i \<Rightarrow> drop (Suc i) block | None \<Rightarrow> [])"

definition parse_edit_block :: "string \<Rightarrow> string \<Rightarrow> file_edit outcome" where
  "parse_edit_block path body =
     (case str_find ''--- OLD'' body of
        None \<Rightarrow> Err (''EDIT block for '' @ path @ '' missing --- OLD marker'')
      | Some old_start \<Rightarrow>
          (case str_find ''--- NEW'' body of
             None \<Rightarrow> Err (''EDIT block for '' @ path @ '' missing --- NEW marker'')
           | Some new_start \<Rightarrow>
               obind (str_slice body (old_start + 7) new_start) (\<lambda>old.
               Ok (Edit path (trim old) (trim (drop (new_start + 7) body))))))"

definition parse_single_block :: "string \<Rightarrow> file_edit outcome" where
  "parse_single_block block =
     (let header = block_header block; body = block_body block in
      case strip_prefix ''EDIT '' header of
        Some path \<Rightarrow> parse_edit_block (trim path) body
      | None \<Rightarrow>
          (case strip_prefix ''CREATE '' header of
             Some path \<Rightarrow> Ok (Create (trim path) body)
           | None \<Rightarrow>
               (case strip_prefix ''DELETE '' header of
                  Some path \<Rightarrow> Ok (Delete (trim path))
                | None \<Rightarrow> Err (''Unknown edit block type: '' @ header))))"

section \<open>The edit blocks of a response\<close>

text \<open>\<open>next_block rest\<close> is the text after the next opening marker.\<close>

definition next_block :: "string \<Rightarrow> string option" where
  "next_block rest = map_option (\<lambda>i. drop (i + 3) rest) (str_find ''<<<'' rest)"

lemma next_block_length: "next_block rest = Some b \<Longrightarrow> length b < length rest"
  using str_find_Some[of "''<<<''" rest] by (auto simp: next_block_def)

function parse_edits :: "string \<Rightarrow> file_edit list outcome" where
  "parse_edits rest =
     (case next_block rest of
        None \<Rightarrow> Ok []
      | Some b \<Rightarrow>
          (case str_find ''>>>'' b of
             None \<Rightarrow>
               (let block = trim b in
                if block = [] then Ok []
                else (case parse_single_block block of
                    Ok e \<Rightarrow> Ok [e] | Err _ \<Rightarrow> Ok [] | Panic \<Rightarrow> Panic))
           | Some j \<Rightarrow>
               obind (parse_single_block (trim (take j b))) (\<lambda>e.
               obind (parse_edits (drop (j + 3) b)) (\<lambda>es. Ok (e # es)))))"
  by pat_completeness auto
termination
  by (relation "measure length") (auto dest: next_block_length)

declare parse_edits.simps [simp del]

section \<open>The actions of a response\<close>

text \<open>The two extractors of JSON fields look for the quoted name only.\<close>

definition extract_json_field :: "string \<Rightarrow> string \<Rightarrow> string" where
  "extract_json_field json field =
     (let needle = [DQ] @ field @ [DQ] in
      case str_find needle json of None \<Rightarrow> [] | Some i \<Rightarrow>
        (let after_key = drop (i + length needle) json in
         case str_find '':'' after_key of None \<Rightarrow> [] | Some c \<Rightarrow>
           (case strip_prefix [DQ] (trim_start (drop (c + 1) after_key)) of None \<Rightarrow> [] | Some content \<Rightarrow>
             (case str_find [DQ] content of Some e \<Rightarrow> take e content | None \<Rightarrow> content))))"

definition extract_json_array :: "string \<Rightarrow> string \<Rightarrow> string list" where
  "extract_json_array json field =
     (let needle = [DQ] @ field @ [DQ] in
      case str_find needle json of None \<Rightarrow> [] | Some i \<Rightarrow>
        (let after_key = drop (i + length needle) json in
         case str_find ''['' after_key of None \<Rightarrow> [] | Some b \<Rightarrow>
           (let after_bracket = drop (b + 1) after_key in
            case str_find '']'' after_bracket of None \<Rightarrow> [] | Some e \<Rightarrow>
              filter (\<lambda>s. s \<noteq> [])
                (map (\<lambda>s. trim_matches (\<lambda>c. c = DQ) (trim s)) (split_char CHR '','' (take e after_bracket))))))"

text \<open>The actions one block stands for: one, or none for an unknown block.\<close>

definition block_actions :: "string \<Rightarrow> agent_action list outcome" where
  "block_actions block =
     (let header = block_header block; body = block_body block in
      case strip_prefix ''TOOL '' header of
        Some name \<Rightarrow> Ok [ActTool \<lparr>tc_name = trim name, tc_params_json = trim body\<rparr>]
      | None \<Rightarrow>
          if starts_with header ''EDIT '' \<or> starts_with header ''CREATE '' \<or> starts_with header ''DELETE '' then
            obind (parse_single_block block) (\<lambda>e. Ok [ActEdit e])
          else if header = ''AGENT'' then
            Ok [ActAgent (extract_json_field body ''description'') (extract_json_array body ''files'')
                  (extract_json_field body ''complexity'')]
          else if header = ''DONE'' then Ok [ActDone (trim body)]
          else (case parse_single_block block of
              Ok e \<Rightarrow> Ok [ActEdit e] | Err _ \<Rightarrow> Ok [] | Panic \<Rightarrow> Panic))"

function parse_actions :: "string \<Rightarrow> agent_action list outcome" where
  "parse_actions rest =
     (case next_block rest of
        None \<Rightarrow> Ok []
      | Some b \<Rightarrow>
          (case str_find ''>>>'' b of
             None \<Rightarrow> Ok []
           | Some j \<Rightarrow>
               obind (block_actions (trim (take j b))) (\<lambda>as.
               obind (parse_actions (drop (j + 3) b)) (\<lambda>bs. Ok (as @ bs)))))"
  by pat_completeness auto
termination
  by (relation "measure length") (auto dest: next_block_length)

declare parse_actions.simps [simp del]

end
