(* ===== verification/AgentTypes.thy ===== *)
theory AgentTypes
  imports EditParser InferTypes
begin

text \<open>
  Records an agent run produces: \<open>AgentResult\<close> (\<open>crates/agent-core/src/agent.rs\<close>) and the two
  records of \<open>crates/knowledge-base/src/schema.rs\<close> it carries or updates.
\<close>

record tool_call_record =
  tcr_tool :: string
  tcr_params_preview :: string
  tcr_result_preview :: string
  tcr_is_error :: bool
  tcr_duration_ms :: nat

record attempt_record =
  at_attempt :: nat
  at_model :: string
  at_prompt_preview :: string
  at_response_preview :: string
  at_tokens_input :: nat
  at_tokens_output :: nat
  at_duration_ms :: nat
  at_quality_passed :: "bool option"
  at_error :: "string option"
  at_timestamp :: string

record agent_result =
  ar_edits :: "file_edit list"
  ar_inference_response :: inference_response
  ar_applied :: bool
  ar_skipped :: bool
  ar_run_id :: "string option"
  ar_attempt :: nat
  ar_escalated_from :: "string option"
  ar_tool_calls :: "tool_call_record list"

end
