(* ===== verification/WfEngine.thy ===== *)
theory WfEngine
  imports WfFacts AgentTypes
begin

text \<open>
  The workflow engine (\<open>crates/workflow/src/engine.rs\<close>, with \<open>RunControl\<close> of
  \<open>crates/orchestrator/src/runner.rs\<close>). What the engine calls is a record of operations on a world
  \<open>'w\<close>: the document store, the planner's model, the runner, the build command, the file system, the
  clock, the event publisher, and the control flag as the engine finds it when it reads it (other
  tasks may have stored any request since). One turn of the loop is \<open>engine_turn\<close>; \<open>engine_loop\<close>
  repeats it with fuel.
\<close>

section \<open>The control flag\<close>

datatype control_state = Continue | Pause | Cancel

definition CONTROL_CONTINUE :: nat where "CONTROL_CONTINUE = 0"
definition CONTROL_PAUSE :: nat where "CONTROL_PAUSE = 1"
definition CONTROL_CANCEL :: nat where "CONTROL_CANCEL = 2"

record run_control =
  rc_state :: nat

definition request_pause :: "run_control \<Rightarrow> run_control" where
  "request_pause c = c\<lparr>rc_state := CONTROL_PAUSE\<rparr>"

definition request_cancel :: "run_control \<Rightarrow> run_control" where
  "request_cancel c = c\<lparr>rc_state := CONTROL_CANCEL\<rparr>"

definition control_resume :: "run_control \<Rightarrow> run_control" where
  "control_resume c = c\<lparr>rc_state := CONTROL_CONTINUE\<rparr>"

definition control_read :: "run_control \<Rightarrow> control_state" where
  "control_read c = (if rc_state c = CONTROL_PAUSE then Pause
     else if rc_state c = CONTROL_CANCEL then Cancel else Continue)"

section \<open>Results of a round\<close>

record phase_timings =
  pt_rag_ms :: nat
  pt_planning_ms :: nat
  pt_agent_execution_ms :: nat
  pt_quality_gate_ms :: nat
  pt_total_ms :: nat

definition default_timings :: phase_timings where
  "default_timings = \<lparr>pt_rag_ms = 0, pt_planning_ms = 0, pt_agent_execution_ms = 0, pt_quality_gate_ms = 0,
     pt_total_ms = 0\<rparr>"

record task_result =
  tr_task :: sub_task
  tr_agent_result :: "agent_result option"
  tr_error :: "string option"

record swarm_result =
  sr_goal :: string
  sr_tasks :: "sub_task list"
  sr_results :: "task_result list"
  sr_merged_diff :: "string option"
  sr_quality_passed :: bool
  sr_total_duration_ms :: nat
  sr_modified_files :: "(string \<times> string) list"
  sr_phase_timings :: phase_timings
  sr_halted :: bool
  sr_retrieved_pattern_ids :: "string list"

definition empty_result :: "string \<Rightarrow> (string \<times> string) list \<Rightarrow> swarm_result" where
  "empty_result goal files = \<lparr>sr_goal = goal, sr_tasks = [], sr_results = [], sr_merged_diff = None,
     sr_quality_passed = True, sr_total_duration_ms = 0, sr_modified_files = files, sr_phase_timings = default_timings, sr_halted = False,
     sr_retrieved_pattern_ids = []\<rparr>"

datatype engine_outcome =
  OutCompleted swarm_result | OutFailed "swarm_result option" string | OutPaused | OutCancelled

datatype engine_event =
  WorkflowStateChanged string string string workflow_state
| WorkflowStepDone string string string string bool
| WorkflowReplanned string string string string nat nat

section \<open>What the engine calls\<close>

datatype command_result = Exited bool string | CouldNotRun string

record 'w engine_ops =
  op_update :: "workflow_run \<Rightarrow> 'w \<Rightarrow> unit outcome \<times> 'w"
  op_publish :: "engine_event \<Rightarrow> 'w \<Rightarrow> 'w"
  op_control :: "'w \<Rightarrow> control_state \<times> 'w"
  op_resume_control :: "'w \<Rightarrow> 'w"
  op_drop_control :: "'w \<Rightarrow> 'w"
  op_exists :: "string \<Rightarrow> 'w \<Rightarrow> bool"
  op_command :: "string \<Rightarrow> string list \<Rightarrow> 'w \<Rightarrow> command_result \<times> 'w"
  op_chat :: "string \<Rightarrow> 'w \<Rightarrow> string outcome \<times> 'w"
  op_run_planned :: "string \<Rightarrow> sub_task list \<Rightarrow> 'w \<Rightarrow> swarm_result outcome \<times> 'w"
  op_now :: "'w \<Rightarrow> string"
  op_from_json :: "string \<Rightarrow> sub_task list option"
  op_repo_files :: "string list"

section \<open>The build check of a quality gate\<close>

definition QG_CODE_EXTENSIONS :: "string list" where
  "QG_CODE_EXTENSIONS = [''rs'', ''ts'', ''js'', ''go'', ''py'']"

definition has_code :: "string list \<Rightarrow> bool" where
  "has_code changed \<longleftrightarrow> list_ex (\<lambda>f. list_ex (\<lambda>e. ends_with f (''.'' @ e)) QG_CODE_EXTENSIONS) changed"

text \<open>The shared target directory is created and passed in the environment of \<open>cargo\<close>; neither changes
  the result here. The last five lines of the error output are reported in reverse.\<close>

definition check_report :: "string \<Rightarrow> command_result \<Rightarrow> unit outcome" where
  "check_report program r = (case r of
     Exited True _ \<Rightarrow> Ok ()
   | Exited False stderr \<Rightarrow>
       Err (program @ '' check failed: '' @ str_join '' | '' (take 5 (rev (str_lines stderr))))
   | CouldNotRun e \<Rightarrow> Err (program @ '' check could not run: '' @ e))"

definition run_quality_check :: "'w engine_ops \<Rightarrow> string list \<Rightarrow> 'w \<Rightarrow> unit outcome \<times> 'w" where
  "run_quality_check ops changed w =
     (if \<not> has_code changed then (Ok (), w)
      else if op_exists ops ''Cargo.toml'' w then
        apfst (check_report ''cargo'') (op_command ops ''cargo'' [''check'', ''--quiet''] w)
      else if op_exists ops ''package.json'' w then
        apfst (check_report ''pnpm'') (op_command ops ''pnpm'' [''check''] w)
      else (Ok (), w))"

section \<open>Conditions and step results\<close>

definition show_condition :: "condition \<Rightarrow> string" where
  "show_condition c = (case c of
     FileExists p \<Rightarrow> ''FileExists { path: '' @ show_debug_str p @ '' }''
   | FilesChanged ps \<Rightarrow> ''FilesChanged { paths: '' @ show_debug_list ps @ '' }'')"

definition precondition_holds :: "(string \<Rightarrow> bool) \<Rightarrow> condition \<Rightarrow> bool" where
  "precondition_holds file_exists c = (case c of FileExists p \<Rightarrow> file_exists p | FilesChanged _ \<Rightarrow> True)"

definition check_precondition_step :: "(string \<Rightarrow> bool) \<Rightarrow> workflow_step \<Rightarrow> workflow_step" where
  "check_precondition_step file_exists s =
     (if s_state s \<noteq> StPending \<or> s_preconditions s = [] then s
      else (case List.find (\<lambda>c. \<not> precondition_holds file_exists c) (s_preconditions s) of
          None \<Rightarrow> s
        | Some c \<Rightarrow> s\<lparr>s_state := StFailed, s_error := Some (''Precondition unmet: '' @ show_condition c)\<rparr>))"

definition check_preconditions :: "(string \<Rightarrow> bool) \<Rightarrow> workflow_run \<Rightarrow> workflow_run" where
  "check_preconditions file_exists w = w\<lparr>w_steps := map (check_precondition_step file_exists) (w_steps w)\<rparr>"

definition effect_holds :: "string list \<Rightarrow> condition \<Rightarrow> bool" where
  "effect_holds changed c = (case c of
     FileExists p \<Rightarrow> p \<in> set changed
   | FilesChanged ps \<Rightarrow> list_ex (\<lambda>p. p \<in> set changed) ps)"

definition check_effect_step :: "string list \<Rightarrow> workflow_step \<Rightarrow> workflow_step" where
  "check_effect_step changed s =
     (if s_state s \<noteq> StPassed \<or> s_effects s = [] then s
      else (case List.find (\<lambda>c. \<not> effect_holds changed c) (s_effects s) of
          None \<Rightarrow> s
        | Some c \<Rightarrow> s\<lparr>s_state := StFailed, s_error := Some (''Effect unmet: '' @ show_condition c)\<rparr>))"

definition check_effects :: "swarm_result \<Rightarrow> workflow_run \<Rightarrow> workflow_run" where
  "check_effects round w =
     w\<lparr>w_steps := map (check_effect_step (map fst (sr_modified_files round))) (w_steps w)\<rparr>"

definition absorb_result :: "task_result \<Rightarrow> workflow_step \<Rightarrow> workflow_step" where
  "absorb_result r s =
     (let s = s\<lparr>s_attempts := s_attempts s + 1\<rparr> in
      case (tr_agent_result r, tr_error r) of
        (Some ar, err) \<Rightarrow>
          (if ar_applied ar then s\<lparr>s_state := StPassed, s_error := None, s_agent_run_id := ar_run_id ar\<rparr>
           else (case err of
               None \<Rightarrow> s\<lparr>s_state := StSkipped\<rparr>
             | Some e \<Rightarrow> s\<lparr>s_state := StFailed, s_error := Some e\<rparr>))
      | (None, Some e) \<Rightarrow> s\<lparr>s_state := StFailed, s_error := Some e\<rparr>
      | (None, None) \<Rightarrow> s)"

definition absorb_round :: "swarm_result \<Rightarrow> workflow_run \<Rightarrow> workflow_run" where
  "absorb_round round w =
     w\<lparr>w_steps := fold (\<lambda>r. update_first (\<lambda>s. s_id s = t_id (tr_task r)) (absorb_result r))
                    (sr_results round) (w_steps w)\<rparr>"

definition merge_results :: "swarm_result option \<Rightarrow> swarm_result \<Rightarrow> swarm_result" where
  "merge_results acc_opt round = (case acc_opt of
     None \<Rightarrow> round
   | Some acc \<Rightarrow> acc\<lparr>
       sr_results := sr_results acc @ sr_results round,
       sr_tasks := sr_tasks acc @ sr_tasks round,
       sr_modified_files := sr_modified_files acc @ sr_modified_files round,
       sr_merged_diff := (case sr_merged_diff round of
          None \<Rightarrow> sr_merged_diff acc
        | Some d \<Rightarrow> (case sr_merged_diff acc of
             Some existing \<Rightarrow> Some (existing @ [NL] @ d)
           | None \<Rightarrow> Some d)),
       sr_quality_passed := sr_quality_passed round,
       sr_total_duration_ms := sr_total_duration_ms acc + sr_total_duration_ms round,
       sr_halted := sr_halted round,
       sr_retrieved_pattern_ids := sr_retrieved_pattern_ids acc @ sr_retrieved_pattern_ids round\<rparr>)"

section \<open>One turn of the loop\<close>

text \<open>\<open>Next\<close> is \<open>continue\<close>, \<open>Stop\<close> is \<open>break\<close>, \<open>Abort\<close> the early return of a failed call, \<open>Crash\<close> a panic.\<close>

datatype 'w turn =
  Next workflow_run "swarm_result option" 'w
| Stop engine_outcome workflow_run 'w
| Abort string workflow_run 'w
| Crash workflow_run 'w

definition saved :: "'w engine_ops \<Rightarrow> workflow_run \<Rightarrow> 'w \<Rightarrow> ('w \<Rightarrow> 'w turn) \<Rightarrow> 'w turn" where
  "saved ops doc w k = (case op_update ops doc w of
     (Ok _, w') \<Rightarrow> k w' | (Err e, w') \<Rightarrow> Abort e doc w' | (Panic, w') \<Rightarrow> Crash doc w')"

definition workflow_id :: "workflow_run \<Rightarrow> string" where
  "workflow_id doc = (case w_id doc of Some i \<Rightarrow> i | None \<Rightarrow> [])"

definition publish_state :: "'w engine_ops \<Rightarrow> workflow_run \<Rightarrow> 'w \<Rightarrow> 'w" where
  "publish_state ops doc w =
     op_publish ops (WorkflowStateChanged (w_project doc) (workflow_id doc) (w_run_id doc) (w_state doc)) w"

definition publish_step :: "'w engine_ops \<Rightarrow> workflow_run \<Rightarrow> string \<Rightarrow> bool \<Rightarrow> 'w \<Rightarrow> 'w" where
  "publish_step ops doc i passed w =
     op_publish ops (WorkflowStepDone (w_project doc) (workflow_id doc) (w_run_id doc) i passed) w"

text \<open>The recurring ending: change the state, checkpoint, publish, break.\<close>

definition finish :: "'w engine_ops \<Rightarrow> workflow_state \<Rightarrow> engine_outcome \<Rightarrow> workflow_run \<Rightarrow> 'w \<Rightarrow> 'w turn" where
  "finish ops st out doc w =
     (let doc' = snd (transition doc st (op_now ops w)) in
      saved ops doc' w (\<lambda>w. Stop out doc' (publish_state ops doc' w)))"

definition completed_summary :: "workflow_run \<Rightarrow> string" where
  "completed_summary doc = str_join [NL]
     (map (\<lambda>s. ''- '' @ s_id s @ '': '' @ t_description (s_task s))
        (filter (\<lambda>s. s_state s = StPassed) (w_steps doc)))"

definition error_text :: "string \<Rightarrow> workflow_step \<Rightarrow> string" where
  "error_text dflt s = (case s_error s of Some e \<Rightarrow> e | None \<Rightarrow> dflt)"

definition files_modified :: "swarm_result option \<Rightarrow> string list" where
  "files_modified agg = (case agg of Some a \<Rightarrow> map fst (sr_modified_files a) | None \<Rightarrow> [])"

definition ask_replan ::
  "'w engine_ops \<Rightarrow> workflow_run \<Rightarrow> swarm_result option \<Rightarrow> workflow_step \<Rightarrow> 'w \<Rightarrow> sub_task list outcome \<times> 'w" where
  "ask_replan ops doc agg failed w =
     (let summary = completed_summary doc; desc = t_description (s_task failed);
          err = error_text [] failed; changed = files_modified agg; rf = op_repo_files ops;
          (answer, w') = op_chat ops (replan_user_msg (w_goal doc) summary desc err changed rf) w
      in (replan_goal (op_from_json ops) (\<lambda>_. answer) (w_goal doc) summary desc err changed rf, w'))"

definition replan_turn ::
  "'w engine_ops \<Rightarrow> workflow_run \<Rightarrow> swarm_result option \<Rightarrow> workflow_step \<Rightarrow> 'w \<Rightarrow> 'w turn" where
  "replan_turn ops doc agg failed w =
     (if MAX_REPLAN_ATTEMPTS \<le> w_replan_attempts doc then
        finish ops WfFailed
          (OutFailed agg (''Step '' @ [CHR 0x27] @ s_id failed @ [CHR 0x27] @ '' failed and replan budget (''
             @ show_nat MAX_REPLAN_ATTEMPTS @ '') exhausted: '' @ error_text ''unknown error'' failed)) doc w
      else (case ask_replan ops doc agg failed w of
          (Ok new_tasks, w) \<Rightarrow>
            (if new_tasks \<noteq> [] then
               (let doc' = snd (splice_replan (s_id failed) new_tasks (op_now ops w) doc) in
                saved ops doc' w (\<lambda>w. Next doc' agg
                  (op_publish ops (WorkflowReplanned (w_project doc') (workflow_id doc') (w_run_id doc')
                     (s_id failed) (length new_tasks) (w_replan_attempts doc')) w)))
             else finish ops WfFailed
               (OutFailed agg (''Replan returned no tasks after step '' @ [CHR 0x27] @ s_id failed @ [CHR 0x27] @ '' failed'')) doc w)
        | (Err e, w) \<Rightarrow> finish ops WfFailed (OutFailed agg (''Replan aborted: '' @ e)) doc w
        | (Panic, w) \<Rightarrow> Crash doc w))"

definition gate_turn :: "'w engine_ops \<Rightarrow> workflow_run \<Rightarrow> swarm_result option \<Rightarrow> string \<Rightarrow> 'w \<Rightarrow> 'w turn" where
  "gate_turn ops doc agg i w =
     (case run_quality_check ops (map fst (w_captured doc)) w of
        (Ok _, w) \<Rightarrow>
          (let doc' = mark_step i StPassed None doc in
           saved ops doc' (publish_step ops doc' i True w) (Next doc' agg))
      | (Err e, w) \<Rightarrow>
          (let doc' = mark_step i StFailed (Some e) doc in
           saved ops doc' (publish_step ops doc' i False w) (Next doc' agg))
      | (Panic, w) \<Rightarrow> Crash doc w)"

definition stuck_error :: "workflow_run \<Rightarrow> string" where
  "stuck_error doc = ''Workflow stuck: '' @ show_nat (length (filter (\<lambda>s. s_state s = StPending) (w_steps doc)))
     @ '' pending steps, none ready (dependency cycle?)''"

definition round_turn :: "'w engine_ops \<Rightarrow> workflow_run \<Rightarrow> swarm_result option \<Rightarrow> 'w \<Rightarrow> 'w turn" where
  "round_turn ops doc agg w =
     (let remaining = ready_agent_tasks doc in
      if remaining = [] then finish ops WfFailed (OutFailed agg (stuck_error doc)) doc w
      else (case op_run_planned ops (w_goal doc) remaining w of
          (Ok round, w) \<Rightarrow>
            (let doc' = absorb_captured (sr_modified_files round) (check_effects round (absorb_round round doc)) in
             saved ops doc' w (\<lambda>w. Next doc' (Some (merge_results agg round))
               (fold (\<lambda>r. publish_step ops doc' (t_id (tr_task r)) (tr_error r = None)) (sr_results round) w)))
        | (Err e, w) \<Rightarrow> Abort e doc w
        | (Panic, w) \<Rightarrow> Crash doc w))"

definition engine_turn :: "'w engine_ops \<Rightarrow> workflow_run \<Rightarrow> swarm_result option \<Rightarrow> 'w \<Rightarrow> 'w turn" where
  "engine_turn ops doc agg w =
     (case op_control ops w of
        (Pause, w) \<Rightarrow> finish ops WfPaused OutPaused doc w
      | (Cancel, w) \<Rightarrow> finish ops WfCancelled OutCancelled doc w
      | (Continue, w) \<Rightarrow>
          (let doc = check_preconditions (\<lambda>p. op_exists ops p w) doc in
           case failed_step doc of
             Some failed \<Rightarrow> replan_turn ops doc agg failed w
           | None \<Rightarrow>
               if \<not> has_pending doc then
                 finish ops WfCompleted
                   (OutCompleted (case agg of Some a \<Rightarrow> a | None \<Rightarrow> empty_result (w_goal doc) [])) doc w
               else (case ready_control_step doc of
                   Some (i, HumanApproval) \<Rightarrow> finish ops WfPaused OutPaused doc w
                 | Some (i, QualityGate) \<Rightarrow> gate_turn ops doc agg i w
                 | Some (i, AgentTask) \<Rightarrow> Crash doc w
                 | None \<Rightarrow> round_turn ops doc agg w)))"

section \<open>The loop and the entry point\<close>

fun engine_loop :: "'w engine_ops \<Rightarrow> nat \<Rightarrow> workflow_run \<Rightarrow> swarm_result option \<Rightarrow> 'w \<Rightarrow> 'w turn option" where
  "engine_loop ops 0 doc agg w = None"
| "engine_loop ops (Suc fuel) doc agg w =
     (case engine_turn ops doc agg w of
        Next doc' agg' w' \<Rightarrow> engine_loop ops fuel doc' agg' w'
      | t \<Rightarrow> Some t)"

definition reset_running :: "workflow_run \<Rightarrow> workflow_run" where
  "reset_running doc = doc\<lparr>w_steps := map (\<lambda>s. if s_state s = StRunning then s\<lparr>s_state := StPending\<rparr> else s) (w_steps doc)\<rparr>"

text \<open>Crash residue is reset, then outputs of passed steps are reproduced from a complete checkpoint or
  the passed steps are run again.\<close>

definition seed_resume :: "workflow_run \<Rightarrow> swarm_result option \<times> workflow_run" where
  "seed_resume doc =
     (if list_ex (\<lambda>s. s_state s = StPassed) (w_steps doc) then
        (if w_checkpoint_complete doc then (Some (empty_result (w_goal doc) (w_captured doc)), doc)
         else (None, snd (reset_passed_steps doc)))
      else (None, doc))"

definition enter_running :: "string \<Rightarrow> workflow_run \<Rightarrow> workflow_run" where
  "enter_running now doc =
     (if w_state doc = WfCreated \<or> w_state doc = WfPaused then snd (transition doc WfRunning now) else doc)"

text \<open>The control handle is created on demand and set to continue before the loop; dropping it after any
  outcome but a pause concerns the registry only.\<close>

definition execute :: "'w engine_ops \<Rightarrow> nat \<Rightarrow> workflow_run \<Rightarrow> 'w \<Rightarrow> 'w turn option" where
  "execute ops fuel doc w =
     (let (seed, wf1) = seed_resume (reset_running doc);
          wf2 = enter_running (op_now ops w) wf1
      in case op_update ops wf2 w of
           (Err e, w) \<Rightarrow> Some (Abort e wf2 w)
         | (Panic, w) \<Rightarrow> Some (Crash wf2 w)
         | (Ok _, w) \<Rightarrow>
             (case engine_loop ops fuel wf2 seed (op_resume_control ops (publish_state ops wf2 w)) of
                Some (Stop out doc' w') \<Rightarrow> Some (Stop out doc' (if out = OutPaused then w' else op_drop_control ops w'))
              | t \<Rightarrow> t))"

end
