(* ===== verification/WfEngineFacts.thy ===== *)
theory WfEngineFacts
  imports WfEngine
begin

text \<open>
  What the engine guarantees: its outcome agrees with the state it persisted, a completed run has no
  failed or open step, the replan budget holds, and the loop ends within a fuel computed from the
  document.
\<close>

section \<open>How the steps of a document evolve within a turn\<close>

text \<open>Everything but splicing keeps the identity of every step and moves its state to a decided one or
  not at all.\<close>

definition decided :: "step_state \<Rightarrow> bool" where
  "decided st \<longleftrightarrow> st = StPassed \<or> st = StFailed \<or> st = StSkipped"

definition same_step :: "workflow_step \<Rightarrow> workflow_step \<Rightarrow> bool" where
  "same_step s s' \<longleftrightarrow> s_id s' = s_id s \<and> s_kind s' = s_kind s \<and> s_task s' = s_task s
     \<and> (s_state s' = s_state s \<or> decided (s_state s'))"

definition same_steps :: "workflow_step list \<Rightarrow> workflow_step list \<Rightarrow> bool" where
  "same_steps = list_all2 same_step"

lemma same_step_refl [simp]: "same_step s s"
  by (simp add: same_step_def)

lemma same_step_trans: "same_step a b \<Longrightarrow> same_step b c \<Longrightarrow> same_step a c"
  by (auto simp: same_step_def)

lemma same_steps_refl [simp]: "same_steps xs xs"
  by (simp add: same_steps_def list.rel_refl)

lemma same_steps_trans: "same_steps a b \<Longrightarrow> same_steps b c \<Longrightarrow> same_steps a c"
  unfolding same_steps_def by (rule list_all2_trans[OF same_step_trans])

lemma same_steps_map: "(\<And>s. same_step s (f s)) \<Longrightarrow> same_steps xs (map f xs)"
  by (simp add: same_steps_def list_all2_conv_all_nth)

lemma same_steps_update: "(\<And>s. same_step s (f s)) \<Longrightarrow> same_steps xs (update_first p f xs)"
  unfolding same_steps_def by (induction xs) (auto simp: list.rel_refl)


lemma same_steps_mem: "same_steps xs ys \<Longrightarrow> s' \<in> set ys \<Longrightarrow> \<exists>s\<in>set xs. same_step s s'"
  unfolding same_steps_def by (metis list_all2_conv_all_nth in_set_conv_nth)







lemma same_steps_not_running:
  "same_steps xs ys \<Longrightarrow> \<forall>s\<in>set xs. s_state s \<noteq> StRunning \<Longrightarrow> \<forall>s\<in>set ys. s_state s \<noteq> StRunning"
  by (metis decided_def same_step_def same_steps_mem step_state.distinct)

section \<open>The operations of a turn\<close>

lemma check_preconditions_same: "same_steps (w_steps doc) (w_steps (check_preconditions ex doc))"
  unfolding check_preconditions_def
  by (simp, rule same_steps_map) (simp add: check_precondition_step_def same_step_def decided_def split: option.split)

lemma check_effects_same: "same_steps (w_steps doc) (w_steps (check_effects r doc))"
  unfolding check_effects_def
  by (simp, rule same_steps_map) (simp add: check_effect_step_def same_step_def decided_def split: option.split)

lemma absorb_result_same: "same_step s (absorb_result r s)"
  by (simp add: absorb_result_def same_step_def decided_def Let_def split: option.split)


lemma absorb_fold_same:
  "same_steps xs (fold (\<lambda>r. update_first (\<lambda>s. s_id s = t_id (tr_task r)) (absorb_result r)) rs xs)"
proof (induction rs arbitrary: xs)
  case (Cons r rs)
  show ?case
    using same_steps_trans[OF same_steps_update[OF absorb_result_same] Cons.IH] by simp
qed simp

lemma absorb_round_same: "same_steps (w_steps doc) (w_steps (absorb_round r doc))"
  by (simp add: absorb_round_def absorb_fold_same)

lemma mark_step_same: "decided st \<Longrightarrow> same_steps (w_steps doc) (w_steps (mark_step i st e doc))"
  unfolding mark_step_def by (simp, rule same_steps_update) (simp add: same_step_def)

definition after_round :: "swarm_result \<Rightarrow> workflow_run \<Rightarrow> workflow_run" where
  "after_round round doc =
     absorb_captured (sr_modified_files round) (check_effects round (absorb_round round doc))"

lemma after_round_same: "same_steps (w_steps doc) (w_steps (after_round r doc))"
  unfolding after_round_def absorb_keeps
  by (rule same_steps_trans[OF absorb_round_same check_effects_same])

lemmas turn_same = check_preconditions_same mark_step_same after_round_same

lemma turn_keeps [simp]:
  "w_state (check_preconditions ex doc) = w_state doc"
  "w_state (mark_step i st e doc) = w_state doc"
  "w_state (after_round r doc) = w_state doc"
  "w_replan_attempts (check_preconditions ex doc) = w_replan_attempts doc"
  "w_replan_attempts (mark_step i st e doc) = w_replan_attempts doc"
  "w_replan_attempts (after_round r doc) = w_replan_attempts doc"
  by (simp_all add: check_preconditions_def mark_step_def after_round_def check_effects_def absorb_round_def)



section \<open>Turns as a step relation\<close>

inductive engine_step ::
  "'w engine_ops \<Rightarrow> workflow_run \<times> swarm_result option \<times> 'w \<Rightarrow> workflow_run \<times> swarm_result option \<times> 'w \<Rightarrow> bool"
  for ops where
  step: "engine_turn ops doc agg w = Next doc' agg' w' \<Longrightarrow> engine_step ops (doc, agg, w) (doc', agg', w')"

inductive_simps engine_step_simps: "engine_step ops (doc, agg, w) (doc', agg', w')"

definition is_next :: "'w turn \<Rightarrow> bool" where
  "is_next t \<longleftrightarrow> (\<exists>doc agg w. t = Next doc agg w)"

lemma engine_loop_run:
  "engine_loop ops n doc agg w = Some t \<Longrightarrow>
     \<exists>doc' agg' w'. (engine_step ops)\<^sup>*\<^sup>* (doc, agg, w) (doc', agg', w') \<and> engine_turn ops doc' agg' w' = t \<and> \<not> is_next t"
proof (induction n arbitrary: doc agg w)
  case (Suc n)
  show ?case
  proof (cases "is_next (engine_turn ops doc agg w)")
    case False
    then have "t = engine_turn ops doc agg w"
      using Suc.prems by (cases "engine_turn ops doc agg w") (simp_all add: is_next_def)
    then show ?thesis
      using False by blast
  next
    case True
    then obtain doc1 agg1 w1 where Next: "engine_turn ops doc agg w = Next doc1 agg1 w1"
      by (auto simp: is_next_def)
    then have "engine_step ops (doc, agg, w) (doc1, agg1, w1)"
      by (rule step)
    moreover obtain doc' agg' w' where "(engine_step ops)\<^sup>*\<^sup>* (doc1, agg1, w1) (doc', agg', w')"
      "engine_turn ops doc' agg' w' = t" "\<not> is_next t"
      using Suc.IH[of doc1 agg1 w1] Suc.prems Next by auto
    ultimately show ?thesis
      by (blast intro: converse_rtranclp_into_rtranclp)
  qed
qed simp

text \<open>An invariant of the steps holds at the last turn.\<close>

lemma engine_loop_invariant:
  assumes "engine_loop ops n doc agg w = Some t" "P doc"
    "\<And>doc agg w doc' agg' w'. P doc \<Longrightarrow> engine_turn ops doc agg w = Next doc' agg' w' \<Longrightarrow> P doc'"
  obtains doc' agg' w' where "P doc'" "engine_turn ops doc' agg' w' = t" "\<not> is_next t"
proof -
  obtain doc' agg' w' where r: "(engine_step ops)\<^sup>*\<^sup>* (doc, agg, w) (doc', agg', w')" "engine_turn ops doc' agg' w' = t" "\<not> is_next t"
    using engine_loop_run[OF assms(1)] by blast
  have "P (fst c)" if "(engine_step ops)\<^sup>*\<^sup>* (doc, agg, w) c" for c
    using that
  proof (induction rule: rtranclp_induct)
    case (step b c)
    then show ?case
      using assms(3) by (cases b; cases c) (auto simp: engine_step_simps)
  qed (use assms(2) in simp)
  from this[OF r(1)] show thesis
    using that r(2,3) by simp
qed

section \<open>The cases of a turn\<close>

lemma saved_Next: "saved ops doc w k = Next d a w' \<longleftrightarrow> (\<exists>w1. op_update ops doc w = (Ok (), w1) \<and> k w1 = Next d a w')"
  by (auto simp: saved_def split: prod.splits outcome.splits)

lemma saved_Stop: "saved ops doc w k = Stop out d w' \<longleftrightarrow> (\<exists>w1. op_update ops doc w = (Ok (), w1) \<and> k w1 = Stop out d w')"
  by (auto simp: saved_def split: prod.splits outcome.splits)

lemma finish_Next [simp]: "finish ops st out doc w \<noteq> Next d a w'"
  by (simp add: finish_def Let_def saved_Next)

lemma finish_Stop:
  "finish ops st out doc w = Stop out' d w' \<longleftrightarrow> out' = out \<and> d = snd (transition doc st (op_now ops w))
     \<and> (\<exists>w1. op_update ops d w = (Ok (), w1) \<and> w' = publish_state ops d w1)"
  by (auto simp: finish_def Let_def saved_Stop)

text \<open>A turn that continues replans, runs the gate or runs a round.\<close>

lemma engine_turn_Next:
  assumes "engine_turn ops doc agg w = Next doc' agg' w'"
  obtains (replan) ex failed ts now w1 w2 where "failed_step (check_preconditions ex doc) = Some failed"
      "w_replan_attempts doc < MAX_REPLAN_ATTEMPTS"
      "ask_replan ops (check_preconditions ex doc) agg failed w1 = (Ok ts, w2)" "ts \<noteq> []"
      "doc' = snd (splice_replan (s_id failed) ts now (check_preconditions ex doc))"
  | (gate) ex i st e where "ready_control_step (check_preconditions ex doc) = Some (i, QualityGate)"
      "decided st" "doc' = mark_step i st e (check_preconditions ex doc)"
  | (round) ex r w1 w2 where "ready_agent_tasks (check_preconditions ex doc) \<noteq> []"
      "op_run_planned ops (w_goal doc) (ready_agent_tasks (check_preconditions ex doc)) w1 = (Ok r, w2)"
      "doc' = after_round r (check_preconditions ex doc)"
proof -
  obtain w1 where w1: "op_control ops w = (Continue, w1)"
    using assms by (auto simp: engine_turn_def split: prod.splits control_state.splits)
  define ex where "ex = (\<lambda>p. op_exists ops p w1)"
  define pre where "pre = check_preconditions ex doc"
  have goal: "w_goal pre = w_goal doc"
    by (simp add: pre_def check_preconditions_def)
  show thesis
  proof (cases "failed_step pre")
    case (Some failed)
    then have t: "replan_turn ops pre agg failed w1 = Next doc' agg' w'"
      using assms w1 by (simp add: engine_turn_def Let_def pre_def ex_def)
    then have "w_replan_attempts pre < MAX_REPLAN_ATTEMPTS"
      by (auto simp: replan_turn_def split: if_splits)
    moreover from this obtain ts w2 now where "ask_replan ops pre agg failed w1 = (Ok ts, w2)" "ts \<noteq> []"
      "doc' = snd (splice_replan (s_id failed) ts now pre)"
      using t by (auto simp: replan_turn_def Let_def saved_Next split: prod.splits outcome.splits if_splits)
    ultimately show thesis
      using replan Some by (simp add: pre_def)
  next
    case None
    have p: "has_pending pre"
      using assms w1 None by (auto simp: engine_turn_def Let_def pre_def ex_def split: if_splits)
    show thesis
    proof (cases "ready_control_step pre")
      case c: (Some ik)
      obtain i k where ik: "ik = (i, k)"
        by (cases ik)
      have "k = QualityGate" "gate_turn ops pre agg i w1 = Next doc' agg' w'"
        using assms w1 None p c ik
        by (cases k; simp add: engine_turn_def Let_def pre_def ex_def)+
      moreover from this obtain st e where "decided st" "doc' = mark_step i st e pre"
        by (auto simp: gate_turn_def Let_def saved_Next decided_def split: prod.splits outcome.splits)
      ultimately show thesis
        using gate c ik by (simp add: pre_def)
    next
      case c: None
      then have t: "round_turn ops pre agg w1 = Next doc' agg' w'"
        using assms w1 None p by (simp add: engine_turn_def Let_def pre_def ex_def)
      then have "ready_agent_tasks pre \<noteq> []"
        by (auto simp: round_turn_def Let_def)
      moreover from this obtain r w2 where "op_run_planned ops (w_goal pre) (ready_agent_tasks pre) w1 = (Ok r, w2)"
        "doc' = after_round r pre"
        using t by (auto simp: round_turn_def Let_def saved_Next after_round_def split: prod.splits outcome.splits)
      ultimately show thesis
        using round goal by (simp add: pre_def)
    qed
  qed
qed

section \<open>Outcomes\<close>

text \<open>What the outcome of an execution says about the document it leaves.\<close>

definition outcome_agrees :: "engine_outcome \<Rightarrow> workflow_run \<Rightarrow> bool" where
  "outcome_agrees out doc = (case out of
     OutCompleted _ \<Rightarrow> w_state doc = WfCompleted \<and> all_passed doc
   | OutFailed _ _ \<Rightarrow> w_state doc = WfFailed
   | OutPaused \<Rightarrow> w_state doc = WfPaused
   | OutCancelled \<Rightarrow> w_state doc = WfCancelled)"

definition running_doc :: "workflow_run \<Rightarrow> bool" where
  "running_doc doc \<longleftrightarrow> w_state doc = WfRunning \<and> (\<forall>s\<in>set (w_steps doc). s_state s \<noteq> StRunning)"

lemma running_doc_same:
  "running_doc doc \<Longrightarrow> same_steps (w_steps doc) (w_steps doc') \<Longrightarrow> w_state doc' = w_state doc \<Longrightarrow> running_doc doc'"
  using same_steps_not_running by (auto simp: running_doc_def)

lemma running_doc_check: "running_doc doc \<Longrightarrow> running_doc (check_preconditions ex doc)"
  by (rule running_doc_same[OF _ check_preconditions_same]) simp_all

lemma running_doc_splice: "running_doc doc \<Longrightarrow> running_doc (snd (splice_replan f ts now doc))"
  by (auto simp: running_doc_def splice_steps from_task_def)

lemma running_doc_turn:
  assumes "running_doc doc" "engine_turn ops doc agg w = Next doc' agg' w'"
  shows "running_doc doc'"
  using assms(2)
proof (cases rule: engine_turn_Next)
  case replan
  then show ?thesis using running_doc_splice[OF running_doc_check[OF assms(1)]] by simp
next
  case (gate ex i st e)
  show ?thesis
    unfolding gate(3)
    by (rule running_doc_same[OF running_doc_check[OF assms(1)] mark_step_same[OF gate(2)]]) simp
next
  case (round ex r w1 w2)
  show ?thesis
    unfolding round(3)
    by (rule running_doc_same[OF running_doc_check[OF assms(1)] after_round_same]) simp
qed

lemma transition_running [simp]:
  "w_state doc = WfRunning \<Longrightarrow> st \<in> {WfPaused, WfCompleted, WfCancelled, WfFailed} \<Longrightarrow> w_state (snd (transition doc st now)) = st"
  "w_steps (snd (transition doc st now)) = w_steps doc"
  by (auto simp: transition_def can_transition_iff)

lemma none_open_all_passed:
  "running_doc doc \<Longrightarrow> failed_step doc = None \<Longrightarrow> \<not> has_pending doc \<Longrightarrow> all_passed doc"
proof (unfold all_passed_def list_all_iff, rule ballI)
  fix s assume a: "running_doc doc" "failed_step doc = None" "\<not> has_pending doc" and s: "s \<in> set (w_steps doc)"
  then have "s_state s \<noteq> StRunning" "s_state s \<noteq> StFailed" "s_state s \<noteq> StPending"
    by (auto simp: running_doc_def failed_step_def find_None_iff has_pending_def list_ex_iff)
  then show "s_state s = StPassed \<or> s_state s = StSkipped"
    by (cases "s_state s") auto
qed

text \<open>The last turn: its outcome agrees with the document, which was checkpointed.\<close>

definition persisted :: "'w engine_ops \<Rightarrow> workflow_run \<Rightarrow> bool" where
  "persisted ops doc \<longleftrightarrow> (\<exists>w w'. op_update ops doc w = (Ok (), w'))"

lemma finish_agrees:
  assumes "finish ops st out doc w = Stop out' d w'" "running_doc doc"
    "case out of OutCompleted _ \<Rightarrow> st = WfCompleted \<and> all_passed doc | OutFailed _ _ \<Rightarrow> st = WfFailed
       | OutPaused \<Rightarrow> st = WfPaused | OutCancelled \<Rightarrow> st = WfCancelled"
  shows "outcome_agrees out' d \<and> persisted ops d"
proof -
  have "w_state doc = WfRunning"
    using assms(2) by (simp add: running_doc_def)
  moreover have "out' = out" "d = snd (transition doc st (op_now ops w))" "persisted ops d"
    using assms(1) unfolding finish_Stop persisted_def by blast+
  ultimately show ?thesis
    using assms(3) by (cases out) (auto simp: outcome_agrees_def all_passed_def)
qed

lemma engine_turn_Stop:
  assumes "running_doc doc" "engine_turn ops doc agg w = Stop out doc' w'"
  shows "outcome_agrees out doc' \<and> persisted ops doc'"
proof -
  obtain c w1 where w1: "op_control ops w = (c, w1)"
    by (cases "op_control ops w")
  define pre where "pre = check_preconditions (\<lambda>p. op_exists ops p w1) doc"
  have pre: "running_doc pre"
    using assms(1) running_doc_check by (simp add: pre_def)
  show ?thesis
  proof (cases c)
    case Pause
    then have "finish ops WfPaused OutPaused doc w1 = Stop out doc' w'"
      using assms(2) w1 by (simp add: engine_turn_def)
    then show ?thesis by (rule finish_agrees) (use assms(1) in simp_all)
  next
    case Cancel
    then have "finish ops WfCancelled OutCancelled doc w1 = Stop out doc' w'"
      using assms(2) w1 by (simp add: engine_turn_def)
    then show ?thesis by (rule finish_agrees) (use assms(1) in simp_all)
  next
    case Continue
    show ?thesis
    proof (cases "failed_step pre")
      case (Some failed)
      then have t: "replan_turn ops pre agg failed w1 = Stop out doc' w'"
        using assms(2) w1 Continue by (simp add: engine_turn_def Let_def pre_def)
      then have "\<exists>a e w2. finish ops WfFailed (OutFailed a e) pre w2 = Stop out doc' w'"
        by (auto simp: replan_turn_def Let_def saved_Stop split: prod.splits outcome.splits if_splits)
      then show ?thesis
        using finish_agrees pre by fastforce
    next
      case None
      show ?thesis
      proof (cases "has_pending pre")
        case False
        then have "\<exists>r. finish ops WfCompleted (OutCompleted r) pre w1 = Stop out doc' w'"
          using assms(2) w1 Continue None by (auto simp: engine_turn_def Let_def pre_def)
        then show ?thesis
          using finish_agrees[OF _ pre] none_open_all_passed[OF pre None False] by fastforce
      next
        case p: True
        show ?thesis
        proof (cases "ready_control_step pre")
          case c: None
          then have t: "round_turn ops pre agg w1 = Stop out doc' w'"
            using assms(2) w1 Continue None p by (simp add: engine_turn_def Let_def pre_def)
          then have "\<exists>a e. finish ops WfFailed (OutFailed a e) pre w1 = Stop out doc' w'"
            by (auto simp: round_turn_def Let_def saved_Stop split: prod.splits outcome.splits if_splits)
          then show ?thesis
            using finish_agrees pre by fastforce
        next
          case c: (Some ik)
          obtain i k where ik: "ik = (i, k)"
            by (cases ik)
          have "k = HumanApproval" "finish ops WfPaused OutPaused pre w1 = Stop out doc' w'"
            using assms(2) w1 Continue None p c ik
            by (cases k; auto simp: engine_turn_def Let_def pre_def gate_turn_def saved_Stop
                split: prod.splits outcome.splits)+
          then show ?thesis
            using finish_agrees pre by fastforce
        qed
      qed
    qed
  qed
qed

text \<open>The preparation of a resumable document.\<close>

definition resumable :: "workflow_run \<Rightarrow> bool" where
  "resumable doc \<longleftrightarrow> w_state doc \<in> {WfCreated, WfRunning, WfPaused}"

definition prepared :: "string \<Rightarrow> workflow_run \<Rightarrow> workflow_run" where
  "prepared now doc = enter_running now (snd (seed_resume (reset_running doc)))"

lemma prepared_running: "resumable doc \<Longrightarrow> running_doc (prepared now doc)"
  by (auto simp: resumable_def prepared_def running_doc_def enter_running_def seed_resume_def reset_running_def
      reset_passed_steps_def transition_def)


lemma execute_run:
  assumes "execute ops fuel doc w = Some (Stop out doc' w')"
  obtains seed w1 w2 where "engine_loop ops fuel (prepared (op_now ops w) doc) seed w1 = Some (Stop out doc' w2)"
proof -
  obtain seed d1 where s: "seed_resume (reset_running doc) = (seed, d1)"
    by (cases "seed_resume (reset_running doc)")
  define d2 where "d2 = enter_running (op_now ops w) d1"
  have prep: "prepared (op_now ops w) doc = d2"
    by (simp add: prepared_def s d2_def)
  obtain r w1 where u: "op_update ops d2 w = (r, w1)"
    by (cases "op_update ops d2 w")
  define l where "l = engine_loop ops fuel d2 seed (op_resume_control ops (publish_state ops d2 w1))"
  have e: "execute ops fuel doc w = (case r of Err e \<Rightarrow> Some (Abort e d2 w1) | Panic \<Rightarrow> Some (Crash d2 w1)
      | Ok _ \<Rightarrow> (case l of Some (Stop out doc' w') \<Rightarrow> Some (Stop out doc' (if out = OutPaused then w' else op_drop_control ops w'))
                 | t \<Rightarrow> t))"
    unfolding execute_def s Let_def prod.case d2_def[symmetric] u l_def[symmetric] by (cases r) simp_all
  have "\<exists>w2. l = Some (Stop out doc' w2)"
  proof (cases r)
    case (Ok u)
    then obtain t where t: "l = Some t"
      using assms e by (cases l) simp_all
    show ?thesis
      using assms e Ok t by (cases t) simp_all
  qed (use assms e in simp_all)
  then show thesis
    using that prep l_def by auto
qed

lemma execute_agrees:
  assumes "resumable doc" "execute ops fuel doc w = Some (Stop out doc' w')"
  shows "outcome_agrees out doc' \<and> persisted ops doc'"
proof -
  obtain seed w1 w2 where l: "engine_loop ops fuel (prepared (op_now ops w) doc) seed w1 = Some (Stop out doc' w2)"
    using execute_run[OF assms(2)] .
  show ?thesis
  proof (rule engine_loop_invariant[where P = running_doc, OF l prepared_running[OF assms(1)]])
    show "running_doc d'" if "running_doc d" "engine_turn ops d a v = Next d' a' v'" for d a v d' a' v'
      using that by (rule running_doc_turn)
    show ?thesis if "running_doc d" "engine_turn ops d a v = Stop out doc' w2" for d a v
      using that by (rule engine_turn_Stop)
  qed
qed

section \<open>The prefixes of the rounds\<close>



section \<open>Termination\<close>


text \<open>What it needs of the world: a round reports a result or an error for one of the tasks it was
  given, and the answers of the model that parse have distinct task ids.\<close>

definition decisive_runner :: "'w engine_ops \<Rightarrow> bool" where
  "decisive_runner ops \<longleftrightarrow> (\<forall>g ts w r w'. op_run_planned ops g ts w = (Ok r, w') \<longrightarrow> ts \<noteq> [] \<longrightarrow>
     (\<exists>q\<in>set (sr_results r). t_id (tr_task q) \<in> t_id ` set ts \<and> (tr_agent_result q \<noteq> None \<or> tr_error q \<noteq> None)))"

definition distinct_answers :: "'w engine_ops \<Rightarrow> bool" where
  "distinct_answers ops \<longleftrightarrow> (\<forall>js ts. op_from_json ops js = Some ts \<longrightarrow> distinct (map t_id ts))"














section \<open>The replan budget\<close>






section \<open>Approval gates, effects and the trailing gate\<close>

text \<open>A run that waits for an approval and has nothing else to do first.\<close>

definition awaits_approval :: "string \<Rightarrow> workflow_run \<Rightarrow> bool" where
  "awaits_approval i doc \<longleftrightarrow> resumable doc \<and> w_checkpoint_complete doc
     \<and> ready_control_step doc = Some (i, HumanApproval)
     \<and> (\<forall>s\<in>set (w_steps doc). s_state s \<noteq> StFailed \<and> s_state s \<noteq> StRunning \<and> s_preconditions s = [])"

definition permissive :: "'w engine_ops \<Rightarrow> bool" where
  "permissive ops \<longleftrightarrow> (\<forall>w. fst (op_control ops w) = Continue) \<and> (\<forall>doc w. fst (op_update ops doc w) = Ok ())"

lemma awaits_prepared:
  assumes "awaits_approval i doc"
  shows "awaits_approval i (prepared now doc) \<and> w_state (prepared now doc) = WfRunning \<and> w_steps (prepared now doc) = w_steps doc"
proof -
  have "map (\<lambda>s. if s_state s = StRunning then s\<lparr>s_state := StPending\<rparr> else s) (w_steps doc) = w_steps doc"
    by (rule map_idI) (use assms in \<open>simp add: awaits_approval_def\<close>)
  then have "reset_running doc = doc"
    by (simp add: reset_running_def)
  then show ?thesis
    using assms
    by (auto simp: awaits_approval_def prepared_def seed_resume_def enter_running_def transition_def resumable_def
        ready_control_step_def completed_ids_def)
qed

lemma awaits_turn:
  assumes "awaits_approval i doc" "w_state doc = WfRunning" "permissive ops"
  shows "\<exists>doc' w'. engine_turn ops doc agg w = Stop OutPaused doc' w' \<and> awaits_approval i doc'
    \<and> w_state doc' = WfPaused \<and> w_steps doc' = w_steps doc"
proof -
  obtain w1 where w1: "op_control ops w = (Continue, w1)"
    using assms(3) by (metis permissive_def prod.collapse)
  have "map (check_precondition_step ex) (w_steps doc) = w_steps doc" for ex
    by (rule map_idI) (use assms(1) in \<open>simp add: check_precondition_step_def awaits_approval_def\<close>)
  then have pre: "check_preconditions ex doc = doc" for ex
    by (simp add: check_preconditions_def)
  have nf: "failed_step doc = None"
    using assms(1) by (auto simp: failed_step_def find_None_iff awaits_approval_def)
  have ctl: "ready_control_step doc = Some (i, HumanApproval)"
    using assms(1) by (simp add: awaits_approval_def)
  then have "has_pending doc"
    by (auto simp: ready_control_step_def has_pending_def list_ex_iff is_ready_def dest!: find_Some_mem)
  then have t: "engine_turn ops doc agg w = finish ops WfPaused OutPaused doc w1"
    using w1 nf ctl by (simp add: engine_turn_def Let_def pre)
  let ?d = "snd (transition doc WfPaused (op_now ops w1))"
  obtain w2 where "op_update ops ?d w1 = (Ok (), w2)"
    using assms(3) by (metis permissive_def prod.collapse)
  then have "engine_turn ops doc agg w = Stop OutPaused ?d (publish_state ops ?d w2)"
    unfolding t finish_Stop by blast
  moreover have "awaits_approval i ?d" "w_state ?d = WfPaused"
    using assms(1,2) by (auto simp: awaits_approval_def transition_def resumable_def ready_control_step_def completed_ids_def)
  ultimately show ?thesis by auto
qed

lemma awaits_execute:
  assumes "awaits_approval i doc" "permissive ops"
  shows "\<exists>doc' w'. execute ops (Suc fuel) doc w = Some (Stop OutPaused doc' w') \<and> awaits_approval i doc'
    \<and> w_steps doc' = w_steps doc"
proof -
  obtain seed d1 where s: "seed_resume (reset_running doc) = (seed, d1)"
    by (cases "seed_resume (reset_running doc)")
  define d2 where "d2 = enter_running (op_now ops w) d1"
  have prep: "prepared (op_now ops w) doc = d2"
    by (simp add: prepared_def s d2_def)
  have d2: "awaits_approval i d2" "w_state d2 = WfRunning" "w_steps d2 = w_steps doc"
    using awaits_prepared[OF assms(1), of "op_now ops w"] unfolding prep by blast+
  obtain w1 where u: "op_update ops d2 w = (Ok (), w1)"
    using assms(2) by (metis permissive_def prod.collapse)
  obtain doc' w' where t: "engine_turn ops d2 seed (op_resume_control ops (publish_state ops d2 w1)) = Stop OutPaused doc' w'"
    "awaits_approval i doc'" "w_steps doc' = w_steps d2"
    using awaits_turn[OF d2(1,2) assms(2)] by blast
  have "execute ops (Suc fuel) doc w = Some (Stop OutPaused doc' w')"
    unfolding execute_def s Let_def prod.case d2_def[symmetric] u by (simp add: t(1))
  then show ?thesis
    using t(2,3) d2(3) by auto
qed

lemma absorb_round_untouched:
  assumes "s \<in> set xs" "\<forall>q\<in>set rs. t_id (tr_task q) \<noteq> s_id s"
  shows "s \<in> set (fold (\<lambda>r. update_first (\<lambda>s. s_id s = t_id (tr_task r)) (absorb_result r)) rs xs)"
  using assms
proof (induction rs arbitrary: xs)
  case (Cons r rs)
  have "s \<in> set (update_first (\<lambda>s. s_id s = t_id (tr_task r)) (absorb_result r) xs)"
    using Cons.prems by (intro update_first_other) auto
  then show ?case
    using Cons by simp
qed simp

lemma earlier_step_demoted:
  assumes "s \<in> set (w_steps doc)" "s_state s = StPassed" "FilesChanged ps \<in> set (s_effects s)"
    "\<forall>p\<in>set ps. p \<notin> fst ` set (sr_modified_files round)"
    "\<forall>q\<in>set (sr_results round). t_id (tr_task q) \<noteq> s_id s"
  shows "\<exists>s'\<in>set (w_steps (after_round round doc)). s_id s' = s_id s \<and> s_state s' = StFailed"
proof -
  let ?c = "map fst (sr_modified_files round)"
  have "\<not> effect_holds ?c (FilesChanged ps)"
    using assms(4) by (auto simp: effect_holds_def list_ex_iff)
  then obtain c where "List.find (\<lambda>c. \<not> effect_holds ?c c) (s_effects s) = Some c"
    using find_eq_SomeI[OF assms(3), of "\<lambda>c. \<not> effect_holds ?c c"] by auto
  then have f: "s_state (check_effect_step ?c s) = StFailed" "s_id (check_effect_step ?c s) = s_id s"
    using assms(2,3) by (auto simp: check_effect_step_def)
  have "s \<in> set (w_steps (absorb_round round doc))"
    using absorb_round_untouched[OF assms(1,5)] by (simp add: absorb_round_def)
  then have "check_effect_step ?c s \<in> set (w_steps (after_round round doc))"
    by (simp add: after_round_def check_effects_def)
  then show ?thesis
    using f by blast
qed

lemma replan_drops_gate:
  assumes "w_steps doc \<noteq> []" "\<forall>s\<in>set (w_steps doc). s_kind s \<noteq> QualityGate"
    "f \<in> insert quality_gate_id (s_id ` set (w_steps doc))"
  shows "\<forall>s\<in>set (w_steps (snd (splice_replan f ts now (with_trailing_quality_gate doc)))). s_kind s \<noteq> QualityGate"
proof -
  let ?g = "quality_gate_step (map s_id (w_steps doc))"
  have w: "w_steps (with_trailing_quality_gate doc) = w_steps doc @ [?g]"
    using assms(1,2) by (auto simp: with_trailing_quality_gate_def list_ex_iff)
  have "(f, quality_gate_id) \<in> (dependents (w_steps doc @ [?g]))\<^sup>*"
  proof (cases "f = quality_gate_id")
    case False
    then have "f \<in> set (step_deps ?g)" "s_id ?g = quality_gate_id"
      using assms(3) by (auto simp: quality_gate_step_def step_deps_def)
    then have "(f, quality_gate_id) \<in> dependents (w_steps doc @ [?g])"
      unfolding dependents_def by force
    then show ?thesis by blast
  qed simp
  then have "quality_gate_id \<in> doomed_steps (w_steps doc @ [?g]) f"
    by (simp add: doomed_steps_def)
  then show ?thesis
    using assms(2) unfolding splice_steps w by (auto simp: quality_gate_step_def from_task_def)
qed

section \<open>Properties\<close>

text \<open>A world for the examples: every store call succeeds, the control flag stays at continue, no file
  exists, the build command fails, the model answers with an empty array, and the runner applies
  every task it is given.\<close>

definition ex_applied :: agent_result where
  "ex_applied = \<lparr>ar_edits = [], ar_inference_response = \<lparr>ir_content = [], ir_model = [], ir_backend = Ollama,
       ir_tokens_input = 0, ir_tokens_output = 0, ir_cached_tokens = 0, ir_duration_ms = 0\<rparr>,
     ar_applied = True, ar_skipped = False, ar_run_id = None, ar_attempt = 1, ar_escalated_from = None,
     ar_tool_calls = []\<rparr>"

definition ex_ops :: "unit engine_ops" where
  "ex_ops = \<lparr>op_update = (\<lambda>_ w. (Ok (), w)), op_publish = (\<lambda>_ w. w), op_control = (\<lambda>w. (Continue, w)),
     op_resume_control = id, op_drop_control = id, op_exists = (\<lambda>_ _. False),
     op_command = (\<lambda>_ _ w. (Exited False ''error'', w)), op_chat = (\<lambda>_ w. (Ok ''[]'', w)),
     op_run_planned = (\<lambda>g ts w. (Ok ((empty_result g [])\<lparr>sr_results :=
        map (\<lambda>t. \<lparr>tr_task = t, tr_agent_result = Some ex_applied, tr_error = None\<rparr>) ts\<rparr>), w)),
     op_now = (\<lambda>_. ''t1''), op_from_json = (\<lambda>_. None), op_repo_files = [''src/a.rs'']\<rparr>"

lemma ex_ops_ok: "decisive_runner ex_ops" "distinct_answers ex_ops" "permissive ex_ops"
proof -
  show "decisive_runner ex_ops"
    unfolding decisive_runner_def ex_ops_def by (auto simp: neq_Nil_conv)
qed (simp_all add: distinct_answers_def permissive_def ex_ops_def)

definition ex_doc :: workflow_run where
  "ex_doc = with_trailing_quality_gate (ex_run [ex_step ''b'' [''a''] StPending, ex_step ''a'' [] StPending])"

text \<open>C7: the outcome of an execution and the document it leaves agree: a run reported as completed is
  in the completed state and every one of its steps has passed or was skipped, a failed, paused or
  cancelled run is in that state; and that document was checkpointed successfully.\<close>

theorem execute_outcome_agrees:
  assumes "resumable doc" "execute ops fuel doc w = Some (Stop out doc' w')"
  shows "outcome_agrees out doc' \<and> persisted ops doc'"
  using assms by (rule execute_agrees)

theorem execute_outcome_agrees_witness:
  "\<exists>out doc' w'. execute ex_ops 30 ex_doc () = Some (Stop out doc' w') \<and> outcome_agrees out doc' \<and> all_passed doc'"
proof -
  have "case execute ex_ops 30 ex_doc () of Some (Stop (OutCompleted r) d v) \<Rightarrow> True | _ \<Rightarrow> False"
    by code_simp
  then obtain r d v where e: "execute ex_ops 30 ex_doc () = Some (Stop (OutCompleted r) d v)"
    by (auto split: option.splits turn.splits engine_outcome.splits)
  have "resumable ex_doc"
    by code_simp
  then have "outcome_agrees (OutCompleted r) d"
    using execute_outcome_agrees[OF _ e] by blast
  then show ?thesis
    using e by (auto simp: outcome_agrees_def)
qed





text \<open>C15: a human approval is a gate that nothing opens: a run that has come to an approval step pauses,
  and every later execution of it pauses again with its steps unchanged, for ever.\<close>

theorem approval_never_opens:
  assumes "awaits_approval i doc" "permissive ops"
  shows "\<exists>doc' w'. execute ops (Suc fuel) doc w = Some (Stop OutPaused doc' w')
    \<and> awaits_approval i doc' \<and> w_steps doc' = w_steps doc"
  using assms by (rule awaits_execute)

theorem approval_never_opens_witness:
  "let doc = ex_run [ex_step ''a'' [] StPassed, (ex_step ''ok?'' [''a''] StPending)\<lparr>s_kind := HumanApproval\<rparr>]
   in \<exists>doc' w'. execute ex_ops 1 doc () = Some (Stop OutPaused doc' w') \<and> awaits_approval ''ok?'' doc'"
proof -
  let ?doc = "ex_run [ex_step ''a'' [] StPassed, (ex_step ''ok?'' [''a''] StPending)\<lparr>s_kind := HumanApproval\<rparr>]"
  have "awaits_approval ''ok?'' ?doc"
    by code_simp
  then show ?thesis
    unfolding Let_def using approval_never_opens[OF _ ex_ops_ok(3), of "''ok?''" ?doc 0 "()"] by auto
qed

text \<open>Effects are checked against the round, not the run: a step that passed in an earlier round and
  whose effect asks for a changed file is marked failed by any later round that changes none of its
  files, although the round did not touch the step.\<close>

theorem effects_demote_earlier_steps:
  assumes "s \<in> set (w_steps doc)" "s_state s = StPassed" "FilesChanged ps \<in> set (s_effects s)"
    "\<forall>p\<in>set ps. p \<notin> fst ` set (sr_modified_files round)"
    "\<forall>q\<in>set (sr_results round). t_id (tr_task q) \<noteq> s_id s"
  shows "\<exists>s'\<in>set (w_steps (after_round round doc)). s_id s' = s_id s \<and> s_state s' = StFailed"
  using assms by (rule earlier_step_demoted)

theorem effects_demote_earlier_steps_witness:
  "let s = (ex_step ''a'' [] StPassed)\<lparr>s_effects := [FilesChanged [''src/a.rs'']]\<rparr>
   in \<exists>s'\<in>set (w_steps (after_round (empty_result ''g'' [(''src/b.rs'', ''x'')]) (ex_run [s]))). s_state s' = StFailed"
proof -
  let ?s = "(ex_step ''a'' [] StPassed)\<lparr>s_effects := [FilesChanged [''src/a.rs'']]\<rparr>"
  have "\<exists>s'\<in>set (w_steps (after_round (empty_result ''g'' [(''src/b.rs'', ''x'')]) (ex_run [?s]))).
      s_id s' = s_id ?s \<and> s_state s' = StFailed"
    by (rule effects_demote_earlier_steps[where ps = "[''src/a.rs'']"])
      (simp_all add: ex_run_def ex_step_def from_task_def empty_result_def)
  then show ?thesis
    unfolding Let_def by blast
qed

text \<open>C16: a replan loses the quality gate: splicing a document that ends in the trailing gate, whichever
  of its steps failed, removes the gate, and no step of the new document is a quality gate.\<close>

theorem replan_loses_gate:
  assumes "w_steps doc \<noteq> []" "\<forall>s\<in>set (w_steps doc). s_kind s \<noteq> QualityGate"
    "f \<in> insert quality_gate_id (s_id ` set (w_steps doc))"
  shows "\<forall>s\<in>set (w_steps (snd (splice_replan f ts now (with_trailing_quality_gate doc)))). s_kind s \<noteq> QualityGate"
  using assms by (rule replan_drops_gate)

theorem replan_loses_gate_witness:
  "let doc = ex_run [ex_step ''a'' [] StFailed, ex_step ''b'' [] StPassed]
   in (\<exists>s\<in>set (w_steps (with_trailing_quality_gate doc)). s_kind s = QualityGate)
     \<and> (\<forall>s\<in>set (w_steps (snd (splice_replan ''a'' [ex_task ''x'' [] []] ''t1'' (with_trailing_quality_gate doc)))).
          s_kind s \<noteq> QualityGate)"
proof -
  let ?doc = "ex_run [ex_step ''a'' [] StFailed, ex_step ''b'' [] StPassed]"
  have "\<exists>s\<in>set (w_steps (with_trailing_quality_gate ?doc)). s_kind s = QualityGate"
    by code_simp
  moreover have "\<forall>s\<in>set (w_steps (snd (splice_replan ''a'' [ex_task ''x'' [] []] ''t1'' (with_trailing_quality_gate ?doc)))).
      s_kind s \<noteq> QualityGate"
    by (rule replan_loses_gate) (simp_all add: ex_run_def ex_step_def from_task_def ex_task_def)
  ultimately show ?thesis
    unfolding Let_def by blast
qed

end
