(* ===== verification/EditFacts.thy ===== *)
theory EditFacts
  imports EditParser
begin

section \<open>Trimming\<close>

















section \<open>Markers\<close>








section \<open>Printing edits\<close>

















lemma strip_prefix_append [simp]: "strip_prefix k (k @ p) = Some p"
  by (simp add: strip_prefix_def)




section \<open>The round trip\<close>







section \<open>Markers in the wrong order\<close>

lemma find_boundary:
  assumes "utf8_valid s" "str_find (c # p) s = Some i" "(of_char c :: nat) < 128"
  shows "i < length s \<and> s ! i = c \<and> is_char_boundary s i"
proof -
  have "i + length (c # p) \<le> length s" "prefix (c # p) (drop i s)"
    using str_find_Some[OF assms(2)] by blast+
  then have "i < length s" "s ! i = c"
    by (auto simp: prefix_def) (metis nth_via_drop)
  then show ?thesis
    using assms(3) by (simp add: is_char_boundary_def cont_byte_def)
qed

lemma find_end_boundary:
  assumes "utf8_valid s" "str_find p s = Some i" "p \<noteq> []" "(of_char (last p) :: nat) < 128"
  shows "is_char_boundary s (i + length p)"
proof -
  obtain t where t: "drop i s = p @ t" "i + length p \<le> length s"
    using str_find_Some[OF assms(2)] by (auto simp: prefix_def)
  have "s ! (i + (length p - 1)) = drop i s ! (length p - 1)"
    using t assms(3) by (intro nth_drop[symmetric]) simp
  also have "\<dots> = last p"
    using t assms(3) by (simp add: nth_append last_conv_nth)
  finally have "is_char_boundary s (Suc (i + (length p - 1)))"
    using t assms(3,4) by (intro utf8_after_ascii[OF assms(1)]) (cases p; simp)+
  then show ?thesis
    using assms(3) by (cases p) simp_all
qed

text \<open>C34: the exact condition under which the edit-block parser panics: both markers are present
  and the first \<open>--- NEW\<close> starts before the end of the first \<open>--- OLD\<close>, so that the slice
  between them is reversed. A missing marker is an ordinary error, and on every other body the parser
  returns the trimmed texts around the markers.\<close>

theorem edit_block_outcomes:
  assumes "utf8_valid body"
  shows "(parse_edit_block path body = Panic \<longleftrightarrow>
      (\<exists>i j. str_find ''--- OLD'' body = Some i \<and> str_find ''--- NEW'' body = Some j \<and> j < i + 7))
    \<and> ((\<exists>e. parse_edit_block path body = Err e) \<longleftrightarrow>
      \<not> (contains body ''--- OLD'' \<and> contains body ''--- NEW''))
    \<and> (parse_edit_block path body = Ok e \<longleftrightarrow>
      (\<exists>i j. str_find ''--- OLD'' body = Some i \<and> str_find ''--- NEW'' body = Some j \<and> i + 7 \<le> j
        \<and> e = Edit path (trim (take (j - (i + 7)) (drop (i + 7) body))) (trim (drop (j + 7) body))))"
proof -
  have slice: "str_slice body (i + 7) j = (if i + 7 \<le> j then Ok (take (j - (i + 7)) (drop (i + 7) body)) else Panic)"
    if "str_find ''--- OLD'' body = Some i" "str_find ''--- NEW'' body = Some j" for i j
  proof -
    have "is_char_boundary body (i + 7)"
      using find_end_boundary[OF assms that(1)] by (simp add: eval_nat_numeral)
    moreover have "is_char_boundary body j \<and> j < length body"
      using find_boundary[OF assms that(2)] by simp
    ultimately show ?thesis
      by (simp add: str_slice_def)
  qed
  then show ?thesis
    by (intro conjI; auto simp: parse_edit_block_def contains_def split: option.splits)
qed

lemma edit_block_outcomes_witness:
  "parse_edit_block ''a.rs'' ''--- NEW
new text
--- OLD
old text'' = Panic"
proof -
  have "utf8_valid ''--- NEW
new text
--- OLD
old text''"
    by code_simp
  moreover have "str_find ''--- OLD'' ''--- NEW
new text
--- OLD
old text'' = Some 17" "str_find ''--- NEW'' ''--- NEW
new text
--- OLD
old text'' = Some 0"
    by code_simp+
  ultimately show ?thesis
    using edit_block_outcomes[of _ "''a.rs''" undefined] by simp
qed

end
