(* ===== verification/CodeUtils.thy ===== *)
theory CodeUtils
  imports RustStr
begin

text \<open>
  Code utilities of the agent (\<open>crates/agent-core/src/code_utils.rs\<close>): signatures, the tolerant
  replacement of a block of lines, and the screening of file paths.
\<close>

section \<open>Signatures\<close>

definition signature_starts :: "string list" where
  "signature_starts = [''pub fn '', ''fn '', ''pub struct '', ''struct '', ''pub enum '', ''enum '', ''pub trait '',
     ''trait '', ''impl '', ''pub async fn '', ''pub type '', ''pub const '']"

definition is_signature_line :: "string \<Rightarrow> bool" where
  "is_signature_line line \<longleftrightarrow> list_ex (starts_with (trim line)) signature_starts"

definition extract_signatures :: "string \<Rightarrow> nat \<Rightarrow> string list" where
  "extract_signatures content n = map trim (take n (filter is_signature_line (str_lines content)))"

section \<open>Tolerant replacement\<close>

text \<open>The first index at which a list of lines matches a pattern, line by line under \<open>norm\<close>, and the
  replacement of the matched lines.\<close>

definition window_matches :: "(string \<Rightarrow> string) \<Rightarrow> string list \<Rightarrow> string list \<Rightarrow> bool" where
  "window_matches norm pat lines \<longleftrightarrow> length pat \<le> length lines \<and> map norm (take (length pat) lines) = pat"

fun find_window :: "(string \<Rightarrow> string) \<Rightarrow> string list \<Rightarrow> string list \<Rightarrow> nat option" where
  "find_window norm pat [] = None"
| "find_window norm pat (l # ls) =
     (if window_matches norm pat (l # ls) then Some 0 else map_option Suc (find_window norm pat ls))"

definition replace_window :: "string list \<Rightarrow> nat \<Rightarrow> nat \<Rightarrow> string list \<Rightarrow> string list" where
  "replace_window lines i n repl = take i lines @ repl @ drop (i + n) lines"

definition collapse_ws :: "string \<Rightarrow> string" where
  "collapse_ws l = str_join '' '' (split_whitespace l)"

text \<open>The single-line search and the multi-line search of the source are the search for a window of one
  and of several lines.\<close>

definition fuzzy_replace :: "string \<Rightarrow> string \<Rightarrow> string \<Rightarrow> string option" where
  "fuzzy_replace content old new =
     (let content_norm = normalize_crlf content;
          old_trimmed = trim (normalize_crlf old);
          new_trimmed = trim (normalize_crlf new)
      in if old_trimmed = [] then None
         else if contains content_norm old_trimmed then Some (str_replace old_trimmed new_trimmed content_norm)
         else
           (let lines = str_lines content_norm;
                old_lines = map collapse_ws (str_lines old_trimmed)
            in map_option
                 (\<lambda>i. str_join [NL] (replace_window lines i (length old_lines) (str_lines new_trimmed)))
                 (find_window collapse_ws old_lines lines)))"

section \<open>Paths\<close>

definition CODE_EXTENSIONS :: "string list" where
  "CODE_EXTENSIONS = [''rs'', ''ts'', ''js'', ''go'', ''py'']"

definition INDEXABLE_EXTENSIONS :: "string list" where
  "INDEXABLE_EXTENSIONS = [''rs'', ''ts'', ''js'', ''go'', ''py'', ''md'', ''toml'', ''json'', ''yaml'', ''yml'']"

definition SKIP_DIRS :: "string list" where
  "SKIP_DIRS = [''.git'', ''target'', ''node_modules'', ''dist'', ''.wash'']"

definition is_code_file :: "string \<Rightarrow> bool" where
  "is_code_file path \<longleftrightarrow> list_ex (\<lambda>ext. ends_with path (''.'' @ ext)) CODE_EXTENSIONS"

definition REJECT_PATTERNS :: "string list" where
  "REJECT_PATTERNS = [''path/to/'', ''example'', ''your_'', ''my_file'', ''new_file.rs'', ''old_file'', ''{'', ''<'',
     ''...'', ''file.ext'', ''foo.'', ''bar.'', ''baz.'', ''test_file'']"

definition is_valid_file_path :: "string \<Rightarrow> bool" where
  "is_valid_file_path p \<longleftrightarrow>
     (let path = trim p in
      path \<noteq> [] \<and> \<not> list_ex (contains (to_lowercase path)) REJECT_PATTERNS
      \<and> contains path ''.'' \<and> \<not> starts_with path ''/'')"

end
