(* ===== verification/Prompt.thy ===== *)
theory Prompt
  imports CodeUtils InferTypes
begin

text \<open>
  The prompts of the code agent (\<open>crates/agent-core/src/prompt.rs\<close>), with the budgeted file context.
\<close>

datatype agent_type = General | LintFixer | TestWriter | Refactorer | FeatureAdder | BugFixer

definition agent_type_from_str :: "string \<Rightarrow> agent_type" where
  "agent_type_from_str s =
     (let l = to_lowercase s in
      if l \<in> {''lint'', ''lint-fixer'', ''linter''} then LintFixer
      else if l \<in> {''test'', ''test-writer'', ''tester''} then TestWriter
      else if l \<in> {''refactor'', ''refactorer''} then Refactorer
      else if l \<in> {''feature'', ''feature-adder''} then FeatureAdder
      else if l \<in> {''bug'', ''bug-fixer'', ''bugfix''} then BugFixer
      else General)"

fun role_description :: "agent_type \<Rightarrow> string" where
  "role_description General =
    ''You are a code modification agent. You receive a task description and file ''
    @ ''contents, then output precise file edits.'' @ [NL, NL] @ ''RULES:'' @ [NL]
    @ ''- Only modify files that need to change'' @ [NL]
    @ ''- Do not add unnecessary changes, comments, or formatting'' @ [NL]
    @ ''- If the task is unclear or impossible, explain why instead of guessing''"
| "role_description LintFixer =
    ''You are a lint-fixing agent. You receive lint/clippy warnings and fix them '' @ ''precisely.''
    @ [NL, NL] @ ''RULES:'' @ [NL] @ ''- Fix ONLY the reported lint issues, nothing else'' @ [NL]
    @ ''- Use idiomatic patterns for the language'' @ [NL] @ ''- Do not refactor or change logic ''
    @ [CHR 0xE2, CHR 0x80, CHR 0x94] @ '' only fix warnings'' @ [NL] @ ''- Prefer the simplest fix''"
| "role_description TestWriter =
    ''You are a test-writing agent. You add tests for existing functions.'' @ [NL, NL] @ ''RULES:''
    @ [NL] @ ''- Write tests that cover the main behavior and edge cases'' @ [NL]
    @ ''- Use the project'' @ [CHR 0x27] @ ''s existing test patterns and framework'' @ [NL]
    @ ''- Test both success and error paths'' @ [NL] @ ''- Do not modify the code under test ''
    @ [CHR 0xE2, CHR 0x80, CHR 0x94] @ '' only add tests''"
| "role_description Refactorer =
    ''You are a refactoring agent. You improve code structure without changing '' @ ''behavior.''
    @ [NL, NL] @ ''RULES:'' @ [NL] @ ''- Do NOT change external behavior or API'' @ [NL]
    @ ''- Extract functions, reduce duplication, improve naming'' @ [NL]
    @ ''- Keep changes minimal and focused'' @ [NL] @ ''- Preserve all existing tests''"
| "role_description FeatureAdder =
    ''You are a feature implementation agent. You add new functionality as described.'' @ [NL, NL]
    @ ''RULES:'' @ [NL] @ ''- Implement exactly what is requested'' @ [NL]
    @ ''- Follow existing code patterns and style'' @ [NL] @ ''- Add appropriate error handling''
    @ [NL] @ ''- Keep the implementation minimal''"
| "role_description BugFixer =
    ''You are a bug-fixing agent. You diagnose and fix bugs based on the description.'' @ [NL, NL]
    @ ''RULES:'' @ [NL] @ ''- Fix the root cause, not just the symptom'' @ [NL]
    @ ''- Add a regression test if possible'' @ [NL] @ ''- Do not refactor unrelated code''"

definition EDIT_FORMAT :: string where
  "EDIT_FORMAT =
    [NL] @ ''OUTPUT FORMAT:'' @ [NL]
    @ ''Use ONLY the exact file paths from the FILES section above. Never invent '' @ ''paths.''
    @ [NL, NL] @ ''<<<EDIT {actual_file_from_task}'' @ [NL] @ ''--- OLD'' @ [NL]
    @ ''exact existing lines to find'' @ [NL] @ ''--- NEW'' @ [NL] @ ''replacement lines'' @ [NL]
    @ ''>>>'' @ [NL, NL] @ ''<<<CREATE {actual_file_from_task}'' @ [NL] @ ''file contents'' @ [NL]
    @ ''>>>'' @ [NL, NL] @ ''<<<DELETE {actual_file_from_task}'' @ [NL] @ ''>>>'' @ [NL, NL]
    @ ''RULES:'' @ [NL]
    @ ''- Use ONLY file paths listed in the FILES section or mentioned in the TASK'' @ [NL]
    @ ''- Never use example paths like path/to/file.rs'' @ [NL]
    @ ''- Output ONLY <<< blocks, no explanation''"

definition TOOL_FORMAT :: string where
  "TOOL_FORMAT =
    [NL] @ ''OUTPUT FORMAT:'' @ [NL]
    @ ''You can call tools and edit files. Output ONLY <<< blocks.'' @ [NL]
    @ ''You CAN output MULTIPLE blocks in a single response '' @ [CHR 0xE2, CHR 0x80, CHR 0x94]
    @ '' they all execute.'' @ [NL, NL] @ ''<<<TOOL tool_name'' @ [NL] @ ''{'' @ [DQ] @ ''param''
    @ [DQ] @ '': '' @ [DQ] @ ''value'' @ [DQ] @ ''}'' @ [NL] @ ''>>>'' @ [NL, NL]
    @ ''<<<EDIT {actual_file_from_task}'' @ [NL] @ ''--- OLD'' @ [NL] @ ''exact existing lines''
    @ [NL] @ ''--- NEW'' @ [NL] @ ''replacement lines'' @ [NL] @ ''>>>'' @ [NL, NL]
    @ ''<<<CREATE {actual_file_from_task}'' @ [NL] @ ''file contents'' @ [NL] @ ''>>>'' @ [NL, NL]
    @ ''<<<DONE'' @ [NL] @ ''what was done'' @ [NL] @ ''>>>'' @ [NL, NL] @ ''BATCH CALLS ''
    @ [CHR 0xE2, CHR 0x80, CHR 0x94] @ '' combine multiple actions in ONE response to save time:''
    @ [NL] @ ''<<<TOOL read_file'' @ [NL] @ ''{'' @ [DQ] @ ''path'' @ [DQ] @ '': '' @ [DQ]
    @ ''src/a.rs'' @ [DQ] @ ''}'' @ [NL] @ ''>>>'' @ [NL] @ ''<<<TOOL read_file'' @ [NL] @ ''{''
    @ [DQ] @ ''path'' @ [DQ] @ '': '' @ [DQ] @ ''src/b.rs'' @ [DQ] @ ''}'' @ [NL] @ ''>>>''
    @ [NL, NL] @ ''WORKFLOW:'' @ [NL] @ ''1. Read ALL needed files in ONE call (batch read_file)''
    @ [NL] @ ''2. Make ALL edits in ONE response (batch <<<EDIT>>> blocks)'' @ [NL]
    @ ''3. Run run_check to verify fmt+build+lint in ONE call'' @ [NL]
    @ ''4. If check fails, fix with <<<EDIT>>> + run_check in same response'' @ [NL]
    @ ''5. <<<DONE>>> when everything passes'' @ [NL, NL] @ ''RULES:'' @ [NL]
    @ ''- Use ONLY file paths from the FILES section or TASK description'' @ [NL]
    @ ''- Start with <<< immediately, no explanation'' @ [NL]
    @ ''- Batch multiple operations in a single response when possible''"

definition MAX_FILE_CHARS :: nat where "MAX_FILE_CHARS = 8000"
definition MAX_TOTAL_CONTEXT_CHARS :: nat where "MAX_TOTAL_CONTEXT_CHARS = 24000"

text \<open>The entry of a large file: its first fifty lines and the signatures of all its lines, numbered.\<close>

definition signature_list :: "string list \<Rightarrow> string list" where
  "signature_list lines =
     map (\<lambda>(i, line). ''  L'' @ show_nat (i + 1) @ '': '' @ trim line)
       (filter (\<lambda>(_, line). is_signature_line line) (zip [0..<length lines] lines))"

definition large_entry :: "string \<Rightarrow> string \<Rightarrow> string" where
  "large_entry path content =
     (let lines = str_lines content; total = length lines; signatures = signature_list lines;
          shown = min 50 total; preview = str_join [NL] (take shown lines)
      in if signatures = [] then
           ''=== '' @ path @ '' === ['' @ show_nat total @ '' lines, showing first '' @ show_nat shown @ '']''
             @ [NL] @ preview @ [NL] @ ''... ('' @ show_nat (total - shown) @ '' more lines)'' @ [NL, NL]
         else
           ''=== '' @ path @ '' === ['' @ show_nat total @ '' lines, showing first '' @ show_nat shown
             @ '' + structure]'' @ [NL] @ preview @ [NL, NL] @ ''--- Structure ('' @ show_nat (length signatures)
             @ '' items) ---'' @ [NL] @ str_join [NL] signatures @ [NL]
             @ ''... ('' @ show_nat (total - shown) @ '' more lines)'' @ [NL, NL])"

definition new_entry :: "string \<Rightarrow> string" where
  "new_entry path = ''=== '' @ path
    @ '' === [NEW FILE '' @ [CHR 0xE2, CHR 0x80, CHR 0x94]
    @ '' does not exist yet, use <<<CREATE>>> to create it]'' @ [NL, NL]"

definition omitted_entry :: "string \<Rightarrow> string \<Rightarrow> string" where
  "omitted_entry path content = ''=== '' @ path @ '' === ['' @ show_nat (length (str_lines content))
    @ '' lines, content omitted '' @ [CHR 0xE2, CHR 0x80, CHR 0x94] @ '' context limit reached]''
    @ [NL, NL]"

definition small_entry :: "string \<Rightarrow> string \<Rightarrow> string" where
  "small_entry path content = ''=== '' @ path @ '' ==='' @ [NL] @ content @ [NL, NL]"

text \<open>One file: the context so far and the characters counted so far. An omitted file is not counted.\<close>

definition add_file :: "string \<times> string \<Rightarrow> string \<times> nat \<Rightarrow> string \<times> nat" where
  "add_file f acc =
     (let (path, content) = f; (context_text, total) = acc in
      if content = [] then (context_text @ new_entry path, total + length (new_entry path))
      else if MAX_TOTAL_CONTEXT_CHARS < total then (context_text @ omitted_entry path content, total)
      else if length content \<le> MAX_FILE_CHARS then
        (context_text @ small_entry path content, total + length (small_entry path content))
      else (context_text @ large_entry path content, total + length (large_entry path content)))"

definition build_file_context :: "(string \<times> string) list \<Rightarrow> string" where
  "build_file_context files = fst (fold add_file files ([], 0))"

definition build_prompt_with_type :: "string \<Rightarrow> (string \<times> string) list \<Rightarrow> agent_type \<Rightarrow> chat_message list" where
  "build_prompt_with_type task files ty =
     [msg_system (role_description ty @ EDIT_FORMAT),
      msg_user (''TASK: '' @ task @ [NL, NL] @ ''FILES:'' @ [NL] @ build_file_context files)]"

definition build_prompt :: "string \<Rightarrow> (string \<times> string) list \<Rightarrow> chat_message list" where
  "build_prompt task files = build_prompt_with_type task files General"

definition build_tool_prompt :: "string \<Rightarrow> (string \<times> string) list \<Rightarrow> string list \<Rightarrow> chat_message list" where
  "build_tool_prompt task files tool_names =
     [msg_system (role_description General @ [NL, NL] @ ''AVAILABLE TOOLS:'' @ [NL]
        @ str_join [NL] (map (\<lambda>n. ''  - '' @ n) tool_names) @ [NL] @ TOOL_FORMAT),
      msg_user (''TASK: '' @ task @ [NL, NL] @ ''FILES:'' @ [NL] @ build_file_context files)]"

end
