(* ===== verification/CodeFacts.thy ===== *)
theory CodeFacts
  imports Prompt
begin

text \<open>
  What the tolerant replacement of \<open>code_utils.rs\<close> does on every input, and what the character limits of
  the prompt's file context bound and do not bound.
\<close>

section \<open>Replacement\<close>




section \<open>Windows of lines\<close>






section \<open>The file context\<close>

lemma lines_acc_single: "NL \<notin> set s \<Longrightarrow> lines_acc acc s = (if acc = [] \<and> s = [] then [] else [rev acc @ s])"
  by (induction acc s rule: lines_acc.induct) auto

lemma single_line: "NL \<notin> set s \<Longrightarrow> s \<noteq> [] \<Longrightarrow> str_lines s = [s]"
  by (simp add: str_lines_def lines_acc_single)

lemma sublist_append_mid: "sublist x (a @ x @ b)"
  by (auto simp: sublist_def)

text \<open>The per-file limit cuts lines, not characters: a file of a single line goes into the prompt
  whole, however far it exceeds \<open>MAX_FILE_CHARS\<close> and the limit on the whole context.\<close>

theorem single_line_file_uncut:
  assumes "NL \<notin> set content"
  shows "sublist content (build_file_context [(path, content)])"
proof (cases "content = []")
  case False
  then have l: "str_lines content = [content]"
    using assms single_line by blast
  have "sublist content (large_entry path content)"
  proof -
    have "str_join [NL] (take (min 50 (length (str_lines content))) (str_lines content)) = content"
      unfolding l by simp
    then obtain a b where "large_entry path content = a @ content @ b"
      unfolding large_entry_def Let_def by (metis append.assoc)
    then show ?thesis
      by (auto simp: sublist_def)
  qed
  moreover have "sublist content (small_entry path content)"
    using sublist_append_mid[of content "''=== '' @ path @ '' ==='' @ [NL]" "[NL, NL]"] by (simp add: small_entry_def)
  ultimately show ?thesis
    using False by (simp add: build_file_context_def add_file_def)
qed simp

lemma single_line_file_uncut_witness:
  "sublist (replicate 30000 CHR ''a'') (build_file_context [(''a.min.js'', replicate 30000 CHR ''a'')])"
  by (rule single_line_file_uncut) simp

text \<open>After a context of more than \<open>MAX_TOTAL_CONTEXT_CHARS\<close> counted characters, no further
  file content is added: every later file leaves at most its path and a note that does not depend on
  its content beyond the number of its lines.\<close>

theorem context_closed:
  assumes "MAX_TOTAL_CONTEXT_CHARS < k"
  shows "\<exists>n. fold add_file files (ctx, k) =
      (ctx @ concat (map (\<lambda>(p, c). if c = [] then new_entry p else omitted_entry p c) files), k + n)"
  using assms
proof (induction files arbitrary: ctx k)
  case (Cons f files)
  obtain p c where f: "f = (p, c)"
    by (cases f)
  show ?case
  proof (cases "c = []")
    case True
    then show ?thesis
      using Cons.IH[of "k + length (new_entry p)" "ctx @ new_entry p"] Cons.prems f
      by (auto simp: add_file_def add.assoc intro: exI)
  next
    case False
    then show ?thesis
      using Cons.IH[OF Cons.prems, of "ctx @ omitted_entry p c"] Cons.prems f
      by (simp add: add_file_def)
  qed
qed simp

lemma context_closed_witness:
  "\<exists>n. fold add_file [(''b.rs'', ''fn b() {}'')] (''big'', 24001) = (''big'' @ omitted_entry ''b.rs'' ''fn b() {}'', 24001 + n)"
  using context_closed[of 24001 "[(''b.rs'', ''fn b() {}'')]" "''big''"] by (simp add: MAX_TOTAL_CONTEXT_CHARS_def)

end
