(* ===== verification/BlobStore.thy ===== *)
theory BlobStore
  imports RustStr
begin

text \<open>
  The content-addressed blob stores of \<open>crates/virt-git\<close>: the trait \<open>BlobStore\<close> as a record of
  operations, \<open>MemoryBlobStore\<close> (\<open>store.rs\<close>) and \<open>WasiBlobStoreAdapter\<close> (\<open>wasi_store.rs\<close>), the
  contract both keep as a locale, and its two interpretations. SHA-256 is a parameter.
\<close>

section \<open>The trait\<close>

type_synonym blob_hash = string
type_synonym blob = string

record 's blob_ops =
  bs_put :: "'s \<Rightarrow> blob \<Rightarrow> blob_hash \<times> 's"
  bs_get :: "'s \<Rightarrow> blob_hash \<Rightarrow> blob option"
  bs_exists :: "'s \<Rightarrow> blob_hash \<Rightarrow> bool"
  bs_delete :: "'s \<Rightarrow> blob_hash \<Rightarrow> 's"

section \<open>The store in memory\<close>

record memory_blob_store =
  mbs_blobs :: "(string, blob) omap"

definition memory_new :: memory_blob_store where
  "memory_new = \<lparr>mbs_blobs = []\<rparr>"

definition blob_count :: "memory_blob_store \<Rightarrow> nat" where
  "blob_count st = length (mbs_blobs st)"

definition store_total_bytes :: "memory_blob_store \<Rightarrow> nat" where
  "store_total_bytes st = sum_list (map (\<lambda>(_, v). length v) (mbs_blobs st))"

definition memory_put :: "(blob \<Rightarrow> blob_hash) \<Rightarrow> memory_blob_store \<Rightarrow> blob \<Rightarrow> blob_hash \<times> memory_blob_store" where
  "memory_put content_hash st content =
     (let hash = content_hash content in
      (hash, if om_has (mbs_blobs st) hash then st else st\<lparr>mbs_blobs := om_insert hash content (mbs_blobs st)\<rparr>))"

definition memory_get :: "memory_blob_store \<Rightarrow> blob_hash \<Rightarrow> blob option" where
  "memory_get st hash = om_get (mbs_blobs st) hash"

definition memory_exists :: "memory_blob_store \<Rightarrow> blob_hash \<Rightarrow> bool" where
  "memory_exists st hash = om_has (mbs_blobs st) hash"

definition memory_delete :: "memory_blob_store \<Rightarrow> blob_hash \<Rightarrow> memory_blob_store" where
  "memory_delete st hash = st\<lparr>mbs_blobs := om_remove hash (mbs_blobs st)\<rparr>"

definition memory_ops :: "(blob \<Rightarrow> blob_hash) \<Rightarrow> memory_blob_store blob_ops" where
  "memory_ops content_hash = \<lparr>bs_put = memory_put content_hash, bs_get = memory_get,
     bs_exists = memory_exists, bs_delete = memory_delete\<rparr>"

section \<open>The adapter to a remote store\<close>

text \<open>\<open>WasiBlobStoreAdapter\<close>: a cache in front of optional callbacks. The callbacks act on a remote
  store \<open>'r\<close> outside the repository.\<close>

record 'r wasi_callbacks =
  wc_put :: "'r \<Rightarrow> string \<Rightarrow> blob \<Rightarrow> 'r"
  wc_get :: "'r \<Rightarrow> string \<Rightarrow> blob option"
  wc_exists :: "'r \<Rightarrow> string \<Rightarrow> bool"
  wc_delete :: "'r \<Rightarrow> string \<Rightarrow> 'r"

record 'r wasi_store =
  ws_container :: string
  ws_cache :: "(string, blob) omap"
  ws_callbacks :: "'r wasi_callbacks option"
  ws_remote :: 'r

definition wasi_new :: "string \<Rightarrow> 'r \<Rightarrow> 'r wasi_store" where
  "wasi_new container r = \<lparr>ws_container = container, ws_cache = [], ws_callbacks = None, ws_remote = r\<rparr>"

definition with_callbacks :: "'r wasi_callbacks \<Rightarrow> 'r wasi_store \<Rightarrow> 'r wasi_store" where
  "with_callbacks cb st = st\<lparr>ws_callbacks := Some cb\<rparr>"

definition blob_key :: "blob_hash \<Rightarrow> string" where
  "blob_key hash = ''blob/'' @ hash"

definition wasi_put :: "(blob \<Rightarrow> blob_hash) \<Rightarrow> 'r wasi_store \<Rightarrow> blob \<Rightarrow> blob_hash \<times> 'r wasi_store" where
  "wasi_put content_hash st content =
     (let hash = content_hash content in
      if om_has (ws_cache st) hash then (hash, st)
      else
        (let remote = (case ws_callbacks st of
             Some cb \<Rightarrow> wc_put cb (ws_remote st) (blob_key hash) content
           | None \<Rightarrow> ws_remote st)
         in (hash, st\<lparr>ws_remote := remote, ws_cache := om_insert hash content (ws_cache st)\<rparr>)))"

definition wasi_get :: "'r wasi_store \<Rightarrow> blob_hash \<Rightarrow> blob option" where
  "wasi_get st hash =
     (case om_get (ws_cache st) hash of
        Some cached \<Rightarrow> Some cached
      | None \<Rightarrow>
          (case ws_callbacks st of Some cb \<Rightarrow> wc_get cb (ws_remote st) (blob_key hash) | None \<Rightarrow> None))"

definition wasi_exists :: "'r wasi_store \<Rightarrow> blob_hash \<Rightarrow> bool" where
  "wasi_exists st hash \<longleftrightarrow> om_has (ws_cache st) hash
     \<or> (case ws_callbacks st of Some cb \<Rightarrow> wc_exists cb (ws_remote st) (blob_key hash) | None \<Rightarrow> False)"

definition wasi_delete :: "'r wasi_store \<Rightarrow> blob_hash \<Rightarrow> 'r wasi_store" where
  "wasi_delete st hash =
     st\<lparr>ws_cache := om_remove hash (ws_cache st),
        ws_remote := (case ws_callbacks st of
            Some cb \<Rightarrow> wc_delete cb (ws_remote st) (blob_key hash)
          | None \<Rightarrow> ws_remote st)\<rparr>"

definition wasi_ops :: "(blob \<Rightarrow> blob_hash) \<Rightarrow> 'r wasi_store blob_ops" where
  "wasi_ops content_hash = \<lparr>bs_put = wasi_put content_hash, bs_get = wasi_get,
     bs_exists = wasi_exists, bs_delete = wasi_delete\<rparr>"

section \<open>The contract\<close>

text \<open>
  What the trees and workspaces rely on. The laws hold whatever the hash function does: after a
  \<open>put\<close> the store holds a blob under the returned key and the other keys are unchanged. That the blob is the content itself needs that the content
  collides with no blob already stored, which each theorem that depends on it states.
\<close>

locale blob_store =
  fixes S :: "'s blob_ops" and ok :: "'s \<Rightarrow> bool" and content_hash :: "blob \<Rightarrow> blob_hash"
  assumes put_hash: "fst (bs_put S st c) = content_hash c"
    and put_ok: "ok st \<Longrightarrow> ok (snd (bs_put S st c))"
    and delete_ok: "ok st \<Longrightarrow> ok (bs_delete S st h)"
    and get_hash: "ok st \<Longrightarrow> bs_get S st h = Some c \<Longrightarrow> content_hash c = h"
    and put_get: "ok st \<Longrightarrow> \<exists>b. bs_get S (snd (bs_put S st c)) (content_hash c) = Some b"
    and put_same: "ok st \<Longrightarrow> bs_get S st (content_hash c) = Some c
      \<Longrightarrow> bs_get S (snd (bs_put S st c)) (content_hash c) = Some c"
    and put_new: "ok st \<Longrightarrow> bs_get S st (content_hash c) = None
      \<Longrightarrow> bs_get S (snd (bs_put S st c)) (content_hash c) = Some c"
    and put_other: "ok st \<Longrightarrow> h \<noteq> content_hash c \<Longrightarrow> bs_get S (snd (bs_put S st c)) h = bs_get S st h"
    and delete_get: "ok st \<Longrightarrow> bs_get S (bs_delete S st h) h = None"
    and delete_other: "ok st \<Longrightarrow> h \<noteq> k \<Longrightarrow> bs_get S (bs_delete S st h) k = bs_get S st k"
begin

text \<open>\<open>c\<close> collides with nothing in the store.\<close>

definition no_clash :: "'s \<Rightarrow> blob \<Rightarrow> bool" where
  "no_clash st c \<longleftrightarrow> (\<forall>b. bs_get S st (content_hash c) = Some b \<longrightarrow> b = c)"

lemma put_get_content: "ok st \<Longrightarrow> no_clash st c \<Longrightarrow> bs_get S (snd (bs_put S st c)) (content_hash c) = Some c"
  using put_new[of st c] put_same[of st c]
  by (cases "bs_get S st (content_hash c)") (auto simp: no_clash_def)

lemma put_idem: "ok st \<Longrightarrow> no_clash st c \<Longrightarrow> no_clash (snd (bs_put S st c)) c"
  by (simp add: no_clash_def[of "snd (bs_put S st c)"] put_get_content)

lemma put_keeps:
  "ok st \<Longrightarrow> no_clash st c \<Longrightarrow> bs_get S st h = Some b \<Longrightarrow> bs_get S (snd (bs_put S st c)) h = Some b"
  using put_same[of st c] put_other[of st h c] by (cases "h = content_hash c") (auto simp: no_clash_def)

end

definition memory_ok :: "(blob \<Rightarrow> blob_hash) \<Rightarrow> memory_blob_store \<Rightarrow> bool" where
  "memory_ok content_hash st \<longleftrightarrow> om_ok (mbs_blobs st)
     \<and> (\<forall>h c. om_get (mbs_blobs st) h = Some c \<longrightarrow> content_hash c = h)"

lemma memory_get_put:
  "memory_get (snd (memory_put H st c)) =
     (if memory_get st (H c) = None then (memory_get st)(H c \<mapsto> c) else memory_get st)"
  by (simp add: memory_get_def memory_put_def om_has_def Let_def fun_eq_iff)

lemma memory_get_delete: "memory_get (memory_delete st h) = (memory_get st)(h := None)"
  by (simp add: memory_get_def memory_delete_def fun_eq_iff)

lemma memory_ok_put: "memory_ok H st \<Longrightarrow> memory_ok H (snd (memory_put H st c))"
  by (auto simp: memory_ok_def memory_put_def Let_def)

lemma memory_ok_delete: "memory_ok H st \<Longrightarrow> memory_ok H (memory_delete st h)"
  by (auto simp: memory_ok_def memory_delete_def)

lemma memory_ok_get: "memory_ok H st \<Longrightarrow> memory_get st h = Some c \<Longrightarrow> H c = h"
  unfolding memory_ok_def memory_get_def by blast

interpretation mem: blob_store "memory_ops content_hash" "memory_ok content_hash" content_hash
  for content_hash
proof (unfold_locales, goal_cases)
  case (1 st c)
  then show ?case by (simp add: memory_ops_def memory_put_def Let_def)
next
  case (4 st h c)
  then show ?case using memory_ok_get by (simp add: memory_ops_def)
qed (auto simp: memory_ops_def memory_get_put memory_get_delete memory_ok_put memory_ok_delete)

text \<open>The adapter keeps the contract without callbacks, and with callbacks that act as a map.\<close>

definition remote_laws :: "'r wasi_callbacks \<Rightarrow> bool" where
  "remote_laws cb \<longleftrightarrow>
     (\<forall>r k c. wc_get cb (wc_put cb r k c) = (wc_get cb r)(k \<mapsto> c))
     \<and> (\<forall>r k. wc_get cb (wc_delete cb r k) = (wc_get cb r)(k := None))"

definition wasi_ok :: "(blob \<Rightarrow> blob_hash) \<Rightarrow> 'r wasi_store \<Rightarrow> bool" where
  "wasi_ok content_hash st \<longleftrightarrow>
     (\<forall>h c. om_get (ws_cache st) h = Some c \<longrightarrow> content_hash c = h)
     \<and> (\<forall>cb. ws_callbacks st = Some cb \<longrightarrow> remote_laws cb
          \<and> (\<forall>h c. wc_get cb (ws_remote st) (blob_key h) = Some c \<longrightarrow> content_hash c = h))"

lemma blob_key_inj [simp]: "blob_key h = blob_key k \<longleftrightarrow> h = k"
  by (simp add: blob_key_def)

lemma wasi_get_put:
  assumes "wasi_ok H st"
  shows "wasi_get (snd (wasi_put H st c)) =
     (if om_has (ws_cache st) (H c) then wasi_get st else (wasi_get st)(H c \<mapsto> c))"
  using assms
  by (simp add: wasi_get_def wasi_put_def wasi_ok_def remote_laws_def Let_def fun_eq_iff split: option.split)

lemma wasi_get_delete:
  assumes "wasi_ok H st"
  shows "wasi_get (wasi_delete st h) = (wasi_get st)(h := None)"
  using assms
  by (simp add: wasi_get_def wasi_delete_def wasi_ok_def remote_laws_def fun_eq_iff split: option.split)

lemma wasi_cached: "om_has (ws_cache st) h \<Longrightarrow> \<exists>b. wasi_get st h = Some b"
  by (auto simp: wasi_get_def om_has_def)

lemma wasi_ok_put: "wasi_ok H st \<Longrightarrow> wasi_ok H (snd (wasi_put H st c))"
  by (auto simp: wasi_ok_def wasi_put_def remote_laws_def Let_def)

lemma wasi_ok_delete: "wasi_ok H st \<Longrightarrow> wasi_ok H (wasi_delete st h)"
  by (auto simp: wasi_ok_def wasi_delete_def remote_laws_def)

lemma wasi_ok_get: "wasi_ok H st \<Longrightarrow> wasi_get st h = Some c \<Longrightarrow> H c = h"
  unfolding wasi_ok_def wasi_get_def by (auto split: option.splits)

interpretation wasi: blob_store "wasi_ops content_hash" "wasi_ok content_hash" content_hash
  for content_hash
proof (unfold_locales, goal_cases)
  case (1 st c)
  then show ?case by (simp add: wasi_ops_def wasi_put_def Let_def)
next
  case (4 st h c)
  then show ?case using wasi_ok_get by (simp add: wasi_ops_def)
next
  case (5 st c)
  then show ?case using wasi_cached[of st "content_hash c"] by (simp add: wasi_ops_def wasi_get_put)
next
  case (7 st c)
  then show ?case using wasi_cached[of st "content_hash c"] by (auto simp: wasi_ops_def wasi_get_put)
qed (auto simp: wasi_ops_def wasi_get_put wasi_get_delete wasi_ok_put wasi_ok_delete)

end
