(* ===== verification/VirtTree.thy ===== *)
theory VirtTree
  imports BlobStore
begin

text \<open>
  Tree snapshots and their differences (\<open>crates/virt-git/src/tree.rs\<close>, \<open>diff.rs\<close>), over any blob
  store. The library functions the code calls are the fields of a record.
\<close>

text \<open>SHA-256 in hexadecimal, the JSON text of the entries of a tree, and the printed hunks of the
  line difference of two texts with three lines of context.\<close>

record vg_libs =
  lib_sha256_hex :: "blob \<Rightarrow> blob_hash"
  lib_entries_json :: "(string, blob_hash) omap \<Rightarrow> blob"
  lib_hunks :: "string \<Rightarrow> string \<Rightarrow> string list"

definition content_hash :: "vg_libs \<Rightarrow> blob \<Rightarrow> blob_hash" where
  "content_hash L content = lib_sha256_hex L content"

section \<open>Snapshots\<close>

record tree_snapshot =
  ts_entries :: "(string, blob_hash) omap"
  ts_cached_hash :: "blob_hash option"

definition tree_new :: tree_snapshot where
  "tree_new = \<lparr>ts_entries = [], ts_cached_hash = None\<rparr>"

definition tree_insert :: "'s blob_ops \<Rightarrow> tree_snapshot \<Rightarrow> 's \<Rightarrow> string \<Rightarrow> blob \<Rightarrow> tree_snapshot \<times> 's" where
  "tree_insert S t st path content =
     (let (hash, st') = bs_put S st content
      in (t\<lparr>ts_entries := om_insert path hash (ts_entries t), ts_cached_hash := None\<rparr>, st'))"

definition tree_from_files :: "'s blob_ops \<Rightarrow> 's \<Rightarrow> (string \<times> blob) list \<Rightarrow> tree_snapshot \<times> 's" where
  "tree_from_files S st files =
     fold (\<lambda>(path, content) (t, st).
         let (hash, st') = bs_put S st content
         in (t\<lparr>ts_entries := om_insert path hash (ts_entries t)\<rparr>, st'))
       files (tree_new, st)"

definition tree_remove :: "tree_snapshot \<Rightarrow> string \<Rightarrow> bool \<times> tree_snapshot" where
  "tree_remove t path =
     (om_has (ts_entries t) path, t\<lparr>ts_entries := om_remove path (ts_entries t), ts_cached_hash := None\<rparr>)"

definition tree_read :: "'s blob_ops \<Rightarrow> tree_snapshot \<Rightarrow> 's \<Rightarrow> string \<Rightarrow> blob option" where
  "tree_read S t st path = Option.bind (om_get (ts_entries t) path) (bs_get S st)"

definition from_utf8 :: "blob \<Rightarrow> string option" where
  "from_utf8 bytes = (if utf8_valid bytes then Some bytes else None)"

definition tree_read_string :: "'s blob_ops \<Rightarrow> tree_snapshot \<Rightarrow> 's \<Rightarrow> string \<Rightarrow> string option" where
  "tree_read_string S t st path = Option.bind (tree_read S t st path) from_utf8"

definition tree_exists :: "tree_snapshot \<Rightarrow> string \<Rightarrow> bool" where
  "tree_exists t path = om_has (ts_entries t) path"

definition tree_list_files :: "tree_snapshot \<Rightarrow> string list" where
  "tree_list_files t = om_keys (ts_entries t)"

definition tree_file_count :: "tree_snapshot \<Rightarrow> nat" where
  "tree_file_count t = length (ts_entries t)"

text \<open>The hash is computed once and kept in the tree.\<close>

definition tree_hash :: "vg_libs \<Rightarrow> tree_snapshot \<Rightarrow> blob_hash \<times> tree_snapshot" where
  "tree_hash L t =
     (case ts_cached_hash t of
        Some h \<Rightarrow> (h, t)
      | None \<Rightarrow> (let h = content_hash L (lib_entries_json L (ts_entries t)) in (h, t\<lparr>ts_cached_hash := Some h\<rparr>)))"

definition tree_blob_hash :: "tree_snapshot \<Rightarrow> string \<Rightarrow> blob_hash option" where
  "tree_blob_hash t path = om_get (ts_entries t) path"

section \<open>Differences\<close>

datatype diff_kind = Added | Modified | Deleted

record file_diff =
  fd_path :: string
  fd_kind :: diff_kind
  fd_patch :: string

definition text_diff :: "vg_libs \<Rightarrow> string \<Rightarrow> string \<Rightarrow> string \<Rightarrow> string" where
  "text_diff L path old new = ''--- a/'' @ path @ [NL] @ ''+++ b/'' @ path @ [NL] @ concat (lib_hunks L old new)"

definition or_empty :: "string option \<Rightarrow> string" where
  "or_empty v = (case v of Some s \<Rightarrow> s | None \<Rightarrow> [])"

text \<open>The entry of one path of the old tree, and of one path that only the new tree has.\<close>

definition old_entry_diff ::
  "vg_libs \<Rightarrow> 's blob_ops \<Rightarrow> 's \<Rightarrow> tree_snapshot \<Rightarrow> string \<times> blob_hash \<Rightarrow> file_diff option" where
  "old_entry_diff L S st new e =
     (let (path, old_hash) = e in
      case om_get (ts_entries new) path of
        Some new_hash \<Rightarrow>
          (if new_hash \<noteq> old_hash then
             (let old_content = or_empty (from_utf8 (or_empty (bs_get S st old_hash)));
                  new_content = or_empty (from_utf8 (or_empty (bs_get S st new_hash)))
              in Some \<lparr>fd_path = path, fd_kind = Modified, fd_patch = text_diff L path old_content new_content\<rparr>)
           else None)
      | None \<Rightarrow> Some \<lparr>fd_path = path, fd_kind = Deleted, fd_patch = []\<rparr>)"

definition added_diff :: "'s blob_ops \<Rightarrow> 's \<Rightarrow> tree_snapshot \<Rightarrow> string \<Rightarrow> file_diff" where
  "added_diff S st new path =
     (let content = or_empty (tree_read_string S new st path)
      in \<lparr>fd_path = path, fd_kind = Added,
           fd_patch = ''--- /dev/null'' @ [NL] @ ''+++ b/'' @ path @ [NL]
             @ concat (map (\<lambda>l. ''+'' @ l @ [NL]) (str_lines content))\<rparr>)"

definition diff_trees ::
  "vg_libs \<Rightarrow> 's blob_ops \<Rightarrow> 's \<Rightarrow> tree_snapshot \<Rightarrow> tree_snapshot \<Rightarrow> file_diff list" where
  "diff_trees L S st old new =
     sort_key fd_path
       (List.map_filter (old_entry_diff L S st new) (ts_entries old)
        @ map (added_diff S st new) (filter (\<lambda>p. \<not> om_has (ts_entries old) p) (om_keys (ts_entries new))))"

definition format_diff :: "file_diff list \<Rightarrow> string" where
  "format_diff diffs = str_join [NL] (map fd_patch diffs)"

end
