(* ===== verification/VirtWorkspace.thy ===== *)
theory VirtWorkspace
  imports VirtTree "HOL-Library.Word"
begin

text \<open>
  An agent's workspace: a base tree, a working tree and the commits between them
  (\<open>crates/virt-git/src/workspace.rs\<close>), and the file provider over it (\<open>file_provider.rs\<close>).
\<close>

record commit_info =
  ci_id :: string
  ci_tree_hash :: blob_hash
  ci_parent :: "string option"
  ci_message :: string
  ci_timestamp :: nat

record virt_workspace =
  vw_base :: tree_snapshot
  vw_working :: tree_snapshot
  vw_commits :: "commit_info list"
  vw_next_commit :: "32 word"

definition workspace_new :: virt_workspace where
  "workspace_new = \<lparr>vw_base = tree_new, vw_working = tree_new, vw_commits = [], vw_next_commit = 1\<rparr>"

definition workspace_from_files :: "'s blob_ops \<Rightarrow> 's \<Rightarrow> (string \<times> string) list \<Rightarrow> virt_workspace \<times> 's" where
  "workspace_from_files S st files =
     (let (t, st') = tree_from_files S st files
      in (\<lparr>vw_base = t, vw_working = t, vw_commits = [], vw_next_commit = 1\<rparr>, st'))"

definition load_file :: "'s blob_ops \<Rightarrow> virt_workspace \<Rightarrow> 's \<Rightarrow> string \<Rightarrow> string \<Rightarrow> virt_workspace \<times> 's" where
  "load_file S w st path content =
     (let (b, st1) = tree_insert S (vw_base w) st path content;
          (k, st2) = tree_insert S (vw_working w) st1 path content
      in (w\<lparr>vw_base := b, vw_working := k\<rparr>, st2))"

definition read_file :: "'s blob_ops \<Rightarrow> virt_workspace \<Rightarrow> 's \<Rightarrow> string \<Rightarrow> string option" where
  "read_file S w st path = tree_read_string S (vw_working w) st path"

definition write_file :: "'s blob_ops \<Rightarrow> virt_workspace \<Rightarrow> 's \<Rightarrow> string \<Rightarrow> string \<Rightarrow> virt_workspace \<times> 's" where
  "write_file S w st path content =
     (let (k, st') = tree_insert S (vw_working w) st path content in (w\<lparr>vw_working := k\<rparr>, st'))"

definition delete_file :: "virt_workspace \<Rightarrow> string \<Rightarrow> virt_workspace" where
  "delete_file w path = w\<lparr>vw_working := snd (tree_remove (vw_working w) path)\<rparr>"

definition file_exists :: "virt_workspace \<Rightarrow> string \<Rightarrow> bool" where
  "file_exists w path = tree_exists (vw_working w) path"

definition list_files :: "virt_workspace \<Rightarrow> string list" where
  "list_files w = tree_list_files (vw_working w)"

text \<open>The quick check for changed paths, without the texts.\<close>

definition diff_entries :: "virt_workspace \<Rightarrow> string list" where
  "diff_entries w =
     (let base = ts_entries (vw_base w); work = ts_entries (vw_working w) in
      map fst (filter (\<lambda>(path, hash). case om_get base path of
          Some base_hash \<Rightarrow> base_hash \<noteq> hash | None \<Rightarrow> True) work)
      @ filter (\<lambda>path. \<not> om_has work path) (om_keys base))"

definition has_changes :: "virt_workspace \<Rightarrow> bool" where
  "has_changes w \<longleftrightarrow> diff_entries w \<noteq> []"

definition workspace_diff :: "vg_libs \<Rightarrow> 's blob_ops \<Rightarrow> virt_workspace \<Rightarrow> 's \<Rightarrow> file_diff list" where
  "workspace_diff L S w st = diff_trees L S st (vw_base w) (vw_working w)"

definition workspace_diff_text :: "vg_libs \<Rightarrow> 's blob_ops \<Rightarrow> virt_workspace \<Rightarrow> 's \<Rightarrow> string" where
  "workspace_diff_text L S w st = format_diff (workspace_diff L S w st)"

text \<open>\<open>commit-{:04}\<close>: four digits at least, padded with zeros.\<close>

definition commit_id :: "32 word \<Rightarrow> string" where
  "commit_id n = (let d = show_nat (unat n) in ''commit-'' @ replicate (4 - length d) CHR ''0'' @ d)"

text \<open>The counter is a \<open>u32\<close>; a release build wraps it. \<open>now\<close> is the time of the clock.\<close>

definition workspace_commit ::
  "vg_libs \<Rightarrow> virt_workspace \<Rightarrow> string \<Rightarrow> nat \<Rightarrow> commit_info \<times> virt_workspace" where
  "workspace_commit L w message now =
     (let (tree_h, working) = tree_hash L (vw_working w);
          parent = (if vw_commits w = [] then None else Some (ci_id (List.last (vw_commits w))));
          c = \<lparr>ci_id = commit_id (vw_next_commit w), ci_tree_hash = tree_h, ci_parent = parent,
                ci_message = message, ci_timestamp = now\<rparr>
      in (c, w\<lparr>vw_base := working, vw_working := working, vw_commits := vw_commits w @ [c],
              vw_next_commit := vw_next_commit w + 1\<rparr>))"

definition workspace_summary :: "virt_workspace \<Rightarrow> string" where
  "workspace_summary w =
     ''VirtWorkspace Summary:'' @ [NL] @ ''- Files in working tree: '' @ str_join '', '' (list_files w) @ [NL]
     @ ''- Has uncommitted changes: '' @ (if has_changes w then ''true'' else ''false'') @ [NL]
     @ ''- Number of commits: '' @ show_nat (length (vw_commits w))"

section \<open>Fork and merge\<close>

definition workspace_fork :: "virt_workspace \<Rightarrow> memory_blob_store \<Rightarrow> virt_workspace \<times> memory_blob_store" where
  "workspace_fork w st =
     (\<lparr>vw_base = vw_working w, vw_working = vw_working w, vw_commits = [], vw_next_commit = 1\<rparr>, st)"

text \<open>Their version of one path is written into our working tree, or our entry is removed.\<close>

definition take_theirs ::
  "vg_libs \<Rightarrow> memory_blob_store \<Rightarrow> blob_hash option \<Rightarrow> string \<Rightarrow> tree_snapshot \<times> memory_blob_store
    \<Rightarrow> tree_snapshot \<times> memory_blob_store" where
  "take_theirs L their_store their_hash path ws =
     (let (t, st) = ws in
      case their_hash of
        Some hash \<Rightarrow>
          (case memory_get their_store hash of
             Some content \<Rightarrow> tree_insert (memory_ops (content_hash L)) t st path content
           | None \<Rightarrow> (t, st))
      | None \<Rightarrow> (snd (tree_remove t path), st))"

definition merge_path ::
  "vg_libs \<Rightarrow> tree_snapshot \<Rightarrow> tree_snapshot \<Rightarrow> tree_snapshot \<Rightarrow> memory_blob_store \<Rightarrow> string
    \<Rightarrow> (tree_snapshot \<times> memory_blob_store) \<times> string list \<Rightarrow> (tree_snapshot \<times> memory_blob_store) \<times> string list" where
  "merge_path L base ours theirs their_store path acc =
     (let (ws, conflicts) = acc;
          base_hash = om_get (ts_entries base) path;
          our_hash = om_get (ts_entries ours) path;
          their_hash = om_get (ts_entries theirs) path;
          we_changed = our_hash \<noteq> base_hash;
          they_changed = their_hash \<noteq> base_hash
      in if \<not> they_changed then (ws, conflicts)
         else if \<not> we_changed then (take_theirs L their_store their_hash path ws, conflicts)
         else (take_theirs L their_store their_hash path ws, conflicts @ [path]))"

definition workspace_merge ::
  "vg_libs \<Rightarrow> virt_workspace \<Rightarrow> memory_blob_store \<Rightarrow> virt_workspace \<Rightarrow> memory_blob_store
    \<Rightarrow> string list \<times> virt_workspace \<times> memory_blob_store" where
  "workspace_merge L w st theirs their_store =
     (let all_paths = sort (remdups (om_keys (ts_entries (vw_base w)) @ om_keys (ts_entries (vw_working w))
            @ om_keys (ts_entries (vw_working theirs))));
          ((working, st'), conflicts) =
            fold (merge_path L (vw_base w) (vw_working w) (vw_working theirs) their_store) all_paths
              ((vw_working w, st), [])
      in (conflicts, w\<lparr>vw_working := working\<rparr>, st'))"

section \<open>The file provider over a workspace\<close>

record virt_file_provider =
  vp_workspace :: virt_workspace
  vp_store :: memory_blob_store

text \<open>\<open>trait FileProvider\<close>: what an agent may do with files.\<close>

record 'p file_provider =
  fp_read :: "'p \<Rightarrow> string \<Rightarrow> string outcome"
  fp_write :: "'p \<Rightarrow> string \<Rightarrow> string \<Rightarrow> unit outcome \<times> 'p"
  fp_exists :: "'p \<Rightarrow> string \<Rightarrow> bool"
  fp_list :: "'p \<Rightarrow> string list"

definition vp_new :: virt_file_provider where
  "vp_new = \<lparr>vp_workspace = workspace_new, vp_store = memory_new\<rparr>"

definition vp_load_file :: "vg_libs \<Rightarrow> virt_file_provider \<Rightarrow> string \<Rightarrow> string \<Rightarrow> virt_file_provider" where
  "vp_load_file L p path content =
     (let (w, st) = load_file (memory_ops (content_hash L)) (vp_workspace p) (vp_store p) path content
      in \<lparr>vp_workspace = w, vp_store = st\<rparr>)"

definition vp_has_changes :: "virt_file_provider \<Rightarrow> bool" where
  "vp_has_changes p = has_changes (vp_workspace p)"

definition vp_diff_text :: "vg_libs \<Rightarrow> virt_file_provider \<Rightarrow> string" where
  "vp_diff_text L p = workspace_diff_text L (memory_ops (content_hash L)) (vp_workspace p) (vp_store p)"

definition vp_modified_files :: "vg_libs \<Rightarrow> virt_file_provider \<Rightarrow> (string \<times> string) list" where
  "vp_modified_files L p =
     (let S = memory_ops (content_hash L) in
      List.map_filter
        (\<lambda>d. if fd_kind d = Deleted then None
             else map_option (\<lambda>c. (fd_path d, c)) (read_file S (vp_workspace p) (vp_store p) (fd_path d)))
        (workspace_diff L S (vp_workspace p) (vp_store p)))"

definition vp_read_file :: "vg_libs \<Rightarrow> virt_file_provider \<Rightarrow> string \<Rightarrow> string outcome" where
  "vp_read_file L p path =
     (case read_file (memory_ops (content_hash L)) (vp_workspace p) (vp_store p) path of
        Some c \<Rightarrow> Ok c | None \<Rightarrow> Err (''file not found: '' @ path))"

definition vp_write_file ::
  "vg_libs \<Rightarrow> virt_file_provider \<Rightarrow> string \<Rightarrow> string \<Rightarrow> unit outcome \<times> virt_file_provider" where
  "vp_write_file L p path content =
     (let (w, st) = write_file (memory_ops (content_hash L)) (vp_workspace p) (vp_store p) path content
      in (Ok (), \<lparr>vp_workspace = w, vp_store = st\<rparr>))"

definition vp_file_exists :: "virt_file_provider \<Rightarrow> string \<Rightarrow> bool" where
  "vp_file_exists p path = file_exists (vp_workspace p) path"

definition vp_list_files :: "virt_file_provider \<Rightarrow> string list" where
  "vp_list_files p = list_files (vp_workspace p)"

definition virt_provider :: "vg_libs \<Rightarrow> virt_file_provider file_provider" where
  "virt_provider L = \<lparr>fp_read = vp_read_file L, fp_write = vp_write_file L, fp_exists = vp_file_exists,
     fp_list = vp_list_files\<rparr>"

end
