(* ===== verification/Base64.thy ===== *)
theory Base64
  imports RustStr "HOL-Library.Word"
begin

text \<open>
  The base64 encoder of the pull request writer (\<open>base64_encode\<close> in \<open>crates/virt-git/src/github.rs\<close>) and
  the decoder of the repository loader (\<open>base64_decode\<close> in \<open>github_loader.rs\<close>), on machine words of the
  widths the code uses, and the proof that the one inverts the other.
\<close>

unbundle bit_operations_syntax

fun chunks :: "nat \<Rightarrow> 'a list \<Rightarrow> 'a list list" where
  "chunks n xs = (if n = 0 \<or> xs = [] then [] else take n xs # chunks n (drop n xs))"

declare chunks.simps [simp del]

definition BASE64_CHARS :: string where
  "BASE64_CHARS = ''ABCDEFGHIJKLMNOPQRSTUVWXYZabcdefghijklmnopqrstuvwxyz0123456789+/''"

text \<open>The 24 bits of a chunk, a missing byte counting as zero, and the character of the six low bits.\<close>

definition chunk_bits :: "string \<Rightarrow> 32 word" where
  "chunk_bits chunk = (let byte = (\<lambda>i. if i < length chunk then of_char (chunk ! i) else 0) in
     push_bit 16 (byte 0) OR push_bit 8 (byte 1) OR byte 2)"

definition base64_char :: "32 word \<Rightarrow> char" where
  "base64_char w = BASE64_CHARS ! unat (w AND 63)"

definition encode_chunk :: "string \<Rightarrow> string" where
  "encode_chunk chunk =
     (let n = chunk_bits chunk in
      [base64_char (drop_bit 18 n), base64_char (drop_bit 12 n),
       if 1 < length chunk then base64_char (drop_bit 6 n) else CHR ''='',
       if 2 < length chunk then base64_char n else CHR ''=''])"

definition base64_encode :: "string \<Rightarrow> string" where
  "base64_encode data = concat (map encode_chunk (chunks 3 data))"

text \<open>\<open>CHARS.iter().position(..).unwrap_or(0) as u8\<close>: a byte outside the alphabet counts as zero.\<close>

definition base64_value :: "char \<Rightarrow> 8 word" where
  "base64_value c = (let i = length (takeWhile (\<lambda>x. x \<noteq> c) BASE64_CHARS) in
     if i < length BASE64_CHARS then of_nat i else 0)"

definition word_char :: "8 word \<Rightarrow> char" where
  "word_char w = char_of (unat w)"

definition decode_chunk :: "string \<Rightarrow> string" where
  "decode_chunk chunk =
     (let vals = map base64_value chunk; n = length vals in
      (if 2 \<le> n then [word_char (push_bit 2 (vals ! 0) OR drop_bit 4 (vals ! 1))] else [])
      @ (if 3 \<le> n then [word_char (push_bit 4 (vals ! 1) OR drop_bit 2 (vals ! 2))] else [])
      @ (if 4 \<le> n then [word_char (push_bit 6 (vals ! 2) OR (vals ! 3))] else []))"

definition base64_decode :: "string \<Rightarrow> string outcome" where
  "base64_decode input =
     (let bytes = filter (\<lambda>b. b \<noteq> CHR ''='' \<and> b \<noteq> NL \<and> b \<noteq> CR) input
      in Ok (concat (map decode_chunk (chunks 4 bytes))))"


lemma length_alphabet [simp]: "length BASE64_CHARS = 64"
  by (simp add: BASE64_CHARS_def)

lemma alphabet_all: "i < 64 \<Longrightarrow> base64_value (BASE64_CHARS ! i) = of_nat i
    \<and> BASE64_CHARS ! i \<notin> {CHR ''='', NL, CR}"
proof -
  have "\<forall>i\<in>set [0..<64]. base64_value (BASE64_CHARS ! i) = of_nat i
    \<and> BASE64_CHARS ! i \<noteq> CHR ''='' \<and> BASE64_CHARS ! i \<noteq> NL \<and> BASE64_CHARS ! i \<noteq> CR"
    by code_simp
  then show "i < 64 \<Longrightarrow> ?thesis"
    by simp
qed

lemma base64_char_facts:
  "base64_value (base64_char w) = ucast (w AND 63)"
  "base64_char w \<noteq> CHR ''=''" "base64_char w \<noteq> NL" "base64_char w \<noteq> CR"
proof -
  have "w AND 63 \<le> (63 :: 32 word)"
    by (rule word_and_le1)
  then have "unat (w AND 63) < 64"
    by (simp add: word_le_nat_alt)
  then show "base64_value (base64_char w) = ucast (w AND 63)"
    "base64_char w \<noteq> CHR ''=''" "base64_char w \<noteq> NL" "base64_char w \<noteq> CR"
    using alphabet_all[of "unat (w AND 63)"] by (auto simp: base64_char_def)
qed

lemma of_char_less: "(of_char c :: nat) < 256"
  using of_char_mod_256[of c, where 'a = nat] by (metis mod_less_divisor zero_less_numeral)

lemma unat_byte: "unat (of_char c :: 8 word) = of_char c"
proof -
  have "unat (of_char c :: 8 word) = unat (of_nat (of_char c) :: 8 word)"
    by (simp only: of_nat_of_char)
  also have "\<dots> = of_char c"
    using of_char_less[of c] by (simp add: unat_of_nat)
  finally show ?thesis .
qed

lemma word_char_byte [simp]: "word_char (of_char c) = c"
  by (simp add: word_char_def unat_byte)

lemma ucast_byte: "(of_char c :: 32 word) = ucast (of_char c :: 8 word)"
  by (metis unat_byte of_nat_of_char of_nat_unat)

lemma byte_eqI:
  fixes x y :: "8 word"
  assumes "bit x 0 \<longleftrightarrow> bit y 0" "bit x 1 \<longleftrightarrow> bit y 1" "bit x 2 \<longleftrightarrow> bit y 2" "bit x 3 \<longleftrightarrow> bit y 3"
    "bit x 4 \<longleftrightarrow> bit y 4" "bit x 5 \<longleftrightarrow> bit y 5" "bit x 6 \<longleftrightarrow> bit y 6" "bit x 7 \<longleftrightarrow> bit y 7"
  shows "x = y"
proof (rule bit_word_eqI)
  fix n assume "n < LENGTH(8)"
  then have "n = 0 \<or> n = 1 \<or> n = 2 \<or> n = 3 \<or> n = 4 \<or> n = 5 \<or> n = 6 \<or> n = 7"
    by simp linarith
  then show "bit x n \<longleftrightarrow> bit y n"
    using assms by blast
qed

lemma byte_high: "8 \<le> n \<Longrightarrow> \<not> bit (x :: 8 word) n"
  by (auto dest: bit_imp_le_length)

lemma regroup:
  fixes a b c :: "8 word"
  defines "n \<equiv> push_bit 16 (ucast a) OR push_bit 8 (ucast b) OR ucast c :: 32 word"
  shows "push_bit 2 (ucast (drop_bit 18 n AND 63)) OR drop_bit 4 (ucast (drop_bit 12 n AND 63)) = a"
    "push_bit 4 (ucast (drop_bit 12 n AND 63)) OR drop_bit 2 (ucast (drop_bit 6 n AND 63)) = b"
    "push_bit 6 (ucast (drop_bit 6 n AND 63)) OR ucast (n AND 63) = c"
proof -
  have m: "(63 :: 32 word) = mask 6"
    by (simp add: mask_eq_exp_minus_1)
  show "push_bit 2 (ucast (drop_bit 18 n AND 63)) OR drop_bit 4 (ucast (drop_bit 12 n AND 63)) = a"
    unfolding n_def m by (rule byte_eqI) (simp_all add: bit_simps byte_high)
  show "push_bit 4 (ucast (drop_bit 12 n AND 63)) OR drop_bit 2 (ucast (drop_bit 6 n AND 63)) = b"
    unfolding n_def m by (rule byte_eqI) (simp_all add: bit_simps byte_high)
  show "push_bit 6 (ucast (drop_bit 6 n AND 63)) OR ucast (n AND 63) = c"
    unfolding n_def m by (rule byte_eqI) (simp_all add: bit_simps byte_high)
qed

text \<open>One chunk: the padding is filtered out and the remaining characters decode to the chunk.\<close>

definition plain :: "string \<Rightarrow> string" where
  "plain s = filter (\<lambda>b. b \<noteq> CHR ''='' \<and> b \<noteq> NL \<and> b \<noteq> CR) s"

lemma plain_append: "plain (a @ b) = plain a @ plain b"
  by (simp add: plain_def)

lemma encode_chunk_plain:
  "plain (encode_chunk [a]) = map (\<lambda>k. base64_char (drop_bit k (chunk_bits [a]))) [18, 12]"
  "plain (encode_chunk [a, b]) = map (\<lambda>k. base64_char (drop_bit k (chunk_bits [a, b]))) [18, 12, 6]"
  "plain (encode_chunk [a, b, c]) = map (\<lambda>k. base64_char (drop_bit k (chunk_bits [a, b, c]))) [18, 12, 6, 0]"
  by (simp_all add: encode_chunk_def Let_def plain_def base64_char_facts)

lemma chunk_bits_bytes:
  "chunk_bits [a] = push_bit 16 (ucast (of_char a :: 8 word)) OR push_bit 8 (ucast (0 :: 8 word)) OR ucast (0 :: 8 word)"
  "chunk_bits [a, b] = push_bit 16 (ucast (of_char a :: 8 word)) OR push_bit 8 (ucast (of_char b :: 8 word)) OR ucast (0 :: 8 word)"
  "chunk_bits [a, b, c] = push_bit 16 (ucast (of_char a :: 8 word)) OR push_bit 8 (ucast (of_char b :: 8 word)) OR ucast (of_char c :: 8 word)"
  by (simp_all add: chunk_bits_def Let_def ucast_byte)

lemma chunk_roundtrip:
  "chunk \<noteq> [] \<Longrightarrow> length chunk \<le> 3 \<Longrightarrow> decode_chunk (plain (encode_chunk chunk)) = chunk"
proof -
  assume "chunk \<noteq> []" "length chunk \<le> 3"
  then consider a where "chunk = [a]" | a b where "chunk = [a, b]" | a b c where "chunk = [a, b, c]"
    by (metis le_Suc_eq length_0_conv length_Suc_conv numeral_3_eq_3 le_zero_eq)
  then show ?thesis
  proof cases
    case (1 a)
    show ?thesis
      unfolding 1 encode_chunk_plain using regroup(1)[of "of_char a" 0 0, folded chunk_bits_bytes]
      by (simp add: decode_chunk_def Let_def base64_char_facts)
  next
    case (2 a b)
    show ?thesis
      unfolding 2 encode_chunk_plain using regroup(1,2)[of "of_char a" "of_char b" 0, folded chunk_bits_bytes]
      by (simp add: decode_chunk_def Let_def base64_char_facts)
  next
    case (3 a b c)
    show ?thesis
      unfolding 3 encode_chunk_plain using regroup[of "of_char a" "of_char b" "of_char c", folded chunk_bits_bytes]
      by (simp add: decode_chunk_def Let_def base64_char_facts)
  qed
qed

text \<open>Decoding without the padding, chunk by chunk.\<close>

definition decode_plain :: "string \<Rightarrow> string" where
  "decode_plain s = concat (map decode_chunk (chunks 4 (plain s)))"

lemma decode_short:
  assumes "length data \<le> 3" "data \<noteq> []"
  shows "decode_plain (base64_encode data) = data"
proof -
  have e: "base64_encode data = encode_chunk data"
    using assms by (simp add: base64_encode_def chunks.simps[of 3 data] chunks.simps[of 3 "[]"])
  have l: "length (plain (encode_chunk data)) \<le> 4"
    using length_filter_le[of _ "encode_chunk data"] unfolding plain_def
    by (rule order_trans) (simp add: encode_chunk_def Let_def)
  have "plain (encode_chunk data) \<noteq> []"
    using chunk_roundtrip[OF assms(2,1)] assms(2) by (auto simp: decode_chunk_def)
  then have "chunks 4 (plain (encode_chunk data)) = [plain (encode_chunk data)]"
    using l by (subst chunks.simps) (simp add: chunks.simps[of 4 "[]"])
  then show ?thesis
    using chunk_roundtrip[OF assms(2,1)] e by (simp add: decode_plain_def)
qed

lemma decode_long:
  assumes "3 < length data"
  shows "decode_plain (base64_encode data) = take 3 data @ decode_plain (base64_encode (drop 3 data))"
proof -
  let ?h = "take 3 data" and ?t = "drop 3 data"
  obtain a b c where h: "?h = [a, b, c]"
    using assms by (cases data; cases "tl data"; cases "tl (tl data)"; auto simp: numeral_3_eq_3)
  have e: "base64_encode data = encode_chunk ?h @ base64_encode ?t"
    using assms by (subst base64_encode_def, subst chunks.simps) (auto simp: base64_encode_def)
  have l: "length (plain (encode_chunk ?h)) = 4"
    unfolding h encode_chunk_plain by (simp add: encode_chunk_def Let_def)
  have "chunks 4 (plain (base64_encode data)) = plain (encode_chunk ?h) # chunks 4 (plain (base64_encode ?t))"
    unfolding e plain_append using l by (subst chunks.simps) auto
  moreover have "decode_chunk (plain (encode_chunk ?h)) = ?h"
    using h by (intro chunk_roundtrip) auto
  ultimately show ?thesis
    by (simp add: decode_plain_def)
qed

lemma decode_encode: "decode_plain (base64_encode data) = data"
proof (induction "length data" arbitrary: data rule: less_induct)
  case less
  consider "data = []" | "data \<noteq> []" "length data \<le> 3" | "3 < length data"
    by linarith
  then show ?case
  proof cases
    case 1
    then show ?thesis by (simp add: decode_plain_def base64_encode_def chunks.simps plain_def)
  next
    case 3
    then show ?thesis
      using less[of "drop 3 data"] by (simp add: decode_long)
  qed (simp add: decode_short)
qed

lemma base64_decode_encode: "base64_decode (base64_encode data) = Ok data"
  using decode_encode[of data] by (simp add: base64_decode_def decode_plain_def plain_def)

text \<open>C31: what the pull request writer encodes, the repository loader decodes: \<open>base64_decode\<close> inverts
  \<open>base64_encode\<close> on every byte string, the three paddings included.\<close>

theorem base64_roundtrip: "base64_decode (base64_encode data) = Ok data"
  by (rule base64_decode_encode)

end
