(* ===== verification/GitHub.thy ===== *)
theory GitHub
  imports VirtWorkspace Base64
begin

text \<open>
  The GitHub client of \<open>crates/virt-git\<close>: a pull request from the changes of a workspace
  (\<open>github.rs\<close>) and a workspace from the files of a branch (\<open>github_loader.rs\<close>). The HTTP callback is a
  parameter that threads its own state; the JSON encoders and decoders of the request and response
  structs are the fields of a record.
\<close>

section \<open>Requests and responses\<close>

record github_config =
  gc_owner :: string
  gc_repo :: string
  gc_token :: string
  gc_base_branch :: string

record pr_result =
  pr_url :: string
  pr_number :: nat
  pr_branch :: string
  pr_commit_sha :: string
  pr_files_changed :: "string list"
  pr_diff_summary :: string

record create_blob_request =
  cb_content :: string
  cb_encoding :: string

record tree_entry =
  te_path :: string
  te_mode :: string
  te_type :: string
  te_sha :: string

record create_tree_request =
  ct_base_tree :: string
  ct_tree :: "tree_entry list"

record create_commit_request =
  cc_message :: string
  cc_tree :: string
  cc_parents :: "string list"

record create_ref_request =
  cr_ref_name :: string
  cr_sha :: string

record create_pr_request =
  cp_title :: string
  cp_body :: string
  cp_head :: string
  cp_base :: string

text \<open>\<open>serde_json\<close> on these types: printing may fail, reading gives the fields the client uses. The last
  field is the text of a \<open>FromUtf8Error\<close>.\<close>

record gh_json =
  gj_blob :: "create_blob_request \<Rightarrow> string outcome"
  gj_tree :: "create_tree_request \<Rightarrow> string outcome"
  gj_commit :: "create_commit_request \<Rightarrow> string outcome"
  gj_ref :: "create_ref_request \<Rightarrow> string outcome"
  gj_pr :: "create_pr_request \<Rightarrow> string outcome"
  gj_ref_response :: "string \<Rightarrow> string outcome"
  gj_sha_response :: "string \<Rightarrow> string outcome"
  gj_pr_response :: "string \<Rightarrow> (nat \<times> string) outcome"
  gj_tree_response :: "string \<Rightarrow> (string \<times> string) list outcome"
  gj_content_response :: "string \<Rightarrow> (string \<times> string) outcome"
  gj_utf8_error :: "blob \<Rightarrow> string"

type_synonym 'h http = "string \<Rightarrow> string \<Rightarrow> string \<Rightarrow> string \<Rightarrow> ('h, string) io"

definition api_base :: "string \<Rightarrow> string \<Rightarrow> string" where
  "api_base owner repo = ''https://api.github.com/repos/'' @ owner @ ''/'' @ repo"

definition blob_request :: "string \<Rightarrow> create_blob_request" where
  "blob_request content = \<lparr>cb_content = base64_encode content, cb_encoding = ''base64''\<rparr>"

definition blob_entry :: "string \<Rightarrow> string \<Rightarrow> tree_entry" where
  "blob_entry path sha = \<lparr>te_path = path, te_mode = ''100644'', te_type = ''blob'', te_sha = sha\<rparr>"

section \<open>The templates of a pull request\<close>

record api_call =
  ac_step :: string
  ac_method :: string
  ac_path :: string
  ac_body :: string

definition or_default :: "string outcome \<Rightarrow> string" where
  "or_default r = (case r of Ok s \<Rightarrow> s | _ \<Rightarrow> [])"

definition build_pr_requests ::
  "vg_libs \<Rightarrow> gh_json \<Rightarrow> 's blob_ops \<Rightarrow> github_config \<Rightarrow> virt_workspace \<Rightarrow> 's \<Rightarrow> string \<Rightarrow> string \<Rightarrow> string
    \<Rightarrow> string \<Rightarrow> api_call list" where
  "build_pr_requests L J S config w st commit_message pr_title pr_body branch_name =
     (let diffs = workspace_diff L S w st; api = api_base (gc_owner config) (gc_repo config) in
      if diffs = [] then []
      else
        \<lparr>ac_step = ''get_base_sha'', ac_method = ''GET'',
          ac_path = api @ ''/git/ref/heads/'' @ gc_base_branch config, ac_body = []\<rparr>
        # List.map_filter
            (\<lambda>d. map_option
               (\<lambda>content. \<lparr>ac_step = ''create_blob'', ac_method = ''POST'', ac_path = api @ ''/git/blobs'',
                  ac_body = or_default (gj_blob J (blob_request content))\<rparr>)
               (read_file S w st (fd_path d)))
            diffs
        @ [\<lparr>ac_step = ''create_tree_template'', ac_method = ''POST'', ac_path = api @ ''/git/trees'',
             ac_body = or_default (gj_tree J
               \<lparr>ct_base_tree = ''{base_tree_sha}'',
                 ct_tree = map (\<lambda>d. blob_entry (fd_path d) (''{blob_sha_'' @ fd_path d @ ''}'')) diffs\<rparr>)\<rparr>,
           \<lparr>ac_step = ''create_commit_template'', ac_method = ''POST'', ac_path = api @ ''/git/commits'',
             ac_body = or_default (gj_commit J
               \<lparr>cc_message = commit_message, cc_tree = ''{tree_sha}'', cc_parents = [''{base_sha}'']\<rparr>)\<rparr>,
           \<lparr>ac_step = ''create_ref'', ac_method = ''POST'', ac_path = api @ ''/git/refs'',
             ac_body = or_default (gj_ref J
               \<lparr>cr_ref_name = ''refs/heads/'' @ branch_name, cr_sha = ''{commit_sha}''\<rparr>)\<rparr>,
           \<lparr>ac_step = ''create_pr'', ac_method = ''POST'', ac_path = api @ ''/pulls'',
             ac_body = or_default (gj_pr J
               \<lparr>cp_title = pr_title, cp_body = pr_body, cp_head = branch_name,
                 cp_base = gc_base_branch config\<rparr>)\<rparr>])"

section \<open>The pull request\<close>

text \<open>Step 2: one blob for each changed file that can be read from the working tree.\<close>

fun create_blobs ::
  "gh_json \<Rightarrow> 'h http \<Rightarrow> string \<Rightarrow> string \<Rightarrow> (string \<Rightarrow> string option) \<Rightarrow> file_diff list
    \<Rightarrow> ('h, (string \<times> string) list) io" where
  "create_blobs J http api token read [] = io_ok []"
| "create_blobs J http api token read (d # ds) =
     (case read (fd_path d) of
        None \<Rightarrow> create_blobs J http api token read ds
      | Some content \<Rightarrow>
          io_bind (io_lift (map_err (\<lambda>e. ''serialize blob: '' @ e) (gj_blob J (blob_request content)))) (\<lambda>req.
          io_bind (http ''POST'' (api @ ''/git/blobs'') req token) (\<lambda>resp.
          io_bind (io_lift (map_err (\<lambda>e. ''parse blob response: '' @ e) (gj_sha_response J resp))) (\<lambda>sha.
          io_bind (create_blobs J http api token read ds) (\<lambda>rest. io_ok ((fd_path d, sha) # rest))))))"

definition create_pr ::
  "vg_libs \<Rightarrow> gh_json \<Rightarrow> 's blob_ops \<Rightarrow> github_config \<Rightarrow> virt_workspace \<Rightarrow> 's \<Rightarrow> string \<Rightarrow> string \<Rightarrow> string
    \<Rightarrow> string \<Rightarrow> 'h http \<Rightarrow> ('h, pr_result) io" where
  "create_pr L J S config w st commit_message pr_title pr_body branch_name http =
     (let diffs = workspace_diff L S w st; api = api_base (gc_owner config) (gc_repo config);
          token = gc_token config in
      if diffs = [] then io_lift (Err ''No changes to create PR from'')
      else
        io_bind (http ''GET'' (api @ ''/git/ref/heads/'' @ gc_base_branch config) [] token) (\<lambda>base_resp.
        io_bind (io_lift (map_err (\<lambda>e. ''parse base ref: '' @ e) (gj_ref_response J base_resp))) (\<lambda>base_sha.
        io_bind (create_blobs J http api token (read_file S w st) diffs) (\<lambda>blob_shas.
        io_bind (io_lift (map_err (\<lambda>e. ''serialize tree: '' @ e) (gj_tree J
            \<lparr>ct_base_tree = base_sha, ct_tree = map (\<lambda>(path, sha). blob_entry path sha) blob_shas\<rparr>))) (\<lambda>tree_req.
        io_bind (http ''POST'' (api @ ''/git/trees'') tree_req token) (\<lambda>tree_resp.
        io_bind (io_lift (map_err (\<lambda>e. ''parse tree response: '' @ e) (gj_sha_response J tree_resp))) (\<lambda>tree_sha.
        io_bind (io_lift (map_err (\<lambda>e. ''serialize commit: '' @ e) (gj_commit J
            \<lparr>cc_message = commit_message, cc_tree = tree_sha, cc_parents = [base_sha]\<rparr>))) (\<lambda>commit_req.
        io_bind (http ''POST'' (api @ ''/git/commits'') commit_req token) (\<lambda>commit_resp.
        io_bind (io_lift (map_err (\<lambda>e. ''parse commit response: '' @ e) (gj_sha_response J commit_resp))) (\<lambda>commit_sha.
        io_bind (io_lift (map_err (\<lambda>e. ''serialize ref: '' @ e) (gj_ref J
            \<lparr>cr_ref_name = ''refs/heads/'' @ branch_name, cr_sha = commit_sha\<rparr>))) (\<lambda>ref_req.
        io_bind (http ''POST'' (api @ ''/git/refs'') ref_req token) (\<lambda>_.
        io_bind (io_lift (map_err (\<lambda>e. ''serialize PR: '' @ e) (gj_pr J
            \<lparr>cp_title = pr_title, cp_body = pr_body, cp_head = branch_name, cp_base = gc_base_branch config\<rparr>))) (\<lambda>pr_req.
        io_bind (http ''POST'' (api @ ''/pulls'') pr_req token) (\<lambda>pr_resp.
        io_bind (io_lift (map_err (\<lambda>e. ''parse PR response: '' @ e) (gj_pr_response J pr_resp))) (\<lambda>(number, url).
        io_ok \<lparr>pr_url = url, pr_number = number, pr_branch = branch_name, pr_commit_sha = commit_sha,
                pr_files_changed = map fd_path diffs, pr_diff_summary = format_diff diffs\<rparr>)))))))))))))))"

section \<open>Loading a repository\<close>

type_synonym 'h http_get = "string \<Rightarrow> string \<Rightarrow> ('h, string) io"

definition entry_wanted :: "string list \<Rightarrow> string \<times> string \<Rightarrow> bool" where
  "entry_wanted file_extensions entry =
     (let (path, entry_type) = entry in
      entry_type = ''blob''
      \<and> (file_extensions = [] \<or> list_ex (\<lambda>ext. ends_with path (''.'' @ ext)) file_extensions)
      \<and> \<not> (starts_with path ''target/'' \<or> starts_with path ''node_modules/'' \<or> starts_with path ''.git/''
           \<or> contains path ''/target/''))"

definition strip_newlines :: "string \<Rightarrow> string" where
  "strip_newlines s = filter (\<lambda>c. c \<noteq> NL) s"

text \<open>The text in a response of the contents API, if there is one.\<close>

definition content_text :: "gh_json \<Rightarrow> string \<Rightarrow> string option" where
  "content_text J resp =
     (case gj_content_response J resp of
        Ok (content, encoding) \<Rightarrow>
          (if encoding = ''base64'' then
             (case base64_decode (strip_newlines content) of Ok decoded \<Rightarrow> from_utf8 decoded | _ \<Rightarrow> None)
           else None)
      | _ \<Rightarrow> None)"

fun load_entries ::
  "gh_json \<Rightarrow> 's blob_ops \<Rightarrow> 'h http_get \<Rightarrow> string \<Rightarrow> string \<Rightarrow> string \<Rightarrow> (string \<times> string) list
    \<Rightarrow> virt_workspace \<times> 's \<times> nat \<Rightarrow> 'h \<Rightarrow> (virt_workspace \<times> 's \<times> nat) outcome \<times> 'h" where
  "load_entries J S http api branch token [] acc h = (Ok acc, h)"
| "load_entries J S http api branch token (e # es) (w, st, loaded) h =
     (case http (api @ ''/contents/'' @ fst e @ ''?ref='' @ branch) token h of
        (Ok resp, h') \<Rightarrow>
          (case content_text J resp of
             None \<Rightarrow> load_entries J S http api branch token es (w, st, loaded) h'
           | Some text \<Rightarrow>
               (let (w', st') = load_file S w st (fst e) text
                in load_entries J S http api branch token es (w', st', loaded + 1) h'))
      | (Err _, h') \<Rightarrow> load_entries J S http api branch token es (w, st, loaded) h'
      | (Panic, h') \<Rightarrow> (Panic, h'))"

definition load_repo_into_workspace ::
  "gh_json \<Rightarrow> 's blob_ops \<Rightarrow> string \<Rightarrow> string \<Rightarrow> string \<Rightarrow> 's \<Rightarrow> 'h http_get \<Rightarrow> string \<Rightarrow> string list
    \<Rightarrow> ('h, virt_workspace \<times> 's) io" where
  "load_repo_into_workspace J S owner repo branch st http token file_extensions =
     (let api = api_base owner repo in
      io_bind (http (api @ ''/git/ref/heads/'' @ branch) token) (\<lambda>ref_resp.
      io_bind (io_lift (map_err (\<lambda>e. ''parse ref: '' @ e) (gj_ref_response J ref_resp))) (\<lambda>sha.
      io_bind (http (api @ ''/git/trees/'' @ sha @ ''?recursive=1'') token) (\<lambda>tree_resp.
      io_bind (io_lift (map_err (\<lambda>e. ''parse tree: '' @ e) (gj_tree_response J tree_resp))) (\<lambda>entries.
      io_bind (load_entries J S http api branch token (filter (entry_wanted file_extensions) entries)
                 (workspace_new, st, 0)) (\<lambda>(w, st', loaded).
      if loaded = 0 then io_lift (Err ''No files loaded from repository'') else io_ok (w, st')))))))"

definition load_file_from_github ::
  "gh_json \<Rightarrow> 's blob_ops \<Rightarrow> string \<Rightarrow> string \<Rightarrow> string \<Rightarrow> string \<Rightarrow> virt_workspace \<times> 's \<Rightarrow> 'h http_get \<Rightarrow> string
    \<Rightarrow> ('h, virt_workspace \<times> 's) io" where
  "load_file_from_github J S owner repo branch path ws http token =
     (io_bind (http (api_base owner repo @ ''/contents/'' @ path @ ''?ref='' @ branch) token) (\<lambda>resp.
      io_bind (io_lift (map_err (\<lambda>e. ''parse content: '' @ e) (gj_content_response J resp))) (\<lambda>(content, encoding).
      if encoding = ''base64'' then
        io_bind (io_lift (map_err (\<lambda>e. ''decode: '' @ e) (base64_decode (strip_newlines content)))) (\<lambda>decoded.
        (case from_utf8 decoded of
           Some text \<Rightarrow> io_ok (load_file S (fst ws) (snd ws) path text)
         | None \<Rightarrow> io_lift (Err (''utf8: '' @ gj_utf8_error J decoded))))
      else io_lift (Err (''Unsupported encoding: '' @ encoding)))))"

end
