(* ===== verification/VirtFacts.thy ===== *)
theory VirtFacts
  imports VirtWorkspace
begin

text \<open>
  What trees and workspaces promise: exact differences, reading back what was written, the three-way
  merge against a specification on partial maps, and the invariant of every reachable workspace.
\<close>

section \<open>Differences\<close>

definition tree_ok :: "tree_snapshot \<Rightarrow> bool" where
  "tree_ok t \<longleftrightarrow> om_ok (ts_entries t)"

definition diff_kind_of :: "blob_hash option \<Rightarrow> diff_kind" where
  "diff_kind_of old = (case old of None \<Rightarrow> Added | Some _ \<Rightarrow> Modified)"

lemma old_entry_diff_cases:
  "old_entry_diff L S st new (p, h) = Some d \<Longrightarrow>
     fd_path d = p \<and> (case om_get (ts_entries new) p of
        None \<Rightarrow> fd_kind d = Deleted
      | Some h' \<Rightarrow> h' \<noteq> h \<and> fd_kind d = Modified)"
  by (auto simp: old_entry_diff_def Let_def split: option.splits if_splits)

lemma old_entry_diff_None:
  "old_entry_diff L S st new (p, h) = None \<longleftrightarrow> om_get (ts_entries new) p = Some h"
  by (auto simp: old_entry_diff_def split: option.splits)

lemma diff_paths:
  assumes "tree_ok old" "tree_ok new"
  shows "distinct (map fd_path (diff_trees L S st old new))"
    and "set (map fd_path (diff_trees L S st old new)) = {p. om_get (ts_entries old) p \<noteq> om_get (ts_entries new) p}"
proof -
  let ?m = "List.map_filter (old_entry_diff L S st new) (ts_entries old)"
  let ?a = "map (added_diff S st new) (filter (\<lambda>p. \<not> om_has (ts_entries old) p) (om_keys (ts_entries new)))"
  have k: "fd_path d = fst e" if "old_entry_diff L S st new e = Some d" for e d
    using that by (cases e) (auto dest: old_entry_diff_cases)
  have m: "map fd_path ?m = map fst (filter (\<lambda>e. old_entry_diff L S st new e \<noteq> None) (ts_entries old))"
    using k by (rule map_filter_key)
  have a: "map fd_path ?a = filter (\<lambda>p. \<not> om_has (ts_entries old) p) (om_keys (ts_entries new))"
    by (simp add: added_diff_def Let_def comp_def)
  have "distinct (map fst (ts_entries old))" "distinct (om_keys (ts_entries new))"
    using assms om_ok_distinct by (auto simp: tree_ok_def om_keys_def)
  moreover have "p \<in> set (om_keys (ts_entries old))" if "p \<in> set (map fd_path ?m)" for p
    using that unfolding m by (auto simp: om_keys_def)
  ultimately have "distinct (map fd_path (?m @ ?a))"
    unfolding map_append m a by (auto simp: distinct_map_filter om_has_iff om_keys_def)
  then show "distinct (map fd_path (diff_trees L S st old new))"
    unfolding diff_trees_def by (simp only: distinct_map distinct_sort set_sort)
  have "set (map fd_path ?m) = {p. \<exists>h. om_get (ts_entries old) p = Some h \<and> om_get (ts_entries new) p \<noteq> Some h}"
  proof -
    have "set (map fst (filter P xs)) = {p. \<exists>h. (p, h) \<in> set xs \<and> P (p, h)}" for P and xs :: "(string \<times> blob_hash) list"
      by force
    then show ?thesis
      unfolding m using assms(1) by (simp add: tree_ok_def old_entry_diff_None om_get_iff del: not_None_eq)
  qed
  moreover have "set (map fd_path ?a) = {p. om_get (ts_entries old) p = None \<and> om_get (ts_entries new) p \<noteq> None}"
    unfolding a by (auto simp: set_om_keys om_has_def)
  moreover have "(\<exists>h. x = Some h \<and> y \<noteq> Some h) \<or> (x = None \<and> y \<noteq> None) \<longleftrightarrow> x \<noteq> y" for x y :: "blob_hash option"
    by (cases x; cases y) auto
  ultimately show "set (map fd_path (diff_trees L S st old new)) =
      {p. om_get (ts_entries old) p \<noteq> om_get (ts_entries new) p}"
    unfolding diff_trees_def set_map set_sort set_append image_Un
    by (simp only: set_eq_iff Un_iff mem_Collect_eq simp_thms)
qed

lemma diff_entries_set:
  assumes "tree_ok (vw_base w)" "tree_ok (vw_working w)"
  shows "set (diff_entries w) = {p. om_get (ts_entries (vw_base w)) p \<noteq> om_get (ts_entries (vw_working w)) p}"
proof -
  have "set (map fst (filter P xs)) = {p. \<exists>h. (p, h) \<in> set xs \<and> P (p, h)}" for P and xs :: "(string \<times> blob_hash) list"
    by force
  then show ?thesis
    using om_get_iff[of "ts_entries (vw_working w)"] assms
    by (auto simp: diff_entries_def Let_def tree_ok_def om_has_def set_om_keys split: option.splits)
      (metis option.exhaust)+
qed

lemma sorted_diff: "sorted (map fd_path (diff_trees L S st old new))"
  by (simp add: diff_trees_def)

lemma diff_kinds:
  assumes "d \<in> set (diff_trees L S st old new)" "tree_ok old"
  shows "fd_kind d = (case om_get (ts_entries old) (fd_path d) of None \<Rightarrow> Added
    | Some _ \<Rightarrow> (case om_get (ts_entries new) (fd_path d) of None \<Rightarrow> Deleted | Some _ \<Rightarrow> Modified))"
proof -
  consider "d \<in> set (List.map_filter (old_entry_diff L S st new) (ts_entries old))"
    | p where "d = added_diff S st new p" "\<not> om_has (ts_entries old) p"
    using assms(1) by (auto simp: diff_trees_def)
  then show ?thesis
  proof cases
    case 1
    then obtain p h where "(p, h) \<in> set (ts_entries old)" and d: "old_entry_diff L S st new (p, h) = Some d"
      by (auto simp: set_map_filter)
    then have "om_get (ts_entries old) p = Some h"
      using assms(2) by (simp add: tree_ok_def om_get_iff)
    then show ?thesis
      using old_entry_diff_cases[OF d] by (auto split: option.splits)
  qed (simp add: added_diff_def Let_def om_has_def)
qed

text \<open>C30: the difference of a workspace is exact: it lists, in strictly increasing order and once each, the
  paths whose entry differs between the base and the working tree, each with the kind of its change,
  and the quick check \<open>has_changes\<close> answers yes exactly when that list is not empty.\<close>

theorem workspace_diff_exact:
  fixes L :: vg_libs and S :: "'s blob_ops" and st :: 's
  assumes "tree_ok (vw_base w)" "tree_ok (vw_working w)"
  defines "base \<equiv> om_get (ts_entries (vw_base w))" and "work \<equiv> om_get (ts_entries (vw_working w))"
    and "ds \<equiv> workspace_diff L S w st"
  shows "sorted_wrt (<) (map fd_path ds)
    \<and> set (map fd_path ds) = {p. base p \<noteq> work p}
    \<and> (\<forall>d\<in>set ds. fd_kind d = (case base (fd_path d) of None \<Rightarrow> Added
         | Some _ \<Rightarrow> (case work (fd_path d) of None \<Rightarrow> Deleted | Some _ \<Rightarrow> Modified)))
    \<and> (has_changes w \<longleftrightarrow> ds \<noteq> [])"
proof -
  note dp = diff_paths[OF assms(1,2), of L S st]
  have s: "sorted_wrt (<) (map fd_path ds)"
    using dp(1) sorted_diff[of L S st "vw_base w" "vw_working w"]
    unfolding ds_def workspace_diff_def strict_sorted_iff by blast
  have p: "set (map fd_path ds) = {p. base p \<noteq> work p}"
    using dp(2) unfolding ds_def workspace_diff_def base_def work_def .
  have "has_changes w \<longleftrightarrow> set (map fd_path ds) \<noteq> {}"
    unfolding has_changes_def p base_def work_def
    using diff_entries_set[OF assms(1,2)] by (metis set_empty)
  then have "has_changes w \<longleftrightarrow> ds \<noteq> []"
    by simp
  then show ?thesis
    using s p diff_kinds[OF _ assms(1)] unfolding ds_def workspace_diff_def base_def work_def
    by (intro conjI ballI) simp_all
qed

text \<open>Concrete library functions for the examples: texts are their own hashes.\<close>

definition ex_libs :: vg_libs where
  "ex_libs = \<lparr>lib_sha256_hex = (\<lambda>c. c), lib_entries_json = (\<lambda>e. concat (map (\<lambda>(p, h). p @ '':'' @ h) e)),
     lib_hunks = (\<lambda>old new. [''-'', old, ''+'', new])\<rparr>"

definition ex_ops :: "memory_blob_store blob_ops" where
  "ex_ops = memory_ops (content_hash ex_libs)"

definition ex_workspace :: "virt_workspace \<times> memory_blob_store" where
  "ex_workspace = (let (w, st) = workspace_from_files ex_ops memory_new [(''a'', ''1''), (''b'', ''2'')];
     (w, st) = write_file ex_ops w st ''a'' ''3'' in (delete_file w ''b'', st))"

lemma workspace_diff_exact_witness:
  "map fd_kind (workspace_diff ex_libs ex_ops (fst ex_workspace) (snd ex_workspace)) = [Modified, Deleted]
    \<and> has_changes (fst ex_workspace)"
proof -
  have t: "tree_ok (vw_base (fst ex_workspace))" "tree_ok (vw_working (fst ex_workspace))"
    "map fd_kind (workspace_diff ex_libs ex_ops (fst ex_workspace) (snd ex_workspace)) = [Modified, Deleted]"
    by code_simp+
  then have "workspace_diff ex_libs ex_ops (fst ex_workspace) (snd ex_workspace) \<noteq> []"
    by auto
  then show ?thesis
    using workspace_diff_exact[OF t(1,2), of ex_libs ex_ops "snd ex_workspace"] t(3) by blast
qed

section \<open>Trees over a store that keeps its contract\<close>

definition tree_closed :: "'s blob_ops \<Rightarrow> tree_snapshot \<Rightarrow> 's \<Rightarrow> bool" where
  "tree_closed S t st \<longleftrightarrow> (\<forall>p h. om_get (ts_entries t) p = Some h \<longrightarrow> bs_get S st h \<noteq> None)"

lemma tree_insert_split: "tree_insert S t st p c =
    (t\<lparr>ts_entries := om_insert p (fst (bs_put S st c)) (ts_entries t), ts_cached_hash := None\<rparr>, snd (bs_put S st c))"
  by (simp add: tree_insert_def split: prod.split)

lemma tree_read_remove: "tree_read S (snd (tree_remove t p)) st = (tree_read S t st)(p := None)"
  by (simp add: tree_read_def tree_remove_def fun_eq_iff)

lemma tree_closed_remove: "tree_closed S t st \<Longrightarrow> tree_closed S (snd (tree_remove t p)) st"
  by (simp add: tree_closed_def tree_remove_def)

lemma tree_closed_new: "tree_closed S tree_new st"
  by (simp add: tree_closed_def tree_new_def)

context blob_store
begin

lemma closed_put: "ok st \<Longrightarrow> tree_closed S t st \<Longrightarrow> tree_closed S t (snd (bs_put S st c))"
  unfolding tree_closed_def by (metis put_get put_other option.distinct(1))

lemma closed_insert:
  "ok st \<Longrightarrow> tree_closed S t st \<Longrightarrow> tree_closed S (fst (tree_insert S t st p c)) (snd (tree_insert S t st p c))"
  using closed_put[of st t c] put_get[of st c]
  by (auto simp: tree_insert_split tree_closed_def put_hash)

lemma read_put:
  assumes "ok st" "no_clash st c" "tree_closed S t st"
  shows "tree_read S t (snd (bs_put S st c)) = tree_read S t st"
proof
  fix q
  show "tree_read S t (snd (bs_put S st c)) q = tree_read S t st q"
  proof (cases "om_get (ts_entries t) q")
    case (Some h)
    then obtain b where "bs_get S st h = Some b"
      using assms(3) by (auto simp: tree_closed_def)
    then show ?thesis
      using put_keeps[OF assms(1,2)] Some by (simp add: tree_read_def)
  qed (simp add: tree_read_def)
qed

lemma read_insert:
  assumes "ok st" "no_clash st c" "tree_closed S t st"
  shows "tree_read S (fst (tree_insert S t st p c)) (snd (tree_insert S t st p c)) = (tree_read S t st)(p \<mapsto> c)"
proof
  fix q
  show "tree_read S (fst (tree_insert S t st p c)) (snd (tree_insert S t st p c)) q = ((tree_read S t st)(p \<mapsto> c)) q"
    using fun_cong[OF read_put[OF assms], of q] put_get_content[OF assms(1,2)]
    by (simp add: tree_read_def tree_insert_split put_hash)
qed

end

section \<open>The contract of a file provider\<close>

locale provider_contract =
  fixes P :: "'p file_provider" and ok :: "'p \<Rightarrow> bool" and fits :: "'p \<Rightarrow> string \<Rightarrow> bool"
  assumes write_done: "fst (fp_write P p path c) = Ok ()"
    and write_ok: "ok p \<Longrightarrow> ok (snd (fp_write P p path c))"
    and read_back: "ok p \<Longrightarrow> fits p c \<Longrightarrow> fp_read P (snd (fp_write P p path c)) path = Ok c"
    and read_other: "ok p \<Longrightarrow> fits p c \<Longrightarrow> q \<noteq> path \<Longrightarrow> fp_read P (snd (fp_write P p path c)) q = fp_read P p q"
    and exists_write: "fp_exists P (snd (fp_write P p path c)) q \<longleftrightarrow> q = path \<or> fp_exists P p q"
    and list_exists: "q \<in> set (fp_list P p) \<longleftrightarrow> fp_exists P p q"
begin

lemma write_lists: "set (fp_list P (snd (fp_write P p path c))) = insert path (set (fp_list P p))"
  using list_exists exists_write by blast

lemma write_pair: "fp_write P p path c = (Ok (), snd (fp_write P p path c))"
  using write_done[of p path c] by (cases "fp_write P p path c") simp

end

definition vp_ok :: "vg_libs \<Rightarrow> virt_file_provider \<Rightarrow> bool" where
  "vp_ok L p \<longleftrightarrow> memory_ok (content_hash L) (vp_store p)
     \<and> tree_closed (memory_ops (content_hash L)) (vw_working (vp_workspace p)) (vp_store p)"

definition vp_fits :: "vg_libs \<Rightarrow> virt_file_provider \<Rightarrow> string \<Rightarrow> bool" where
  "vp_fits L p c \<longleftrightarrow> utf8_valid c
     \<and> (\<forall>b. memory_get (vp_store p) (content_hash L c) = Some b \<longrightarrow> b = c)"

lemma vp_write_split: "vp_write_file L p path c =
    (Ok (), \<lparr>vp_workspace = (vp_workspace p)\<lparr>vw_working :=
         fst (tree_insert (memory_ops (content_hash L)) (vw_working (vp_workspace p)) (vp_store p) path c)\<rparr>,
       vp_store = snd (tree_insert (memory_ops (content_hash L)) (vw_working (vp_workspace p)) (vp_store p) path c)\<rparr>)"
  by (simp add: vp_write_file_def write_file_def split: prod.split)

lemma vp_read_split: "vp_read_file L p path =
    (case tree_read (memory_ops (content_hash L)) (vw_working (vp_workspace p)) (vp_store p) path of
       Some b \<Rightarrow> if utf8_valid b then Ok b else Err (''file not found: '' @ path)
     | None \<Rightarrow> Err (''file not found: '' @ path))"
  by (simp add: vp_read_file_def read_file_def tree_read_string_def from_utf8_def split: option.split)

lemma memory_clash: "mem.no_clash H st c \<longleftrightarrow> (\<forall>b. memory_get st (H c) = Some b \<longrightarrow> b = c)"
  unfolding mem.no_clash_def by (simp add: memory_ops_def)

interpretation vp: provider_contract "virt_provider L" "vp_ok L" "vp_fits L"
  for L
proof (unfold_locales, goal_cases)
  case (2 p path c)
  then show ?case
    using mem.closed_insert[of "content_hash L" "vp_store p"] mem.put_ok[of "content_hash L" "vp_store p"]
    by (simp add: vp_ok_def virt_provider_def vp_write_split tree_insert_split)
next
  case (3 p c path)
  then show ?case
    using mem.read_insert[of "content_hash L" "vp_store p" c "vw_working (vp_workspace p)" path]
    by (simp add: vp_ok_def vp_fits_def memory_clash virt_provider_def vp_write_split vp_read_split)
next
  case (4 p c q path)
  then show ?case
    using mem.read_insert[of "content_hash L" "vp_store p" c "vw_working (vp_workspace p)" path]
    by (simp add: vp_ok_def vp_fits_def memory_clash virt_provider_def vp_write_split vp_read_split)
qed (auto simp: virt_provider_def vp_write_split vp_file_exists_def file_exists_def tree_exists_def tree_insert_split
    om_has_def vp_list_files_def list_files_def tree_list_files_def set_om_keys)

section \<open>The three-way merge\<close>

text \<open>The specification, on partial maps from paths to contents: a path they did not change keeps our
  content, every other path takes theirs; it is a conflict when we changed it too.\<close>

definition three_way :: "('k \<Rightarrow> 'v) \<Rightarrow> ('k \<Rightarrow> 'v) \<Rightarrow> ('k \<Rightarrow> 'v) \<Rightarrow> 'k \<Rightarrow> 'v" where
  "three_way base ours theirs = (\<lambda>p. if theirs p = base p then ours p else theirs p)"

definition merge_conflict :: "('k \<Rightarrow> 'v) \<Rightarrow> ('k \<Rightarrow> 'v) \<Rightarrow> ('k \<Rightarrow> 'v) \<Rightarrow> 'k \<Rightarrow> bool" where
  "merge_conflict base ours theirs p \<longleftrightarrow> theirs p \<noteq> base p \<and> ours p \<noteq> base p"

definition agree :: "memory_blob_store \<Rightarrow> memory_blob_store \<Rightarrow> bool" where
  "agree st st' \<longleftrightarrow> (\<forall>h b c. memory_get st h = Some b \<longrightarrow> memory_get st' h = Some c \<longrightarrow> b = c)"

abbreviation tree_map :: "tree_snapshot \<Rightarrow> string \<Rightarrow> blob_hash option" where
  "tree_map t \<equiv> om_get (ts_entries t)"

abbreviation mem_closed :: "vg_libs \<Rightarrow> tree_snapshot \<Rightarrow> memory_blob_store \<Rightarrow> bool" where
  "mem_closed L \<equiv> tree_closed (memory_ops (content_hash L))"

abbreviation mem_view :: "vg_libs \<Rightarrow> tree_snapshot \<Rightarrow> memory_blob_store \<Rightarrow> string \<Rightarrow> blob option" where
  "mem_view L \<equiv> tree_read (memory_ops (content_hash L))"

text \<open>What one step of the merge keeps: our store, which only grows, by their blobs.\<close>

definition grown :: "vg_libs \<Rightarrow> memory_blob_store \<Rightarrow> memory_blob_store \<Rightarrow> memory_blob_store \<Rightarrow> bool" where
  "grown L st their st' \<longleftrightarrow> memory_ok (content_hash L) st'
     \<and> (\<forall>h b. memory_get st h = Some b \<longrightarrow> memory_get st' h = Some b)
     \<and> (\<forall>h b. memory_get st' h = Some b \<longrightarrow> memory_get st h = Some b \<or> memory_get their h = Some b)"

lemma grown_refl: "memory_ok (content_hash L) st \<Longrightarrow> grown L st their st"
  by (simp add: grown_def)

lemma take_theirs_entry:
  assumes "memory_ok (content_hash L) their" "th \<noteq> None \<longrightarrow> memory_get their (the th) \<noteq> None"
  shows "tree_map (fst (take_theirs L their th p (t, st))) = (tree_map t)(p := th)"
proof (cases th)
  case (Some h)
  then obtain c where c: "memory_get their h = Some c"
    using assms(2) by auto
  then have "content_hash L c = h"
    using memory_ok_get[OF assms(1)] by blast
  then show ?thesis
    using Some c by (simp add: take_theirs_def tree_insert_split mem.put_hash)
qed (simp add: take_theirs_def tree_remove_def)

lemma take_theirs_grown:
  assumes "grown L st their st1" "memory_ok (content_hash L) their" "th \<noteq> None \<longrightarrow> memory_get their (the th) \<noteq> None"
  shows "grown L st their (snd (take_theirs L their th p (t, st1)))"
    and "th \<noteq> None \<Longrightarrow> memory_get (snd (take_theirs L their th p (t, st1))) (the th) \<noteq> None"
    and "memory_get st1 h = Some b \<Longrightarrow> memory_get (snd (take_theirs L their th p (t, st1))) h = Some b"
proof -
  consider "th = None" | h c where "th = Some h" "memory_get their h = Some c" "content_hash L c = h"
    using assms(3) memory_ok_get[OF assms(2)] by (cases th) auto
  then have "grown L st their (snd (take_theirs L their th p (t, st1)))
    \<and> (th \<noteq> None \<longrightarrow> memory_get (snd (take_theirs L their th p (t, st1))) (the th) \<noteq> None)
    \<and> (\<forall>h b. memory_get st1 h = Some b \<longrightarrow> memory_get (snd (take_theirs L their th p (t, st1))) h = Some b)"
  proof cases
    case 1
    then show ?thesis
      using assms(1) by (simp add: take_theirs_def)
  next
    case (2 h c)
    have s: "snd (take_theirs L their th p (t, st1)) = snd (memory_put (content_hash L) st1 c)"
      using 2 by (simp add: take_theirs_def tree_insert_split memory_ops_def)
    have "memory_ok (content_hash L) (snd (memory_put (content_hash L) st1 c))"
      using assms(1) memory_ok_put by (simp add: grown_def)
    then show ?thesis
      using 2 assms(1) unfolding s grown_def memory_get_put by auto
  qed
  then show "grown L st their (snd (take_theirs L their th p (t, st1)))"
    and "th \<noteq> None \<Longrightarrow> memory_get (snd (take_theirs L their th p (t, st1))) (the th) \<noteq> None"
    and "memory_get st1 h = Some b \<Longrightarrow> memory_get (snd (take_theirs L their th p (t, st1))) h = Some b"
    by blast+
qed

text \<open>The loop over the paths, from any intermediate state.\<close>

lemma merge_fold:
  assumes "memory_ok (content_hash L) their" "mem_closed L theirs their"
  shows "distinct ps \<Longrightarrow> grown L st their st1 \<Longrightarrow>
     (\<forall>p h. tree_map t p = Some h \<longrightarrow> memory_get st1 h \<noteq> None) \<Longrightarrow>
     (\<forall>p\<in>set ps. tree_map t p = tree_map ours p) \<Longrightarrow>
     (\<exists>t' st'. fold (merge_path L base ours theirs their) ps ((t, st1), cs)
         = ((t', st'), cs @ filter (merge_conflict (tree_map base) (tree_map ours) (tree_map theirs)) ps)
       \<and> tree_map t' = (\<lambda>p. if p \<in> set ps then three_way (tree_map base) (tree_map ours) (tree_map theirs) p else tree_map t p)
       \<and> grown L st their st' \<and> (\<forall>p h. tree_map t' p = Some h \<longrightarrow> memory_get st' h \<noteq> None))"
proof (induction ps arbitrary: t st1 cs)
  case (Cons p ps)
  let ?th = "tree_map theirs p"
  have th: "?th \<noteq> None \<longrightarrow> memory_get their (the ?th) \<noteq> None"
    using assms(2) by (auto simp: tree_closed_def memory_ops_def)
  define t1 s1 where "t1 = (if ?th = tree_map base p then t else fst (take_theirs L their ?th p (t, st1)))"
    and "s1 = (if ?th = tree_map base p then st1 else snd (take_theirs L their ?th p (t, st1)))"
  have step: "merge_path L base ours theirs their p ((t, st1), cs) =
      ((t1, s1), if merge_conflict (tree_map base) (tree_map ours) (tree_map theirs) p then cs @ [p] else cs)"
    by (auto simp: merge_path_def Let_def t1_def s1_def merge_conflict_def)
  have tm: "tree_map t1 = (tree_map t)(p := three_way (tree_map base) (tree_map ours) (tree_map theirs) p)"
    using take_theirs_entry[OF assms(1) th, of p t st1] Cons.prems(4) by (auto simp: t1_def three_way_def fun_eq_iff)
  have g: "grown L st their s1"
    using take_theirs_grown(1)[OF Cons.prems(2) assms(1) th] Cons.prems(2) by (simp add: s1_def)
  have k: "memory_get s1 h \<noteq> None" if "tree_map t1 q = Some h" for q h
  proof (cases "q = p \<and> ?th \<noteq> tree_map base p")
    case True
    then show ?thesis
      using that tm take_theirs_grown(2)[OF Cons.prems(2) assms(1) th, of p t] by (auto simp: s1_def three_way_def)
  next
    case False
    then have "tree_map t q = Some h"
      using that tm Cons.prems(4) by (auto simp: three_way_def split: if_splits)
    then obtain b where "memory_get st1 h = Some b"
      using Cons.prems(3) by auto
    then show ?thesis
      using take_theirs_grown(3)[OF Cons.prems(2) assms(1) th] by (auto simp: s1_def)
  qed
  let ?C = "merge_conflict (tree_map base) (tree_map ours) (tree_map theirs)"
  let ?W = "three_way (tree_map base) (tree_map ours) (tree_map theirs)"
  have o: "\<forall>q\<in>set ps. tree_map t1 q = tree_map ours q"
    using Cons.prems(1,4) tm by auto
  have d: "distinct ps" "p \<notin> set ps"
    using Cons.prems(1) by simp_all
  have k': "\<forall>q h. tree_map t1 q = Some h \<longrightarrow> memory_get s1 h \<noteq> None"
    using k by blast
  obtain t' st' where r: "fold (merge_path L base ours theirs their) ps ((t1, s1), if ?C p then cs @ [p] else cs)
        = ((t', st'), (if ?C p then cs @ [p] else cs) @ filter ?C ps)"
      "tree_map t' = (\<lambda>q. if q \<in> set ps then ?W q else tree_map t1 q)"
      "grown L st their st'" "\<forall>p h. tree_map t' p = Some h \<longrightarrow> memory_get st' h \<noteq> None"
    using Cons.IH[OF d(1) g k' o] by blast
  have "tree_map t' = (\<lambda>q. if q \<in> set (p # ps) then ?W q else tree_map t q)"
    unfolding r(2) tm using d(2) by (auto simp: fun_eq_iff)
  moreover have "fold (merge_path L base ours theirs their) (p # ps) ((t, st1), cs)
        = ((t', st'), cs @ filter ?C (p # ps))"
    using r(1) step by simp
  ultimately show ?case
    using r(3,4) by blast
qed auto

text \<open>Over agreeing stores, equal contents are equal hashes.\<close>

lemma view_eq:
  assumes "memory_ok (content_hash L) s1" "memory_ok (content_hash L) s2" "agree s1 s2"
    and "mem_closed L t1 s1" "mem_closed L t2 s2"
  shows "mem_view L t1 s1 p = mem_view L t2 s2 q \<longleftrightarrow> tree_map t1 p = tree_map t2 q"
proof -
  have v: "mem_view L t s p = (case tree_map t p of None \<Rightarrow> None | Some h \<Rightarrow> memory_get s h)" for t s p
    by (simp add: tree_read_def memory_ops_def split: option.split)
  have c: "mem_closed L t s \<Longrightarrow> tree_map t p = Some h \<Longrightarrow> \<exists>b. memory_get s h = Some b" for t s p h
    by (simp add: tree_closed_def memory_ops_def)
  show ?thesis
  proof (cases "tree_map t1 p")
    case None
    then show ?thesis
      using c[OF assms(5), of q] by (cases "tree_map t2 q") (auto simp: v)
  next
    case (Some h1)
    then obtain b1 where b1: "memory_get s1 h1 = Some b1"
      using c[OF assms(4)] by blast
    show ?thesis
    proof (cases "tree_map t2 q")
      case None
      then show ?thesis
        using Some b1 by (simp add: v)
    next
      case (Some h2)
      then obtain b2 where b2: "memory_get s2 h2 = Some b2"
        using c[OF assms(5)] by blast
      have "b1 = b2 \<longleftrightarrow> h1 = h2"
        using memory_ok_get[OF assms(1) b1] memory_ok_get[OF assms(2) b2] assms(3) b1 b2
        by (auto simp: agree_def)
      then show ?thesis
        using \<open>tree_map t1 p = Some h1\<close> Some b1 b2 by (simp add: v)
    qed
  qed
qed

lemma agree_refl [simp]: "agree st st"
  by (simp add: agree_def)

lemma grown_agree: "grown L st their s1 \<Longrightarrow> agree st their \<Longrightarrow> agree s1 st \<and> agree s1 their"
  unfolding grown_def agree_def by (metis option.inject)

lemma merge_spec:
  assumes "memory_ok (content_hash L) st" "memory_ok (content_hash L) their" "agree st their"
    and "mem_closed L (vw_base w) st" "mem_closed L (vw_working w) st" "mem_closed L (vw_working theirs) their"
    and "workspace_merge L w st theirs their = (conflicts, w', st')"
  defines "base \<equiv> mem_view L (vw_base w) st" and "ours \<equiv> mem_view L (vw_working w) st"
    and "others \<equiv> mem_view L (vw_working theirs) their"
  shows "mem_view L (vw_working w') st' = three_way base ours others
    \<and> set conflicts = {p. merge_conflict base ours others p} \<and> sorted_wrt (<) conflicts
    \<and> vw_base w' = vw_base w \<and> mem_closed L (vw_working w') st'"
proof -
  let ?b = "tree_map (vw_base w)" and ?o = "tree_map (vw_working w)" and ?t = "tree_map (vw_working theirs)"
  define ps where "ps = sort (remdups (om_keys (ts_entries (vw_base w)) @ om_keys (ts_entries (vw_working w))
            @ om_keys (ts_entries (vw_working theirs))))"
  have ps: "distinct ps" "sorted ps" "set ps = dom ?b \<union> dom ?o \<union> dom ?t"
    by (simp_all add: ps_def set_om_keys Un_assoc)
  have cl: "\<forall>p h. ?o p = Some h \<longrightarrow> memory_get st h \<noteq> None"
    using assms(5) by (simp add: tree_closed_def memory_ops_def)
  obtain t1 s1 where r: "fold (merge_path L (vw_base w) (vw_working w) (vw_working theirs) their) ps ((vw_working w, st), [])
        = ((t1, s1), filter (merge_conflict ?b ?o ?t) ps)"
      "tree_map t1 = (\<lambda>p. if p \<in> set ps then three_way ?b ?o ?t p else ?o p)"
      "grown L st their s1" "\<forall>p h. tree_map t1 p = Some h \<longrightarrow> memory_get s1 h \<noteq> None"
    using merge_fold[OF assms(2,6) ps(1) grown_refl[OF assms(1)] cl, of "vw_working w" "vw_base w" "[]"] by auto
  have w': "conflicts = filter (merge_conflict ?b ?o ?t) ps" "w' = w\<lparr>vw_working := t1\<rparr>" "st' = s1"
    using assms(7) r(1) unfolding workspace_merge_def ps_def[symmetric] Let_def by simp_all
  have all: "tree_map t1 p = three_way ?b ?o ?t p" for p
    using ps(3) r(2) by (cases "p \<in> set ps") (auto simp: three_way_def domIff)
  have ag: "agree s1 st" "agree s1 their" "memory_ok (content_hash L) s1"
    using grown_agree[OF r(3) assms(3)] r(3) by (auto simp: grown_def)
  have cl1: "mem_closed L t1 s1"
    using r(4) by (simp add: tree_closed_def memory_ops_def)
  have eb: "others p = base p \<longleftrightarrow> ?t p = ?b p" "ours p = base p \<longleftrightarrow> ?o p = ?b p" for p
    unfolding others_def base_def ours_def
    using view_eq[OF assms(2,1) _ assms(6,4)] view_eq[OF assms(1,1) agree_refl assms(5,4)] assms(3)
    by (simp_all add: agree_def) metis
  have "mem_view L t1 s1 p = three_way base ours others p" for p
  proof (cases "others p = base p")
    case True
    then have "tree_map t1 p = ?o p"
      using all[of p] eb(1) by (simp add: three_way_def)
    then show ?thesis
      using True view_eq[OF ag(3) assms(1) ag(1) cl1 assms(5), of p p] by (simp add: three_way_def ours_def)
  next
    case False
    then have "tree_map t1 p = ?t p"
      using all[of p] eb(1) by (simp add: three_way_def)
    then show ?thesis
      using False view_eq[OF ag(3) assms(2) ag(2) cl1 assms(6), of p p] by (simp add: three_way_def others_def)
  qed
  moreover have mc: "merge_conflict base ours others p \<longleftrightarrow> merge_conflict ?b ?o ?t p" for p
    by (simp add: merge_conflict_def eb)
  moreover have "merge_conflict ?b ?o ?t p \<Longrightarrow> p \<in> set ps" for p
    using ps(3) by (auto simp: merge_conflict_def domIff)
  moreover have "sorted_wrt (<) (filter (merge_conflict ?b ?o ?t) ps)"
    using ps(1,2) by (simp add: strict_sorted_iff sorted_wrt_filter)
  ultimately show ?thesis
    unfolding w' using cl1 by (auto simp: fun_eq_iff)
qed

text \<open>C26: refinement: the merge implements the three-way merge of partial maps. For closed trees over
  stores that agree on their common keys, the content of the merged working tree is the specification
  applied to the contents of the base, of our tree and of theirs; the conflicts are exactly the paths
  both sides changed, in increasing order; and the merged tree is closed over the merged store.\<close>

theorem merge_refines_three_way:
  assumes "memory_ok (content_hash L) st" "memory_ok (content_hash L) their" "agree st their"
    and "mem_closed L (vw_base w) st" "mem_closed L (vw_working w) st" "mem_closed L (vw_working theirs) their"
    and "workspace_merge L w st theirs their = (conflicts, w', st')"
  defines "base \<equiv> mem_view L (vw_base w) st" and "ours \<equiv> mem_view L (vw_working w) st"
    and "others \<equiv> mem_view L (vw_working theirs) their"
  shows "mem_view L (vw_working w') st' = three_way base ours others
    \<and> set conflicts = {p. merge_conflict base ours others p} \<and> sorted_wrt (<) conflicts
    \<and> vw_base w' = vw_base w \<and> mem_closed L (vw_working w') st'"
  using merge_spec[OF assms(1-7)] unfolding base_def ours_def others_def .

definition ex_ours :: "virt_workspace \<times> memory_blob_store" where
  "ex_ours = (let (w, st) = workspace_from_files ex_ops memory_new [(''a'', ''1''), (''b'', ''2'')]
     in write_file ex_ops w st ''a'' ''4'')"

definition ex_theirs :: "virt_workspace \<times> memory_blob_store" where
  "ex_theirs = (let (w, st) = workspace_from_files ex_ops memory_new [(''a'', ''1''), (''b'', ''2'')];
     (f, st') = workspace_fork w st; (f, st') = write_file ex_ops f st' ''a'' ''3'' in (delete_file f ''b'', st'))"

definition ex_merge :: "string list \<times> virt_workspace \<times> memory_blob_store" where
  "ex_merge = workspace_merge ex_libs (fst ex_ours) (snd ex_ours) (fst ex_theirs) (snd ex_theirs)"

text \<open>Executable forms of the hypotheses.\<close>

lemma tree_closed_code:
  "list_all (\<lambda>(p, h). bs_get S st h \<noteq> None) (ts_entries t) \<Longrightarrow> tree_closed S t st"
  unfolding tree_closed_def om_get_def list_all_iff by (fastforce dest: map_of_SomeD)

lemma memory_ok_code:
  "om_ok (mbs_blobs st) \<Longrightarrow> list_all (\<lambda>(h, c). H c = h) (mbs_blobs st) \<Longrightarrow> memory_ok H st"
  unfolding memory_ok_def om_get_def list_all_iff by (fastforce dest: map_of_SomeD)

lemma agree_code:
  "list_all (\<lambda>(h, b). case memory_get st' h of None \<Rightarrow> True | Some c \<Rightarrow> b = c) (mbs_blobs st) \<Longrightarrow> agree st st'"
  unfolding agree_def memory_get_def[of st] om_get_def list_all_iff by (fastforce dest: map_of_SomeD)

lemma merge_refines_three_way_witness:
  "mem_view ex_libs (vw_working (fst (snd ex_merge))) (snd (snd ex_merge)) =
     three_way (mem_view ex_libs (vw_base (fst ex_ours)) (snd ex_ours))
       (mem_view ex_libs (vw_working (fst ex_ours)) (snd ex_ours))
       (mem_view ex_libs (vw_working (fst ex_theirs)) (snd ex_theirs))
    \<and> fst ex_merge = [''a'']
    \<and> tree_list_files (vw_working (fst (snd ex_merge))) = [''a'']"
proof -
  have h: "memory_ok (content_hash ex_libs) (snd ex_ours)" "memory_ok (content_hash ex_libs) (snd ex_theirs)"
      "agree (snd ex_ours) (snd ex_theirs)"
      "mem_closed ex_libs (vw_base (fst ex_ours)) (snd ex_ours)" "mem_closed ex_libs (vw_working (fst ex_ours)) (snd ex_ours)"
      "mem_closed ex_libs (vw_working (fst ex_theirs)) (snd ex_theirs)"
    by (intro memory_ok_code agree_code tree_closed_code; code_simp)+
  have "workspace_merge ex_libs (fst ex_ours) (snd ex_ours) (fst ex_theirs) (snd ex_theirs)
      = (fst ex_merge, fst (snd ex_merge), snd (snd ex_merge))"
    by (simp add: ex_merge_def)
  moreover have "fst ex_merge = [''a'']" "tree_list_files (vw_working (fst (snd ex_merge))) = [''a'']"
    by code_simp+
  ultimately show ?thesis
    using merge_refines_three_way[OF h] by blast
qed

text \<open>A fork is merged against the base of the workspace it was taken from, not against the tree it
  started from. So merging back a fork that changed nothing undoes an edit made after the fork to any
  path that had an uncommitted change when the fork was taken: the path returns to its content at the
  time of the fork, and unless the edit restored the base it is reported as a conflict of both sides.\<close>

theorem unchanged_fork_reverts_edit:
  assumes "memory_ok (content_hash L) st" "mem_closed L (vw_base w) st" "mem_closed L (vw_working w) st"
    and "tree_ok (vw_working w)" "mem_view L (vw_working w) st p \<noteq> mem_view L (vw_base w) st p"
    and "memory_get st (content_hash L c) \<in> {None, Some c}"
    and "write_file (memory_ops (content_hash L)) w st p c = (w1, st1)"
    and "workspace_merge L w1 st1 (fst (workspace_fork w st)) (snd (workspace_fork w st)) = (conflicts, w2, st2)"
  shows "\<not> has_changes (fst (workspace_fork w st))
    \<and> mem_view L (vw_working w1) st1 p = Some c
    \<and> mem_view L (vw_working w2) st2 p = mem_view L (vw_working w) st p
    \<and> (Some c \<noteq> mem_view L (vw_base w) st p \<longrightarrow> p \<in> set conflicts)"
proof -
  let ?S = "memory_ops (content_hash L)"
  have nc: "mem.no_clash (content_hash L) st c"
    using assms(6) by (auto simp: memory_clash)
  have w1: "vw_base w1 = vw_base w" "vw_working w1 = fst (tree_insert ?S (vw_working w) st p c)"
      "st1 = snd (tree_insert ?S (vw_working w) st p c)"
    using assms(7) by (auto simp: write_file_def split: prod.splits)
  have st1: "st1 = snd (bs_put ?S st c)"
    using w1(3) by (simp add: tree_insert_split)
  have read: "mem_view L (vw_working w1) st1 = (mem_view L (vw_working w) st)(p \<mapsto> c)"
    unfolding w1(2,3) using mem.read_insert[OF assms(1) nc assms(3)] .
  have base: "mem_view L (vw_base w1) st1 = mem_view L (vw_base w) st"
    unfolding w1(1) st1 using mem.read_put[OF assms(1) nc assms(2)] .
  have ok1: "memory_ok (content_hash L) st1"
    unfolding st1 using mem.put_ok[OF assms(1)] .
  have ag: "agree st1 st"
    using nc unfolding st1 agree_def memory_ops_def memory_clash by (auto simp: memory_get_put)
  have cl: "mem_closed L (vw_base w1) st1" "mem_closed L (vw_working w1) st1"
    unfolding w1(1) st1 using mem.closed_put[OF assms(1,2)] apply simp
    unfolding w1(2) st1[symmetric] w1(3) using mem.closed_insert[OF assms(1,3)] by simp
  have f: "vw_working (fst (workspace_fork w st)) = vw_working w" "snd (workspace_fork w st) = st"
    "vw_base (fst (workspace_fork w st)) = vw_working w"
    by (simp_all add: workspace_fork_def)
  note m = merge_spec[OF ok1 _ _ cl(1,2) _ assms(8), unfolded f, OF assms(1) ag assms(3), unfolded base read]
  have "\<not> has_changes (fst (workspace_fork w st))"
    using diff_entries_set[of "fst (workspace_fork w st)"] assms(4)
    unfolding has_changes_def f by (metis (mono_tags, lifting) empty_Collect_eq set_empty)
  then show ?thesis
    using m assms(5) read by (auto simp: three_way_def merge_conflict_def)
qed

lemma unchanged_fork_reverts_edit_witness:
  "\<exists>conflicts w2 st2.
     workspace_merge ex_libs (fst (write_file ex_ops (fst ex_ours) (snd ex_ours) ''a'' ''9''))
         (snd (write_file ex_ops (fst ex_ours) (snd ex_ours) ''a'' ''9''))
         (fst (workspace_fork (fst ex_ours) (snd ex_ours))) (snd (workspace_fork (fst ex_ours) (snd ex_ours)))
       = (conflicts, w2, st2)
     \<and> mem_view ex_libs (vw_working w2) st2 ''a'' = mem_view ex_libs (vw_working (fst ex_ours)) (snd ex_ours) ''a''
     \<and> mem_view ex_libs (vw_working (fst ex_ours)) (snd ex_ours) ''a'' = Some ''4''"
proof -
  have h: "memory_ok (content_hash ex_libs) (snd ex_ours)" "mem_closed ex_libs (vw_base (fst ex_ours)) (snd ex_ours)"
    "mem_closed ex_libs (vw_working (fst ex_ours)) (snd ex_ours)"
    by (intro memory_ok_code tree_closed_code; code_simp)+
  have c: "tree_ok (vw_working (fst ex_ours))"
    "mem_view ex_libs (vw_working (fst ex_ours)) (snd ex_ours) ''a'' \<noteq> mem_view ex_libs (vw_base (fst ex_ours)) (snd ex_ours) ''a''"
    "memory_get (snd ex_ours) (content_hash ex_libs ''9'') \<in> {None, Some ''9''}"
    "mem_view ex_libs (vw_working (fst ex_ours)) (snd ex_ours) ''a'' = Some ''4''"
    by code_simp+
  have w: "write_file (memory_ops (content_hash ex_libs)) (fst ex_ours) (snd ex_ours) ''a'' ''9'' =
      (fst (write_file ex_ops (fst ex_ours) (snd ex_ours) ''a'' ''9''),
       snd (write_file ex_ops (fst ex_ours) (snd ex_ours) ''a'' ''9''))"
    by (simp add: ex_ops_def)
  obtain cs w2 st2 where m: "workspace_merge ex_libs (fst (write_file ex_ops (fst ex_ours) (snd ex_ours) ''a'' ''9''))
         (snd (write_file ex_ops (fst ex_ours) (snd ex_ours) ''a'' ''9''))
         (fst (workspace_fork (fst ex_ours) (snd ex_ours))) (snd (workspace_fork (fst ex_ours) (snd ex_ours)))
       = (cs, w2, st2)"
    by (metis prod_cases3)
  show ?thesis
    using unchanged_fork_reverts_edit[OF h c(1-3) w m] m c(4) by blast
qed

section \<open>Reachable workspaces\<close>

text \<open>Everything the module does to a workspace and its store.\<close>

inductive ws_reach :: "vg_libs \<Rightarrow> virt_workspace \<Rightarrow> memory_blob_store \<Rightarrow> bool" for L where
  reach_new: "ws_reach L workspace_new memory_new"
| reach_files: "ws_reach L w0 st \<Longrightarrow> workspace_from_files (memory_ops (content_hash L)) st files = (w, st') \<Longrightarrow> ws_reach L w st'"
| reach_load: "ws_reach L w st \<Longrightarrow> load_file (memory_ops (content_hash L)) w st p c = (w', st') \<Longrightarrow> ws_reach L w' st'"
| reach_write: "ws_reach L w st \<Longrightarrow> write_file (memory_ops (content_hash L)) w st p c = (w', st') \<Longrightarrow> ws_reach L w' st'"
| reach_delete: "ws_reach L w st \<Longrightarrow> ws_reach L (delete_file w p) st"
| reach_commit: "ws_reach L w st \<Longrightarrow> ws_reach L (snd (workspace_commit L w message now)) st"
| reach_fork: "ws_reach L w st \<Longrightarrow> workspace_fork w st = (f, st') \<Longrightarrow> ws_reach L f st'"
| reach_merge: "ws_reach L w st \<Longrightarrow> ws_reach L f fst' \<Longrightarrow> workspace_merge L w st f fst' = (cs, w', st') \<Longrightarrow> ws_reach L w' st'"

definition hash_fresh :: "vg_libs \<Rightarrow> tree_snapshot \<Rightarrow> bool" where
  "hash_fresh L t \<longleftrightarrow> ts_cached_hash t \<in> {None, Some (content_hash L (lib_entries_json L (ts_entries t)))}"

definition sound_tree :: "vg_libs \<Rightarrow> tree_snapshot \<Rightarrow> memory_blob_store \<Rightarrow> bool" where
  "sound_tree L t st \<longleftrightarrow> tree_ok t \<and> hash_fresh L t \<and> mem_closed L t st"

definition history_ok :: "virt_workspace \<Rightarrow> bool" where
  "history_ok w \<longleftrightarrow> vw_next_commit w = of_nat (Suc (length (vw_commits w)))
     \<and> (\<forall>k<length (vw_commits w). ci_id (vw_commits w ! k) = commit_id (of_nat (Suc k))
          \<and> ci_parent (vw_commits w ! k) = (if k = 0 then None else Some (ci_id (vw_commits w ! (k - 1)))))"

definition ws_ok :: "vg_libs \<Rightarrow> virt_workspace \<Rightarrow> memory_blob_store \<Rightarrow> bool" where
  "ws_ok L w st \<longleftrightarrow> memory_ok (content_hash L) st \<and> sound_tree L (vw_base w) st \<and> sound_tree L (vw_working w) st
     \<and> history_ok w"

lemma sound_put:
  "memory_ok (content_hash L) st \<Longrightarrow> sound_tree L t st \<Longrightarrow> sound_tree L t (snd (bs_put (memory_ops (content_hash L)) st c))"
  using mem.closed_put[of "content_hash L" st t c] by (simp add: sound_tree_def)

lemma sound_insert:
  assumes "memory_ok (content_hash L) st" "sound_tree L t st"
  shows "sound_tree L (fst (tree_insert (memory_ops (content_hash L)) t st p c)) (snd (tree_insert (memory_ops (content_hash L)) t st p c))"
    "memory_ok (content_hash L) (snd (tree_insert (memory_ops (content_hash L)) t st p c))"
    "sound_tree L u st \<Longrightarrow> sound_tree L u (snd (tree_insert (memory_ops (content_hash L)) t st p c))"
  using mem.closed_insert[of "content_hash L" st t p c] mem.put_ok[of "content_hash L" st c] sound_put[of L st u c] assms
  by (simp_all add: sound_tree_def tree_ok_def hash_fresh_def tree_insert_split)

lemma sound_remove: "sound_tree L t st \<Longrightarrow> sound_tree L (snd (tree_remove t p)) st"
  using tree_closed_remove[of "memory_ops (content_hash L)" t st p]
  by (simp add: sound_tree_def tree_ok_def hash_fresh_def tree_remove_def)

lemma sound_new: "sound_tree L tree_new st"
  using tree_closed_new[of "memory_ops (content_hash L)" st]
  by (simp add: sound_tree_def tree_ok_def hash_fresh_def tree_new_def)

lemma sound_hash:
  "sound_tree L t st \<Longrightarrow> sound_tree L (snd (tree_hash L t)) st
     \<and> fst (tree_hash L t) = content_hash L (lib_entries_json L (ts_entries t))"
  by (auto simp: sound_tree_def tree_ok_def hash_fresh_def tree_hash_def tree_closed_def Let_def split: option.splits)

lemma from_files_sound:
  assumes "memory_ok (content_hash L) st"
  shows "tree_from_files (memory_ops (content_hash L)) st files = (t, st') \<Longrightarrow>
     memory_ok (content_hash L) st' \<and> sound_tree L t st'"
proof -
  have "memory_ok (content_hash L) s \<Longrightarrow> sound_tree L u s \<Longrightarrow> ts_cached_hash u = None \<Longrightarrow>
     fold (\<lambda>(path, content) (t, st). let (hash, st') = bs_put (memory_ops (content_hash L)) st content
         in (t\<lparr>ts_entries := om_insert path hash (ts_entries t)\<rparr>, st')) files (u, s) = (t, st') \<Longrightarrow>
     memory_ok (content_hash L) st' \<and> sound_tree L t st'" for u s
  proof (induction files arbitrary: u s)
    case (Cons f files)
    obtain p c where f: "f = (p, c)"
      by (cases f)
    have i: "(\<lambda>(path, content) (t, st). let (hash, st') = bs_put (memory_ops (content_hash L)) st content
         in (t\<lparr>ts_entries := om_insert path hash (ts_entries t)\<rparr>, st')) f (u, s) = tree_insert (memory_ops (content_hash L)) u s p c"
      using Cons.prems(3) by (cases u) (simp add: f tree_insert_def split: prod.split)
    show ?case
      using Cons.IH[OF sound_insert(2,1)[OF Cons.prems(1,2)], of p c] Cons.prems(4)
      unfolding fold_Cons comp_apply i by (simp add: tree_insert_split)
  qed simp
  from this[OF assms sound_new] show "tree_from_files (memory_ops (content_hash L)) st files = (t, st') \<Longrightarrow> ?thesis"
    unfolding tree_from_files_def by (simp add: tree_new_def)
qed

lemma take_theirs_sound:
  assumes "memory_ok (content_hash L) st" "sound_tree L t st" "sound_tree L u st"
  shows "memory_ok (content_hash L) (snd (take_theirs L their th p (t, st)))
    \<and> sound_tree L (fst (take_theirs L their th p (t, st))) (snd (take_theirs L their th p (t, st)))
    \<and> sound_tree L u (snd (take_theirs L their th p (t, st)))"
  using sound_insert[OF assms(1,2)] sound_remove[OF assms(2)] assms
  by (simp add: take_theirs_def split: option.split)

lemma merge_fold_sound:
  "memory_ok (content_hash L) st \<Longrightarrow> sound_tree L t st \<Longrightarrow> sound_tree L u st \<Longrightarrow>
     fold (merge_path L base ours theirs their) ps ((t, st), cs) = ((t', st'), cs') \<Longrightarrow>
     memory_ok (content_hash L) st' \<and> sound_tree L t' st' \<and> sound_tree L u st'"
proof (induction ps arbitrary: t st cs)
  case (Cons p ps)
  let ?T = "take_theirs L their (tree_map theirs p) p (t, st)"
  have step: "merge_path L base ours theirs their p ((t, st), cs) =
      ((if tree_map theirs p \<noteq> tree_map base p then (fst ?T, snd ?T) else (t, st)),
       if tree_map theirs p \<noteq> tree_map base p \<and> tree_map ours p \<noteq> tree_map base p then cs @ [p] else cs)"
    by (simp add: merge_path_def Let_def)
  show ?case
    using Cons.IH[of st t cs] Cons.IH[of "snd ?T" "fst ?T"] Cons.prems take_theirs_sound[OF Cons.prems(1-3), of their "tree_map theirs p" p]
    unfolding fold_Cons comp_apply step
    by (cases "tree_map theirs p \<noteq> tree_map base p") simp_all
qed simp

lemma history_commit:
  assumes "history_ok w"
  shows "history_ok (snd (workspace_commit L w message now))"
proof -
  let ?n = "length (vw_commits w)"
  define c where "c = fst (workspace_commit L w message now)"
  have c: "vw_commits (snd (workspace_commit L w message now)) = vw_commits w @ [c]"
    "vw_next_commit (snd (workspace_commit L w message now)) = vw_next_commit w + 1"
    "ci_id c = commit_id (vw_next_commit w)"
    "ci_parent c = (if vw_commits w = [] then None else Some (ci_id (List.last (vw_commits w))))"
    by (simp_all add: c_def workspace_commit_def Let_def split: prod.splits)
  have "(vw_commits w @ [c]) ! k = (if k = ?n then c else vw_commits w ! k)" if "k < Suc ?n" for k
    using that by (simp add: nth_append)
  then show ?thesis
    using assms unfolding history_ok_def c
    by (auto simp: c(3,4) less_Suc_eq last_conv_nth nth_append)
qed

lemma ws_reach_ok: "ws_reach L w st \<Longrightarrow> ws_ok L w st"
proof (induction rule: ws_reach.induct)
  case reach_new
  then show ?case
    using sound_new by (simp add: ws_ok_def workspace_new_def history_ok_def memory_ok_def memory_new_def)
next
  case (reach_files w0 st files w st')
  then obtain t where t: "tree_from_files (memory_ops (content_hash L)) st files = (t, st')"
    "w = \<lparr>vw_base = t, vw_working = t, vw_commits = [], vw_next_commit = 1\<rparr>"
    by (auto simp: workspace_from_files_def split: prod.splits)
  then show ?case
    using reach_files.IH from_files_sound[OF _ t(1)] by (simp add: ws_ok_def history_ok_def)
next
  case (reach_load w st p c w' st')
  let ?S = "memory_ops (content_hash L)"
  define b st1 k where "b = fst (tree_insert ?S (vw_base w) st p c)" and "st1 = snd (tree_insert ?S (vw_base w) st p c)"
    and "k = fst (tree_insert ?S (vw_working w) st1 p c)"
  have w': "w' = w\<lparr>vw_base := b, vw_working := k\<rparr>" "st' = snd (tree_insert ?S (vw_working w) st1 p c)"
    using reach_load.hyps(2) by (auto simp: load_file_def b_def st1_def k_def Let_def split: prod.splits)
  have ok: "memory_ok (content_hash L) st" "sound_tree L (vw_base w) st" "sound_tree L (vw_working w) st" "history_ok w"
    using reach_load.IH by (simp_all add: ws_ok_def)
  have 1: "memory_ok (content_hash L) st1" "sound_tree L b st1" "sound_tree L (vw_working w) st1"
    unfolding st1_def b_def using sound_insert[OF ok(1,2)] ok(3) by blast+
  show ?case
    using sound_insert[OF 1(1,3)] 1(2) ok(4) unfolding w' by (simp add: ws_ok_def history_ok_def k_def)
next
  case (reach_write w st p c w' st')
  have w': "w' = w\<lparr>vw_working := fst (tree_insert (memory_ops (content_hash L)) (vw_working w) st p c)\<rparr>"
    "st' = snd (tree_insert (memory_ops (content_hash L)) (vw_working w) st p c)"
    using reach_write.hyps(2) by (auto simp: write_file_def split: prod.splits)
  show ?case
    using reach_write.IH sound_insert[of L st "vw_working w"] unfolding w' by (simp add: ws_ok_def history_ok_def)
next
  case (reach_delete w st p)
  then show ?case
    using sound_remove by (simp add: ws_ok_def delete_file_def history_ok_def)
next
  case (reach_commit w st message now)
  have w': "vw_base (snd (workspace_commit L w message now)) = snd (tree_hash L (vw_working w))"
    "vw_working (snd (workspace_commit L w message now)) = snd (tree_hash L (vw_working w))"
    by (simp_all add: workspace_commit_def Let_def split: prod.split)
  show ?case
    using reach_commit.IH history_commit[of w L message now] sound_hash[of L "vw_working w" st]
    unfolding ws_ok_def w' by blast
next
  case (reach_fork w st f st')
  then show ?case
    by (auto simp: ws_ok_def workspace_fork_def history_ok_def)
next
  case (reach_merge w st f fst' cs w' st')
  obtain t' where t': "fold (merge_path L (vw_base w) (vw_working w) (vw_working f) fst')
      (sort (remdups (om_keys (ts_entries (vw_base w)) @ om_keys (ts_entries (vw_working w))
            @ om_keys (ts_entries (vw_working f))))) ((vw_working w, st), []) = ((t', st'), cs)"
    "w' = w\<lparr>vw_working := t'\<rparr>"
    using reach_merge.hyps(3) by (auto simp: workspace_merge_def Let_def split: prod.splits)
  show ?case
    using reach_merge.IH(1) merge_fold_sound[OF _ _ _ t'(1), of "vw_base w"] unfolding t'(2)
    by (simp add: ws_ok_def history_ok_def)
qed

lemma digits_value_pad: "digits_value (replicate k CHR ''0'' @ d) = digits_value d"
  by (induction k) (simp_all add: digits_value_def)

lemma commit_id_inj: "commit_id m = commit_id n \<Longrightarrow> m = n"
proof -
  assume "commit_id m = commit_id n"
  then have "digits_value (replicate (4 - length (show_nat (unat m))) CHR ''0'' @ show_nat (unat m)) =
      digits_value (replicate (4 - length (show_nat (unat n))) CHR ''0'' @ show_nat (unat n))"
    by (simp add: commit_id_def Let_def)
  then show "m = n"
    by (simp add: digits_value_pad unsigned_word_eqI)
qed

text \<open>C27: the invariant of every workspace the module can produce, by any sequence of loads, writes,
  deletions, commits, forks and merges: the store holds every blob under its own hash; a path exists in
  the working tree exactly when it can be read; a cached tree hash is never stale; and, below the \<open>2^32\<close>
  commits at which the counter wraps, commit identifiers are distinct and each commit names the one
  before it as its parent.\<close>

theorem reachable_workspace:
  assumes "ws_reach L w st" "length (vw_commits w) < 2 ^ 32"
  shows "(\<forall>h b. memory_get st h = Some b \<longrightarrow> content_hash L b = h)
    \<and> (\<forall>p. file_exists w p \<longleftrightarrow> mem_view L (vw_working w) st p \<noteq> None)
    \<and> fst (tree_hash L (vw_working w)) = content_hash L (lib_entries_json L (ts_entries (vw_working w)))
    \<and> distinct (map ci_id (vw_commits w))
    \<and> (\<forall>k<length (vw_commits w). ci_parent (vw_commits w ! k) =
          (if k = 0 then None else Some (ci_id (vw_commits w ! (k - 1)))))"
proof -
  have ok: "memory_ok (content_hash L) st" "sound_tree L (vw_working w) st" "history_ok w"
    using ws_reach_ok[OF assms(1)] by (simp_all add: ws_ok_def)
  have "file_exists w p \<longleftrightarrow> mem_view L (vw_working w) st p \<noteq> None" for p
    using ok(2) by (cases "tree_map (vw_working w) p")
      (auto simp: sound_tree_def tree_closed_def file_exists_def tree_exists_def om_has_def tree_read_def)
  moreover have "i = j" if "i < length (vw_commits w)" "j < length (vw_commits w)"
    "map ci_id (vw_commits w) ! i = map ci_id (vw_commits w) ! j" for i j
  proof -
    have "commit_id (of_nat (Suc i)) = commit_id (of_nat (Suc j))"
      using that ok(3) by (simp add: history_ok_def)
    then have "(of_nat (Suc i) :: 32 word) = of_nat (Suc j)"
      by (rule commit_id_inj)
    then have "unat (of_nat (Suc i) :: 32 word) = unat (of_nat (Suc j) :: 32 word)"
      by simp
    then show ?thesis
      using that(1,2) assms(2) unfolding unat_of_nat by simp
  qed
  ultimately show ?thesis
    using ok memory_ok_get[OF ok(1)] sound_hash[OF ok(2)] unfolding history_ok_def distinct_conv_nth length_map
    by blast
qed

text \<open>A commit leaves every file as it is and nothing to commit: the working tree reads as before, the
  base is the working tree, \<open>has_changes\<close> is false, and the recorded tree hash is that of the files.\<close>

theorem commit_clean:
  assumes "ws_reach L w st" "workspace_commit L w message now = (c, w')"
  shows "mem_view L (vw_working w') st = mem_view L (vw_working w) st
    \<and> \<not> has_changes w' \<and> workspace_diff L (memory_ops (content_hash L)) w' st = []
    \<and> vw_commits w' = vw_commits w @ [c]
    \<and> ci_tree_hash c = content_hash L (lib_entries_json L (ts_entries (vw_working w)))"
proof -
  have ok: "sound_tree L (vw_working w) st"
    using ws_reach_ok[OF assms(1)] by (simp add: ws_ok_def)
  have e: "ts_entries (snd (tree_hash L (vw_working w))) = ts_entries (vw_working w)"
    by (auto simp: tree_hash_def Let_def split: option.split)
  have w': "vw_working w' = snd (tree_hash L (vw_working w))" "vw_base w' = snd (tree_hash L (vw_working w))"
    "vw_commits w' = vw_commits w @ [c]" "ci_tree_hash c = fst (tree_hash L (vw_working w))"
    using assms(2) by (auto simp: workspace_commit_def Let_def split: prod.splits)
  have t: "tree_ok (vw_base w')" "tree_ok (vw_working w')"
    using ok unfolding w' tree_ok_def e by (simp_all add: sound_tree_def tree_ok_def)
  have "diff_entries w' = []"
    using diff_entries_set[OF t] unfolding w' by (metis (mono_tags, lifting) empty_Collect_eq set_empty)
  moreover have "workspace_diff L (memory_ops (content_hash L)) w' st = []"
    using diff_paths(2)[OF t, of L "memory_ops (content_hash L)" st] unfolding w'(1,2)
    by (simp add: workspace_diff_def w'(1,2))
  ultimately show ?thesis
    using sound_hash[OF ok] unfolding w' by (simp add: has_changes_def tree_read_def e fun_eq_iff)
qed

text \<open>C32: round trip through the file provider: what was written is read back, every other path reads as
  before, and the listing gains exactly the path. The text must be valid UTF-8 and must not collide with
  a different blob of the store.\<close>

theorem provider_roundtrip:
  assumes "ws_reach L (vp_workspace p) (vp_store p)" "vp_fits L p c" "vp_write_file L p path c = (r, p')"
  shows "r = Ok () \<and> vp_read_file L p' path = Ok c
    \<and> (\<forall>q. q \<noteq> path \<longrightarrow> vp_read_file L p' q = vp_read_file L p q)
    \<and> set (vp_list_files p') = insert path (set (vp_list_files p))"
proof -
  have ok: "vp_ok L p"
    using ws_reach_ok[OF assms(1)] by (simp add: vp_ok_def ws_ok_def sound_tree_def)
  have w: "fp_write (virt_provider L) p path c = (r, p')"
    using assms(3) by (simp add: virt_provider_def)
  show ?thesis
    using vp.write_done[of L p path c] vp.read_back[OF ok assms(2), of path] vp.read_other[OF ok assms(2), where path = path]
      vp.write_lists[of L p path c] unfolding w by (simp add: virt_provider_def)
qed

definition ex_provider :: virt_file_provider where
  "ex_provider = vp_load_file ex_libs vp_new ''a'' ''1''"

lemma ex_provider_reach: "ws_reach ex_libs (vp_workspace ex_provider) (vp_store ex_provider)"
proof -
  have "load_file (memory_ops (content_hash ex_libs)) workspace_new memory_new ''a'' ''1''
      = (vp_workspace ex_provider, vp_store ex_provider)"
    by (simp add: ex_provider_def vp_load_file_def vp_new_def split: prod.split)
  then show ?thesis
    by (rule reach_load[OF reach_new])
qed

lemma provider_roundtrip_witness:
  "\<exists>p'. vp_write_file ex_libs ex_provider ''b'' ''2'' = (Ok (), p') \<and> vp_read_file ex_libs p' ''b'' = Ok ''2''
    \<and> vp_read_file ex_libs p' ''a'' = vp_read_file ex_libs ex_provider ''a''"
proof -
  obtain r p' where w: "vp_write_file ex_libs ex_provider ''b'' ''2'' = (r, p')"
    by (metis prod.exhaust)
  have "utf8_valid ''2''" "memory_get (vp_store ex_provider) (content_hash ex_libs ''2'') = None"
    by code_simp+
  then have "vp_fits ex_libs ex_provider ''2''"
    by (simp add: vp_fits_def)
  then show ?thesis
    using provider_roundtrip[OF ex_provider_reach _ w] w by simp
qed

definition ex_committed :: "commit_info \<times> virt_workspace" where
  "ex_committed = workspace_commit ex_libs (vp_workspace ex_provider) ''initial'' 7"

lemma commit_clean_witness:
  "\<not> has_changes (snd ex_committed) \<and> ci_tree_hash (fst ex_committed) = ''a:1''"
proof -
  have "workspace_commit ex_libs (vp_workspace ex_provider) ''initial'' 7 = (fst ex_committed, snd ex_committed)"
    by (simp add: ex_committed_def)
  moreover have "content_hash ex_libs (lib_entries_json ex_libs (ts_entries (vw_working (vp_workspace ex_provider)))) = ''a:1''"
    by code_simp
  ultimately show ?thesis
    using commit_clean[OF ex_provider_reach] by metis
qed

lemma reachable_workspace_witness:
  "\<forall>p. file_exists (snd ex_committed) p \<longleftrightarrow> mem_view ex_libs (vw_working (snd ex_committed)) (vp_store ex_provider) p \<noteq> None"
proof -
  have "ws_reach ex_libs (snd ex_committed) (vp_store ex_provider)"
    unfolding ex_committed_def by (rule reach_commit[OF ex_provider_reach])
  moreover have "length (vw_commits (snd ex_committed)) = 1"
    by code_simp
  ultimately show ?thesis
    using reachable_workspace[of ex_libs "snd ex_committed" "vp_store ex_provider"] by simp
qed

end
