(* ===== verification/GitHubFacts.thy ===== *)
theory GitHubFacts
  imports GitHub VirtFacts
begin

text \<open>
  The calls a pull request makes: their order against the protocol, and what the posted tree contains.
\<close>

section \<open>Observing the calls\<close>

text \<open>An HTTP callback that also records method, address and body of every call.\<close>

type_synonym call_log = "(string \<times> string \<times> string) list"

definition logged :: "'h http \<Rightarrow> (call_log \<times> 'h) http" where
  "logged http m u b t s = (let (r, h') = http m u b t (snd s) in (r, (fst s @ [(m, u, b)], h')))"

lemma logged_Ok: "logged http m u b t s = (Ok a, s') \<longleftrightarrow>
    (\<exists>h'. http m u b t (snd s) = (Ok a, h') \<and> s' = (fst s @ [(m, u, b)], h'))"
  by (auto simp: logged_def split: prod.splits)

lemmas io_Ok = io_bind_Ok io_lift_Ok io_ok_Ok logged_Ok map_err_eq

section \<open>The order of the calls\<close>

text \<open>Running \<open>m\<close> makes a prefix of the planned calls, and all of them when it succeeds.\<close>

definition follows :: "(string \<times> string) list \<Rightarrow> (call_log \<times> 'h, 'a) io \<Rightarrow> bool" where
  "follows plan m \<longleftrightarrow> (\<forall>s. \<exists>ext. fst (snd (m s)) = fst s @ ext
     \<and> prefix (map (\<lambda>(m, u, _). (m, u)) ext) plan
     \<and> (\<forall>a. fst (m s) = Ok a \<longrightarrow> map (\<lambda>(m, u, _). (m, u)) ext = plan))"

named_theorems follows

lemma follows_lift [follows]: "follows [] (io_lift r)"
  by (simp add: follows_def io_lift_def)

lemma follows_ok [follows]: "follows [] (io_ok a)"
  by (simp add: follows_def io_ok_def)

lemma follows_call [follows]: "follows [(m, u)] (logged http m u b t)"
  by (auto simp: follows_def logged_def Let_def split: prod.split)

lemma follows_bind [follows]:
  assumes "follows p m" "\<And>a. follows q (f a)"
  shows "follows (p @ q) (io_bind m f)"
  unfolding follows_def
proof
  fix s
  let ?C = "map (\<lambda>(m, u, _). (m, u))"
  obtain e where e: "fst (snd (m s)) = fst s @ e" "prefix (?C e) p" "\<forall>a. fst (m s) = Ok a \<longrightarrow> ?C e = p"
    using assms(1) unfolding follows_def by blast
  show "\<exists>ext. fst (snd (io_bind m f s)) = fst s @ ext \<and> prefix (?C ext) (p @ q)
     \<and> (\<forall>a. fst (io_bind m f s) = Ok a \<longrightarrow> ?C ext = p @ q)"
  proof (cases "\<exists>a. fst (m s) = Ok a")
    case True
    then obtain a where a: "m s = (Ok a, snd (m s))"
      by (metis prod.collapse)
    obtain e' where e': "fst (snd (f a (snd (m s)))) = fst (snd (m s)) @ e'" "prefix (?C e') q"
      "\<forall>b. fst (f a (snd (m s))) = Ok b \<longrightarrow> ?C e' = q"
      using assms(2)[of a] unfolding follows_def by blast
    have "io_bind m f s = f a (snd (m s))"
      by (subst io_bind_def, subst a) simp
    moreover have "?C e = p"
      using e(3) a by (metis fst_conv)
    ultimately show ?thesis
      using e(1) e' by (intro exI[of _ "e @ e'"]) simp
  next
    case False
    then have "snd (io_bind m f s) = snd (m s) \<and> (\<forall>a. fst (io_bind m f s) \<noteq> Ok a)"
      by (auto simp: io_bind_def split: prod.splits outcome.splits)
    then show ?thesis
      using e by (intro exI[of _ e]) (auto intro: prefix_order.trans)
  qed
qed

lemma follows_blobs:
  "follows (map (\<lambda>_. (''POST'', api @ ''/git/blobs'')) (filter (\<lambda>d. read (fd_path d) \<noteq> None) ds))
     (create_blobs J (logged http) api token read ds)"
proof (induction ds)
  case (Cons d ds)
  show ?case
  proof (cases "read (fd_path d)")
    case (Some content)
    have "follows ([] @ [(''POST'', api @ ''/git/blobs'')] @ [] @
        map (\<lambda>_. (''POST'', api @ ''/git/blobs'')) (filter (\<lambda>d. read (fd_path d) \<noteq> None) ds) @ [])
      (create_blobs J (logged http) api token read (d # ds))"
      unfolding create_blobs.simps Some option.case by (intro follows Cons.IH)
    then show ?thesis
      using Some by simp
  qed (use Cons.IH in simp)
qed (simp add: follows)

text \<open>C29: the calls of a pull request come in the order of the protocol: whatever the server answers, the
  calls made are a prefix of: read the base reference, one blob per changed file that can be read, the
  tree, the commit, the branch, the pull request; and on success all of them were made. So no branch is
  created before its commit, and no pull request is opened before its branch.\<close>

theorem create_pr_protocol:
  fixes L J and S :: "'s blob_ops" and config :: github_config and w :: virt_workspace and st :: 's
    and msg title body branch :: string and http :: "'h http" and h :: 'h
  defines "run \<equiv> create_pr L J S config w st msg title body branch (logged http) ([], h)"
    and "api \<equiv> api_base (gc_owner config) (gc_repo config)"
  defines "plan \<equiv> [(''GET'', api @ ''/git/ref/heads/'' @ gc_base_branch config)]
      @ map (\<lambda>_. (''POST'', api @ ''/git/blobs''))
          (filter (\<lambda>d. read_file S w st (fd_path d) \<noteq> None) (workspace_diff L S w st))
      @ [(''POST'', api @ ''/git/trees''), (''POST'', api @ ''/git/commits''), (''POST'', api @ ''/git/refs''),
         (''POST'', api @ ''/pulls'')]"
  shows "prefix (map (\<lambda>(m, u, _). (m, u)) (fst (snd run))) plan
    \<and> (\<forall>r. fst run = Ok r \<longrightarrow> map (\<lambda>(m, u, _). (m, u)) (fst (snd run)) = plan)"
proof (cases "workspace_diff L S w st = []")
  case True
  then show ?thesis
    by (simp add: run_def create_pr_def io_lift_def)
next
  case False
  have p: "plan = [(''GET'', api @ ''/git/ref/heads/'' @ gc_base_branch config)] @ [] @
      map (\<lambda>_. (''POST'', api @ ''/git/blobs''))
        (filter (\<lambda>d. read_file S w st (fd_path d) \<noteq> None) (workspace_diff L S w st)) @
      [] @ [(''POST'', api @ ''/git/trees'')] @ [] @ [] @ [(''POST'', api @ ''/git/commits'')] @ [] @ [] @
      [(''POST'', api @ ''/git/refs'')] @ [] @ [(''POST'', api @ ''/pulls'')] @ [] @ []"
    by (simp add: plan_def)
  have "follows plan (create_pr L J S config w st msg title body branch (logged http))"
    unfolding create_pr_def Let_def if_not_P[OF False] p api_def
    by (intro follows follows_blobs) (auto intro: follows split: prod.split)
  then show ?thesis
    unfolding follows_def run_def by (metis (no_types, lifting) append_Nil fst_conv)
qed


section \<open>The content of the calls\<close>

lemma create_blobs_Ok:
  "create_blobs J (logged http) api token read ds s = (Ok shas, s') \<Longrightarrow>
     map fst shas = map fd_path (filter (\<lambda>d. read (fd_path d) \<noteq> None) ds)
     \<and> (\<exists>ext. fst s' = fst s @ ext \<and> (\<forall>c\<in>set ext. fst (snd c) = api @ ''/git/blobs''))"
proof (induction ds arbitrary: s shas)
  case (Cons d ds)
  show ?case
  proof (cases "read (fd_path d)")
    case (Some content)
    then obtain sha rest req h1 where r: "shas = (fd_path d, sha) # rest"
      "create_blobs J (logged http) api token read ds (fst s @ [(''POST'', api @ ''/git/blobs'', req)], h1) = (Ok rest, s')"
      using Cons.prems by (auto simp: io_Ok)
    obtain ext where "fst s' = fst s @ [(''POST'', api @ ''/git/blobs'', req)] @ ext"
      "\<forall>c\<in>set ext. fst (snd c) = api @ ''/git/blobs''"
      using Cons.IH[OF r(2)] by auto
    then have "\<exists>ext. fst s' = fst s @ ext \<and> (\<forall>c\<in>set ext. fst (snd c) = api @ ''/git/blobs'')"
      by (intro exI[of _ "(''POST'', api @ ''/git/blobs'', req) # ext"]) simp
    then show ?thesis
      using Cons.IH[OF r(2)] r(1) Some by simp
  qed (use Cons in simp)
qed (simp add: io_Ok)

lemma deleted_unreadable:
  "tree_map (vw_working w) p = None \<Longrightarrow> read_file S w st p = None"
  by (simp add: read_file_def tree_read_string_def tree_read_def)

text \<open>C33: a pull request does not delete files. The tree it posts names no deleted path, while the base tree
  keeps every path it is not told about; yet the result reports the deleted path as changed.\<close>

theorem deletion_not_published:
  assumes "tree_ok (vw_base w)" "tree_ok (vw_working w)"
    and "tree_map (vw_base w) p \<noteq> None" "tree_map (vw_working w) p = None"
    and "create_pr L J S config w st msg title body branch (logged http) ([], h) = (Ok r, (log, h'))"
  shows "p \<in> set (pr_files_changed r)
    \<and> (\<exists>base_sha entries req. gj_tree J \<lparr>ct_base_tree = base_sha, ct_tree = entries\<rparr> = Ok req
        \<and> (''POST'', api_base (gc_owner config) (gc_repo config) @ ''/git/trees'', req) \<in> set log
        \<and> p \<notin> te_path ` set entries
        \<and> te_path ` set entries = {q. tree_map (vw_base w) q \<noteq> tree_map (vw_working w) q \<and> read_file S w st q \<noteq> None})"
proof -
  let ?ds = "workspace_diff L S w st" and ?api = "api_base (gc_owner config) (gc_repo config)"
  have paths: "set (map fd_path ?ds) = {q. tree_map (vw_base w) q \<noteq> tree_map (vw_working w) q}"
    unfolding workspace_diff_def by (rule diff_paths(2)[OF assms(1,2)])
  have mem: "p \<in> set (map fd_path ?ds)"
    unfolding paths using assms(3,4) by simp
  then have ne: "?ds \<noteq> []"
    by auto
  obtain base_sha shas s1 s2 req h1 where b: "create_blobs J (logged http) ?api (gc_token config) (read_file S w st) ?ds s1 = (Ok shas, s2)"
    and t: "gj_tree J \<lparr>ct_base_tree = base_sha, ct_tree = map (\<lambda>(path, sha). blob_entry path sha) shas\<rparr> = Ok req"
    and log: "(''POST'', ?api @ ''/git/trees'', req) \<in> set log"
    and r: "pr_files_changed r = map fd_path ?ds"
    using assms(5) ne unfolding create_pr_def Let_def if_not_P[OF ne] by (auto simp: io_Ok)
  have "te_path ` set (map (\<lambda>(path, sha). blob_entry path sha) shas) = set (map fst shas)"
    by (force simp: blob_entry_def)
  also have "\<dots> = {q \<in> set (map fd_path ?ds). read_file S w st q \<noteq> None}"
    using create_blobs_Ok[OF b] by auto
  finally have e: "te_path ` set (map (\<lambda>(path, sha). blob_entry path sha) shas) =
      {q. tree_map (vw_base w) q \<noteq> tree_map (vw_working w) q \<and> read_file S w st q \<noteq> None}"
    unfolding paths by blast
  moreover have "p \<notin> te_path ` set (map (\<lambda>(path, sha). blob_entry path sha) shas)"
    unfolding e using deleted_unreadable[OF assms(4), of S st] by blast
  ultimately show ?thesis
    using t log mem unfolding r by blast
qed

text \<open>A server for the examples: every answer is a fixed text, every struct prints as its texts.\<close>

definition ex_json :: gh_json where
  "ex_json = \<lparr>gj_blob = (\<lambda>b. Ok (cb_content b)), gj_tree = (\<lambda>t. Ok (concat (map te_path (ct_tree t)))),
     gj_commit = (\<lambda>c. Ok (cc_message c)), gj_ref = (\<lambda>r. Ok (cr_ref_name r)), gj_pr = (\<lambda>p. Ok (cp_title p)),
     gj_ref_response = (\<lambda>r. Ok ''base''), gj_sha_response = (\<lambda>r. Ok ''sha''), gj_pr_response = (\<lambda>r. Ok (1, ''url'')),
     gj_tree_response = (\<lambda>r. Ok []), gj_content_response = (\<lambda>r. Err ''no content''),
     gj_utf8_error = (\<lambda>b. ''invalid utf-8'')\<rparr>"

definition ex_http :: "unit http" where
  "ex_http m u b t h = (Ok ''answer'', h)"

definition ex_config :: github_config where
  "ex_config = \<lparr>gc_owner = ''o'', gc_repo = ''r'', gc_token = ''t'', gc_base_branch = ''main''\<rparr>"

definition ex_pr :: "pr_result outcome \<times> call_log \<times> unit" where
  "ex_pr = create_pr ex_libs ex_json ex_ops ex_config (fst ex_workspace) (snd ex_workspace) ''msg'' ''title'' ''body'' ''fix''
     (logged ex_http) ([], ())"

lemma deletion_not_published_witness:
  "\<exists>r log. ex_pr = (Ok r, (log, ())) \<and> ''b'' \<in> set (pr_files_changed r) \<and> pr_number r = 1"
proof -
  have t: "tree_ok (vw_base (fst ex_workspace))" "tree_ok (vw_working (fst ex_workspace))"
    "tree_map (vw_base (fst ex_workspace)) ''b'' \<noteq> None" "tree_map (vw_working (fst ex_workspace)) ''b'' = None"
    by code_simp+
  have "(case fst ex_pr of Ok r \<Rightarrow> pr_number r = 1 | _ \<Rightarrow> False)"
    by code_simp
  then obtain r where r: "fst ex_pr = Ok r" "pr_number r = 1"
    by (auto split: outcome.splits)
  then have e: "ex_pr = (Ok r, (fst (snd ex_pr), ()))"
    by (simp add: prod_eq_iff)
  have "''b'' \<in> set (pr_files_changed r)"
    using deletion_not_published[OF t e[unfolded ex_pr_def]] by blast
  then show ?thesis
    using e r(2) by blast
qed

lemma create_pr_protocol_witness:
  "map (\<lambda>(m, u, _). m) (fst (snd ex_pr)) = [''GET'', ''POST'', ''POST'', ''POST'', ''POST'', ''POST'']"
proof -
  have f: "filter (\<lambda>d. read_file ex_ops (fst ex_workspace) (snd ex_workspace) (fd_path d) \<noteq> None)
      (workspace_diff ex_libs ex_ops (fst ex_workspace) (snd ex_workspace)) =
      take 1 (workspace_diff ex_libs ex_ops (fst ex_workspace) (snd ex_workspace))"
    "length (workspace_diff ex_libs ex_ops (fst ex_workspace) (snd ex_workspace)) = 2"
    by code_simp+
  have "(case fst ex_pr of Ok r \<Rightarrow> True | _ \<Rightarrow> False)"
    by code_simp
  then obtain r where "fst ex_pr = Ok r"
    by (auto split: outcome.splits)
  then have "map (\<lambda>(m, u, _). (m, u)) (fst (snd ex_pr)) =
     [(''GET'', api_base ''o'' ''r'' @ ''/git/ref/heads/'' @ ''main'')]
      @ map (\<lambda>_. (''POST'', api_base ''o'' ''r'' @ ''/git/blobs''))
          (take 1 (workspace_diff ex_libs ex_ops (fst ex_workspace) (snd ex_workspace)))
      @ [(''POST'', api_base ''o'' ''r'' @ ''/git/trees''), (''POST'', api_base ''o'' ''r'' @ ''/git/commits''),
         (''POST'', api_base ''o'' ''r'' @ ''/git/refs''), (''POST'', api_base ''o'' ''r'' @ ''/pulls'')]"
    using create_pr_protocol[of ex_libs ex_json ex_ops ex_config "fst ex_workspace" "snd ex_workspace" "''msg''" "''title''"
        "''body''" "''fix''" ex_http "()"]
    unfolding ex_pr_def[symmetric] f(1) by (simp add: ex_config_def)
  moreover have "map (\<lambda>(m, u, _). m) c = map fst (map (\<lambda>(m, u, _). (m, u)) c)" for c :: call_log
    by (induction c) auto
  ultimately show ?thesis
    using f(2) by (cases "workspace_diff ex_libs ex_ops (fst ex_workspace) (snd ex_workspace)") auto
qed

end
