(* ===== verification/Scheduler.thy ===== *)
theory Scheduler
  imports RustStr "HOL-Library.Word"
begin

text \<open>
  The distributed scheduler over NATS key-value buckets (\<open>crates/events/src/scheduler.rs\<close>). The bucket
  client and the JSON encoding are parameters; time stamps are arguments.
\<close>

type_synonym f64_bits = "64 word"

record task_entry =
  tk_run_id :: string
  tk_project :: string
  tk_goal :: string
  tk_status :: string
  tk_created_at :: string

record lease_entry =
  le_daemon_id :: string
  le_run_id :: string
  le_claimed_at :: string

text \<open>The entry of a lock or slot: \<open>{"daemon_id", "run_id", "acquired_at"}\<close>.\<close>

record lock_entry =
  lk_daemon_id :: string
  lk_run_id :: string
  lk_acquired_at :: string

record host_resources =
  hr_daemon_id :: string
  hr_host :: string
  hr_cpu_percent :: f64_bits
  hr_ram_percent :: f64_bits
  hr_disk_percent :: f64_bits
  hr_available_models :: "string list"
  hr_updated_at :: string

section \<open>Buckets\<close>

text \<open>The operations of \<open>kv::Store\<close>. A listing can hold a key that could not be fetched (\<open>None\<close>).\<close>

record 'k kv_ops =
  kv_create :: "'k \<Rightarrow> string \<Rightarrow> string \<Rightarrow> unit outcome \<times> 'k"
  kv_put :: "'k \<Rightarrow> string \<Rightarrow> string \<Rightarrow> unit outcome \<times> 'k"
  kv_purge :: "'k \<Rightarrow> string \<Rightarrow> unit outcome \<times> 'k"
  kv_get :: "'k \<Rightarrow> string \<Rightarrow> string option outcome"
  kv_keys :: "'k \<Rightarrow> string option list outcome"

record sched_json =
  sj_task :: "task_entry \<Rightarrow> string outcome"
  sj_lease :: "lease_entry \<Rightarrow> string outcome"
  sj_lock :: "lock_entry \<Rightarrow> string outcome"
  sj_host :: "host_resources \<Rightarrow> string outcome"
  sj_task_of :: "string \<Rightarrow> task_entry option"
  sj_host_of :: "string \<Rightarrow> host_resources option"

record 'k nats_scheduler =
  ns_tasks :: 'k
  ns_leases :: 'k
  ns_resources :: 'k
  ns_daemon_id :: string

section \<open>Keys\<close>

definition EXECUTION_LOCK_KEY :: string where
  "EXECUTION_LOCK_KEY = ''goal-execution-lock''"

definition ascii_key_char :: "char \<Rightarrow> char" where
  "ascii_key_char c = (if c = CHR '':'' then CHR ''.''
     else if is_alphanumeric c \<or> c = CHR ''.'' \<or> c = CHR ''_'' \<or> c = CHR ''-'' then c else CHR ''_'')"

text \<open>Character by character: one underscore for every character outside ASCII.\<close>

function sanitize_key :: "string \<Rightarrow> string" where
  "sanitize_key s = (case s of [] \<Rightarrow> []
     | c # r \<Rightarrow> if (of_char c :: nat) < 128 then ascii_key_char c # sanitize_key r
                else CHR ''_'' # sanitize_key (drop (char_len s) s))"
  by pat_completeness auto
termination
  by (relation "measure length") auto

declare sanitize_key.simps [simp del]

definition task_key :: "string \<Rightarrow> string" where
  "task_key run_id = ''task.'' @ sanitize_key run_id"

definition lease_key :: "string \<Rightarrow> string" where
  "lease_key run_id = ''lease.'' @ sanitize_key run_id"

definition host_key :: "string \<Rightarrow> string" where
  "host_key daemon_id = ''host.'' @ sanitize_key daemon_id"

definition project_key :: "string \<Rightarrow> string" where
  "project_key project = EXECUTION_LOCK_KEY @ ''.'' @ sanitize_key project"

definition slot_key :: "nat \<Rightarrow> string" where
  "slot_key i = EXECUTION_LOCK_KEY @ ''.slot-'' @ show_nat i"

section \<open>Tasks and leases\<close>

text \<open>A call on one bucket with an error context.\<close>

definition kv_context :: "string \<Rightarrow> unit outcome \<times> 'k \<Rightarrow> ('k \<Rightarrow> 'k nats_scheduler) \<Rightarrow> unit outcome \<times> 'k nats_scheduler" where
  "kv_context msg res upd = (map_err (\<lambda>_. msg) (fst res), upd (snd res))"

definition with_value :: "string outcome \<Rightarrow> 'k nats_scheduler \<Rightarrow> (string \<Rightarrow> 'a outcome \<times> 'k nats_scheduler) \<Rightarrow> 'a outcome \<times> 'k nats_scheduler" where
  "with_value value s f = (case value of Ok v \<Rightarrow> f v | Err e \<Rightarrow> (Err e, s) | Panic \<Rightarrow> (Panic, s))"

definition submit_task :: "'k kv_ops \<Rightarrow> sched_json \<Rightarrow> 'k nats_scheduler \<Rightarrow> task_entry \<Rightarrow> unit outcome \<times> 'k nats_scheduler" where
  "submit_task K J s entry =
     with_value (sj_task J entry) s (\<lambda>value.
       kv_context ''Failed to submit task to KV'' (kv_put K (ns_tasks s) (task_key (tk_run_id entry)) value)
         (\<lambda>b. s\<lparr>ns_tasks := b\<rparr>))"

definition lease_of :: "'k nats_scheduler \<Rightarrow> string \<Rightarrow> string \<Rightarrow> lease_entry" where
  "lease_of s run_id now = \<lparr>le_daemon_id = ns_daemon_id s, le_run_id = run_id, le_claimed_at = now\<rparr>"

definition lock_of :: "'k nats_scheduler \<Rightarrow> string \<Rightarrow> string \<Rightarrow> lock_entry" where
  "lock_of s run_id now = \<lparr>lk_daemon_id = ns_daemon_id s, lk_run_id = run_id, lk_acquired_at = now\<rparr>"

text \<open>\<open>create\<close> fails when the key exists; every failure means the key is taken.\<close>

definition create_key :: "'k kv_ops \<Rightarrow> 'k nats_scheduler \<Rightarrow> string \<Rightarrow> string \<Rightarrow> bool outcome \<times> 'k nats_scheduler" where
  "create_key K s key value =
     (let (r, b) = kv_create K (ns_leases s) key value; s' = s\<lparr>ns_leases := b\<rparr> in
      case r of Ok _ \<Rightarrow> (Ok True, s') | Err _ \<Rightarrow> (Ok False, s') | Panic \<Rightarrow> (Panic, s'))"

definition try_claim :: "'k kv_ops \<Rightarrow> sched_json \<Rightarrow> 'k nats_scheduler \<Rightarrow> string \<Rightarrow> string \<Rightarrow> bool outcome \<times> 'k nats_scheduler" where
  "try_claim K J s run_id now =
     with_value (sj_lease J (lease_of s run_id now)) s (create_key K s (lease_key run_id))"

definition release_lease :: "'k kv_ops \<Rightarrow> 'k nats_scheduler \<Rightarrow> string \<Rightarrow> unit outcome \<times> 'k nats_scheduler" where
  "release_lease K s run_id =
     kv_context ''Failed to release lease'' (kv_purge K (ns_leases s) (lease_key run_id)) (\<lambda>b. s\<lparr>ns_leases := b\<rparr>)"

fun purge_keys :: "'k kv_ops \<Rightarrow> string option list \<Rightarrow> 'k \<Rightarrow> nat \<Rightarrow> nat \<times> 'k" where
  "purge_keys K [] b purged = (purged, b)"
| "purge_keys K (None # ks) b purged = purge_keys K ks b purged"
| "purge_keys K (Some key # ks) b purged = purge_keys K ks (snd (kv_purge K b key)) (purged + 1)"

definition release_all_leases :: "'k kv_ops \<Rightarrow> 'k nats_scheduler \<Rightarrow> nat outcome \<times> 'k nats_scheduler" where
  "release_all_leases K s =
     (case map_err (\<lambda>_. ''Failed to list lease keys'') (kv_keys K (ns_leases s)) of
        Ok keys \<Rightarrow> (let (n, b) = purge_keys K keys (ns_leases s) 0 in (Ok n, s\<lparr>ns_leases := b\<rparr>))
      | Err e \<Rightarrow> (Err e, s)
      | Panic \<Rightarrow> (Panic, s))"

definition renew_lease :: "'k kv_ops \<Rightarrow> sched_json \<Rightarrow> 'k nats_scheduler \<Rightarrow> string \<Rightarrow> string \<Rightarrow> unit outcome \<times> 'k nats_scheduler" where
  "renew_lease K J s run_id now =
     with_value (sj_lease J (lease_of s run_id now)) s (\<lambda>value.
       kv_context ''Failed to renew lease'' (kv_put K (ns_leases s) (lease_key run_id) value)
         (\<lambda>b. s\<lparr>ns_leases := b\<rparr>))"

section \<open>Hosts and the stream of tasks\<close>

definition publish_resources ::
  "'k kv_ops \<Rightarrow> sched_json \<Rightarrow> 'k nats_scheduler \<Rightarrow> host_resources \<Rightarrow> unit outcome \<times> 'k nats_scheduler" where
  "publish_resources K J s res =
     with_value (sj_host J res) s (\<lambda>value.
       kv_context ''Failed to publish resources'' (kv_put K (ns_resources s) (host_key (ns_daemon_id s)) value)
         (\<lambda>b. s\<lparr>ns_resources := b\<rparr>))"

definition host_of_key :: "'k kv_ops \<Rightarrow> sched_json \<Rightarrow> 'k \<Rightarrow> string option \<Rightarrow> host_resources option" where
  "host_of_key K J b key =
     (case key of None \<Rightarrow> None
      | Some k \<Rightarrow> (case kv_get K b k of Ok (Some value) \<Rightarrow> sj_host_of J value | _ \<Rightarrow> None))"

definition list_available_hosts :: "'k kv_ops \<Rightarrow> sched_json \<Rightarrow> 'k nats_scheduler \<Rightarrow> host_resources list outcome" where
  "list_available_hosts K J s =
     obind (map_err (\<lambda>_. ''Failed to list resource keys'') (kv_keys K (ns_resources s)))
       (\<lambda>keys. Ok (List.map_filter (host_of_key K J (ns_resources s)) keys))"

datatype kv_operation = KvPut | KvDelete | KvPurge

text \<open>The tasks among the entries of a watched bucket.\<close>

definition watch_tasks :: "sched_json \<Rightarrow> (kv_operation \<times> string) outcome list \<Rightarrow> task_entry list" where
  "watch_tasks J entries =
     List.map_filter (\<lambda>e. case e of Ok (op, value) \<Rightarrow> if op \<noteq> KvPut then None else sj_task_of J value | _ \<Rightarrow> None)
       entries"

section \<open>Execution locks and slots\<close>

definition try_acquire_project_lock ::
  "'k kv_ops \<Rightarrow> sched_json \<Rightarrow> 'k nats_scheduler \<Rightarrow> string \<Rightarrow> string \<Rightarrow> string \<Rightarrow> bool outcome \<times> 'k nats_scheduler" where
  "try_acquire_project_lock K J s project run_id now =
     with_value (sj_lock J (lock_of s run_id now)) s (create_key K s (project_key project))"

definition try_acquire_execution_lock ::
  "'k kv_ops \<Rightarrow> sched_json \<Rightarrow> 'k nats_scheduler \<Rightarrow> string \<Rightarrow> string \<Rightarrow> bool outcome \<times> 'k nats_scheduler" where
  "try_acquire_execution_lock K J s run_id now = try_acquire_project_lock K J s EXECUTION_LOCK_KEY run_id now"

definition release_project_lock :: "'k kv_ops \<Rightarrow> 'k nats_scheduler \<Rightarrow> string \<Rightarrow> unit outcome \<times> 'k nats_scheduler" where
  "release_project_lock K s project =
     kv_context ''Failed to release lock'' (kv_purge K (ns_leases s) (project_key project)) (\<lambda>b. s\<lparr>ns_leases := b\<rparr>)"

definition release_execution_lock :: "'k kv_ops \<Rightarrow> 'k nats_scheduler \<Rightarrow> unit outcome \<times> 'k nats_scheduler" where
  "release_execution_lock K s = release_project_lock K s EXECUTION_LOCK_KEY"

definition renew_project_lock ::
  "'k kv_ops \<Rightarrow> sched_json \<Rightarrow> 'k nats_scheduler \<Rightarrow> string \<Rightarrow> string \<Rightarrow> string \<Rightarrow> unit outcome \<times> 'k nats_scheduler" where
  "renew_project_lock K J s project run_id now =
     with_value (sj_lock J (lock_of s run_id now)) s (\<lambda>value.
       kv_context ''Failed to renew lock'' (kv_put K (ns_leases s) (project_key project) value)
         (\<lambda>b. s\<lparr>ns_leases := b\<rparr>))"

definition renew_execution_lock ::
  "'k kv_ops \<Rightarrow> sched_json \<Rightarrow> 'k nats_scheduler \<Rightarrow> string \<Rightarrow> string \<Rightarrow> unit outcome \<times> 'k nats_scheduler" where
  "renew_execution_lock K J s run_id now = renew_project_lock K J s EXECUTION_LOCK_KEY run_id now"

definition is_execution_lock_free :: "'k kv_ops \<Rightarrow> 'k nats_scheduler \<Rightarrow> bool" where
  "is_execution_lock_free K s =
     (case kv_get K (ns_leases s) (project_key EXECUTION_LOCK_KEY) of Ok None \<Rightarrow> True | Err _ \<Rightarrow> True | _ \<Rightarrow> False)"

text \<open>The slots are tried in order; the entry is encoded again for each.\<close>

fun acquire_slot ::
  "'k kv_ops \<Rightarrow> sched_json \<Rightarrow> string \<Rightarrow> string \<Rightarrow> nat list \<Rightarrow> 'k nats_scheduler
    \<Rightarrow> nat option outcome \<times> 'k nats_scheduler" where
  "acquire_slot K J run_id now [] s = (Ok None, s)"
| "acquire_slot K J run_id now (i # is) s =
     with_value (sj_lock J (lock_of s run_id now)) s (\<lambda>value.
       (case create_key K s (slot_key i) value of
          (Ok True, s') \<Rightarrow> (Ok (Some i), s')
        | (Ok False, s') \<Rightarrow> acquire_slot K J run_id now is s'
        | (Err e, s') \<Rightarrow> (Err e, s')
        | (Panic, s') \<Rightarrow> (Panic, s')))"

definition try_acquire_execution_slot ::
  "'k kv_ops \<Rightarrow> sched_json \<Rightarrow> 'k nats_scheduler \<Rightarrow> string \<Rightarrow> nat \<Rightarrow> string \<Rightarrow> nat option outcome \<times> 'k nats_scheduler" where
  "try_acquire_execution_slot K J s run_id slots now = acquire_slot K J run_id now [0..<max slots 1] s"

definition release_execution_slot :: "'k kv_ops \<Rightarrow> 'k nats_scheduler \<Rightarrow> nat \<Rightarrow> unit outcome \<times> 'k nats_scheduler" where
  "release_execution_slot K s slot = (Ok (), s\<lparr>ns_leases := snd (kv_purge K (ns_leases s) (slot_key slot))\<rparr>)"

definition renew_execution_slot ::
  "'k kv_ops \<Rightarrow> sched_json \<Rightarrow> 'k nats_scheduler \<Rightarrow> nat \<Rightarrow> string \<Rightarrow> string \<Rightarrow> unit outcome \<times> 'k nats_scheduler" where
  "renew_execution_slot K J s slot run_id now =
     with_value (sj_lock J (lock_of s run_id now)) s (\<lambda>value.
       kv_context ''Failed to renew execution slot'' (kv_put K (ns_leases s) (slot_key slot) value)
         (\<lambda>b. s\<lparr>ns_leases := b\<rparr>))"

end
