(* ===== verification/SchedulerFacts.thy ===== *)
theory SchedulerFacts
  imports Scheduler
begin

text \<open>
  Mutual exclusion of the scheduler: the daemons as a step relation over shared buckets, the invariant
  that no key has two holders, and the operations that break it.
\<close>

section \<open>What a bucket promises\<close>

text \<open>\<open>view\<close> is the content of a bucket. A call changes its own key only; a failed call may or may not
  have had its effect; \<open>create\<close> succeeds only on an absent key.\<close>

definition kv_laws :: "'k kv_ops \<Rightarrow> ('k \<Rightarrow> string \<Rightarrow> string option) \<Rightarrow> bool" where
  "kv_laws K view \<longleftrightarrow>
     (\<forall>b k v r b'. kv_create K b k v = (r, b') \<longrightarrow>
        (\<forall>q. q \<noteq> k \<longrightarrow> view b' q = view b q)
        \<and> (view b k \<noteq> None \<longrightarrow> view b' k \<noteq> None)
        \<and> (r = Ok () \<longrightarrow> view b k = None \<and> view b' k = Some v))
   \<and> (\<forall>b k v r b'. kv_put K b k v = (r, b') \<longrightarrow>
        (\<forall>q. q \<noteq> k \<longrightarrow> view b' q = view b q)
        \<and> (view b k \<noteq> None \<longrightarrow> view b' k \<noteq> None)
        \<and> (r = Ok () \<longrightarrow> view b' k = Some v))
   \<and> (\<forall>b k r b'. kv_purge K b k = (r, b') \<longrightarrow>
        (\<forall>q. q \<noteq> k \<longrightarrow> view b' q = view b q) \<and> (r = Ok () \<longrightarrow> view b' k = None))
   \<and> (\<forall>b ks. kv_keys K b = Ok ks \<longrightarrow> (\<forall>k. view b k \<noteq> None \<longrightarrow> Some k \<in> set ks))"

lemma kv_createD:
  assumes "kv_laws K view" "kv_create K b k v = (r, b')"
  shows "q \<noteq> k \<Longrightarrow> view b' q = view b q" "view b q \<noteq> None \<Longrightarrow> view b' q \<noteq> None"
    "r = Ok () \<Longrightarrow> view b k = None \<and> view b' k = Some v"
  using assms unfolding kv_laws_def by (metis, metis, metis)

lemma kv_putD:
  assumes "kv_laws K view" "kv_put K b k v = (r, b')"
  shows "q \<noteq> k \<Longrightarrow> view b' q = view b q" "view b q \<noteq> None \<Longrightarrow> view b' q \<noteq> None"
    "r = Ok () \<Longrightarrow> view b' k = Some v"
  using assms unfolding kv_laws_def by (metis, metis, metis)

lemma kv_purgeD:
  assumes "kv_laws K view" "kv_purge K b k = (r, b')"
  shows "q \<noteq> k \<Longrightarrow> view b' q = view b q" "r = Ok () \<Longrightarrow> view b' k = None"
  using assms unfolding kv_laws_def by (metis, metis)

section \<open>The daemons and what they hold\<close>

datatype claim = TaskClaim string | ProjectClaim string | SlotClaim nat

fun claim_key :: "claim \<Rightarrow> string" where
  "claim_key (TaskClaim run) = lease_key run"
| "claim_key (ProjectClaim project) = project_key project"
| "claim_key (SlotClaim i) = slot_key i"

definition as_daemon :: "string \<Rightarrow> 'k nats_scheduler \<Rightarrow> 'k nats_scheduler" where
  "as_daemon d s = s\<lparr>ns_daemon_id := d\<rparr>"

definition lease_view :: "('k \<Rightarrow> string \<Rightarrow> string option) \<Rightarrow> 'k nats_scheduler \<Rightarrow> string \<Rightarrow> string option" where
  "lease_view view s = view (ns_leases s)"

lemma as_daemon_leases [simp]: "ns_leases (as_daemon d s) = ns_leases s"
  by (simp add: as_daemon_def)

text \<open>The operations of the daemons on the shared buckets, with the set of claims each daemon was
  granted and has not given back. A daemon renews and releases only what it was granted, and no entry
  expires while it is held; \<open>n\<close> is the number of slots all daemons are configured with.\<close>

inductive sched_step ::
  "'k kv_ops \<Rightarrow> sched_json \<Rightarrow> nat \<Rightarrow> 'k nats_scheduler \<times> (string \<times> claim) set
    \<Rightarrow> 'k nats_scheduler \<times> (string \<times> claim) set \<Rightarrow> bool" for K J n where
  step_submit: "submit_task K J (as_daemon d s) e = (r, s') \<Longrightarrow> sched_step K J n (s, H) (s', H)"
| step_publish: "publish_resources K J (as_daemon d s) res = (r, s') \<Longrightarrow> sched_step K J n (s, H) (s', H)"
| step_claim: "try_claim K J (as_daemon d s) run now = (r, s') \<Longrightarrow>
    sched_step K J n (s, H) (s', if r = Ok True then insert (d, TaskClaim run) H else H)"
| step_renew: "(d, TaskClaim run) \<in> H \<Longrightarrow> renew_lease K J (as_daemon d s) run now = (r, s') \<Longrightarrow>
    sched_step K J n (s, H) (s', H)"
| step_release: "(d, TaskClaim run) \<in> H \<Longrightarrow> release_lease K (as_daemon d s) run = (r, s') \<Longrightarrow>
    sched_step K J n (s, H) (s', H - {(d, TaskClaim run)})"
| step_lock: "try_acquire_project_lock K J (as_daemon d s) project run now = (r, s') \<Longrightarrow>
    sched_step K J n (s, H) (s', if r = Ok True then insert (d, ProjectClaim project) H else H)"
| step_renew_lock: "(d, ProjectClaim project) \<in> H \<Longrightarrow>
    renew_project_lock K J (as_daemon d s) project run now = (r, s') \<Longrightarrow> sched_step K J n (s, H) (s', H)"
| step_unlock: "(d, ProjectClaim project) \<in> H \<Longrightarrow> release_project_lock K (as_daemon d s) project = (r, s') \<Longrightarrow>
    sched_step K J n (s, H) (s', H - {(d, ProjectClaim project)})"
| step_slot: "try_acquire_execution_slot K J (as_daemon d s) run n now = (r, s') \<Longrightarrow>
    sched_step K J n (s, H) (s', case r of Ok (Some i) \<Rightarrow> insert (d, SlotClaim i) H | _ \<Rightarrow> H)"
| step_renew_slot: "(d, SlotClaim i) \<in> H \<Longrightarrow> renew_execution_slot K J (as_daemon d s) i run now = (r, s') \<Longrightarrow>
    sched_step K J n (s, H) (s', H)"
| step_free_slot: "(d, SlotClaim i) \<in> H \<Longrightarrow> release_execution_slot K (as_daemon d s) i = (r, s') \<Longrightarrow>
    sched_step K J n (s, H) (s', H - {(d, SlotClaim i)})"

abbreviation sched_reach where
  "sched_reach K J n s sH \<equiv> (sched_step K J n)\<^sup>*\<^sup>* (s, {}) sH"

definition exclusive :: "('k \<Rightarrow> string \<Rightarrow> string option) \<Rightarrow> nat \<Rightarrow> 'k nats_scheduler \<times> (string \<times> claim) set \<Rightarrow> bool" where
  "exclusive view n sH \<longleftrightarrow>
     (\<forall>(d, c)\<in>snd sH. lease_view view (fst sH) (claim_key c) \<noteq> None)
     \<and> (\<forall>x\<in>snd sH. \<forall>y\<in>snd sH. claim_key (snd x) = claim_key (snd y) \<longrightarrow> x = y)
     \<and> (\<forall>d i. (d, SlotClaim i) \<in> snd sH \<longrightarrow> i < max n 1)"

text \<open>How the operations act on the leases.\<close>

definition grows :: "('k \<Rightarrow> string \<Rightarrow> string option) \<Rightarrow> 'k nats_scheduler \<Rightarrow> 'k nats_scheduler \<Rightarrow> bool" where
  "grows view s s' \<longleftrightarrow> (\<forall>q. lease_view view s q \<noteq> None \<longrightarrow> lease_view view s' q \<noteq> None)"

lemma grows_refl [simp]: "grows view s s"
  by (simp add: grows_def)

lemma table_grows_trans: "grows view s t \<Longrightarrow> grows view t u \<Longrightarrow> grows view s u"
  by (simp add: grows_def)

lemma grows_as_daemon [simp]:
  "grows view (as_daemon d s) s' \<longleftrightarrow> grows view s s'"
  "grows view s (as_daemon d s') \<longleftrightarrow> grows view s s'"
  by (simp_all add: grows_def lease_view_def)

lemma create_key_effect:
  assumes "kv_laws K view" "create_key K s k v = (r, s')"
  shows "grows view s s'" "r = Ok True \<Longrightarrow> lease_view view s k = None \<and> lease_view view s' k \<noteq> None"
proof -
  obtain r1 b where c: "kv_create K (ns_leases s) k v = (r1, b)"
    by fastforce
  then have s': "s' = s\<lparr>ns_leases := b\<rparr>" "r = Ok True \<Longrightarrow> r1 = Ok ()"
    using assms(2) by (auto simp: create_key_def Let_def split: outcome.splits)
  show "grows view s s'" "r = Ok True \<Longrightarrow> lease_view view s k = None \<and> lease_view view s' k \<noteq> None"
    using kv_createD[OF assms(1) c] s' by (auto simp: grows_def lease_view_def)
qed

lemma put_effect:
  assumes "kv_laws K view"
  shows "grows view s (snd (kv_context msg (kv_put K (ns_leases s) k v) (\<lambda>b. s\<lparr>ns_leases := b\<rparr>)))"
  using kv_putD(2)[OF assms, of "ns_leases s" k v] by (cases "kv_put K (ns_leases s) k v") (auto simp: grows_def lease_view_def kv_context_def)

lemma purge_effect:
  assumes "kv_laws K view" "q \<noteq> k"
  shows "lease_view view (snd (kv_context msg (kv_purge K (ns_leases s) k) (\<lambda>b. s\<lparr>ns_leases := b\<rparr>))) q = lease_view view s q"
    "lease_view view (s\<lparr>ns_leases := snd (kv_purge K (ns_leases s) k)\<rparr>) q = lease_view view s q"
  using kv_purgeD(1)[OF assms(1) _ assms(2), of "ns_leases s"]
  by (cases "kv_purge K (ns_leases s) k"; simp add: lease_view_def kv_context_def)+

lemma with_value_grows:
  "with_value v s f = (r, s') \<Longrightarrow> (\<And>x r s'. f x = (r, s') \<Longrightarrow> grows view s s') \<Longrightarrow> grows view s s'"
  by (auto simp: with_value_def split: outcome.splits)


lemma acquire_slot_effect:
  assumes "kv_laws K view"
  shows "acquire_slot K J run now is s = (r, s') \<Longrightarrow> grows view s s'
    \<and> (\<forall>i. r = Ok (Some i) \<longrightarrow> i \<in> set is \<and> lease_view view s (slot_key i) = None \<and> lease_view view s' (slot_key i) \<noteq> None)"
proof (induction "is" arbitrary: s)
  case (Cons i "is")
  show ?case
  proof (cases "sj_lock J (lock_of s run now)")
    case (Ok v)
    obtain t s1 where c: "create_key K s (slot_key i) v = (t, s1)"
      by fastforce
    note e = create_key_effect[OF assms c]
    show ?thesis
    proof (cases "t = Ok False")
      case True
      then have "acquire_slot K J run now is s1 = (r, s')"
        using Cons.prems Ok c by (simp add: with_value_def)
      then show ?thesis
        using Cons.IH e(1) unfolding grows_def by (metis list.set_intros(2))
    next
      case False
      then show ?thesis
        using Cons.prems Ok c e by (cases t) (auto simp: with_value_def split: if_splits bool.splits)
    qed
  qed (use Cons.prems in \<open>auto simp: with_value_def\<close>)
qed auto

lemma exclusive_iff: "exclusive view n (s, H) \<longleftrightarrow>
    (\<forall>d c. (d, c) \<in> H \<longrightarrow> lease_view view s (claim_key c) \<noteq> None)
    \<and> (\<forall>d c e k. (d, c) \<in> H \<longrightarrow> (e, k) \<in> H \<longrightarrow> claim_key c = claim_key k \<longrightarrow> d = e \<and> c = k)
    \<and> (\<forall>d i. (d, SlotClaim i) \<in> H \<longrightarrow> i < max n 1)"
  unfolding exclusive_def by fastforce

lemma exclusive_keep: "exclusive view n (s, H) \<Longrightarrow> grows view s s' \<Longrightarrow> exclusive view n (s', H)"
  unfolding exclusive_iff grows_def by blast

lemma exclusive_add:
  assumes "exclusive view n (s, H)" "grows view s s'" "lease_view view s (claim_key c) = None"
    "lease_view view s' (claim_key c) \<noteq> None" "\<And>i. c = SlotClaim i \<Longrightarrow> i < max n 1"
  shows "exclusive view n (s', insert (d, c) H)"
proof -
  have "claim_key k \<noteq> claim_key c" if "(e, k) \<in> H" for e k
    using assms(1,3) that unfolding exclusive_iff by metis
  moreover have e: "exclusive view n (s', H)"
    using assms(1,2) by (rule exclusive_keep)
  moreover have "\<forall>e k. (e, k) \<in> insert (d, c) H \<longrightarrow> lease_view view s' (claim_key k) \<noteq> None"
    using e assms(4) unfolding exclusive_iff by blast
  moreover have "\<forall>e i. (e, SlotClaim i) \<in> insert (d, c) H \<longrightarrow> i < max n 1"
    using e assms(5) unfolding exclusive_iff by blast
  ultimately show ?thesis
    unfolding exclusive_iff by (intro conjI; (blast | (clarify, metis insert_iff prod.inject)))
qed

lemma exclusive_drop:
  assumes "exclusive view n (s, H)" "(d, c) \<in> H" "\<And>q. q \<noteq> claim_key c \<Longrightarrow> lease_view view s' q = lease_view view s q"
  shows "exclusive view n (s', H - {(d, c)})"
proof -
  have "claim_key k \<noteq> claim_key c" if "(e, k) \<in> H - {(d, c)}" for e k
    using assms(1,2) that unfolding exclusive_iff by blast
  then have "lease_view view s' (claim_key k) = lease_view view s (claim_key k)" if "(e, k) \<in> H - {(d, c)}" for e k
    using assms(3) that by blast
  then show ?thesis
    using assms(1) unfolding exclusive_iff by (metis DiffD1)
qed

lemma kv_context_pair: "kv_context msg res upd = (r, s') \<Longrightarrow> s' = snd (kv_context msg res upd)"
  by simp

lemma lease_view_as_daemon [simp]: "lease_view view (as_daemon d s) = lease_view view s"
  by (simp add: lease_view_def fun_eq_iff)

lemma release_effect:
  assumes "kv_laws K view"
  shows "release_lease K s run = (r, s') \<Longrightarrow> q \<noteq> lease_key run \<Longrightarrow> lease_view view s' q = lease_view view s q"
    and "release_project_lock K s project = (r, s') \<Longrightarrow> q \<noteq> project_key project \<Longrightarrow> lease_view view s' q = lease_view view s q"
  unfolding release_lease_def release_project_lock_def using purge_effect(1)[OF assms] by (metis snd_conv)+

lemma exclusive_step:
  assumes "kv_laws K view" "sched_step K J n sH sH'" "exclusive view n sH"
  shows "exclusive view n sH'"
  using assms(2,3)
proof (cases rule: sched_step.cases)
  case (step_submit d s e r s' H)
  then have "ns_leases s' = ns_leases s"
    by (auto simp: submit_task_def with_value_def kv_context_def split: outcome.splits)
  then show ?thesis
    using assms(3) step_submit exclusive_keep[of view n s H s'] by (simp add: grows_def lease_view_def)
next
  case (step_publish d s res r s' H)
  then have "ns_leases s' = ns_leases s"
    by (auto simp: publish_resources_def with_value_def kv_context_def split: outcome.splits)
  then show ?thesis
    using assms(3) step_publish exclusive_keep[of view n s H s'] by (simp add: grows_def lease_view_def)
next
  case (step_claim d s run now r s' H)
  have "grows view s s' \<and> (r = Ok True \<longrightarrow> lease_view view s (lease_key run) = None \<and> lease_view view s' (lease_key run) \<noteq> None)"
    using step_claim(3) create_key_effect[OF assms(1), of "as_daemon d s" "lease_key run"]
    by (auto simp: try_claim_def with_value_def lease_view_def split: outcome.splits)
  then show ?thesis
    using assms(3) exclusive_keep[of view n s H s'] exclusive_add[of view n s H s' "TaskClaim run" d] step_claim(1,2) by simp
next
  case (step_renew d run H s now r s')
  have "grows view s s'"
    using step_renew(4) put_effect[OF assms(1), of "as_daemon d s"]
    unfolding renew_lease_def by (elim with_value_grows[THEN grows_as_daemon(1)[THEN iffD1]]) (metis snd_conv)
  then show ?thesis
    using assms(3) exclusive_keep[of view n s H s'] step_renew by simp
next
  case (step_release d run H s r s')
  have "lease_view view s' q = lease_view view s q" if "q \<noteq> claim_key (TaskClaim run)" for q
    using release_effect(1)[OF assms(1) step_release(4)] that by simp
  then show ?thesis
    using assms(3) exclusive_drop[of view n s H d "TaskClaim run" s'] step_release by simp
next
  case (step_lock d s project run now r s' H)
  have "grows view s s' \<and> (r = Ok True \<longrightarrow> lease_view view s (project_key project) = None \<and> lease_view view s' (project_key project) \<noteq> None)"
    using step_lock(3) create_key_effect[OF assms(1), of "as_daemon d s" "project_key project"]
    by (auto simp: try_acquire_project_lock_def with_value_def lease_view_def split: outcome.splits)
  then show ?thesis
    using assms(3) exclusive_keep[of view n s H s'] exclusive_add[of view n s H s' "ProjectClaim project" d] step_lock(1,2) by simp
next
  case (step_renew_lock d project H s run now r s')
  have "grows view s s'"
    using step_renew_lock(4) put_effect[OF assms(1), of "as_daemon d s"]
    unfolding renew_project_lock_def by (elim with_value_grows[THEN grows_as_daemon(1)[THEN iffD1]]) (metis snd_conv)
  then show ?thesis
    using assms(3) exclusive_keep[of view n s H s'] step_renew_lock by simp
next
  case (step_unlock d project H s r s')
  have "lease_view view s' q = lease_view view s q" if "q \<noteq> claim_key (ProjectClaim project)" for q
    using release_effect(2)[OF assms(1) step_unlock(4)] that by simp
  then show ?thesis
    using assms(3) exclusive_drop[of view n s H d "ProjectClaim project" s'] step_unlock by simp
next
  case (step_slot d s run now r s' H)
  have e: "grows view s s' \<and> (\<forall>i. r = Ok (Some i) \<longrightarrow> i < max n 1 \<and> lease_view view s (slot_key i) = None
      \<and> lease_view view s' (slot_key i) \<noteq> None)"
    using step_slot(3) acquire_slot_effect[OF assms(1), of J run now "[0..<max n 1]" "as_daemon d s" r s']
    by (auto simp: try_acquire_execution_slot_def lease_view_def)
  show ?thesis
  proof (cases "\<exists>i. r = Ok (Some i)")
    case True
    then show ?thesis
      using e assms(3) exclusive_add[of view n s H s' "SlotClaim _" d] step_slot(1,2) by auto
  next
    case False
    then have "sH' = (s', H)"
      using step_slot(2) by (auto split: outcome.splits option.splits)
    then show ?thesis
      using e assms(3) exclusive_keep[of view n s H s'] step_slot(1) by simp
  qed
next
  case (step_renew_slot d i H s run now r s')
  have "grows view s s'"
    using step_renew_slot(4) put_effect[OF assms(1), of "as_daemon d s"]
    unfolding renew_execution_slot_def by (elim with_value_grows[THEN grows_as_daemon(1)[THEN iffD1]]) (metis snd_conv)
  then show ?thesis
    using assms(3) exclusive_keep[of view n s H s'] step_renew_slot by simp
next
  case (step_free_slot d i H s r s')
  have "lease_view view s' q = lease_view view s q" if "q \<noteq> claim_key (SlotClaim i)" for q
    using step_free_slot(4) purge_effect(2)[OF assms(1) that, of "as_daemon d s"]
    by (auto simp: release_execution_slot_def lease_view_def)
  then show ?thesis
    using assms(3) exclusive_drop[of view n s H d "SlotClaim i" s'] step_free_slot by simp
qed

lemma sched_reach_exclusive:
  assumes "kv_laws K view" "sched_reach K J n s sH"
  shows "exclusive view n sH"
  using assms(2)
proof (induction rule: rtranclp_induct)
  case base
  then show ?case by (simp add: exclusive_def)
next
  case (step sH sH')
  then show ?case using exclusive_step[OF assms(1)] by blast
qed

text \<open>C35: mutual exclusion. As long as daemons renew and release only what they were granted and no entry
  expires while held, no two daemons ever hold the same task, project lock or slot, whatever order the
  calls of any number of daemons take and whichever of them fail; and at most \<open>max n 1\<close> slots are held
  at any time.\<close>

theorem scheduler_mutual_exclusion:
  assumes "kv_laws K view" "sched_reach K J n s (s', H)"
  shows "((d, c) \<in> H \<longrightarrow> (e, c) \<in> H \<longrightarrow> d = e)
    \<and> finite {(d, i). (d, SlotClaim i) \<in> H} \<and> card {(d, i). (d, SlotClaim i) \<in> H} \<le> max n 1"
proof -
  have ex: "exclusive view n (s', H)"
    by (rule sched_reach_exclusive[OF assms])
  let ?A = "{(d, i). (d, SlotClaim i) \<in> H}"
  have "snd ` ?A \<subseteq> {..<max n 1}"
    using ex unfolding exclusive_iff by auto
  moreover have "inj_on snd ?A"
    using ex unfolding exclusive_iff inj_on_def by fastforce
  ultimately have "finite ?A \<and> card ?A \<le> max n 1"
    using card_inj_on_le[of snd ?A "{..<max n 1}"] inj_on_finite[of snd ?A "{..<max n 1}"] by simp
  then show ?thesis
    using ex unfolding exclusive_iff by blast
qed


lemma purge_keys_all:
  assumes "kv_laws K view" "\<forall>b k. fst (kv_purge K b k) = Ok ()"
  shows "view (snd (purge_keys K ks b n)) k = (if Some k \<in> set ks then None else view b k)"
proof (induction ks arbitrary: b n)
  case (Cons key ks)
  show ?case
  proof (cases key)
    case (Some q)
    obtain b' where b': "kv_purge K b q = (Ok (), b')"
      using assms(2) by (metis prod.collapse)
    show ?thesis
      using Cons.IH[of b' "n + 1"] kv_purgeD[OF assms(1) b'] Some b' by (cases "k = q") auto
  qed (use Cons.IH in simp)
qed simp

text \<open>The purge at startup releases the claims of every daemon, not only those of the daemon that
  starts: when the bucket answers, no lease, project lock or slot is left, so the next claim of a task
  another daemon is running can succeed.\<close>

theorem startup_purge_drops_all:
  assumes "kv_laws K view" "\<forall>b k. fst (kv_purge K b k) = Ok ()"
    and "release_all_leases K s = (Ok n, s')"
  shows "lease_view view s' k = None"
proof -
  obtain ks where ks: "kv_keys K (ns_leases s) = Ok ks" "ns_leases s' = snd (purge_keys K ks (ns_leases s) 0)"
    using assms(3) by (auto simp: release_all_leases_def Let_def map_err_eq split: outcome.splits prod.splits)
  have "view (ns_leases s) k \<noteq> None \<longrightarrow> Some k \<in> set ks"
    using assms(1) ks(1) unfolding kv_laws_def by blast
  then show ?thesis
    using purge_keys_all[OF assms(1,2), of ks "ns_leases s" 0 k] ks(2) by (auto simp: lease_view_def split: if_splits)
qed

section \<open>Keys\<close>

lemma sanitize_ascii: "\<forall>c\<in>set s. (of_char c :: nat) < 128 \<and> ascii_key_char c = c \<Longrightarrow> sanitize_key s = s"
proof (induction s)
  case Nil
  then show ?case by (subst sanitize_key.simps) simp
next
  case (Cons c s)
  then show ?case by (subst sanitize_key.simps) simp
qed

lemma digit_key_char: "is_digit c \<Longrightarrow> (of_char c :: nat) < 128 \<and> ascii_key_char c = c"
  by (auto simp: is_digit_def ascii_key_char_def is_alphanumeric_def)

text \<open>The lock of a project named \<open>slot-i\<close> is the entry of execution slot \<open>i\<close>: while a daemon holds
  the lock, no run gets that slot.\<close>

theorem project_named_slot:
  assumes "kv_laws K view"
    and "try_acquire_project_lock K J s (''slot-'' @ show_nat i) run now = (Ok True, s1)"
    and "try_acquire_execution_slot K J (as_daemon e s1) run' n now' = (r, s2)"
  shows "project_key (''slot-'' @ show_nat i) = slot_key i \<and> r \<noteq> Ok (Some i)"
proof -
  have "sanitize_key (''slot-'' @ show_nat i) = ''slot-'' @ show_nat i"
    using show_nat_digits[of _ i] digit_key_char
    by (intro sanitize_ascii) (auto simp: ascii_key_char_def is_alphanumeric_def)
  then have k: "project_key (''slot-'' @ show_nat i) = slot_key i"
    by (simp add: project_key_def slot_key_def)
  have "lease_view view s1 (slot_key i) \<noteq> None"
    using assms(2) create_key_effect(2)[OF assms(1), of s "slot_key i"] unfolding try_acquire_project_lock_def k
    by (auto simp: with_value_def split: outcome.splits)
  then show ?thesis
    using k acquire_slot_effect[OF assms(1), of J run' now' "[0..<max n 1]" "as_daemon e s1" r s2] assms(3)
    by (auto simp: try_acquire_execution_slot_def)
qed

section \<open>A bucket in memory\<close>

definition ex_kv :: "(string, string) omap kv_ops" where
  "ex_kv = \<lparr>kv_create = (\<lambda>b k v. if om_has b k then (Err ''exists'', b) else (Ok (), om_insert k v b)),
     kv_put = (\<lambda>b k v. (Ok (), om_insert k v b)), kv_purge = (\<lambda>b k. (Ok (), om_remove k b)),
     kv_get = (\<lambda>b k. Ok (om_get b k)), kv_keys = (\<lambda>b. Ok (map Some (om_keys b)))\<rparr>"

lemma ex_kv_laws: "kv_laws ex_kv om_get"
  by (auto simp: kv_laws_def ex_kv_def om_has_def set_om_keys split: if_splits)

definition ex_sj :: sched_json where
  "ex_sj = \<lparr>sj_task = (\<lambda>t. Ok (tk_run_id t)), sj_lease = (\<lambda>l. Ok (le_daemon_id l)), sj_lock = (\<lambda>l. Ok (lk_daemon_id l)),
     sj_host = (\<lambda>h. Ok (hr_host h)), sj_task_of = (\<lambda>_. None), sj_host_of = (\<lambda>_. None)\<rparr>"

definition ex_sched :: "(string, string) omap nats_scheduler" where
  "ex_sched = \<lparr>ns_tasks = [], ns_leases = [], ns_resources = [], ns_daemon_id = ''A''\<rparr>"

definition ex_claimed :: "(string, string) omap nats_scheduler" where
  "ex_claimed = snd (try_claim ex_kv ex_sj (as_daemon ''A'' ex_sched) ''run:1'' ''t0'')"

lemma ex_claim: "try_claim ex_kv ex_sj (as_daemon ''A'' ex_sched) ''run:1'' ''t0'' = (Ok True, ex_claimed)"
  unfolding ex_claimed_def by (simp add: prod_eq_iff) code_simp

lemma scheduler_mutual_exclusion_witness:
  "card {(d, i). (d, SlotClaim i) \<in> {(''A'', TaskClaim ''run:1'')}} \<le> 1"
proof -
  have "sched_step ex_kv ex_sj 1 (ex_sched, {}) (ex_claimed, {(''A'', TaskClaim ''run:1'')})"
    using step_claim[OF ex_claim, of 1 "{}"] by simp
  then have "sched_reach ex_kv ex_sj 1 ex_sched (ex_claimed, {(''A'', TaskClaim ''run:1'')})"
    by blast
  then show ?thesis
    using scheduler_mutual_exclusion[OF ex_kv_laws] by fastforce
qed


lemma startup_purge_drops_all_witness:
  "\<exists>s'. release_all_leases ex_kv (as_daemon ''B'' ex_claimed) = (Ok 1, s') \<and> lease_view om_get s' (lease_key ''run:1'') = None"
proof -
  have "fst (release_all_leases ex_kv (as_daemon ''B'' ex_claimed)) = Ok 1"
    by code_simp
  then obtain s' where "release_all_leases ex_kv (as_daemon ''B'' ex_claimed) = (Ok 1, s')"
    by (metis prod.collapse)
  then show ?thesis
    using startup_purge_drops_all[OF ex_kv_laws, of "as_daemon ''B'' ex_claimed" 1] by (auto simp: ex_kv_def)
qed

lemma project_named_slot_witness:
  "\<exists>s1 s2. try_acquire_project_lock ex_kv ex_sj ex_sched (''slot-'' @ show_nat 0) ''run:1'' ''t0'' = (Ok True, s1)
    \<and> fst (try_acquire_execution_slot ex_kv ex_sj (as_daemon ''B'' s1) ''run:2'' 2 ''t1'') \<noteq> Ok (Some 0)"
proof -
  have "fst (try_acquire_project_lock ex_kv ex_sj ex_sched (''slot-'' @ show_nat 0) ''run:1'' ''t0'') = Ok True"
    by code_simp
  then obtain s1 where s1: "try_acquire_project_lock ex_kv ex_sj ex_sched (''slot-'' @ show_nat 0) ''run:1'' ''t0'' = (Ok True, s1)"
    by (metis prod.collapse)
  then show ?thesis
    using project_named_slot[OF ex_kv_laws s1] by (metis prod.collapse)
qed

end
