(* ===== verification/Events.thy ===== *)
theory Events
  imports RustStr
begin

text \<open>
  The events and messages of \<open>crates/events/src/types.rs\<close> and the NATS subjects they are published
  under. Time stamps are arguments.
\<close>

datatype swarm_event =
    AgentStarted (ev_project: string) (ev_agent_id: string) (ev_task: string) (ev_model: string)
      (ev_files: "string list") (ev_timestamp: string)
  | AgentFinished (ev_project: string) (ev_agent_id: string) (ev_status: string) (ev_edits: nat)
      (ev_tokens_input: nat) (ev_tokens_output: nat) (ev_duration_ms: nat) (ev_model: string) (ev_timestamp: string)
  | AgentFailed (ev_project: string) (ev_agent_id: string) (ev_error: string) (ev_model: string)
      (ev_duration_ms: nat) (ev_timestamp: string)
  | SwarmPlanned (ev_project: string) (ev_goal: string) (ev_task_count: nat) (ev_tasks: "string list")
      (ev_timestamp: string)
  | SwarmCompleted (ev_project: string) (ev_goal: string) (ev_quality_passed: bool) (ev_tasks_passed: nat)
      (ev_tasks_failed: nat) (ev_total_duration_ms: nat) (ev_timestamp: string)
  | QualityChecked (ev_project: string) (ev_agent_id: string) (ev_check_name: string) (ev_passed: bool)
      (ev_duration_ms: nat) (ev_timestamp: string)
  | TaskSubmitted (ev_project: string) (ev_task_id: string) (ev_goal: string) (ev_timestamp: string)
  | ToolCallExecuted (ev_project: string) (ev_run_id: string) (ev_agent_id: string) (ev_step: nat) (ev_tool: string)
      (ev_params_preview: string) (ev_result_preview: string) (ev_is_error: bool) (ev_duration_ms: nat)
      (ev_timestamp: string)
  | AgentProgressed (ev_project: string) (ev_run_id: string) (ev_agent_id: string) (ev_step: nat) (ev_max_steps: nat)
      (ev_action: string) (ev_result_preview: string) (ev_tokens_in: nat) (ev_tokens_out: nat) (ev_edits_count: nat)
      (ev_timestamp: string)
  | WorkflowStateChanged (ev_project: string) (ev_workflow_id: string) (ev_run_id: string) (ev_state: string)
      (ev_timestamp: string)
  | WorkflowStepDone (ev_project: string) (ev_workflow_id: string) (ev_run_id: string) (ev_step_id: string)
      (ev_passed: bool) (ev_timestamp: string)
  | WorkflowReplanned (ev_project: string) (ev_workflow_id: string) (ev_run_id: string) (ev_failed_step_id: string)
      (ev_new_step_count: nat) (ev_replan_attempt: nat) (ev_timestamp: string)

definition event_project :: "swarm_event \<Rightarrow> string" where
  "event_project e = ev_project e"

definition event_subject :: "swarm_event \<Rightarrow> string" where
  "event_subject e = ''alpha-swarm.'' @ ev_project e @
     (case e of
        AgentStarted _ _ _ _ _ _ \<Rightarrow> ''.agent.started''
      | AgentFinished _ _ _ _ _ _ _ _ _ \<Rightarrow> ''.agent.finished''
      | AgentFailed _ _ _ _ _ _ \<Rightarrow> ''.agent.failed''
      | SwarmPlanned _ _ _ _ _ \<Rightarrow> ''.swarm.planned''
      | SwarmCompleted _ _ _ _ _ _ _ \<Rightarrow> ''.swarm.completed''
      | TaskSubmitted _ _ _ _ \<Rightarrow> ''.task.submitted''
      | QualityChecked _ _ _ _ _ _ \<Rightarrow> ''.quality.checked''
      | ToolCallExecuted _ _ _ _ _ _ _ _ _ _ \<Rightarrow> ''.tool.executed''
      | AgentProgressed _ _ _ _ _ _ _ _ _ _ _ \<Rightarrow> ''.agent.progress''
      | WorkflowStateChanged _ _ _ _ _ \<Rightarrow> ''.workflow.state''
      | WorkflowStepDone _ _ _ _ _ _ \<Rightarrow> ''.workflow.step''
      | WorkflowReplanned _ _ _ _ _ _ _ \<Rightarrow> ''.workflow.replanned'')"

datatype agent_message_kind =
    FileModified string string
  | MsgTaskCompleted string string "string list"
  | MsgContext string string

record agent_message =
  am_from_agent :: string
  am_to_agent :: "string option"
  am_run_id :: string
  am_kind :: agent_message_kind
  am_timestamp :: string

definition message_file_modified :: "string \<Rightarrow> string \<Rightarrow> string \<Rightarrow> string \<Rightarrow> string \<Rightarrow> agent_message" where
  "message_file_modified from_agent run_id path content now =
     \<lparr>am_from_agent = from_agent, am_to_agent = None, am_run_id = run_id, am_kind = FileModified path content,
      am_timestamp = now\<rparr>"

definition message_task_completed ::
  "string \<Rightarrow> string \<Rightarrow> string \<Rightarrow> string \<Rightarrow> string list \<Rightarrow> string \<Rightarrow> agent_message" where
  "message_task_completed from_agent run_id task_id summary files now =
     \<lparr>am_from_agent = from_agent, am_to_agent = None, am_run_id = run_id,
      am_kind = MsgTaskCompleted task_id summary files, am_timestamp = now\<rparr>"

definition message_subject :: "agent_message \<Rightarrow> string \<Rightarrow> string" where
  "message_subject m project =
     (case am_to_agent m of
        Some target \<Rightarrow> ''alpha-swarm.'' @ project @ ''.agent.'' @ target @ ''.inbox''
      | None \<Rightarrow> ''alpha-swarm.'' @ project @ ''.run.'' @ am_run_id m @ ''.broadcast'')"

end
