(* ===== verification/Router.thy ===== *)
theory Router
  imports InferTypes "HOL-Library.Product_Lexorder"
begin

text \<open>
  The inference router (\<open>crates/inference-client/src/router.rs\<close>): selection of a model by tier, load
  balancing over the hosts that carry it, and the fallbacks. A backend is a record of operations on the
  outside world \<open>'s\<close>; other requests in flight are in the initial counters.
\<close>

section \<open>Parameter sizes\<close>

text \<open>\<open>s.parse::<f32>().map(|v| v as u32)\<close>. A decimal literal is a ratio of naturals; \<open>f32_floor\<close>
  rounds it to 24 significant bits, ties to even, and truncates, saturating at \<open>u32::MAX\<close>.\<close>

definition round_half_even :: "nat \<Rightarrow> nat \<Rightarrow> nat" where
  "round_half_even n d = (let q = n div d; r = n mod d in
     if d < 2 * r \<or> (2 * r = d \<and> odd q) then q + 1 else q)"

fun bit_length :: "nat \<Rightarrow> nat" where
  "bit_length n = (if n = 0 then 0 else Suc (bit_length (n div 2)))"

declare bit_length.simps [simp del]

definition f32_floor :: "nat \<Rightarrow> nat \<Rightarrow> nat" where
  "f32_floor n d =
     (if 2 * n < d then 0
      else if n < d then round_half_even (n * 2 ^ 24) d div 2 ^ 24
      else
        (let k = bit_length (n div d) in
         min (2 ^ 32 - 1)
           (if k \<le> 24 then round_half_even (n * 2 ^ (24 - k)) d div 2 ^ (24 - k)
            else round_half_even n (d * 2 ^ (k - 24)) * 2 ^ (k - 24))))"

definition all_digits :: "string \<Rightarrow> bool" where
  "all_digits s \<longleftrightarrow> list_all is_digit s"

text \<open>\<open>digits [. digits]\<close> with at least one digit: the digits without the point and their number after it.\<close>

definition split_at_char :: "char \<Rightarrow> string \<Rightarrow> string \<times> string option" where
  "split_at_char c s = (case str_find [c] s of None \<Rightarrow> (s, None) | Some i \<Rightarrow> (take i s, Some (drop (i + 1) s)))"

definition parse_mantissa :: "string \<Rightarrow> (nat \<times> nat) option" where
  "parse_mantissa s =
     (let (whole, frac) = split_at_char CHR ''.'' s; f = (case frac of None \<Rightarrow> [] | Some f \<Rightarrow> f) in
      if all_digits (whole @ f) \<and> whole @ f \<noteq> [] then Some (digits_value (whole @ f), length f) else None)"

definition parse_exponent :: "string \<Rightarrow> int option" where
  "parse_exponent s =
     (let (neg, ds) = (case s of c # r \<Rightarrow> if c = CHR ''-'' then (True, r) else if c = CHR ''+'' then (False, r) else (False, s)
                       | [] \<Rightarrow> (False, s)) in
      if ds \<noteq> [] \<and> all_digits ds then Some (if neg then - int (digits_value ds) else int (digits_value ds)) else None)"

definition parse_f32_u32 :: "string \<Rightarrow> nat option" where
  "parse_f32_u32 s =
     (let (neg, r) = (case s of c # r \<Rightarrow> if c = CHR ''-'' then (True, r) else if c = CHR ''+'' then (False, r) else (False, s)
                      | [] \<Rightarrow> (False, s)) in
      if r \<in> {''inf'', ''infinity''} then Some (if neg then 0 else 2 ^ 32 - 1)
      else if r = ''nan'' then Some 0
      else
        (let (m, e) = split_at_char CHR ''e'' r in
         case (parse_mantissa m, case e of None \<Rightarrow> Some 0 | Some x \<Rightarrow> parse_exponent x) of
           (Some (n, k), Some x) \<Rightarrow>
             (let p = x - int k in
              Some (if neg then 0
                    else if 0 \<le> p then f32_floor (n * 10 ^ nat p) 1 else f32_floor n (10 ^ nat (- p))))
         | _ \<Rightarrow> None))"

definition trim_end_b :: "string \<Rightarrow> string" where
  "trim_end_b s = rev (dropWhile (\<lambda>c. c = CHR ''b'') (rev s))"

definition parse_param_size_b :: "string \<Rightarrow> nat" where
  "parse_param_size_b s = (case parse_f32_u32 (trim_end_b (to_lowercase (trim s))) of Some v \<Rightarrow> v | None \<Rightarrow> 0)"

section \<open>Choosing a model\<close>

definition is_code_model :: "string \<Rightarrow> bool" where
  "is_code_model name = (let n = to_lowercase name in
     contains n ''code'' \<or> contains n ''coder'' \<or> contains n ''starcoder'' \<or> contains n ''deepseek'')"

definition model_size :: "model_info \<Rightarrow> nat" where
  "model_size m = parse_param_size_b (mi_parameter_size m)"

definition first_opt :: "'a list \<Rightarrow> 'a option" where
  "first_opt xs = (case xs of [] \<Rightarrow> None | x # _ \<Rightarrow> Some x)"

definition best_ollama_by_size :: "model_info list \<Rightarrow> (nat \<Rightarrow> bool) \<Rightarrow> model_info option" where
  "best_ollama_by_size models size_ok =
     (let candidates = filter (\<lambda>m. size_ok (model_size m)) (filter (\<lambda>m. mi_backend m = Ollama \<and> mi_ready m) models)
      in first_opt (sort_key (\<lambda>m. (\<not> is_code_model (mi_name m), model_size m)) candidates))"

definition PREFERRED_CODE_MODELS :: "string list" where
  "PREFERRED_CODE_MODELS = [''deepseek-coder'', ''qwen2.5-coder'', ''qwen'']"

text \<open>\<open>max_by_key\<close>: the last of the greatest elements.\<close>

fun max_by_key :: "('a \<Rightarrow> nat) \<Rightarrow> 'a list \<Rightarrow> 'a option" where
  "max_by_key f [] = None"
| "max_by_key f (x # xs) = (case max_by_key f xs of None \<Rightarrow> Some x | Some y \<Rightarrow> if f x > f y then Some x else Some y)"

definition or_else :: "'a option \<Rightarrow> 'a option \<Rightarrow> 'a option" where
  "or_else x y = (case x of None \<Rightarrow> y | Some _ \<Rightarrow> x)"

definition largest_ollama :: "model_info list \<Rightarrow> model_info option" where
  "largest_ollama models =
     (let ollama_ready = filter (\<lambda>m. mi_backend m = Ollama \<and> mi_ready m) models;
          best_preferred = max_by_key model_size
            (List.map_filter (\<lambda>p. max_by_key model_size (filter (\<lambda>m. starts_with (mi_name m) p) ollama_ready))
              PREFERRED_CODE_MODELS)
      in or_else best_preferred (max_by_key model_size ollama_ready))"

definition find_model :: "model_info list \<Rightarrow> backend_kind \<Rightarrow> string \<Rightarrow> model_info option" where
  "find_model models backend name_contains =
     List.find (\<lambda>m. name_contains = [] \<or> contains (mi_name m) name_contains)
       (filter (\<lambda>m. mi_backend m = backend \<and> mi_ready m) models)"

definition any_ready :: "model_info list \<Rightarrow> model_info option" where
  "any_ready models = List.find mi_ready models"

definition pick_model :: "complexity \<Rightarrow> model_info list \<Rightarrow> model_info option" where
  "pick_model c models =
     (case c of
        Complex \<Rightarrow> or_else (find_model models Claude ''sonnet'') (or_else (find_model models Claude [])
          (or_else (largest_ollama models) (any_ready models)))
      | _ \<Rightarrow> or_else (best_ollama_by_size models (\<lambda>_. True)) (any_ready models))"

section \<open>The router\<close>

record 's inference_backend =
  ib_kind :: backend_kind
  ib_chat :: "string \<Rightarrow> chat_message list \<Rightarrow> inference_options \<Rightarrow> 's \<Rightarrow> inference_response outcome \<times> 's"
  ib_list_models :: "'s \<Rightarrow> model_info list outcome \<times> 's"
  ib_health_check :: "'s \<Rightarrow> unit outcome \<times> 's"

record 's router =
  rt_backends :: "'s inference_backend list"
  rt_in_flight :: "nat list"
  rt_rr :: "64 word"
  rt_world :: 's

definition router_new :: "'s \<Rightarrow> 's router" where
  "router_new world = \<lparr>rt_backends = [], rt_in_flight = [], rt_rr = 0, rt_world = world\<rparr>"

definition add_backend :: "'s router \<Rightarrow> 's inference_backend \<Rightarrow> 's router" where
  "add_backend r b = r\<lparr>rt_backends := rt_backends r @ [b], rt_in_flight := rt_in_flight r @ [0]\<rparr>"

text \<open>The models of all backends, each with the index of its backend; a backend that fails is skipped.\<close>

fun collect_models :: "(nat \<times> 's inference_backend) list \<Rightarrow> 's \<Rightarrow> (nat \<times> model_info) list \<times> 's" where
  "collect_models [] w = ([], w)"
| "collect_models ((i, b) # bs) w =
     (let (res, w1) = ib_list_models b w; (rest, w2) = collect_models bs w1 in
      ((case res of Ok models \<Rightarrow> map (Pair i) models | _ \<Rightarrow> []) @ rest, w2))"

definition list_models_indexed :: "'s router \<Rightarrow> (nat \<times> model_info) list \<times> 's router" where
  "list_models_indexed r =
     (let (out, w) = collect_models (List.enumerate 0 (rt_backends r)) (rt_world r) in (out, r\<lparr>rt_world := w\<rparr>))"

definition list_models :: "'s router \<Rightarrow> model_info list \<times> 's router" where
  "list_models r = (let (out, r') = list_models_indexed r in (map snd out, r'))"

fun collect_health :: "'s inference_backend list \<Rightarrow> 's \<Rightarrow> (backend_kind \<times> bool) list \<times> 's" where
  "collect_health [] w = ([], w)"
| "collect_health (b # bs) w =
     (let (res, w1) = ib_health_check b w; (rest, w2) = collect_health bs w1 in
      ((ib_kind b, (case res of Ok _ \<Rightarrow> True | _ \<Rightarrow> False)) # rest, w2))"

definition list_backends :: "'s router \<Rightarrow> (backend_kind \<times> bool) list \<times> 's router" where
  "list_backends r = (let (out, w) = collect_health (rt_backends r) (rt_world r) in (out, r\<lparr>rt_world := w\<rparr>))"

fun show_complexity :: "complexity \<Rightarrow> string" where
  "show_complexity Simple = ''Simple''"
| "show_complexity Medium = ''Medium''"
| "show_complexity Complex = ''Complex''"

definition pick_model_and_hosts :: "'s router \<Rightarrow> complexity \<Rightarrow> (model_info \<times> nat list) outcome \<times> 's router" where
  "pick_model_and_hosts r c =
     (let (indexed, r') = list_models_indexed r in
      if indexed = [] then (Err ''No models available on any backend'', r')
      else
        (case pick_model c (map snd indexed) of
           Some model \<Rightarrow>
             (Ok (model, map fst (filter (\<lambda>(_, m). mi_name m = mi_name model \<and> mi_backend m = mi_backend model) indexed)), r')
         | None \<Rightarrow> (Err (''No suitable model for complexity '' @ show_complexity c), r')))"

definition recommend_model :: "'s router \<Rightarrow> complexity \<Rightarrow> model_info outcome \<times> 's router" where
  "recommend_model r c = (let (res, r') = pick_model_and_hosts r c in (obind res (\<lambda>(m, _). Ok m), r'))"

definition load_of :: "'s router \<Rightarrow> nat \<Rightarrow> nat" where
  "load_of r i = rt_in_flight r ! i"

text \<open>Least-loaded first; the leaders of equal load are rotated by the round-robin cursor, a \<open>usize\<close>.\<close>

definition order_by_load :: "'s router \<Rightarrow> nat list \<Rightarrow> nat list \<times> 's router" where
  "order_by_load r candidates =
     (let ordered = sort_key (load_of r) candidates;
          tied = length (takeWhile (\<lambda>i. load_of r i = load_of r (hd ordered)) ordered)
      in if 1 < length ordered \<and> 1 < tied then
           (rotate (unat (rt_rr r) mod tied) (take tied ordered) @ drop tied ordered, r\<lparr>rt_rr := rt_rr r + 1\<rparr>)
         else (ordered, r))"

definition escalate_model :: "'s router \<Rightarrow> string \<Rightarrow> model_info outcome \<times> 's router" where
  "escalate_model r failed_model =
     (let (models, r') = list_models r;
          failed_size = parse_param_size_b
            (case List.find (\<lambda>m. mi_name m = failed_model) models of Some m \<Rightarrow> mi_parameter_size m | None \<Rightarrow> ''0'')
      in case best_ollama_by_size models (\<lambda>size. failed_size < size) of
           Some bigger \<Rightarrow> (Ok bigger, r')
         | None \<Rightarrow>
             (case find_model models Claude [] of
                Some claude \<Rightarrow> (Ok claude, r')
              | None \<Rightarrow> (Err (''No larger model available for escalation from '' @ failed_model), r')))"

section \<open>Chat\<close>

text \<open>One request to a backend, and the same request counted in flight while it runs.\<close>

definition backend_chat ::
  "'s inference_backend \<Rightarrow> string \<Rightarrow> chat_message list \<Rightarrow> inference_options \<Rightarrow> 's router
    \<Rightarrow> inference_response outcome \<times> 's router" where
  "backend_chat b model msgs opts r =
     (let (res, w) = ib_chat b model msgs opts (rt_world r) in (res, r\<lparr>rt_world := w\<rparr>))"

definition flight_enter :: "nat \<Rightarrow> 's router \<Rightarrow> 's router" where
  "flight_enter i r = r\<lparr>rt_in_flight := (rt_in_flight r)[i := rt_in_flight r ! i + 1]\<rparr>"

definition flight_drop :: "nat \<Rightarrow> 's router \<Rightarrow> 's router" where
  "flight_drop i r = r\<lparr>rt_in_flight := (rt_in_flight r)[i := rt_in_flight r ! i - 1]\<rparr>"

definition guarded_chat ::
  "nat \<Rightarrow> string \<Rightarrow> chat_message list \<Rightarrow> inference_options \<Rightarrow> 's router \<Rightarrow> inference_response outcome \<times> 's router" where
  "guarded_chat i model msgs opts r =
     (let (res, r') = backend_chat (rt_backends r ! i) model msgs opts (flight_enter i r) in (res, flight_drop i r'))"

definition default_model_for :: "backend_kind \<Rightarrow> string" where
  "default_model_for b = (case b of Claude \<Rightarrow> ''claude-sonnet-4-20250514'' | Ollama \<Rightarrow> ''qwen2.5-coder:7b'')"

text \<open>Each stage either ends the call with a response or goes on to the next stage.\<close>

definition or_next ::
  "inference_response outcome \<times> 's router \<Rightarrow> ('s router \<Rightarrow> inference_response outcome \<times> 's router)
    \<Rightarrow> inference_response outcome \<times> 's router" where
  "or_next res k = (case res of (Err _, r) \<Rightarrow> k r | _ \<Rightarrow> res)"

definition try_preferred_model ::
  "chat_message list \<Rightarrow> inference_options \<Rightarrow> 's router \<Rightarrow> inference_response outcome \<times> 's router" where
  "try_preferred_model msgs opts r =
     (case io_preferred_model opts of
        Some pm \<Rightarrow>
          (if 1 < length (rt_backends r) then
             (let (indexed, r') = list_models_indexed r in
              case List.find (\<lambda>(_, m). mi_name m = pm) indexed of
                Some (i, _) \<Rightarrow> guarded_chat i pm msgs opts r'
              | None \<Rightarrow> (Err [], r'))
           else (Err [], r))
      | None \<Rightarrow> (Err [], r))"

definition try_preferred_backend ::
  "chat_message list \<Rightarrow> inference_options \<Rightarrow> 's router \<Rightarrow> inference_response outcome \<times> 's router" where
  "try_preferred_backend msgs opts r =
     (case io_preferred_backend opts of
        Some preferred \<Rightarrow>
          (case List.find (\<lambda>b. ib_kind b = preferred) (rt_backends r) of
             Some b \<Rightarrow>
               backend_chat b
                 (case io_preferred_model opts of Some m \<Rightarrow> m | None \<Rightarrow> default_model_for preferred) msgs opts r
           | None \<Rightarrow> (Err [], r))
      | None \<Rightarrow> (Err [], r))"

fun try_hosts ::
  "nat list \<Rightarrow> string \<Rightarrow> chat_message list \<Rightarrow> inference_options \<Rightarrow> 's router
    \<Rightarrow> inference_response outcome \<times> 's router" where
  "try_hosts [] model msgs opts r = (Err [], r)"
| "try_hosts (i # is) model msgs opts r = or_next (guarded_chat i model msgs opts r) (try_hosts is model msgs opts)"

fun try_fallbacks ::
  "'s inference_backend list \<Rightarrow> string \<Rightarrow> chat_message list \<Rightarrow> inference_options \<Rightarrow> 's router
    \<Rightarrow> inference_response outcome \<times> 's router" where
  "try_fallbacks [] recommended msgs opts r = (Err ''All inference backends failed'', r)"
| "try_fallbacks (b # bs) recommended msgs opts r =
     (let (res, w) = ib_list_models b (rt_world r); r' = r\<lparr>rt_world := w\<rparr> in
      case res of
        Ok models \<Rightarrow>
          (case or_else (largest_ollama models) (first_opt models) of
             Some model \<Rightarrow>
               (if mi_name model = recommended then try_fallbacks bs recommended msgs opts r'
                else or_next (backend_chat b (mi_name model) msgs opts r') (try_fallbacks bs recommended msgs opts))
           | None \<Rightarrow> try_fallbacks bs recommended msgs opts r')
      | _ \<Rightarrow> try_fallbacks bs recommended msgs opts r')"

definition router_chat ::
  "'s router \<Rightarrow> chat_message list \<Rightarrow> complexity \<Rightarrow> inference_options \<Rightarrow> inference_response outcome \<times> 's router" where
  "router_chat r0 msgs c opts =
     or_next (try_preferred_model msgs opts r0) (\<lambda>r1.
     or_next (try_preferred_backend msgs opts r1) (\<lambda>r2.
     (case pick_model_and_hosts r2 c of
        (Ok (recommended, hosts), r3) \<Rightarrow>
          (let (ordered, r4) = order_by_load r3 hosts in
           or_next (try_hosts ordered (mi_name recommended) msgs opts r4) (\<lambda>r5.
           try_fallbacks (rt_backends r5) (mi_name recommended) msgs opts r5))
      | (Err e, r3) \<Rightarrow> (Err e, r3)
      | (Panic, r3) \<Rightarrow> (Panic, r3))))"

definition router_generate ::
  "'s router \<Rightarrow> string \<Rightarrow> complexity \<Rightarrow> inference_options \<Rightarrow> inference_response outcome \<times> 's router" where
  "router_generate r prompt c opts = router_chat r [msg_user prompt] c opts"

end
