(* ===== verification/RouterFacts.thy ===== *)
theory RouterFacts
  imports Router "HOL-Library.Multiset"
begin

text \<open>
  What the router promises: the order of the hosts, the counters of requests in flight, the choice of a
  model, escalation, and that one healthy backend is enough.
\<close>

section \<open>Load balancing\<close>

lemma sorted_map_append: "sorted (map f (xs @ ys)) \<longleftrightarrow>
    sorted (map f xs) \<and> sorted (map f ys) \<and> (\<forall>x\<in>set xs. \<forall>y\<in>set ys. f x \<le> f y)"
  by (simp add: sorted_append)

lemma same_key_sorted: "\<forall>x\<in>set xs. f x = (a :: nat) \<Longrightarrow> sorted (map f xs)"
  by (induction xs) auto

lemma mset_rotate: "mset (rotate k xs) = mset xs"
proof (induction k)
  case (Suc k)
  then show ?case
    by (cases "rotate k xs") simp_all
qed simp

lemma order_spec:
  fixes r :: "'s router" and candidates :: "nat list"
  defines "ordered \<equiv> fst (order_by_load r candidates)"
  shows "mset ordered = mset candidates \<and> sorted (map (load_of r) ordered)
    \<and> rt_in_flight (snd (order_by_load r candidates)) = rt_in_flight r"
proof -
  let ?s = "sort_key (load_of r) candidates"
  let ?p = "\<lambda>i. load_of r i = load_of r (hd ?s)"
  let ?k = "length (takeWhile ?p ?s)"
  have t: "take ?k ?s = takeWhile ?p ?s" "drop ?k ?s = dropWhile ?p ?s"
    by (rule takeWhile_eq_take[symmetric], rule dropWhile_eq_drop[symmetric])
  have s: "sorted (map (load_of r) ?s)"
    by simp
  have "sorted (map (load_of r) (rotate k (takeWhile ?p ?s) @ dropWhile ?p ?s))" for k
  proof -
    have "sorted (map (load_of r) (rotate k (takeWhile ?p ?s)))"
      by (rule same_key_sorted[of _ _ "load_of r (hd ?s)"]) (auto dest: set_takeWhileD)
    moreover have "sorted (map (load_of r) (takeWhile ?p ?s @ dropWhile ?p ?s))"
      using s by simp
    ultimately show ?thesis
      unfolding sorted_map_append by simp
  qed
  moreover have "mset (rotate k (takeWhile ?p ?s) @ dropWhile ?p ?s) = mset candidates" for k
    by (metis mset_append mset_rotate mset_sort takeWhile_dropWhile_id)
  ultimately show ?thesis
    using s unfolding ordered_def order_by_load_def Let_def t by simp
qed

text \<open>The candidate hosts are tried least-loaded first: the order is a permutation of the candidates
  with non-decreasing loads, and the round-robin cursor, which moves only when there is a tie for the
  least load, permutes the tied hosts alone.\<close>

theorem order_by_load_balances:
  fixes r :: "'s router" and candidates :: "nat list"
  defines "ordered \<equiv> fst (order_by_load r candidates)"
  shows "mset ordered = mset candidates \<and> sorted (map (load_of r) ordered)
    \<and> rt_in_flight (snd (order_by_load r candidates)) = rt_in_flight r"
  using order_spec[of r candidates] unfolding ordered_def .

section \<open>Counters\<close>

lemma flight_restored: "rt_in_flight (flight_drop i ((flight_enter i r)\<lparr>rt_world := w\<rparr>)) = rt_in_flight r"
  by (cases "i < length (rt_in_flight r)") (simp_all add: flight_drop_def flight_enter_def list_update_beyond)

lemma flight_restored': "flight_drop i ((flight_enter i r)\<lparr>rt_world := w\<rparr>) = r\<lparr>rt_world := w\<rparr>"
  by (cases "i < length (rt_in_flight r)") (simp_all add: flight_drop_def flight_enter_def list_update_beyond)

lemma guarded_chat_eq:
  "guarded_chat i model msgs opts r = (fst (ib_chat (rt_backends r ! i) model msgs opts (rt_world r)),
     r\<lparr>rt_world := snd (ib_chat (rt_backends r ! i) model msgs opts (rt_world r))\<rparr>)"
  by (simp add: guarded_chat_def backend_chat_def flight_restored' split: prod.split)
    (simp add: flight_enter_def)

definition same_counts :: "'s router \<Rightarrow> 's router \<Rightarrow> bool" where
  "same_counts r r' \<longleftrightarrow> rt_in_flight r' = rt_in_flight r \<and> rt_backends r' = rt_backends r"

lemma same_counts_trans: "same_counts r s \<Longrightarrow> same_counts s t \<Longrightarrow> same_counts r t"
  by (simp add: same_counts_def)

lemma same_counts_world [simp]: "same_counts r (r\<lparr>rt_world := w\<rparr>)" "same_counts r r"
  by (simp_all add: same_counts_def)

lemma same_counts_chat: "same_counts r (snd (guarded_chat i model msgs opts r))"
  "same_counts r (snd (backend_chat b model msgs opts r))"
  by (simp_all add: guarded_chat_eq backend_chat_def split: prod.split)

lemma same_counts_list: "same_counts r (snd (list_models_indexed r))"
  by (simp add: list_models_indexed_def split: prod.split)

lemma same_counts_next:
  "same_counts r (snd res) \<Longrightarrow> (\<And>r1. same_counts r r1 \<Longrightarrow> same_counts r (snd (k r1))) \<Longrightarrow> same_counts r (snd (or_next res k))"
  by (auto simp: or_next_def split: prod.splits outcome.splits)

lemma same_counts_pm: "same_counts r (snd (try_preferred_model msgs opts r))"
  using same_counts_list[of r] same_counts_trans[OF same_counts_list[of r] same_counts_chat(1)]
  by (auto simp: try_preferred_model_def split: option.split prod.split)

lemma same_counts_pb: "same_counts r (snd (try_preferred_backend msgs opts r))"
  using same_counts_chat(2) by (auto simp: try_preferred_backend_def split: option.split)

lemma same_counts_hosts: "same_counts r0 r \<Longrightarrow> same_counts r0 (snd (try_hosts is model msgs opts r))"
  by (induction "is" arbitrary: r)
    (auto intro!: same_counts_next intro: same_counts_trans[OF _ same_counts_chat(1)])

lemma same_counts_fallbacks: "same_counts r0 r \<Longrightarrow> same_counts r0 (snd (try_fallbacks bs rec msgs opts r))"
proof (induction bs arbitrary: r)
  case (Cons b bs)
  obtain res w where l: "ib_list_models b (rt_world r) = (res, w)"
    by fastforce
  have w: "same_counts r0 (r\<lparr>rt_world := w\<rparr>)"
    using Cons.prems by (simp add: same_counts_def)
  show ?case
    using Cons.IH w same_counts_trans[OF w same_counts_chat(2)] Cons.IH
    by (auto simp: l Let_def intro!: same_counts_next split: outcome.split option.split)
qed simp

lemma same_counts_pick: "same_counts r0 r \<Longrightarrow> same_counts r0 (snd (pick_model_and_hosts r c))"
  using same_counts_trans[OF _ same_counts_list[of r]]
  by (auto simp: pick_model_and_hosts_def Let_def split: prod.split option.split)

lemma same_counts_order: "same_counts r0 r \<Longrightarrow> same_counts r0 (snd (order_by_load r hosts))"
  by (auto simp: order_by_load_def Let_def same_counts_def)

text \<open>C38: every request leaves the in-flight counters as it found them, whichever stage answers, fails or
  panics, and the list of backends is never changed.\<close>

theorem chat_restores_counters:
  "rt_in_flight (snd (router_chat r msgs c opts)) = rt_in_flight r
    \<and> rt_backends (snd (router_chat r msgs c opts)) = rt_backends r"
proof -
  have "same_counts r (snd (router_chat r msgs c opts))"
    unfolding router_chat_def
  proof (intro same_counts_next same_counts_pm)
    fix r1 assume r1: "same_counts r r1"
    then show "same_counts r (snd (try_preferred_backend msgs opts r1))"
      by (rule same_counts_trans[OF _ same_counts_pb])
  next
    fix r1 r2 assume r2: "same_counts r r2"
    note p = same_counts_pick[OF r2, of c]
    have k: "same_counts r (snd (let (ordered, r4) = order_by_load r3 hosts
        in or_next (try_hosts ordered (mi_name m) msgs opts r4)
             (\<lambda>r5. try_fallbacks (rt_backends r5) (mi_name m) msgs opts r5)))" if "same_counts r r3" for r3 m hosts
      using same_counts_order[OF that, of hosts]
      by (auto simp: split: prod.split intro!: same_counts_next same_counts_hosts same_counts_fallbacks)
    then show "same_counts r (snd (case pick_model_and_hosts r2 c of
        (Ok (recommended, hosts), r3) \<Rightarrow>
          (let (ordered, r4) = order_by_load r3 hosts in
           or_next (try_hosts ordered (mi_name recommended) msgs opts r4) (\<lambda>r5.
           try_fallbacks (rt_backends r5) (mi_name recommended) msgs opts r5))
      | (Err e, r3) \<Rightarrow> (Err e, r3)
      | (Panic, r3) \<Rightarrow> (Panic, r3)))"
    proof (cases "pick_model_and_hosts r2 c")
      case (Pair x r3)
      then have "same_counts r r3"
        using p by simp
      then show ?thesis
        using k[of r3] Pair by (cases x) (auto simp only: prod.case outcome.case snd_conv split: prod.split)
    qed
  qed
  then show ?thesis
    by (simp add: same_counts_def)
qed

section \<open>The choice of a model\<close>

definition usable :: "(nat \<Rightarrow> bool) \<Rightarrow> model_info list \<Rightarrow> model_info \<Rightarrow> bool" where
  "usable P models m \<longleftrightarrow> m \<in> set models \<and> mi_backend m = Ollama \<and> mi_ready m \<and> P (model_size m)"

definition model_rank :: "model_info \<Rightarrow> bool \<times> nat" where
  "model_rank m = (\<not> is_code_model (mi_name m), model_size m)"

lemma sort_key_hd: "xs \<noteq> [] \<Longrightarrow> hd (sort_key f xs) \<in> set xs \<and> (\<forall>x\<in>set xs. f (hd (sort_key f xs)) \<le> f x)"
proof -
  assume "xs \<noteq> []"
  then obtain y ys where y: "sort_key f xs = y # ys"
    by (metis list.exhaust set_empty set_sort)
  have "sorted (map f (sort_key f xs))"
    by simp
  then have "\<forall>x\<in>set (sort_key f xs). f y \<le> f x"
    unfolding y by auto
  then show ?thesis
    using y by (metis list.sel(1) list.set_intros(1) set_sort)
qed

lemma sort_key_Nil: "sort_key f xs = [] \<longleftrightarrow> xs = []"
  by (metis length_0_conv length_sort)

lemma best_ollama_None: "best_ollama_by_size models P = None \<longleftrightarrow> (\<forall>m. \<not> usable P models m)"
proof -
  let ?c = "filter (\<lambda>m. P (model_size m)) (filter (\<lambda>m. mi_backend m = Ollama \<and> mi_ready m) models)"
  have "best_ollama_by_size models P = None \<longleftrightarrow> sort_key (\<lambda>m. (\<not> is_code_model (mi_name m), model_size m)) ?c = []"
    by (simp add: best_ollama_by_size_def Let_def first_opt_def split: list.split)
  also have "\<dots> \<longleftrightarrow> set ?c = {}"
    unfolding sort_key_Nil set_empty ..
  also have "set ?c = {m. usable P models m}"
    by (auto simp: usable_def)
  finally show ?thesis
    by blast
qed

lemma best_ollama_Some:
  assumes "best_ollama_by_size models P = Some m"
  shows "usable P models m \<and> (\<forall>m'. usable P models m' \<longrightarrow> model_rank m \<le> model_rank m')"
proof -
  let ?c = "filter (\<lambda>m. P (model_size m)) (filter (\<lambda>m. mi_backend m = Ollama \<and> mi_ready m) models)"
  have c: "m' \<in> set ?c \<longleftrightarrow> usable P models m'" for m'
    by (auto simp: usable_def)
  have s: "first_opt (sort_key model_rank ?c) = Some m"
    using assms by (simp add: best_ollama_by_size_def Let_def model_rank_def[abs_def])
  then have "sort_key model_rank ?c \<noteq> []" "m = hd (sort_key model_rank ?c)"
    by (auto simp: first_opt_def split: list.splits)
  moreover from this(1) have "?c \<noteq> []"
    by (metis set_empty set_sort)
  ultimately show ?thesis
    using sort_key_hd[of ?c model_rank] c by blast
qed

lemma rank_le: "model_rank m \<le> model_rank m' \<longleftrightarrow>
    (if is_code_model (mi_name m) = is_code_model (mi_name m') then model_size m \<le> model_size m'
     else is_code_model (mi_name m))"
  by (auto simp: model_rank_def)

text \<open>C39: for the simple and the medium tier the router picks the smallest ready code model of Ollama,
  else the smallest ready Ollama model, else any ready model, and fails only when no model is ready.\<close>

theorem small_tier_choice:
  assumes "c \<noteq> Complex"
  shows "case pick_model c models of
      None \<Rightarrow> \<forall>m\<in>set models. \<not> mi_ready m
    | Some m \<Rightarrow> m \<in> set models \<and> mi_ready m
        \<and> (\<forall>m'\<in>set models. mi_backend m' = Ollama \<and> mi_ready m' \<longrightarrow>
             mi_backend m = Ollama
             \<and> (if is_code_model (mi_name m) = is_code_model (mi_name m') then model_size m \<le> model_size m'
                else is_code_model (mi_name m)))"
proof -
  have p: "pick_model c models = or_else (best_ollama_by_size models (\<lambda>_. True)) (any_ready models)"
    using assms by (cases c) (simp_all add: pick_model_def)
  show ?thesis
  proof (cases "best_ollama_by_size models (\<lambda>_. True)")
    case None
    then have "\<not> usable (\<lambda>_. True) models m" for m
      using best_ollama_None by blast
    then show ?thesis
      using None find_Some_mem[of mi_ready models] find_None_all[of mi_ready models] unfolding p
      by (auto simp: or_else_def any_ready_def usable_def split: option.split)
  next
    case (Some m)
    show ?thesis
      using best_ollama_Some[OF Some, unfolded rank_le usable_def] unfolding p Some or_else_def option.case by blast
  qed
qed



text \<open>A host that is down, and one that answers.\<close>

definition ex_model :: "string \<Rightarrow> backend_kind \<Rightarrow> string \<Rightarrow> model_info" where
  "ex_model name k psize = \<lparr>mi_name = name, mi_backend = k, mi_family = [], mi_parameter_size = psize,
     mi_context_window = 0, mi_ready = True\<rparr>"



definition ex_models :: "model_info list" where
  "ex_models = [ex_model ''llama3'' Ollama [], ex_model ''qwen2.5-coder'' Ollama []]"



lemma small_tier_choice_witness:
  "pick_model Simple ex_models = Some (ex_model ''qwen2.5-coder'' Ollama [])"
proof -
  let ?l = "ex_model ''llama3'' Ollama []" and ?q = "ex_model ''qwen2.5-coder'' Ollama []"
  have code: "is_code_model (mi_name ?q)" "\<not> is_code_model (mi_name ?l)"
    by code_simp+
  have ms: "ex_models = [?l, ?q]" "mi_ready ?q" "mi_ready ?l" "mi_backend ?q = Ollama"
    by (simp_all add: ex_models_def ex_model_def)
  have "pick_model Simple [?l, ?q] \<noteq> None"
    using small_tier_choice[of Simple "[?l, ?q]"] ms(2) by (auto split: option.splits)
  then obtain m where m: "pick_model Simple [?l, ?q] = Some m"
    by blast
  have "m \<in> set [?l, ?q]" "\<forall>m'\<in>set [?l, ?q]. mi_backend m' = Ollama \<and> mi_ready m' \<longrightarrow> mi_backend m = Ollama \<and>
      (if is_code_model (mi_name m) = is_code_model (mi_name m') then model_size m \<le> model_size m' else is_code_model (mi_name m))"
    using small_tier_choice[of Simple "[?l, ?q]", unfolded m option.case] by blast+
  then have "m = ?q"
    using code ms(2,4) by (cases "m = ?l") simp_all
  then show ?thesis
    using m ms(1) by simp
qed



section \<open>One healthy backend is enough\<close>





















end
