(* ===== verification/Disk.thy ===== *)
theory Disk
  imports RustStr
begin

text \<open>
  What the native crates use of the operating system: paths, files and processes. The operations are a
  record over a world \<open>'w\<close>, which also holds everything else outside the program. Paths are normal:
  no empty, \<open>.\<close> or \<open>..\<close> component and no trailing slash.
\<close>

section \<open>Paths\<close>

text \<open>\<open>base.join(rel)\<close>: an absolute path replaces the base.\<close>

definition path_join :: "string \<Rightarrow> string \<Rightarrow> string" where
  "path_join base rel =
     (if starts_with rel ''/'' \<or> base = [] then rel
      else if ends_with base ''/'' then base @ rel else base @ ''/'' @ rel)"

definition path_parent :: "string \<Rightarrow> string option" where
  "path_parent p = (case rsplit_once CHR ''/'' p of
      Some (dir, file) \<Rightarrow> (if dir = [] then if file = [] then None else Some ''/'' else Some dir)
    | None \<Rightarrow> if p = [] then None else Some [])"

text \<open>\<open>path.strip_prefix(base)\<close>, on whole components.\<close>

definition path_strip_prefix :: "string \<Rightarrow> string \<Rightarrow> string option" where
  "path_strip_prefix p base = (if p = base then Some [] else
     strip_prefix (if base = [] \<or> ends_with base ''/'' then base else base @ ''/'') p)"

text \<open>\<open>path.file_name()\<close>, and \<open>path.extension()\<close> with the empty string for none: a name that starts with
  its only dot has no extension.\<close>

definition file_name :: "string \<Rightarrow> string" where
  "file_name p = (case rsplit_once CHR ''/'' p of Some (dir, file) \<Rightarrow> file | None \<Rightarrow> p)"

definition file_extension :: "string \<Rightarrow> string" where
  "file_extension p = (case rsplit_once CHR ''.'' (file_name p) of
      Some (stem, ext) \<Rightarrow> (if stem = [] then [] else ext) | None \<Rightarrow> [])"

lemma rsplit_once_Some: "rsplit_once c s = Some (a, b) \<Longrightarrow> s = a @ c # b"
  using str_rfind_Some[of c s] by (auto simp: rsplit_once_def id_take_nth_drop[symmetric] split: option.splits)

lemma path_parent_shorter: "path_parent p = Some d \<Longrightarrow> length d < length p"
  by (auto simp: path_parent_def dest!: rsplit_once_Some split: option.splits if_splits)

lemma path_join_inj: "path_join base a = path_join base b \<Longrightarrow> \<not> starts_with a ''/'' \<Longrightarrow> \<not> starts_with b ''/'' \<Longrightarrow> a = b"
  by (auto simp: path_join_def split: if_splits)

section \<open>Files and processes\<close>

text \<open>\<open>std::process::Output\<close> with its streams decoded.\<close>

record command_output =
  co_code :: "int option"
  co_success :: bool
  co_stdout :: string
  co_stderr :: string

record 'w disk_ops =
  dk_exists :: "string \<Rightarrow> 'w \<Rightarrow> bool"
  dk_read :: "string \<Rightarrow> 'w \<Rightarrow> string outcome"
  dk_write :: "string \<Rightarrow> string \<Rightarrow> ('w, unit) io"
  dk_create_dir_all :: "string \<Rightarrow> ('w, unit) io"
  dk_remove_file :: "string \<Rightarrow> ('w, unit) io"
  dk_remove_dir_all :: "string \<Rightarrow> ('w, unit) io"
  dk_copy :: "string \<Rightarrow> string \<Rightarrow> ('w, unit) io"
  dk_command :: "string \<Rightarrow> string list \<Rightarrow> string \<Rightarrow> ('w, command_output) io"

end
