(* ===== verification/AgentEdits.thy ===== *)
theory AgentEdits
  imports Disk CodeUtils EditParser VirtWorkspace
begin

text \<open>
  How the agent reads and changes files (\<open>read_files\<close>, \<open>validate_edits\<close>, \<open>apply_edits\<close>,
  \<open>try_auto_wrap\<close> and \<open>compile_check\<close> of \<open>crates/agent-core/src/agent.rs\<close>): through the file
  provider when the agent has one, else on the disk. \<open>'p\<close> is the state of the provider, \<open>'w\<close> the world.
\<close>

record ('p, 'w) agent_state =
  as_provider :: "'p option"
  as_world :: 'w

record ('p, 'w) agent_files =
  af_provider :: "'p file_provider"
  af_disk :: "'w disk_ops"
  af_repo_path :: string

definition on_world :: "('w, 'a) io \<Rightarrow> (('p, 'w) agent_state, 'a) io" where
  "on_world = io_zoom as_world (\<lambda>w s. s\<lparr>as_world := w\<rparr>)"

definition af_path :: "('p, 'w) agent_files \<Rightarrow> string \<Rightarrow> string" where
  "af_path F path = path_join (af_repo_path F) path"

section \<open>Reading and screening\<close>

definition read_one :: "('p, 'w) agent_files \<Rightarrow> ('p, 'w) agent_state \<Rightarrow> string \<Rightarrow> string outcome" where
  "read_one F s path =
     (case as_provider s of
        Some p \<Rightarrow> (case fp_read (af_provider F) p path of Err _ \<Rightarrow> Ok [] | r \<Rightarrow> r)
      | None \<Rightarrow> (case dk_read (af_disk F) (af_path F path) (as_world s) of Err _ \<Rightarrow> Ok [] | r \<Rightarrow> r))"

fun read_files :: "('p, 'w) agent_files \<Rightarrow> ('p, 'w) agent_state \<Rightarrow> string list \<Rightarrow> (string \<times> string) list outcome" where
  "read_files F s [] = Ok []"
| "read_files F s (path # paths) =
     obind (read_one F s path) (\<lambda>content.
     obind (read_files F s paths) (\<lambda>rest. Ok ((path, content) # rest)))"

definition validate_edits :: "file_edit list \<Rightarrow> file_edit list" where
  "validate_edits edits = filter (\<lambda>e. is_valid_file_path (edit_path e)) edits"

definition is_conversational :: "string \<Rightarrow> bool" where
  "is_conversational content \<longleftrightarrow>
     list_ex (starts_with content) [''I '', ''Here '', ''To '', ''You '', ''The '', ''This '']
     \<or> contains content ''you can'' \<or> contains content ''you should''"

text \<open>Output without any block that does not look like prose becomes a new file.\<close>

definition try_auto_wrap ::
  "('p, 'w) agent_files \<Rightarrow> 'w \<Rightarrow> string \<Rightarrow> string list \<Rightarrow> file_edit list outcome" where
  "try_auto_wrap F w content file_paths =
     (if content = [] \<or> contains content ''<<<'' \<or> is_conversational content then Ok []
      else (case List.find (\<lambda>f. \<not> dk_exists (af_disk F) (af_path F f) w) file_paths of
          Some target \<Rightarrow>
            unwrap_or_default (parse_edits (''<<<CREATE '' @ target @ [NL] @ content @ [NL] @ ''>>>''))
        | None \<Rightarrow> Ok []))"

section \<open>Applying edits\<close>

text \<open>The new content of an edited file, or \<open>None\<close> when the edit is skipped: the first literal
  occurrence, else the first window of lines that agree up to surrounding white space. The source
  searches for one line and for several lines separately; both are the search for a window.\<close>

definition edit_content :: "string \<Rightarrow> string \<Rightarrow> string \<Rightarrow> string option" where
  "edit_content content old new =
     (let content_norm = normalize_crlf content; old_norm = normalize_crlf old; new_norm = normalize_crlf new in
      if contains content_norm (trim old_norm) then
        Some (str_replace_first (trim old_norm) (trim new_norm) content_norm)
      else
        (let lines = str_lines content_norm; old_lines = map trim (str_lines (trim old_norm)) in
         if old_lines = [] then None
         else map_option
                (\<lambda>i. str_join [NL] (replace_window lines i (length old_lines) (str_lines (trim new_norm))))
                (find_window trim old_lines lines)))"

definition read_for_edit :: "('p, 'w) agent_files \<Rightarrow> string \<Rightarrow> (('p, 'w) agent_state, string) io" where
  "read_for_edit F path = (\<lambda>s.
     (case as_provider s of
        Some p \<Rightarrow> fp_read (af_provider F) p path
      | None \<Rightarrow> map_err (\<lambda>_. ''Cannot read '' @ path @ '' for editing'')
                  (dk_read (af_disk F) (af_path F path) (as_world s)), s))"

definition provider_write :: "('p, 'w) agent_files \<Rightarrow> 'p \<Rightarrow> string \<Rightarrow> string \<Rightarrow> (('p, 'w) agent_state, unit) io" where
  "provider_write F p path content = (\<lambda>s.
     let (r, p') = fp_write (af_provider F) p path content in (r, s\<lparr>as_provider := Some p'\<rparr>))"

definition disk_write :: "('p, 'w) agent_files \<Rightarrow> string \<Rightarrow> string \<Rightarrow> string \<Rightarrow> (('p, 'w) agent_state, unit) io" where
  "disk_write F what path content = (\<lambda>s.
     apfst (map_err (\<lambda>_. ''Failed to '' @ what @ '' '' @ path)) (on_world (dk_write (af_disk F) (af_path F path) content) s))"

fun apply_edit :: "('p, 'w) agent_files \<Rightarrow> file_edit \<Rightarrow> (('p, 'w) agent_state, unit) io" where
  "apply_edit F (Edit path old new) =
     io_bind (read_for_edit F path) (\<lambda>content.
       (case edit_content content old new of
          None \<Rightarrow> io_ok ()
        | Some updated \<Rightarrow>
            io_bind (io_get as_provider) (\<lambda>fp.
              (case fp of
                 Some p \<Rightarrow> provider_write F p path updated
               | None \<Rightarrow> disk_write F ''write'' path updated))))"
| "apply_edit F (Create path content) =
     io_bind (io_get as_provider) (\<lambda>fp.
       (case fp of
          Some p \<Rightarrow> provider_write F p path content
        | None \<Rightarrow>
            io_bind (case path_parent (af_path F path) of
                Some parent \<Rightarrow> on_world (dk_create_dir_all (af_disk F) parent)
              | None \<Rightarrow> io_ok ()) (\<lambda>_.
            disk_write F ''create'' path content)))"
| "apply_edit F (Delete path) =
     io_bind (io_get as_world) (\<lambda>w.
       io_when (dk_exists (af_disk F) (af_path F path) w)
         (\<lambda>s. apfst (map_err (\<lambda>_. ''Failed to delete '' @ path))
                (on_world (dk_remove_file (af_disk F) (af_path F path)) s)))"

definition apply_edits :: "('p, 'w) agent_files \<Rightarrow> file_edit list \<Rightarrow> (('p, 'w) agent_state, unit) io" where
  "apply_edits F edits = io_each (apply_edit F) edits"

section \<open>The compile check\<close>

definition COMPILE_FIX_ATTEMPTS :: nat where "COMPILE_FIX_ATTEMPTS = 2"
definition COMPILE_FIX_ERR_LINES :: nat where "COMPILE_FIX_ERR_LINES = 8"
definition AGENT_CHECK_TARGET_DIR :: string where
  "AGENT_CHECK_TARGET_DIR = ''/tmp/alpha-swarm/gate-target''"

text \<open>The name of a package in its manifest: the first line \<open>name = "..."\<close>.\<close>

definition manifest_name :: "string \<Rightarrow> string option" where
  "manifest_name toml =
     (case List.map_filter (\<lambda>l. Option.bind (strip_prefix (''name = '' @ [DQ]) (trim l)) (strip_suffix [DQ])) (str_lines toml) of
        [] \<Rightarrow> None | n # _ \<Rightarrow> Some n)"

definition edit_package :: "('p, 'w) agent_files \<Rightarrow> 'w \<Rightarrow> file_edit \<Rightarrow> string option" where
  "edit_package F w e =
     (case strip_prefix ''crates/'' (edit_path e) of
        None \<Rightarrow> None
      | Some rest \<Rightarrow>
          (case dk_read (af_disk F)
                  (path_join (path_join (path_join (af_repo_path F) ''crates'') (hd (split_char CHR ''/'' rest))) ''Cargo.toml'') w of
             Ok toml \<Rightarrow> manifest_name toml
           | _ \<Rightarrow> None))"

definition changed_packages :: "('p, 'w) agent_files \<Rightarrow> 'w \<Rightarrow> file_edit list \<Rightarrow> string list" where
  "changed_packages F w edits =
     fold (\<lambda>e pkgs. case edit_package F w e of None \<Rightarrow> pkgs | Some n \<Rightarrow> if n \<in> set pkgs then pkgs else pkgs @ [n]) edits []"

text \<open>\<open>None\<close> is a clean or inapplicable check, \<open>Some\<close> the tail of the error output.\<close>

definition compile_check :: "('p, 'w) agent_files \<Rightarrow> file_edit list \<Rightarrow> (('p, 'w) agent_state, string option) io" where
  "compile_check F edits = (\<lambda>s.
     let w = as_world s; D = af_disk F; pkgs = changed_packages F w edits in
     if as_provider s \<noteq> None \<or> \<not> dk_exists D (af_path F ''Cargo.toml'') w then (Ok None, s)
     else if pkgs = [] then (Ok None, s)
     else
       io_bind (io_ignore (on_world (dk_create_dir_all D AGENT_CHECK_TARGET_DIR))) (\<lambda>_.
       io_bind (io_try (on_world (dk_command D ''cargo'' ([''check'', ''--quiet''] @ concat (map (\<lambda>p. [''-p'', p]) pkgs)) (af_repo_path F)))) (\<lambda>r.
       (case r of
          Ok out \<Rightarrow>
            io_ok (if co_success out then None
                   else Some (str_join [NL] (rev (take COMPILE_FIX_ERR_LINES (rev (str_lines (co_stderr out)))))))
        | Err e \<Rightarrow> io_ok (Some e)
        | Panic \<Rightarrow> io_lift Panic))) s)"

end
