(* ===== verification/QualityGate.thy ===== *)
theory QualityGate
  imports Disk
begin

text \<open>
  The quality gate (\<open>crates/quality-gate/src/lib.rs\<close>): detection of the toolchain and the checks it
  runs, in order, up to the first failure.
\<close>

record check_result =
  ck_check_name :: string
  ck_passed :: bool
  ck_stdout :: string
  ck_stderr :: string
  ck_exit_code :: int
  ck_duration_ms :: nat

record toolchain_config =
  tl_build_cmd :: "string option"
  tl_fmt_cmd :: "string option"
  tl_lint_cmd :: "string option"
  tl_unit_test_cmd :: "string option"
  tl_integration_test_cmd :: "string option"
  tl_e2e_test_cmd :: "string option"

definition toolchain :: "string option \<Rightarrow> string option \<Rightarrow> string option \<Rightarrow> string option \<Rightarrow> toolchain_config" where
  "toolchain build fmt lint unit_test =
     \<lparr>tl_build_cmd = build, tl_fmt_cmd = fmt, tl_lint_cmd = lint, tl_unit_test_cmd = unit_test,
      tl_integration_test_cmd = None, tl_e2e_test_cmd = None\<rparr>"

definition detect_toolchain :: "'w disk_ops \<Rightarrow> string \<Rightarrow> 'w \<Rightarrow> toolchain_config" where
  "detect_toolchain D repo_path w =
     (if dk_exists D (path_join repo_path ''Cargo.toml'') w then
        toolchain (Some ''cargo check'') (Some ''cargo fmt -- --check'') (Some ''cargo clippy'') (Some ''cargo test --lib'')
      else if dk_exists D (path_join repo_path ''package.json'') w then
        toolchain (Some ''npm run build'') (Some ''npm run fmt -- --check'') (Some ''npm run lint'') (Some ''npm test'')
      else if dk_exists D (path_join repo_path ''go.mod'') w then
        toolchain (Some ''go build ./...'') (Some ''gofmt -l .'') (Some ''golangci-lint run'') (Some ''go test ./...'')
      else toolchain None None None None)"

text \<open>The clock is an argument: the milliseconds a command took.\<close>

definition run_check :: "'w disk_ops \<Rightarrow> ('w \<Rightarrow> 'w \<Rightarrow> nat) \<Rightarrow> string \<Rightarrow> string \<Rightarrow> string \<Rightarrow> ('w, check_result) io" where
  "run_check D elapsed name cmd cwd =
     (case split_whitespace cmd of
        [] \<Rightarrow> io_lift (Err ''Empty command'')
      | program # args \<Rightarrow>
          io_bind (io_get id) (\<lambda>start.
          io_bind (\<lambda>w. apfst (map_err (\<lambda>_. ''Failed to execute: '' @ cmd)) (dk_command D program args cwd w)) (\<lambda>output.
          io_bind (io_get id) (\<lambda>now.
          io_ok \<lparr>ck_check_name = name, ck_passed = co_success output, ck_stdout = co_stdout output,
                 ck_stderr = co_stderr output,
                 ck_exit_code = (case co_code output of Some c \<Rightarrow> c | None \<Rightarrow> - 1),
                 ck_duration_ms = elapsed start now\<rparr>))))"

fun run_checks ::
  "'w disk_ops \<Rightarrow> ('w \<Rightarrow> 'w \<Rightarrow> nat) \<Rightarrow> string \<Rightarrow> (string \<times> string option) list \<Rightarrow> ('w, check_result list) io" where
  "run_checks D el cwd [] = io_ok []"
| "run_checks D el cwd ((name, None) # checks) = run_checks D el cwd checks"
| "run_checks D el cwd ((name, Some cmd) # checks) =
     io_bind (run_check D el name cmd cwd) (\<lambda>result.
     if ck_passed result then io_bind (run_checks D el cwd checks) (\<lambda>rest. io_ok (result # rest))
     else io_ok [result])"

definition run_all :: "'w disk_ops \<Rightarrow> ('w \<Rightarrow> 'w \<Rightarrow> nat) \<Rightarrow> string \<Rightarrow> toolchain_config \<Rightarrow> ('w, check_result list) io" where
  "run_all D el repo_path config =
     run_checks D el repo_path
       [(''fmt'', tl_fmt_cmd config), (''lint'', tl_lint_cmd config), (''build'', tl_build_cmd config),
        (''test:unit'', tl_unit_test_cmd config)]"

definition run_single ::
  "'w disk_ops \<Rightarrow> ('w \<Rightarrow> 'w \<Rightarrow> nat) \<Rightarrow> string \<Rightarrow> string \<Rightarrow> toolchain_config \<Rightarrow> ('w, check_result option) io" where
  "run_single D el name repo_path config =
     (let run = (\<lambda>cmd. case cmd of
            Some cmd \<Rightarrow> io_bind (run_check D el name cmd repo_path) (\<lambda>r. io_ok (Some r))
          | None \<Rightarrow> io_ok None) in
      if name = ''fmt'' then run (tl_fmt_cmd config)
      else if name = ''lint'' then run (tl_lint_cmd config)
      else if name = ''build'' then run (tl_build_cmd config)
      else if name = ''test:unit'' then run (tl_unit_test_cmd config)
      else if name = ''test:integration'' then run (tl_integration_test_cmd config)
      else if name = ''test:e2e'' then run (tl_e2e_test_cmd config)
      else io_ok None)"

end
