(* ===== verification/Agent.thy ===== *)
theory Agent
  imports AgentEdits AgentTypes Prompt Planner Router Events QualityGate
begin

text \<open>
  The code agent (\<open>crates/agent-core/src/agent.rs\<close>): the one-shot run, the run with retries behind the
  quality gate, and the loop over tool calls. The router is the one of \<open>Router.thy\<close>; the knowledge base,
  the publisher, the tools and the clock are operations on the world.
\<close>

section \<open>Records\<close>

definition ATTEMPT_PREVIEW_CHARS :: nat where "ATTEMPT_PREVIEW_CHARS = 500"
definition TOOL_RESULT_MAX_CHARS :: nat where "TOOL_RESULT_MAX_CHARS = 2000"
definition TOOL_RECORD_PREVIEW_CHARS :: nat where "TOOL_RECORD_PREVIEW_CHARS = 200"
definition MAX_OUTPUT_TOKENS :: nat where "MAX_OUTPUT_TOKENS = 4096"

record tier_config =
  tc_model :: string
  tc_context_window :: nat
  tc_time_limit_secs :: nat
  tc_token_limit :: nat
  tc_max_iterations :: nat
  tc_max_backoff_secs :: nat
  tc_max_context_files :: nat

datatype run_status =
  RsPending | RsPlanning | RsPlanned | RsApproved | RsRunning | RsPassed | RsFailed | RsSkipped

record phase_timing_record =
  ph_embedding_ms :: nat
  ph_rag_ms :: nat
  ph_planning_ms :: nat
  ph_agent_execution_ms :: nat
  ph_quality_gate_ms :: nat

record agent_run =
  au_id :: "string option"
  au_project :: string
  au_task_description :: string
  au_agent_id :: string
  au_model_used :: string
  au_status :: run_status
  au_files_modified :: "string list"
  au_diff :: "string option"
  au_error_message :: "string option"
  au_quality_gate_passed :: "bool option"
  au_tokens_input :: nat
  au_tokens_output :: nat
  au_duration_ms :: nat
  au_created_at :: string
  au_embedding :: "f32_bits list option"
  au_prompt_sent :: "string option"
  au_response_text :: "string option"
  au_attempts :: "attempt_record list"
  au_started_at :: "string option"
  au_last_activity_at :: "string option"
  au_parent_run_id :: "string option"
  au_progress_message :: "string option"
  au_tool_calls :: "tool_call_record list"
  au_phase_timings :: "phase_timing_record option"
  au_external_id :: "string option"

definition agent_run_new :: "string \<Rightarrow> string \<Rightarrow> string \<Rightarrow> string \<Rightarrow> string \<Rightarrow> agent_run" where
  "agent_run_new project task agent_id model now =
     \<lparr>au_id = None, au_project = project, au_task_description = task, au_agent_id = agent_id,
      au_model_used = model, au_status = RsRunning, au_files_modified = [], au_diff = None,
      au_error_message = None, au_quality_gate_passed = None, au_tokens_input = 0, au_tokens_output = 0,
      au_duration_ms = 0, au_created_at = now, au_embedding = None, au_prompt_sent = None,
      au_response_text = None, au_attempts = [], au_started_at = None, au_last_activity_at = None,
      au_parent_run_id = None, au_progress_message = None, au_tool_calls = [], au_phase_timings = None,
      au_external_id = None\<rparr>"

record agent_progress =
  ap_step :: nat
  ap_max_steps :: nat
  ap_action :: string
  ap_result :: string
  ap_duration_ms :: nat
  ap_tokens_in :: nat
  ap_tokens_out :: nat
  ap_edits_count :: nat

record knowledge_config =
  kc_embed_model :: string
  kc_project :: string
  kc_skip_threshold :: f32_bits
  kc_parent_run_id :: "string option"

record tool_result =
  tx_content :: string
  tx_is_error :: bool
  tx_duration_ms :: nat

text \<open>What the agent calls. The router is a part of the world. A tool gets the repository path, the
  project, its name and its parameters; \<open>ko_drain\<close> takes the messages waiting in the inbox.\<close>

record ('s, 'w) agent_ops =
  ko_router :: "'w \<Rightarrow> 's router"
  ko_set_router :: "'s router \<Rightarrow> 'w \<Rightarrow> 'w"
  ko_uuid :: "('w, string) io"
  ko_embed :: "string \<Rightarrow> string \<Rightarrow> ('w, f32_bits list) io"
  ko_task_already_done :: "string \<Rightarrow> f32_bits list \<Rightarrow> f32_bits \<Rightarrow> ('w, agent_run option) io"
  ko_find_past_errors :: "string \<Rightarrow> f32_bits list \<Rightarrow> nat \<Rightarrow> ('w, agent_run list) io"
  ko_running_agents :: "string \<Rightarrow> ('w, agent_run list) io"
  ko_store_run :: "agent_run \<Rightarrow> ('w, string) io"
  ko_update_run :: "string \<Rightarrow> agent_run \<Rightarrow> ('w, unit) io"
  ko_store_embedding :: "string \<Rightarrow> f32_bits list \<Rightarrow> ('w, unit) io"
  ko_db_query_raw :: "string \<Rightarrow> ('w, unit) io"
  ko_publish :: "swarm_event \<Rightarrow> ('w, unit) io"
  ko_now :: "'w \<Rightarrow> string"
  ko_elapsed :: "'w \<Rightarrow> 'w \<Rightarrow> nat"
  ko_messages_json :: "chat_message list \<Rightarrow> string"
  ko_attempts_json :: "attempt_record list \<Rightarrow> string"
  ko_tool_names :: "string list"
  ko_tool_execute :: "string \<Rightarrow> string \<Rightarrow> string \<Rightarrow> string \<Rightarrow> ('w, tool_result) io"
  ko_drain :: "'w \<Rightarrow> agent_message list \<times> 'w"
  ko_progress :: "agent_progress \<Rightarrow> 'w \<Rightarrow> 'w"

record ('p, 's, 'w) agent =
  ag_files :: "('p, 'w) agent_files"
  ag_ops :: "('s, 'w) agent_ops"
  ag_project :: string
  ag_knowledge :: "knowledge_config option"
  ag_events :: bool
  ag_tier :: tier_config

definition tier_options :: "tier_config \<Rightarrow> inference_options" where
  "tier_options tier = default_inference_options
     \<lparr>io_max_tokens := Some (min (tc_context_window tier) MAX_OUTPUT_TOKENS),
      io_preferred_model := Some (tc_model tier), io_preferred_backend := Some Ollama\<rparr>"

definition agent_chat ::
  "('p, 's, 'w) agent \<Rightarrow> chat_message list \<Rightarrow> complexity \<Rightarrow> inference_options
    \<Rightarrow> (('p, 'w) agent_state, inference_response) io" where
  "agent_chat A msgs c opts =
     on_world (io_zoom (ko_router (ag_ops A)) (ko_set_router (ag_ops A)) (\<lambda>r. router_chat r msgs c opts))"

definition agent_now :: "('p, 's, 'w) agent \<Rightarrow> (('p, 'w) agent_state, string) io" where
  "agent_now A = io_get (\<lambda>s. ko_now (ag_ops A) (as_world s))"

definition agent_publish :: "('p, 's, 'w) agent \<Rightarrow> (string \<Rightarrow> swarm_event) \<Rightarrow> (('p, 'w) agent_state, unit) io" where
  "agent_publish A event =
     io_when (ag_events A)
       (io_bind (agent_now A) (\<lambda>now. io_ignore (on_world (ko_publish (ag_ops A) (event now)))))"

section \<open>The one-shot run\<close>

text \<open>What the knowledge base says before the run: the result of a skipped task, or text for the prompt.\<close>

definition skipped_result :: "agent_run \<Rightarrow> agent_result" where
  "skipped_result past =
     \<lparr>ar_edits = [],
      ar_inference_response =
        \<lparr>ir_content = ''Skipped: similar task already done ('' @ au_task_description past @ '')'', ir_model = [],
         ir_backend = Ollama, ir_tokens_input = 0, ir_tokens_output = 0, ir_cached_tokens = 0, ir_duration_ms = 0\<rparr>,
      ar_applied = False, ar_skipped = True, ar_run_id = None, ar_attempt = 1, ar_escalated_from = None,
      ar_tool_calls = []\<rparr>"

definition past_errors_text :: "agent_run list \<Rightarrow> string" where
  "past_errors_text errors =
     [NL] @ ''PAST ERRORS TO AVOID:'' @ [NL]
     @ concat (map (\<lambda>e. ''- Task '' @ [CHR 0x27] @ au_task_description e @ [CHR 0x27] @ '' failed (model: ''
         @ au_model_used e @ ''): '' @ (case au_error_message e of Some m \<Rightarrow> m | None \<Rightarrow> ''unknown error'') @ [NL]) errors)"

definition running_agents_text :: "agent_run list \<Rightarrow> string" where
  "running_agents_text running =
     [NL] @ ''CURRENTLY RUNNING AGENTS:'' @ [NL]
     @ concat (map (\<lambda>r. ''- Agent '' @ au_agent_id r @ '' working on: '' @ [CHR 0x27] @ au_task_description r @ [CHR 0x27]
         @ '' (files: '' @ show_debug_list (au_files_modified r) @ '')'' @ [NL]) running)"

definition if_any :: "('a list \<Rightarrow> string) \<Rightarrow> 'a list outcome \<Rightarrow> string" where
  "if_any f r = (case r of Ok xs \<Rightarrow> if xs = [] then [] else f xs | _ \<Rightarrow> [])"

definition embed_or_empty ::
  "('p, 's, 'w) agent \<Rightarrow> knowledge_config \<Rightarrow> string \<Rightarrow> (('p, 'w) agent_state, f32_bits list outcome) io" where
  "embed_or_empty A kc task = io_try (on_world (ko_embed (ag_ops A) (kc_embed_model kc) task))"

definition consult_knowledge ::
  "('p, 's, 'w) agent \<Rightarrow> string \<Rightarrow> (('p, 'w) agent_state, agent_result + string) io" where
  "consult_knowledge A task =
     (let K = ag_ops A in
      case ag_knowledge A of
        None \<Rightarrow> io_ok (Inr [])
      | Some kc \<Rightarrow>
          io_bind (embed_or_empty A kc task) (\<lambda>emb.
          (case emb of
             Ok embedding \<Rightarrow>
               (if embedding = [] then io_ok (Inr [])
                else
                  io_bind (io_try (on_world (ko_task_already_done K (kc_project kc) embedding (kc_skip_threshold kc)))) (\<lambda>done.
                  (case done of
                     Ok (Some past) \<Rightarrow> io_ok (Inl (skipped_result past))
                   | _ \<Rightarrow>
                       io_bind (io_try (on_world (ko_find_past_errors K (kc_project kc) embedding 3))) (\<lambda>errors.
                       io_bind (io_try (on_world (ko_running_agents K (kc_project kc)))) (\<lambda>running.
                       io_ok (Inr (if_any past_errors_text errors @ if_any running_agents_text running)))))))
           | _ \<Rightarrow> io_ok (Inr []))))"

definition append_last :: "string \<Rightarrow> chat_message list \<Rightarrow> chat_message list" where
  "append_last extra msgs = (if msgs = [] then []
     else butlast msgs @ [(last msgs)\<lparr>cm_content := cm_content (last msgs) @ extra\<rparr>])"

text \<open>The record of the run at its start; \<open>None\<close> without a knowledge base or when storing fails.\<close>

definition record_start ::
  "('p, 's, 'w) agent \<Rightarrow> string \<Rightarrow> string list \<Rightarrow> string \<Rightarrow> string \<Rightarrow> string
    \<Rightarrow> (('p, 'w) agent_state, (string \<times> agent_run) option) io" where
  "record_start A task file_paths agent_id prompt_json now =
     (case ag_knowledge A of
        None \<Rightarrow> io_ok None
      | Some kc \<Rightarrow>
          io_bind (agent_now A) (\<lambda>created.
          (let rec = (agent_run_new (kc_project kc) task agent_id ''pending'' created)
                 \<lparr>au_files_modified := file_paths, au_prompt_sent := Some prompt_json, au_started_at := Some now,
                  au_last_activity_at := Some now, au_parent_run_id := kc_parent_run_id kc\<rparr> in
           io_bind (io_try (on_world (ko_store_run (ag_ops A) rec))) (\<lambda>r.
           io_ok (case r of Ok i \<Rightarrow> Some (i, rec) | _ \<Rightarrow> None)))))"

definition record_end ::
  "('p, 's, 'w) agent \<Rightarrow> string \<Rightarrow> inference_response \<Rightarrow> (agent_run \<Rightarrow> agent_run) \<Rightarrow> (string \<times> agent_run) option
    \<Rightarrow> (('p, 'w) agent_state, unit) io" where
  "record_end A task response upd run =
     (case (ag_knowledge A, run) of
        (Some kc, Some (i, rec)) \<Rightarrow>
          io_bind (agent_now A) (\<lambda>now.
          io_bind (io_ignore (on_world (ko_update_run (ag_ops A) i
            (upd (rec\<lparr>au_model_used := ir_model response, au_tokens_input := ir_tokens_input response,
                   au_tokens_output := ir_tokens_output response, au_duration_ms := ir_duration_ms response,
                   au_response_text := Some (ir_content response), au_last_activity_at := Some now\<rparr>))))) (\<lambda>_.
          io_bind (embed_or_empty A kc task) (\<lambda>emb.
          (case emb of
             Ok e \<Rightarrow> io_ignore (on_world (ko_store_embedding (ag_ops A) i e))
           | _ \<Rightarrow> io_ok ()))))
      | _ \<Rightarrow> io_ok ())"

definition run_result ::
  "file_edit list \<Rightarrow> inference_response \<Rightarrow> (string \<times> agent_run) option \<Rightarrow> agent_result" where
  "run_result edits response run =
     \<lparr>ar_edits = edits, ar_inference_response = response, ar_applied = (edits \<noteq> []), ar_skipped = False,
      ar_run_id = map_option fst run, ar_attempt = 1, ar_escalated_from = None, ar_tool_calls = []\<rparr>"

text \<open>From the response to the result: parse, wrap, screen, apply, record.\<close>

definition parsed_or_wrapped ::
  "('p, 's, 'w) agent \<Rightarrow> file_edit list \<Rightarrow> string \<Rightarrow> string list \<Rightarrow> (('p, 'w) agent_state, file_edit list) io" where
  "parsed_or_wrapped A edits content file_paths =
     (if edits \<noteq> [] then io_ok edits
      else (\<lambda>s. (try_auto_wrap (ag_files A) (as_world s) (trim content) file_paths, s)))"

definition finish_run ::
  "('p, 's, 'w) agent \<Rightarrow> string \<Rightarrow> string list \<Rightarrow> string \<Rightarrow> inference_response \<Rightarrow> (string \<times> agent_run) option
    \<Rightarrow> (('p, 'w) agent_state, agent_result) io" where
  "finish_run A task file_paths agent_id response run =
     (case parse_edits (ir_content response) of
        Panic \<Rightarrow> io_lift Panic
      | Err e \<Rightarrow>
          io_bind (record_end A task response
              (\<lambda>r. r\<lparr>au_status := RsFailed, au_error_message := Some (''Parse error: '' @ e)\<rparr>) run) (\<lambda>_.
          io_ok (run_result [] response run))
      | Ok parsed \<Rightarrow>
          io_bind (parsed_or_wrapped A parsed (ir_content response) file_paths) (\<lambda>wrapped.
          (let edits = validate_edits wrapped in
           io_bind (io_when (edits \<noteq> []) (apply_edits (ag_files A) edits)) (\<lambda>_.
           io_bind (record_end A task response
               (\<lambda>r. r\<lparr>au_status := (if edits = [] then RsSkipped else RsPassed), au_diff := Some (ir_content response)\<rparr>) run) (\<lambda>_.
           io_bind (agent_publish A (AgentFinished (ag_project A) agent_id
               (if edits \<noteq> [] then ''passed'' else ''skipped'') (length edits)
               (ir_tokens_input response) (ir_tokens_output response) (ir_duration_ms response) (ir_model response))) (\<lambda>_.
           io_ok (run_result edits response run)))))))"

definition agent_run_task ::
  "('p, 's, 'w) agent \<Rightarrow> string \<Rightarrow> string list \<Rightarrow> complexity \<Rightarrow> (('p, 'w) agent_state, agent_result) io" where
  "agent_run_task A task file_paths c =
     io_bind (on_world (ko_uuid (ag_ops A))) (\<lambda>agent_id.
     io_bind (consult_knowledge A task) (\<lambda>known.
     (case known of
        Inl skipped \<Rightarrow> io_ok skipped
      | Inr context_from_knowledge \<Rightarrow>
          io_bind (\<lambda>s. (read_files (ag_files A) s file_paths, s)) (\<lambda>files.
          (let prompt = build_prompt task files;
               messages = (if context_from_knowledge = [] then prompt else append_last context_from_knowledge prompt) in
           io_bind (agent_publish A (AgentStarted (ag_project A) agent_id task ''pending'' file_paths)) (\<lambda>_.
           io_bind (agent_now A) (\<lambda>now.
           io_bind (record_start A task file_paths agent_id (ko_messages_json (ag_ops A) messages) now) (\<lambda>run.
           io_bind (\<lambda>s. apfst (map_err (\<lambda>_. ''Inference failed'')) (agent_chat A messages c (tier_options (ag_tier A)) s)) (\<lambda>response.
           finish_run A task file_paths agent_id response run)))))))))"

end
