(* ===== verification/AgentLoop.thy ===== *)
theory AgentLoop
  imports Agent
begin

text \<open>
  The two loops of the agent (\<open>run_with_retry\<close> and \<open>run_with_tools\<close> of
  \<open>crates/agent-core/src/agent.rs\<close>).
\<close>

section \<open>Retries behind the quality gate\<close>

definition preview :: "string \<Rightarrow> string" where
  "preview s = chars_take ATTEMPT_PREVIEW_CHARS s"

definition attempt_of ::
  "nat \<Rightarrow> inference_response \<Rightarrow> string \<Rightarrow> bool option \<Rightarrow> string option \<Rightarrow> string \<Rightarrow> attempt_record" where
  "attempt_of n response prompt quality err now =
     \<lparr>at_attempt = n, at_model = ir_model response, at_prompt_preview = prompt,
      at_response_preview = preview (ir_content response), at_tokens_input = ir_tokens_input response,
      at_tokens_output = ir_tokens_output response, at_duration_ms = ir_duration_ms response,
      at_quality_passed = quality, at_error = err, at_timestamp = now\<rparr>"

definition update_attempts ::
  "('p, 's, 'w) agent \<Rightarrow> string option \<Rightarrow> attempt_record list \<Rightarrow> (('p, 'w) agent_state, unit) io" where
  "update_attempts A run_id attempts =
     (case (ag_knowledge A, run_id) of
        (Some _, Some i) \<Rightarrow>
          io_bind (agent_now A) (\<lambda>now.
          (let target = (if CHR '':'' \<in> set i then i
                 else ''type::thing('' @ [CHR 0x27] @ ''agent_run'' @ [CHR 0x27] @ '', '' @ [CHR 0x27] @ i @ [CHR 0x27] @ '')'') in
           io_ignore (on_world (ko_db_query_raw (ag_ops A)
             (''UPDATE '' @ target @ '' SET attempts = '' @ ko_attempts_json (ag_ops A) attempts
               @ '', last_activity_at = '' @ [CHR 0x27] @ now @ [CHR 0x27])))))
      | _ \<Rightarrow> io_ok ())"

definition gate_errors :: "check_result list \<Rightarrow> string" where
  "gate_errors checks =
     str_join [NL] (map (\<lambda>c. ck_check_name c @ '': '' @ chars_take 300 (ck_stderr c))
       (filter (\<lambda>c. \<not> ck_passed c) checks))"

definition retry_task :: "string \<Rightarrow> string \<Rightarrow> string" where
  "retry_task task error_context =
     task @ [NL, NL] @ ''PREVIOUS ATTEMPT FAILED QUALITY GATE:'' @ [NL] @ error_context @ [NL, NL]
       @ ''Fix the issues from the previous attempt.''"

text \<open>From the third attempt on a larger model is asked for.\<close>

definition retry_options ::
  "('p, 's, 'w) agent \<Rightarrow> complexity \<Rightarrow> string \<Rightarrow> nat \<Rightarrow> agent_result
    \<Rightarrow> (('p, 'w) agent_state, inference_options \<times> agent_result) io" where
  "retry_options A c failed_model n result =
     (if n < 3 then io_ok (default_inference_options, result)
      else
        io_bind (io_try (on_world (io_zoom (ko_router (ag_ops A)) (ko_set_router (ag_ops A))
          (\<lambda>r. escalate_model r failed_model)))) (\<lambda>r.
        (case r of
           Ok bigger \<Rightarrow>
             io_ok (default_inference_options\<lparr>io_preferred_model := Some (mi_name bigger),
                      io_preferred_backend := Some (mi_backend bigger)\<rparr>,
                    result\<lparr>ar_escalated_from := Some failed_model\<rparr>)
         | _ \<Rightarrow> io_ok (default_inference_options, result))))"

definition quality_checks ::
  "('p, 's, 'w) agent \<Rightarrow> string \<Rightarrow> toolchain_config \<Rightarrow> (('p, 'w) agent_state, check_result list) io" where
  "quality_checks A repo_path config =
     on_world (run_all (af_disk (ag_files A)) (ko_elapsed (ag_ops A)) repo_path config)"

fun retry_loop ::
  "('p, 's, 'w) agent \<Rightarrow> string \<Rightarrow> string list \<Rightarrow> complexity \<Rightarrow> string \<Rightarrow> toolchain_config \<Rightarrow> string \<Rightarrow> string
    \<Rightarrow> nat list \<Rightarrow> attempt_record list \<Rightarrow> agent_result \<Rightarrow> (('p, 'w) agent_state, agent_result) io" where
  "retry_loop A task paths c repo_path config errors failed_model [] attempts result = io_ok result"
| "retry_loop A task paths c repo_path config errors failed_model (n # ns) attempts result =
     (let prompt = retry_task task errors in
      io_bind (retry_options A c failed_model n result) (\<lambda>(options, result).
      io_bind (\<lambda>s. (read_files (ag_files A) s paths, s)) (\<lambda>files.
      io_bind (\<lambda>s. apfst (map_err (\<lambda>_. ''Retry inference failed'')) (agent_chat A (build_prompt prompt files) c options s)) (\<lambda>response.
      (case parse_edits (ir_content response) of
         Panic \<Rightarrow> io_lift Panic
       | Err e \<Rightarrow>
           io_bind (agent_now A) (\<lambda>now.
           (let attempts = attempts @ [attempt_of n response (preview prompt) None (Some (''Parse error: '' @ e)) now] in
            io_bind (update_attempts A (ar_run_id result) attempts) (\<lambda>_.
            retry_loop A task paths c repo_path config errors failed_model ns attempts result)))
       | Ok edits \<Rightarrow>
           io_bind (io_when (edits \<noteq> []) (apply_edits (ag_files A) edits)) (\<lambda>_.
           io_bind (quality_checks A repo_path config) (\<lambda>checks.
           io_bind (agent_now A) (\<lambda>now.
           (let passed = list_all ck_passed checks;
                attempts = attempts @ [attempt_of n response (preview prompt) (Some passed) None now];
                result = \<lparr>ar_edits = edits, ar_inference_response = response, ar_applied = True,
                    ar_skipped = False, ar_run_id = ar_run_id result, ar_attempt = n,
                    ar_escalated_from = ar_escalated_from result, ar_tool_calls = []\<rparr> in
            io_bind (update_attempts A (ar_run_id result) attempts) (\<lambda>_.
            if passed then io_ok result
            else retry_loop A task paths c repo_path config errors failed_model ns attempts result))))))))))"

definition run_with_retry ::
  "('p, 's, 'w) agent \<Rightarrow> string \<Rightarrow> string list \<Rightarrow> complexity \<Rightarrow> string \<Rightarrow> nat \<Rightarrow> (('p, 'w) agent_state, agent_result) io" where
  "run_with_retry A task paths c repo_path max_attempts =
     io_bind (agent_run_task A task paths c) (\<lambda>result.
     io_bind (agent_now A) (\<lambda>now.
     (let response = ar_inference_response result; first = (\<lambda>q. attempt_of 1 response [] q None now) in
      if \<not> ar_applied result \<or> ar_skipped result then
        io_bind (update_attempts A (ar_run_id result) [first None]) (\<lambda>_. io_ok result)
      else
        io_bind (io_get (\<lambda>s. detect_toolchain (af_disk (ag_files A)) repo_path (as_world s))) (\<lambda>config.
        io_bind (quality_checks A repo_path config) (\<lambda>checks.
        (let passed = list_all ck_passed checks in
         if passed then io_bind (update_attempts A (ar_run_id result) [first (Some True)]) (\<lambda>_. io_ok result)
         else retry_loop A task paths c repo_path config (gate_errors checks) (ir_model response)
                [2..<Suc max_attempts] [first (Some False)] result))))))"

section \<open>The loop over tool calls\<close>

record tool_loop =
  lo_messages :: "chat_message list"
  lo_tokens_in :: nat
  lo_tokens_out :: nat
  lo_duration :: nat
  lo_edits :: "file_edit list"
  lo_calls :: "tool_call_record list"
  lo_fixes :: nat

text \<open>Counters wrap around as in a release build.\<close>

definition u32_add :: "nat \<Rightarrow> nat \<Rightarrow> nat" where "u32_add a b = (a + b) mod 2 ^ 32"
definition u64_add :: "nat \<Rightarrow> nat \<Rightarrow> nat" where "u64_add a b = (a + b) mod 2 ^ 64"

definition progress ::
  "('p, 's, 'w) agent \<Rightarrow> nat \<Rightarrow> nat \<Rightarrow> tool_loop \<Rightarrow> string \<Rightarrow> string \<Rightarrow> nat \<Rightarrow> (('p, 'w) agent_state, unit) io" where
  "progress A step max_steps lo action result ms =
     on_world (io_put (ko_progress (ag_ops A)
       \<lparr>ap_step = step, ap_max_steps = max_steps, ap_action = action, ap_result = result, ap_duration_ms = ms,
        ap_tokens_in = lo_tokens_in lo, ap_tokens_out = lo_tokens_out lo, ap_edits_count = length (lo_edits lo)\<rparr>))"

definition peer_context :: "agent_message \<Rightarrow> string" where
  "peer_context m = (case am_kind m of
      FileModified path _ \<Rightarrow> ''Peer agent '' @ am_from_agent m @ '' modified file: '' @ path
    | MsgTaskCompleted task_id summary _ \<Rightarrow> ''Task '' @ task_id @ '' completed: '' @ summary
    | MsgContext key val \<Rightarrow> key @ '': '' @ val)"

definition peer_messages :: "agent_message list \<Rightarrow> chat_message list" where
  "peer_messages ms = map (\<lambda>m. msg_user (''PEER UPDATE: '' @ peer_context m)) ms"

definition call_record :: "tool_call \<Rightarrow> tool_result \<Rightarrow> tool_call_record" where
  "call_record call result =
     \<lparr>tcr_tool = tc_name call, tcr_params_preview = chars_take TOOL_RECORD_PREVIEW_CHARS (tc_params_json call),
      tcr_result_preview = chars_take TOOL_RECORD_PREVIEW_CHARS (tx_content result),
      tcr_is_error = tx_is_error result, tcr_duration_ms = tx_duration_ms result\<rparr>"

text \<open>A long result is cut at a byte, not at a character: the slice panics inside a character.\<close>

definition shown_result :: "string \<Rightarrow> string outcome" where
  "shown_result content =
     (if TOOL_RESULT_MAX_CHARS < length content
      then obind (str_slice_to content TOOL_RESULT_MAX_CHARS) (\<lambda>s. Ok (s @ ''...(truncated)''))
      else Ok content)"

text \<open>One action: the loop state, the feedback so far and whether the model is done.\<close>

type_synonym loop_step = "tool_loop \<times> string list \<times> bool"

definition do_tool ::
  "('p, 's, 'w) agent \<Rightarrow> nat \<Rightarrow> nat \<Rightarrow> tool_call \<Rightarrow> loop_step \<Rightarrow> (('p, 'w) agent_state, loop_step) io" where
  "do_tool A step max_steps call = (\<lambda>(lo, feedback, fin).
     io_bind (on_world (ko_tool_execute (ag_ops A) (af_repo_path (ag_files A)) (ag_project A) (tc_name call) (tc_params_json call))) (\<lambda>result.
     (let mark = (if tx_is_error result then ''ERROR'' else ''OK'');
          lo = lo\<lparr>lo_calls := lo_calls lo @ [call_record call result]\<rparr> in
      io_bind (progress A step max_steps lo (''tool:'' @ tc_name call) (mark @ '': '' @ chars_take 100 (tx_content result))
                 (tx_duration_ms result)) (\<lambda>_.
      io_bind (io_lift (shown_result (tx_content result))) (\<lambda>content.
      io_ok (lo, feedback @ [''['' @ tc_name call @ '' '' @ mark @ ''] '' @ content], fin))))))"

definition do_edit ::
  "('p, 's, 'w) agent \<Rightarrow> nat \<Rightarrow> nat \<Rightarrow> file_edit \<Rightarrow> loop_step \<Rightarrow> (('p, 'w) agent_state, loop_step) io" where
  "do_edit A step max_steps edit = (\<lambda>(lo, feedback, fin).
     (let valid = validate_edits [edit]; report = (\<lambda>lo text. progress A step max_steps lo (''edit:'' @ edit_path edit) text 0) in
      if valid = [] then
        io_bind (report lo ''REJECTED'') (\<lambda>_. io_ok (lo, feedback @ [''[edit REJECTED] Invalid file path''], fin))
      else
        io_bind (io_try (apply_edits (ag_files A) valid)) (\<lambda>r.
        (case r of
           Err e \<Rightarrow> io_bind (report lo (''ERROR: '' @ e)) (\<lambda>_. io_ok (lo, feedback @ [''[edit ERROR] '' @ e], fin))
         | _ \<Rightarrow>
             (let lo = lo\<lparr>lo_edits := lo_edits lo @ valid\<rparr> in
              io_bind (report lo ''Applied'') (\<lambda>_. io_ok (lo, feedback @ [''[edit OK] Applied''], fin)))))))"

definition do_sub_agent ::
  "('p, 's, 'w) agent \<Rightarrow> complexity \<Rightarrow> string \<Rightarrow> string list \<Rightarrow> loop_step \<Rightarrow> (('p, 'w) agent_state, loop_step) io" where
  "do_sub_agent A c description files = (\<lambda>(lo, feedback, fin).
     (let feedback = feedback @ [''[sub-agent] '' @ description @ '' on '' @ show_debug_list files] in
      io_bind (io_try (agent_run_task A description files c)) (\<lambda>r.
      (case r of
         Ok sub \<Rightarrow> io_ok (lo\<lparr>lo_edits := lo_edits lo @ ar_edits sub\<rparr>, feedback @ [''[sub-agent OK]''], fin)
       | Err e \<Rightarrow> io_ok (lo, feedback @ [''[sub-agent ERROR] '' @ e], fin)
       | Panic \<Rightarrow> io_lift Panic))))"

definition nudge_text :: "string \<Rightarrow> string" where
  "nudge_text summary =
     ''[DONE] '' @ summary @ [NL, NL] @ ''You haven'' @ [CHR 0x27]
       @ ''t made any edits yet. Please produce <<<EDIT>>> blocks to modify the files. Read the file first if needed, then output the edit.''"

definition compile_text :: "string \<Rightarrow> string" where
  "compile_text err =
     ''[compile check FAILED] Your edits do not compile:'' @ [NL] @ err @ [NL, NL]
       @ ''Fix the cause with <<<EDIT>>> blocks (read the file first if needed), then <<<DONE>>> again.''"

definition do_done ::
  "('p, 's, 'w) agent \<Rightarrow> nat \<Rightarrow> nat \<Rightarrow> string \<Rightarrow> loop_step \<Rightarrow> (('p, 'w) agent_state, loop_step) io" where
  "do_done A step max_steps summary = (\<lambda>(lo, feedback, fin).
     if lo_edits lo = [] \<and> step \<le> 2 then
       io_bind (progress A step max_steps lo ''done:nudged'' summary 0) (\<lambda>_. io_ok (lo, feedback @ [nudge_text summary], fin))
     else
       io_bind (compile_check (ag_files A) (lo_edits lo)) (\<lambda>r.
       (case r of
          Some err \<Rightarrow>
            (if lo_fixes lo < COMPILE_FIX_ATTEMPTS then
               (let lo = lo\<lparr>lo_fixes := lo_fixes lo + 1\<rparr> in
                io_bind (progress A step max_steps lo ''done:compile-fail'' (chars_take 80 err) 0) (\<lambda>_.
                io_ok (lo, feedback @ [compile_text err], fin)))
             else io_bind (progress A step max_steps lo ''done'' summary 0) (\<lambda>_. io_ok (lo, feedback, True)))
        | None \<Rightarrow> io_bind (progress A step max_steps lo ''done'' summary 0) (\<lambda>_. io_ok (lo, feedback, True)))))"

fun do_action ::
  "('p, 's, 'w) agent \<Rightarrow> complexity \<Rightarrow> nat \<Rightarrow> nat \<Rightarrow> agent_action \<Rightarrow> loop_step \<Rightarrow> (('p, 'w) agent_state, loop_step) io" where
  "do_action A c step max_steps (ActTool call) x = do_tool A step max_steps call x"
| "do_action A c step max_steps (ActEdit edit) x = do_edit A step max_steps edit x"
| "do_action A c step max_steps (ActAgent description files _) x = do_sub_agent A c description files x"
| "do_action A c step max_steps (ActDone summary) x = do_done A step max_steps summary x"

fun do_actions ::
  "('p, 's, 'w) agent \<Rightarrow> complexity \<Rightarrow> nat \<Rightarrow> nat \<Rightarrow> agent_action list \<Rightarrow> loop_step \<Rightarrow> (('p, 'w) agent_state, loop_step) io" where
  "do_actions A c step max_steps [] x = io_ok x"
| "do_actions A c step max_steps (a # as) x =
     io_bind (do_action A c step max_steps a x) (do_actions A c step max_steps as)"

text \<open>The edits of a response without actions: plain blocks, else the wrapped text. Their errors are
  dropped, and their paths are not screened.\<close>

definition apply_each :: "('p, 's, 'w) agent \<Rightarrow> file_edit list \<Rightarrow> (('p, 'w) agent_state, unit) io" where
  "apply_each A edits = io_each (\<lambda>e. io_ignore (apply_edits (ag_files A) [e])) edits"

definition loose_edits :: "('p, 's, 'w) agent \<Rightarrow> string \<Rightarrow> string list \<Rightarrow> (('p, 'w) agent_state, file_edit list) io" where
  "loose_edits A content paths =
     io_bind (io_lift (unwrap_or_default (parse_edits content))) (\<lambda>plain.
     if plain \<noteq> [] then io_bind (apply_each A plain) (\<lambda>_. io_ok plain)
     else
       io_bind (\<lambda>s. (try_auto_wrap (ag_files A) (as_world s) content paths, s)) (\<lambda>wrapped.
       io_bind (apply_each A wrapped) (\<lambda>_. io_ok wrapped)))"

definition tool_result_of :: "tool_loop \<Rightarrow> agent_result" where
  "tool_result_of lo =
     \<lparr>ar_edits = lo_edits lo,
      ar_inference_response =
        \<lparr>ir_content = [], ir_model = [], ir_backend = Ollama, ir_tokens_input = lo_tokens_in lo,
         ir_tokens_output = lo_tokens_out lo, ir_cached_tokens = 0, ir_duration_ms = lo_duration lo\<rparr>,
      ar_applied = (lo_edits lo \<noteq> []), ar_skipped = False, ar_run_id = None, ar_attempt = 1,
      ar_escalated_from = None, ar_tool_calls = lo_calls lo\<rparr>"

definition feedback_message :: "string list \<Rightarrow> chat_message" where
  "feedback_message feedback =
     msg_user (''TOOL RESULTS:'' @ [NL] @ str_join [NL] feedback @ [NL, NL]
       @ ''Continue with more <<<TOOL>>> calls, <<<EDIT>>>/<<<CREATE>>> blocks, or <<<DONE>>> if finished.'')"

fun tool_steps ::
  "('p, 's, 'w) agent \<Rightarrow> string \<Rightarrow> string list \<Rightarrow> complexity \<Rightarrow> nat \<Rightarrow> nat list \<Rightarrow> tool_loop
    \<Rightarrow> (('p, 'w) agent_state, agent_result) io" where
  "tool_steps A task paths c max_steps [] lo = io_ok (tool_result_of lo)"
| "tool_steps A task paths c max_steps (step # steps) lo =
     io_bind (on_world (\<lambda>w. let (ms, w') = ko_drain (ag_ops A) w in (Ok ms, w'))) (\<lambda>peers.
     (let msgs = lo_messages lo @ peer_messages peers in
      io_bind (io_try (agent_chat A msgs c (tier_options (ag_tier A)))) (\<lambda>r.
      (case r of
         Ok response \<Rightarrow>
           (let lo = lo\<lparr>lo_messages := msgs, lo_tokens_in := u32_add (lo_tokens_in lo) (ir_tokens_input response),
                  lo_tokens_out := u32_add (lo_tokens_out lo) (ir_tokens_output response),
                  lo_duration := u64_add (lo_duration lo) (ir_duration_ms response)\<rparr>;
                content = trim (ir_content response) in
            io_bind (io_lift (unwrap_or_default (parse_actions content))) (\<lambda>actions.
            if actions = [] then
              io_bind (loose_edits A content paths) (\<lambda>edits.
              if edits \<noteq> [] then io_ok (tool_result_of (lo\<lparr>lo_edits := lo_edits lo @ edits\<rparr>))
              else if step = 1 then agent_run_task A task paths c
              else io_ok (tool_result_of lo))
            else
              (let lo = lo\<lparr>lo_messages := lo_messages lo @ [msg_assistant (ir_content response)]\<rparr> in
               io_bind (do_actions A c step max_steps actions (lo, [], False)) (\<lambda>(lo, feedback, fin).
               if fin then io_ok (tool_result_of lo)
               else tool_steps A task paths c max_steps steps
                      (lo\<lparr>lo_messages := lo_messages lo @ [feedback_message feedback]\<rparr>)))))
       | _ \<Rightarrow> agent_run_task A task paths c))))"

definition run_with_tools ::
  "('p, 's, 'w) agent \<Rightarrow> string \<Rightarrow> string list \<Rightarrow> complexity \<Rightarrow> nat \<Rightarrow> (('p, 'w) agent_state, agent_result) io" where
  "run_with_tools A task paths c max_steps =
     io_bind (\<lambda>s. (read_files (ag_files A) s paths, s)) (\<lambda>files.
     tool_steps A task paths c max_steps [1..<Suc max_steps]
       \<lparr>lo_messages = build_tool_prompt task files (ko_tool_names (ag_ops A)), lo_tokens_in = 0,
        lo_tokens_out = 0, lo_duration = 0, lo_edits = [], lo_calls = [], lo_fixes = 0\<rparr>)"

end
