(* ===== verification/Graph.thy ===== *)
theory Graph
  imports Agent
begin

text \<open>
  The graph executor (\<open>crates/orchestrator/src/graph.rs\<close>): fixed templates in which the model only
  fills in content. State is the world; the router in it is the one of \<open>Router.thy\<close>.
\<close>

definition MAX_FILE_CONTEXT :: nat where "MAX_FILE_CONTEXT = 12000"
definition MAX_ERROR_CONTEXT :: nat where "MAX_ERROR_CONTEXT = 2000"

definition FRONTEND_EXTENSIONS :: "string list" where
  "FRONTEND_EXTENSIONS = [''.tsx'', ''.ts'', ''.jsx'', ''.js'', ''.css'', ''.scss'', ''.html'']"

section \<open>The check command\<close>

text \<open>The walk upwards from a file to the nearest directory with a \<open>package.json\<close>.\<close>

function package_dir :: "'w disk_ops \<Rightarrow> string \<Rightarrow> 'w \<Rightarrow> string option \<Rightarrow> string option" where
  "package_dir D workspace w None = None"
| "package_dir D workspace w (Some d) =
     (if dk_exists D (path_join d ''package.json'') w then path_strip_prefix d workspace
      else if d = workspace then None else package_dir D workspace w (path_parent d))"
  by pat_completeness auto
termination
  by (relation "measure (\<lambda>(_, _, _, d). case d of None \<Rightarrow> 0 | Some d \<Rightarrow> Suc (length d))")
    (auto simp: path_parent_shorter split: option.split)

definition detect_check_command :: "'w disk_ops \<Rightarrow> string \<Rightarrow> string list \<Rightarrow> string option \<Rightarrow> 'w \<Rightarrow> string" where
  "detect_check_command D workspace files crate_name w =
     (let has_frontend = list_ex (\<lambda>f. list_ex (ends_with f) FRONTEND_EXTENSIONS) files;
          has_rust = list_ex (\<lambda>f. ends_with f ''.rs'') files
      in if has_frontend \<and> \<not> has_rust then
           (case List.map_filter (\<lambda>f. package_dir D workspace w (path_parent (path_join workspace f))) files of
              pkg_dir # _ \<Rightarrow> ''cd '' @ pkg_dir @ '' && pnpm check 2>&1 || pnpm exec oxlint src/ 2>&1''
            | [] \<Rightarrow> ''echo OK'')
         else if has_rust then
           (case crate_name of Some name \<Rightarrow> ''cargo check -p '' @ name | None \<Rightarrow> ''cargo check'')
         else ''echo OK'')"

text \<open>The package name in the nearest manifest that has one; an unreadable manifest ends the search.\<close>

definition crate_of_manifest :: "string \<Rightarrow> string option" where
  "crate_of_manifest content =
     map_option (\<lambda>name. trim_matches (\<lambda>c. c = DQ) (trim name))
       (case List.map_filter (strip_prefix ''name = '') (str_lines content) of [] \<Rightarrow> None | n # _ \<Rightarrow> Some n)"

function crate_search :: "'w disk_ops \<Rightarrow> string \<Rightarrow> 'w \<Rightarrow> string option \<Rightarrow> string option" where
  "crate_search D repo w None = None"
| "crate_search D repo w (Some d) =
     (let cargo = path_join d ''Cargo.toml'';
          up = (if d = repo then None else crate_search D repo w (path_parent d)) in
      if dk_exists D cargo w then
        (case dk_read D cargo w of
           Ok content \<Rightarrow> (case crate_of_manifest content of Some n \<Rightarrow> Some n | None \<Rightarrow> up)
         | _ \<Rightarrow> None)
      else up)"
  by pat_completeness auto
termination
  by (relation "measure (\<lambda>(_, _, _, d). case d of None \<Rightarrow> 0 | Some d \<Rightarrow> Suc (length d))")
    (auto simp: path_parent_shorter split: option.split)

definition detect_crate :: "'w disk_ops \<Rightarrow> string \<Rightarrow> string \<Rightarrow> 'w \<Rightarrow> string option" where
  "detect_crate D repo file_path w = crate_search D repo w (path_parent (path_join repo file_path))"

definition doc_rewrite_truncated :: "string \<Rightarrow> string \<Rightarrow> bool" where
  "doc_rewrite_truncated original rewritten \<longleftrightarrow>
     (let old_count = length (str_lines original); new_count = length (str_lines rewritten) in
      20 \<le> old_count \<and> new_count * 100 < old_count * 60)"

section \<open>Files and checks\<close>

record ('s, 'w) graph_executor =
  gx_ops :: "('s, 'w) agent_ops"
  gx_disk :: "'w disk_ops"
  gx_workspace :: string
  gx_crate_name :: "string option"
  gx_max_retries :: nat
  gx_preferred_model :: "string option"

record graph_result =
  gr_response :: inference_response
  gr_edits :: "file_edit list"
  gr_escalated :: bool

definition graph_new ::
  "('s, 'w) agent_ops \<Rightarrow> 'w disk_ops \<Rightarrow> string \<Rightarrow> string option \<Rightarrow> nat \<Rightarrow> ('s, 'w) graph_executor" where
  "graph_new K D workspace crate_name max_retries =
     \<lparr>gx_ops = K, gx_disk = D, gx_workspace = workspace, gx_crate_name = crate_name,
      gx_max_retries = max_retries, gx_preferred_model = None\<rparr>"

definition graph_with_model :: "string \<Rightarrow> ('s, 'w) graph_executor \<Rightarrow> ('s, 'w) graph_executor" where
  "graph_with_model model G = G\<lparr>gx_preferred_model := Some model\<rparr>"

definition gx_path :: "('s, 'w) graph_executor \<Rightarrow> string \<Rightarrow> string" where
  "gx_path G path = path_join (gx_workspace G) path"

definition gx_read :: "('s, 'w) graph_executor \<Rightarrow> string \<Rightarrow> ('w, string) io" where
  "gx_read G path = (\<lambda>w. (map_err (\<lambda>_. ''Failed to read '' @ path) (dk_read (gx_disk G) (gx_path G path) w), w))"

definition gx_read_or_empty :: "('s, 'w) graph_executor \<Rightarrow> string \<Rightarrow> ('w, string) io" where
  "gx_read_or_empty G path =
     io_bind (io_try (gx_read G path)) (\<lambda>r. case r of Ok c \<Rightarrow> io_ok c | _ \<Rightarrow> io_ok [])"

definition gx_write :: "('s, 'w) graph_executor \<Rightarrow> string \<Rightarrow> string \<Rightarrow> ('w, unit) io" where
  "gx_write G path content =
     (let full = gx_path G path in
      io_bind (case path_parent full of
          Some parent \<Rightarrow> io_ignore (dk_create_dir_all (gx_disk G) parent)
        | None \<Rightarrow> io_ok ()) (\<lambda>_ w.
      apfst (map_err (\<lambda>_. ''Failed to write '' @ path)) (dk_write (gx_disk G) full content w)))"

fun gx_apply_edit :: "('s, 'w) graph_executor \<Rightarrow> file_edit \<Rightarrow> ('w, unit) io" where
  "gx_apply_edit G (Edit path old new) =
     io_bind (gx_read G path) (\<lambda>content.
     (case fuzzy_replace content old new of
        Some updated \<Rightarrow> gx_write G path updated
      | None \<Rightarrow> io_lift (Err (''edit OLD block not found in '' @ path))))"
| "gx_apply_edit G (Create path content) = gx_write G path content"
| "gx_apply_edit G (Delete path) = io_ignore (dk_remove_file (gx_disk G) (gx_path G path))"

definition gx_apply_edits :: "('s, 'w) graph_executor \<Rightarrow> file_edit list \<Rightarrow> ('w, unit) io" where
  "gx_apply_edits G edits = io_each (gx_apply_edit G) edits"

definition apply_response :: "('s, 'w) graph_executor \<Rightarrow> string \<Rightarrow> ('w, file_edit list) io" where
  "apply_response G response =
     io_bind (io_lift (unwrap_or_default (parse_edits response))) (\<lambda>edits.
     io_bind (gx_apply_edits G edits) (\<lambda>_. io_ok edits))"

text \<open>The output of a failed check is cut to its last bytes, which panics inside a character.\<close>

definition gx_run_check :: "('s, 'w) graph_executor \<Rightarrow> string list \<Rightarrow> ('w, string) io" where
  "gx_run_check G files = (\<lambda>w.
     (let cmd = detect_check_command (gx_disk G) (gx_workspace G) files (gx_crate_name G) w in
      io_bind (\<lambda>w. apfst (map_err (\<lambda>_. ''Failed to run check''))
                      (dk_command (gx_disk G) ''sh'' [''-c'', cmd] (gx_workspace G) w)) (\<lambda>output.
      if co_success output then io_ok ''OK''
      else
        (let combined = co_stderr output @ co_stdout output in
         io_bind (io_lift (str_slice combined (length combined - MAX_ERROR_CONTEXT) (length combined))) (\<lambda>msg.
         io_lift (Err msg)))) w))"

section \<open>Prompts\<close>

definition call_llm :: "('s, 'w) graph_executor \<Rightarrow> string \<Rightarrow> ('w, inference_response) io" where
  "call_llm G prompt = (\<lambda>w. apfst (map_err (\<lambda>_. ''Graph LLM call failed''))
     (io_zoom (ko_router (gx_ops G)) (ko_set_router (gx_ops G))
       (\<lambda>r. router_chat r [msg_user prompt] Simple
          (default_inference_options\<lparr>io_preferred_model := gx_preferred_model G, io_preferred_backend := Some Ollama\<rparr>)) w))"

definition edit_prompt :: "string \<Rightarrow> string \<Rightarrow> string \<Rightarrow> string" where
  "edit_prompt task path content =
     ''Edit '' @ path @ '':'' @ [NL, NL] @ chars_take MAX_FILE_CONTEXT content @ [NL, NL] @ ''Task: '' @ task @ [NL, NL]
       @ ''Output ONLY:'' @ [NL] @ ''<<<EDIT '' @ path @ [NL] @ ''--- OLD'' @ [NL] @ ''exact lines to replace'' @ [NL]
       @ ''--- NEW'' @ [NL] @ ''replacement'' @ [NL] @ ''>>>''"

definition create_prompt :: "string \<Rightarrow> string \<Rightarrow> string" where
  "create_prompt task path =
     ''Create new file '' @ path @ ''.'' @ [NL, NL] @ ''Task: '' @ task @ [NL, NL] @ ''Output ONLY:'' @ [NL]
       @ ''<<<CREATE '' @ path @ [NL] @ ''file contents'' @ [NL] @ ''>>>''"

definition doc_prompt :: "string \<Rightarrow> string \<Rightarrow> string \<Rightarrow> string" where
  "doc_prompt task path content =
     ''Current content of '' @ path @ '':'' @ [NL, NL] @ chars_take MAX_FILE_CONTEXT content @ [NL, NL]
       @ ''Task: '' @ task @ [NL, NL]
       @ ''Output the COMPLETE updated file with the task applied '' @ [CHR 0xE2, CHR 0x80, CHR 0x94]
       @ '' the ENTIRE file (keep all unrelated content verbatim), not a diff, not only the changed lines. One block only:''
       @ [NL] @ ''<<<CREATE '' @ path @ [NL] @ ''<entire updated file>'' @ [NL] @ ''>>>''"

definition files_context :: "(string \<times> string) list \<Rightarrow> string" where
  "files_context files =
     concat (map (\<lambda>(path, content). ''=== '' @ path @ '' ==='' @ [NL]
       @ chars_take (MAX_FILE_CONTEXT div max (length files) 1) content @ [NL, NL]) files)"

definition refactor_prompt :: "string \<Rightarrow> (string \<times> string) list \<Rightarrow> string" where
  "refactor_prompt task files =
     files_context files @ ''Task: '' @ task @ [NL, NL] @ ''Output ALL edits as <<<EDIT>>> or <<<CREATE>>> blocks:''"

definition fix_prompt :: "string \<Rightarrow> string \<Rightarrow> string \<Rightarrow> string \<Rightarrow> string" where
  "fix_prompt task path content err =
     ''Fix '' @ path @ '':'' @ [NL, NL] @ chars_take MAX_FILE_CONTEXT content @ [NL, NL] @ ''Build error:'' @ [NL] @ err
       @ [NL, NL] @ ''Original task: '' @ task @ [NL, NL] @ ''Output ONLY the fix:'' @ [NL] @ ''<<<EDIT '' @ path @ [NL]
       @ ''--- OLD'' @ [NL] @ ''--- NEW'' @ [NL] @ ''>>>''"

definition fix_multi_prompt :: "string \<Rightarrow> (string \<times> string) list \<Rightarrow> string \<Rightarrow> string" where
  "fix_multi_prompt task files err =
     files_context files @ ''Build error:'' @ [NL] @ err @ [NL, NL] @ ''Original task: '' @ task @ [NL, NL]
       @ ''Fix with <<<EDIT>>> blocks:''"

section \<open>The templates\<close>

text \<open>Attempts \<open>n\<close>, \<open>n + 1\<close>, ... up to the last: a failed check asks for a fix, the last one escalates.\<close>

fun fix_loop ::
  "('s, 'w) graph_executor \<Rightarrow> string list \<Rightarrow> (string \<Rightarrow> ('w, file_edit list) io) \<Rightarrow> inference_response
    \<Rightarrow> nat \<Rightarrow> file_edit list \<Rightarrow> ('w, graph_result) io" where
  "fix_loop G files fix_step initial 0 edits =
     io_ok \<lparr>gr_response = initial, gr_edits = edits, gr_escalated = True\<rparr>"
| "fix_loop G files fix_step initial (Suc left) edits =
     io_bind (io_try (gx_run_check G files)) (\<lambda>r.
     (case r of
        Ok _ \<Rightarrow> io_ok \<lparr>gr_response = initial, gr_edits = edits, gr_escalated = False\<rparr>
      | Err e \<Rightarrow>
          (if 0 < left then
             io_bind (fix_step e) (\<lambda>fix_edits. fix_loop G files fix_step initial left (edits @ fix_edits))
           else io_ok \<lparr>gr_response = initial, gr_edits = edits, gr_escalated = True\<rparr>)
      | Panic \<Rightarrow> io_lift Panic))"

definition check_and_fix ::
  "('s, 'w) graph_executor \<Rightarrow> string \<Rightarrow> string \<Rightarrow> inference_response \<Rightarrow> file_edit list \<Rightarrow> ('w, graph_result) io" where
  "check_and_fix G task path initial edits =
     fix_loop G [path]
       (\<lambda>e. io_bind (gx_read_or_empty G path) (\<lambda>content.
             io_bind (call_llm G (fix_prompt task path content e)) (\<lambda>fix_response.
             apply_response G (ir_content fix_response))))
       initial (gx_max_retries G) edits"

fun read_present :: "('s, 'w) graph_executor \<Rightarrow> string list \<Rightarrow> ('w, (string \<times> string) list) io" where
  "read_present G [] = io_ok []"
| "read_present G (p # ps) =
     io_bind (io_try (gx_read G p)) (\<lambda>r.
     io_bind (read_present G ps) (\<lambda>rest.
     io_ok (case r of Ok c \<Rightarrow> (p, c) # rest | _ \<Rightarrow> rest)))"

definition check_and_fix_multi ::
  "('s, 'w) graph_executor \<Rightarrow> string \<Rightarrow> string list \<Rightarrow> inference_response \<Rightarrow> file_edit list \<Rightarrow> ('w, graph_result) io" where
  "check_and_fix_multi G task paths initial edits =
     fix_loop G paths
       (\<lambda>e. io_bind (read_present G paths) (\<lambda>files.
             io_bind (call_llm G (fix_multi_prompt task files e)) (\<lambda>fix_response.
             apply_response G (ir_content fix_response))))
       initial (gx_max_retries G) edits"

definition execute_edit :: "('s, 'w) graph_executor \<Rightarrow> string \<Rightarrow> string \<Rightarrow> ('w, graph_result) io" where
  "execute_edit G task path =
     io_bind (gx_read G path) (\<lambda>content.
     io_bind (call_llm G (edit_prompt task path content)) (\<lambda>response.
     io_bind (apply_response G (ir_content response)) (\<lambda>edits.
     check_and_fix G task path response edits)))"

definition execute_create :: "('s, 'w) graph_executor \<Rightarrow> string \<Rightarrow> string \<Rightarrow> ('w, graph_result) io" where
  "execute_create G task path =
     io_bind (call_llm G (create_prompt task path)) (\<lambda>response.
     io_bind (apply_response G (ir_content response)) (\<lambda>edits.
     check_and_fix G task path response edits))"

definition execute_refactor :: "('s, 'w) graph_executor \<Rightarrow> string \<Rightarrow> string list \<Rightarrow> ('w, graph_result) io" where
  "execute_refactor G task paths =
     io_bind (read_present G paths) (\<lambda>files.
     io_bind (call_llm G (refactor_prompt task files)) (\<lambda>response.
     io_bind (apply_response G (ir_content response)) (\<lambda>edits.
     check_and_fix_multi G task paths response edits)))"

fun truncated_create :: "string \<Rightarrow> file_edit \<Rightarrow> bool" where
  "truncated_create content (Create _ new) = doc_rewrite_truncated content new"
| "truncated_create content _ = False"

definition truncation_error :: "string \<Rightarrow> string \<Rightarrow> file_edit \<Rightarrow> string" where
  "truncation_error path content e =
     ''doc rewrite of '' @ path @ '' looks truncated ('' @ show_nat (length (str_lines content)) @ '' ''
       @ [CHR 0xE2, CHR 0x86, CHR 0x92] @ '' ''
       @ show_nat (length (str_lines (case e of Create _ new \<Rightarrow> new | _ \<Rightarrow> []))) @ '' lines) ''
       @ [CHR 0xE2, CHR 0x80, CHR 0x94] @ '' rejecting to avoid landing a partial file''"

definition execute_doc :: "('s, 'w) graph_executor \<Rightarrow> string \<Rightarrow> string \<Rightarrow> ('w, graph_result) io" where
  "execute_doc G task path =
     io_bind (gx_read_or_empty G path) (\<lambda>content.
     io_bind (call_llm G (doc_prompt task path content)) (\<lambda>response.
     io_bind (io_lift (unwrap_or_default (parse_edits (ir_content response)))) (\<lambda>edits.
     (case List.find (truncated_create content) edits of
        Some e \<Rightarrow> io_lift (Err (truncation_error path content e))
      | None \<Rightarrow>
          io_bind (gx_apply_edits G edits) (\<lambda>_.
          io_ok \<lparr>gr_response = response, gr_edits = edits, gr_escalated = False\<rparr>)))))"

end
