(* ===== verification/Hooks.thy ===== *)
theory Hooks
  imports WfEngine
begin

text \<open>
  Lifecycle hooks (\<open>crates/orchestrator/src/hooks.rs\<close>): an ordered set of hooks, each a record of
  operations on the world, fired one after another. A hook cannot fail.
\<close>

record run_start_ctx =
  rx_run_id :: string
  rx_project :: string
  rx_goal :: string
  rx_planned_task_count :: nat

record task_start_ctx =
  sx_run_id :: string
  sx_project :: string
  sx_task_id :: string
  sx_description :: string
  sx_files :: "string list"

record task_complete_ctx =
  cx_run_id :: string
  cx_project :: string
  cx_task_id :: string
  cx_description :: string
  cx_files :: "string list"
  cx_applied :: bool
  cx_duration_ms :: nat
  cx_tokens_in :: nat
  cx_tokens_out :: nat
  cx_model :: string

record task_fail_ctx =
  fx_run_id :: string
  fx_project :: string
  fx_task_id :: string
  fx_description :: string
  fx_error :: string

record run_complete_ctx =
  ex_run_id :: string
  ex_project :: string
  ex_goal :: string
  ex_quality_passed :: bool
  ex_tasks_passed :: nat
  ex_tasks_failed :: nat
  ex_total_duration_ms :: nat
  ex_retrieved_pattern_ids :: "string list"
  ex_plan_summary :: string
  ex_diff :: string

record 'w execution_hook =
  hk_name :: string
  hk_run_start :: "run_start_ctx \<Rightarrow> 'w \<Rightarrow> 'w"
  hk_task_start :: "task_start_ctx \<Rightarrow> 'w \<Rightarrow> 'w"
  hk_task_complete :: "task_complete_ctx \<Rightarrow> 'w \<Rightarrow> 'w"
  hk_task_fail :: "task_fail_ctx \<Rightarrow> 'w \<Rightarrow> 'w"
  hk_run_complete :: "run_complete_ctx \<Rightarrow> 'w \<Rightarrow> 'w"

type_synonym 'w hook_set = "'w execution_hook list"

definition hook_register :: "'w execution_hook \<Rightarrow> 'w hook_set \<Rightarrow> 'w hook_set" where
  "hook_register h H = H @ [h]"

definition hook_is_empty :: "'w hook_set \<Rightarrow> bool" where
  "hook_is_empty H \<longleftrightarrow> H = []"

definition emit_run_start :: "'w hook_set \<Rightarrow> run_start_ctx \<Rightarrow> 'w \<Rightarrow> 'w" where
  "emit_run_start H c w = fold (\<lambda>h. hk_run_start h c) H w"

definition emit_task_start :: "'w hook_set \<Rightarrow> task_start_ctx \<Rightarrow> 'w \<Rightarrow> 'w" where
  "emit_task_start H c w = fold (\<lambda>h. hk_task_start h c) H w"

definition emit_task_complete :: "'w hook_set \<Rightarrow> task_complete_ctx \<Rightarrow> 'w \<Rightarrow> 'w" where
  "emit_task_complete H c w = fold (\<lambda>h. hk_task_complete h c) H w"

definition emit_task_fail :: "'w hook_set \<Rightarrow> task_fail_ctx \<Rightarrow> 'w \<Rightarrow> 'w" where
  "emit_task_fail H c w = fold (\<lambda>h. hk_task_fail h c) H w"

definition emit_run_complete :: "'w hook_set \<Rightarrow> run_complete_ctx \<Rightarrow> 'w \<Rightarrow> 'w" where
  "emit_run_complete H c w = fold (\<lambda>h. hk_run_complete h c) H w"

text \<open>\<open>fire_task_hooks\<close> of the runner: the event of a finished task.\<close>

definition fire_task_hooks :: "'w hook_set \<Rightarrow> string option \<Rightarrow> string \<Rightarrow> task_result \<Rightarrow> 'w \<Rightarrow> 'w" where
  "fire_task_hooks H parent_run_id project r w =
     (if hook_is_empty H then w
      else
        (let run_id = (case parent_run_id of Some i \<Rightarrow> i | None \<Rightarrow> []); t = tr_task r in
         case (tr_agent_result r, tr_error r) of
           (Some ar, _) \<Rightarrow>
             emit_task_complete H
               \<lparr>cx_run_id = run_id, cx_project = project, cx_task_id = t_id t, cx_description = t_description t,
                cx_files = t_files t, cx_applied = ar_applied ar,
                cx_duration_ms = ir_duration_ms (ar_inference_response ar),
                cx_tokens_in = ir_tokens_input (ar_inference_response ar),
                cx_tokens_out = ir_tokens_output (ar_inference_response ar),
                cx_model = ir_model (ar_inference_response ar)\<rparr> w
         | (None, Some err) \<Rightarrow>
             emit_task_fail H
               \<lparr>fx_run_id = run_id, fx_project = project, fx_task_id = t_id t, fx_description = t_description t,
                fx_error = err\<rparr> w
         | (None, None) \<Rightarrow> w))"

end
