(* ===== verification/MemTree.thy ===== *)
theory MemTree
  imports Disk
begin

text \<open>
  The workspaces of the agents (\<open>crates/orchestrator/src/memtree.rs\<close>): one shallow clone of the
  repository per task, beside the clone of the run.
\<close>

record mem_tree =
  mt_repo_path :: string
  mt_base_dir :: string
  mt_workspaces :: "(string \<times> string) list"

definition WORKSPACE_BASE :: string where
  "WORKSPACE_BASE = ''/tmp/alpha-swarm/workspaces''"

definition mem_tree_new :: "string \<Rightarrow> mem_tree" where
  "mem_tree_new repo_path =
     \<lparr>mt_repo_path = repo_path,
      mt_base_dir = (case path_parent repo_path of Some p \<Rightarrow> path_join p ''workspaces'' | None \<Rightarrow> WORKSPACE_BASE),
      mt_workspaces = []\<rparr>"

text \<open>Removal of a stale workspace, the clone, and best-effort preparation of the shared target
  directory. The state is the manager and the world.\<close>

definition mt_world :: "('w, 'a) io \<Rightarrow> (mem_tree \<times> 'w, 'a) io" where
  "mt_world = io_zoom snd (\<lambda>w (m, _). (m, w))"

definition mt_create :: "'w disk_ops \<Rightarrow> ('w \<Rightarrow> string \<Rightarrow> string \<Rightarrow> 'w) \<Rightarrow> string \<Rightarrow> (mem_tree \<times> 'w, string) io" where
  "mt_create D symlink agent_id = (\<lambda>(m, w).
     let work_dir = path_join (mt_base_dir m) agent_id in
     io_bind (\<lambda>s. apfst (map_err (\<lambda>_. ''Failed to create workspace base dir''))
                     (mt_world (dk_create_dir_all D (mt_base_dir m)) s)) (\<lambda>_.
     io_bind (io_get (\<lambda>s. dk_exists D work_dir (snd s))) (\<lambda>stale.
     io_bind (io_when stale (io_ignore (mt_world (dk_command D ''rm'' [''-rf'', work_dir] [])))) (\<lambda>_.
     io_bind (\<lambda>s. apfst (map_err (\<lambda>_. ''Failed to run git clone''))
                     (mt_world (dk_command D ''git''
                        [''clone'', ''--depth'', ''1'', ''--single-branch'', mt_repo_path m, work_dir] []) s)) (\<lambda>out.
     if \<not> co_success out then io_lift (Err (''git clone failed: '' @ co_stderr out))
     else
       (let shared = ''/tmp/alpha-swarm/shared-target''; target = path_join work_dir ''target'' in
        io_bind (io_ignore (mt_world (dk_create_dir_all D shared))) (\<lambda>_.
        io_bind (io_get (\<lambda>s. dk_exists D target (snd s))) (\<lambda>has_target.
        io_bind (io_when (\<not> has_target) (mt_world (io_put (\<lambda>w. symlink w shared target)))) (\<lambda>_.
        io_bind (io_ignore (mt_world (dk_command D ''git'' [''rev-parse'', ''HEAD''] work_dir))) (\<lambda>_.
        io_bind (io_put (\<lambda>(m, w). (m\<lparr>mt_workspaces := mt_workspaces m @ [(agent_id, work_dir)]\<rparr>, w))) (\<lambda>_.
        io_ok work_dir)))))))))) (m, w))"

definition workspace_path :: "mem_tree \<Rightarrow> string \<Rightarrow> string option" where
  "workspace_path m agent_id = map_option snd (List.find (\<lambda>(a, _). a = agent_id) (mt_workspaces m))"

definition mt_cleanup :: "'w disk_ops \<Rightarrow> (mem_tree \<times> 'w, unit) io" where
  "mt_cleanup D = (\<lambda>(m, w).
     io_bind (io_each (\<lambda>(_, dir). io_ignore (mt_world (dk_remove_dir_all D dir))) (mt_workspaces m)) (\<lambda>_.
     io_put (\<lambda>(m, w). (m\<lparr>mt_workspaces := []\<rparr>, w))) (m, w))"

end
