(* ===== verification/Runner.thy ===== *)
theory Runner
  imports AgentLoop Graph Hooks MemTree
begin

text \<open>
  Execution of a planned task list on disk (\<open>execute_tasks\<close> and \<open>run_planned\<close> of
  \<open>crates/orchestrator/src/runner.rs\<close>): waves of tasks whose dependencies are done, each task in a
  clone of its own, then the capture of the changed files. The agents of a wave run one after another
  here, in the order they are spawned; \<open>sw_join\<close> is the order in which their results arrive.
\<close>

section \<open>The runner\<close>

record ('s, 'w) swarm_runner =
  sw_ops :: "('s, 'w) agent_ops"
  sw_disk :: "'w disk_ops"
  sw_symlink :: "'w \<Rightarrow> string \<Rightarrow> string \<Rightarrow> 'w"
  sw_libs :: vg_libs
  sw_hooks :: "'w hook_set"
  sw_control :: "('w \<Rightarrow> control_state) option"
  sw_join :: "(sub_task \<times> agent_result outcome) list \<Rightarrow> (sub_task \<times> agent_result outcome) list"
  sw_repo_path :: string
  sw_project :: string
  sw_parent_run_id :: "string option"
  sw_max_concurrent :: nat
  sw_has_store :: bool
  sw_embed_model :: string
  sw_config_tier :: tier_config
  sw_planner_tier :: tier_config
  sw_agent_tier :: tier_config

definition with_max_concurrent :: "nat \<Rightarrow> ('s, 'w) swarm_runner \<Rightarrow> ('s, 'w) swarm_runner" where
  "with_max_concurrent n R = R\<lparr>sw_max_concurrent := max n 1\<rparr>"

definition MAX_TOOL_STEPS :: nat where "MAX_TOOL_STEPS = 10"
definition SKIP_THRESHOLD :: f32_bits where "SKIP_THRESHOLD = 0x3F666666"

record 'w run_state =
  rs_completed :: "(string, task_result) omap"
  rs_summaries :: "(string, string) omap"
  rs_applied :: bool
  rs_halted :: bool
  rs_mem :: mem_tree
  rs_world :: 'w

definition rs_io :: "('w, 'a) io \<Rightarrow> ('w run_state, 'a) io" where
  "rs_io = io_zoom rs_world (\<lambda>w s. s\<lparr>rs_world := w\<rparr>)"

definition rs_mem_io :: "(mem_tree \<times> 'w, 'a) io \<Rightarrow> ('w run_state, 'a) io" where
  "rs_mem_io = io_zoom (\<lambda>s. (rs_mem s, rs_world s)) (\<lambda>(m, w) s. s\<lparr>rs_mem := m, rs_world := w\<rparr>)"

section \<open>Preparing a wave\<close>

definition task_map :: "sub_task list \<Rightarrow> string \<Rightarrow> sub_task option" where
  "task_map tasks = map_of (rev (map (\<lambda>t. (t_id t, t)) tasks))"

definition runner_ready :: "sub_task list \<Rightarrow> (string, task_result) omap \<Rightarrow> string list" where
  "runner_ready tasks completed =
     map t_id (filter (\<lambda>t. list_all (\<lambda>d. om_has completed d) (t_depends_on t))
       (filter (\<lambda>t. \<not> om_has completed (t_id t)) tasks))"

text \<open>The files a direct dependency was planned to touch are copied from its workspace.\<close>

definition copy_file :: "'w disk_ops \<Rightarrow> string \<Rightarrow> string \<Rightarrow> string \<Rightarrow> ('w, unit) io" where
  "copy_file D dep_ws ws_path file = (\<lambda>w.
     (let src = path_join dep_ws file; dst = path_join ws_path file in
      io_when (dk_exists D src w)
        (io_bind (case path_parent dst of Some p \<Rightarrow> io_ignore (dk_create_dir_all D p) | None \<Rightarrow> io_ok ()) (\<lambda>_.
         io_ignore (dk_copy D src dst)))) w)"

definition copy_dependency :: "('s, 'w) swarm_runner \<Rightarrow> string \<Rightarrow> string \<Rightarrow> ('w run_state, unit) io" where
  "copy_dependency R ws_path dep = (\<lambda>s.
     (case (workspace_path (rs_mem s) dep, om_get (rs_completed s) dep) of
        (Some dep_ws, Some r) \<Rightarrow> rs_io (io_each (copy_file (sw_disk R) dep_ws ws_path) (t_files (tr_task r))) s
      | _ \<Rightarrow> (Ok (), s)))"

definition augmented :: "(string, string) omap \<Rightarrow> sub_task \<Rightarrow> string" where
  "augmented summaries task =
     t_description task
     @ concat (map (\<lambda>d. case om_get summaries d of
           Some summary \<Rightarrow> [NL, NL] @ ''PREVIOUS TASK '' @ d @ '' OUTPUT:'' @ [NL] @ summary
         | None \<Rightarrow> []) (t_depends_on task))"

definition prepare_task ::
  "('s, 'w) swarm_runner \<Rightarrow> sub_task list \<Rightarrow> string \<Rightarrow> ('w run_state, sub_task \<times> string \<times> string) io" where
  "prepare_task R tasks task_id =
     (case task_map tasks task_id of
        None \<Rightarrow> io_lift Panic
      | Some task \<Rightarrow>
          io_bind (\<lambda>s. apfst (map_err (\<lambda>_. ''Failed to create workspace for '' @ t_id task))
                          (rs_mem_io (mt_create (sw_disk R) (sw_symlink R) (t_id task)) s)) (\<lambda>ws_path.
          io_bind (io_each (copy_dependency R ws_path) (t_depends_on task)) (\<lambda>_.
          io_bind (io_get rs_summaries) (\<lambda>summaries.
          io_ok (task, ws_path, augmented summaries task)))))"

fun prepare_wave ::
  "('s, 'w) swarm_runner \<Rightarrow> sub_task list \<Rightarrow> string list \<Rightarrow> ('w run_state, (sub_task \<times> string \<times> string) list) io" where
  "prepare_wave R tasks [] = io_ok []"
| "prepare_wave R tasks (i # is) =
     io_bind (prepare_task R tasks i) (\<lambda>p. io_bind (prepare_wave R tasks is) (\<lambda>ps. io_ok (p # ps)))"

section \<open>Running the tasks of a wave\<close>

text \<open>A finished task: its summary for the dependents, the hooks, its result.\<close>

definition complete_task ::
  "('s, 'w) swarm_runner \<Rightarrow> task_result \<Rightarrow> string \<Rightarrow> ('w run_state, unit) io" where
  "complete_task R result summary = io_put (\<lambda>s.
     s\<lparr>rs_summaries := om_insert (t_id (tr_task result)) summary (rs_summaries s),
       rs_world := fire_task_hooks (sw_hooks R) (sw_parent_run_id R) (sw_project R) result (rs_world s),
       rs_completed := om_insert (t_id (tr_task result)) result (rs_completed s)\<rparr>)"

definition mark_applied :: "bool \<Rightarrow> ('w run_state, unit) io" where
  "mark_applied b = io_put (\<lambda>s. s\<lparr>rs_applied := rs_applied s \<or> b\<rparr>)"

definition applied_result :: "file_edit list \<Rightarrow> inference_response \<Rightarrow> agent_result" where
  "applied_result edits response =
     \<lparr>ar_edits = edits, ar_inference_response = response, ar_applied = True, ar_skipped = False,
      ar_run_id = None, ar_attempt = 1, ar_escalated_from = None, ar_tool_calls = []\<rparr>"

definition direct_response :: inference_response where
  "direct_response =
     \<lparr>ir_content = ''Direct edit applied'', ir_model = ''direct'', ir_backend = Ollama, ir_tokens_input = 0,
      ir_tokens_output = 0, ir_cached_tokens = 0, ir_duration_ms = 0\<rparr>"

text \<open>A direct edit needs no model; it reports whether the file was changed.\<close>

definition direct_edit_io :: "'w disk_ops \<Rightarrow> string \<Rightarrow> direct_edit \<Rightarrow> ('w, bool) io" where
  "direct_edit_io D wt_path edit = (\<lambda>w.
     (let full = path_join wt_path (de_path edit) in
      case dk_read D full w of
        Ok content \<Rightarrow>
          (case fuzzy_replace content (de_old edit) (de_new edit) of
             Some updated \<Rightarrow> io_bind (io_try (dk_write D full updated)) (\<lambda>r. io_ok (r = Ok ())) w
           | None \<Rightarrow> (Ok False, w))
      | Err _ \<Rightarrow> (Ok False, w)
      | Panic \<Rightarrow> (Panic, w)))"

definition direct_summary :: "direct_edit \<Rightarrow> string" where
  "direct_summary edit =
     ''Direct edit: '' @ de_path edit @ '' ('' @ chars_take 30 (de_old edit) @ [CHR 0xE2, CHR 0x86, CHR 0x92]
       @ chars_take 30 (de_new edit) @ '')''"

definition try_direct :: "('s, 'w) swarm_runner \<Rightarrow> sub_task \<Rightarrow> string \<Rightarrow> ('w run_state, bool) io" where
  "try_direct R task wt_path =
     (case t_edit task of
        None \<Rightarrow> io_ok False
      | Some edit \<Rightarrow>
          io_bind (rs_io (direct_edit_io (sw_disk R) wt_path edit)) (\<lambda>applied.
          if applied then
            io_bind (mark_applied True) (\<lambda>_.
            io_bind (complete_task R
                \<lparr>tr_task = task, tr_agent_result = Some (applied_result [] direct_response), tr_error = None\<rparr>
                (direct_summary edit)) (\<lambda>_. io_ok True))
          else io_ok False))"

definition DOC_EXTENSIONS :: "string list" where
  "DOC_EXTENSIONS = [''.md'', ''.markdown'', ''.toml'', ''.yaml'', ''.yml'', ''.txt'', ''.rst'']"

definition effective_template :: "sub_task \<Rightarrow> string \<Rightarrow> string" where
  "effective_template task tmpl =
     (let first_file = (case t_files task of [] \<Rightarrow> [] | f # _ \<Rightarrow> f) in
      if list_ex (ends_with first_file) DOC_EXTENSIONS then ''doc'' else tmpl)"

definition exec_model :: "('s, 'w) swarm_runner \<Rightarrow> sub_task \<Rightarrow> string \<Rightarrow> string" where
  "exec_model R task tmpl =
     (if tmpl = ''refactor'' \<or> tmpl = ''doc'' \<or> t_complexity task = Complex then tc_model (sw_agent_tier R)
      else tc_model (sw_planner_tier R))"

definition graph_io ::
  "('s, 'w) swarm_runner \<Rightarrow> sub_task \<Rightarrow> string \<Rightarrow> string \<Rightarrow> string \<Rightarrow> ('w, graph_result) io" where
  "graph_io R task wt_path desc tmpl = (\<lambda>w.
     (let first_file = (case t_files task of [] \<Rightarrow> [] | f # _ \<Rightarrow> f);
          G = graph_with_model (exec_model R task tmpl)
                (graph_new (sw_ops R) (sw_disk R) wt_path (detect_crate (sw_disk R) wt_path first_file w) 3) in
      (if tmpl = ''edit'' then execute_edit G desc first_file
       else if tmpl = ''create'' then execute_create G desc first_file
       else if tmpl = ''refactor'' then execute_refactor G desc (t_files task)
       else if tmpl = ''doc'' then execute_doc G desc first_file
       else io_lift (Err (''Unknown template: '' @ tmpl))) w))"

definition stamp_model :: "string \<Rightarrow> inference_response \<Rightarrow> inference_response" where
  "stamp_model model response = (if ir_model response = [] then response\<lparr>ir_model := model\<rparr> else response)"

definition try_graph :: "('s, 'w) swarm_runner \<Rightarrow> sub_task \<Rightarrow> string \<Rightarrow> string \<Rightarrow> ('w run_state, bool) io" where
  "try_graph R task wt_path desc =
     (case t_template task of
        None \<Rightarrow> io_ok False
      | Some tmpl \<Rightarrow>
          (let eff = effective_template task tmpl in
           io_bind (io_try (rs_io (graph_io R task wt_path desc eff))) (\<lambda>r.
           (case r of
              Ok gr \<Rightarrow>
                (if gr_escalated gr then io_ok False
                 else
                   io_bind (mark_applied True) (\<lambda>_.
                   io_bind (complete_task R
                       \<lparr>tr_task = task,
                        tr_agent_result = Some (applied_result (gr_edits gr) (stamp_model (exec_model R task eff) (gr_response gr))),
                        tr_error = None\<rparr>
                       (''Graph:'' @ tmpl @ '' edits:'' @ show_nat (length (gr_edits gr)))) (\<lambda>_. io_ok True)))
            | _ \<Rightarrow> io_ok False))))"

text \<open>The tasks that neither path finished are left to agents.\<close>

fun fast_paths ::
  "('s, 'w) swarm_runner \<Rightarrow> (sub_task \<times> string \<times> string) list \<Rightarrow> ('w run_state, (sub_task \<times> string \<times> string) list) io" where
  "fast_paths R [] = io_ok []"
| "fast_paths R ((task, wt_path, desc) # ps) =
     io_bind (try_direct R task wt_path) (\<lambda>direct.
     io_bind (if direct then io_ok True else try_graph R task wt_path desc) (\<lambda>fin.
     io_bind (fast_paths R ps) (\<lambda>rest. io_ok (if fin then rest else (task, wt_path, desc) # rest))))"

text \<open>An agent of the wave. It has no file provider, and its inbox is empty.\<close>

definition no_provider :: "unit file_provider" where
  "no_provider = \<lparr>fp_read = (\<lambda>_ _. Err []), fp_write = (\<lambda>_ _ _. (Err [], ())), fp_exists = (\<lambda>_ _. False), fp_list = (\<lambda>_. [])\<rparr>"

definition wave_agent :: "('s, 'w) swarm_runner \<Rightarrow> string \<Rightarrow> (unit, 's, 'w) agent" where
  "wave_agent R wt_path =
     \<lparr>ag_files = \<lparr>af_provider = no_provider, af_disk = sw_disk R, af_repo_path = wt_path\<rparr>,
      ag_ops = (sw_ops R)\<lparr>ko_drain := (\<lambda>w. ([], w))\<rparr>,
      ag_project = (if sw_has_store R then sw_project R else ''default''),
      ag_knowledge = (if sw_has_store R then
          Some \<lparr>kc_embed_model = sw_embed_model R, kc_project = sw_project R, kc_skip_threshold = SKIP_THRESHOLD,
                kc_parent_run_id = sw_parent_run_id R\<rparr> else None),
      ag_events = False, ag_tier = sw_config_tier R\<rparr>"

definition spawn_agent :: "('s, 'w) swarm_runner \<Rightarrow> sub_task \<Rightarrow> string \<Rightarrow> string \<Rightarrow> 'w \<Rightarrow> agent_result outcome \<times> 'w" where
  "spawn_agent R task wt_path desc w =
     (let (r, s) = run_with_tools (wave_agent R wt_path) desc (t_files task) (t_complexity task) MAX_TOOL_STEPS
            \<lparr>as_provider = None, as_world = w\<rparr>
      in (r, as_world s))"

fun spawn_all ::
  "('s, 'w) swarm_runner \<Rightarrow> (sub_task \<times> string \<times> string) list \<Rightarrow> 'w \<Rightarrow> (sub_task \<times> agent_result outcome) list \<times> 'w" where
  "spawn_all R [] w = ([], w)"
| "spawn_all R ((task, wt_path, desc) # ps) w =
     (let (r, w) = spawn_agent R task wt_path desc w; (rest, w) = spawn_all R ps w in ((task, r) # rest, w))"

definition agent_summary :: "sub_task \<Rightarrow> agent_result \<Rightarrow> string" where
  "agent_summary task ar =
     ''Modified files: '' @ show_debug_list (t_files task) @ ''. Edits: '' @ show_nat (length (ar_edits ar))
       @ ''. Response: '' @ chars_take 200 (ir_content (ar_inference_response ar))"

text \<open>The result of a spawned agent; a panic leaves no trace in the state.\<close>

fun collect_result :: "('s, 'w) swarm_runner \<Rightarrow> sub_task \<times> agent_result outcome \<Rightarrow> ('w run_state, unit) io" where
  "collect_result R (task, Ok ar) =
     io_bind (mark_applied (ar_applied ar)) (\<lambda>_.
     complete_task R \<lparr>tr_task = task, tr_agent_result = Some ar, tr_error = None\<rparr> (agent_summary task ar))"
| "collect_result R (task, Err e) =
     complete_task R \<lparr>tr_task = task, tr_agent_result = None, tr_error = Some e\<rparr> (''FAILED: '' @ e)"
| "collect_result R (task, Panic) = io_ok ()"

definition run_wave :: "('s, 'w) swarm_runner \<Rightarrow> sub_task list \<Rightarrow> string list \<Rightarrow> ('w run_state, unit) io" where
  "run_wave R tasks ready =
     io_bind (prepare_wave R tasks (take (min (length ready) (sw_max_concurrent R)) ready)) (\<lambda>prepared.
     io_bind (fast_paths R prepared) (\<lambda>to_spawn.
     io_bind (rs_io (\<lambda>w. apfst Ok (spawn_all R to_spawn w))) (\<lambda>outcomes.
     io_each (collect_result R) (sw_join R outcomes))))"

section \<open>The waves\<close>

text \<open>\<open>None\<close> is out of fuel: the loop is not known to end, as an agent that panics is started again.\<close>

fun run_waves ::
  "('s, 'w) swarm_runner \<Rightarrow> sub_task list \<Rightarrow> nat \<Rightarrow> 'w run_state \<Rightarrow> (unit outcome \<times> 'w run_state) option" where
  "run_waves R tasks 0 s = None"
| "run_waves R tasks (Suc fuel) s =
     (if length tasks \<le> length (rs_completed s) then Some (Ok (), s)
      else if (case sw_control R of Some read \<Rightarrow> read (rs_world s) \<noteq> Continue | None \<Rightarrow> False) then
        Some (Ok (), s\<lparr>rs_halted := True\<rparr>)
      else
        (let ready = runner_ready tasks (rs_completed s) in
         if ready = [] then Some (Ok (), s)
         else (case run_wave R tasks ready s of
             (Ok _, s) \<Rightarrow> run_waves R tasks fuel s
           | r \<Rightarrow> Some r)))"

section \<open>Capture\<close>

fun take_results :: "sub_task list \<Rightarrow> (string, task_result) omap \<Rightarrow> task_result list" where
  "take_results [] completed = []"
| "take_results (t # ts) completed =
     (case om_get completed (t_id t) of
        Some r \<Rightarrow> r # take_results ts (om_remove (t_id t) completed)
      | None \<Rightarrow> take_results ts completed)"

record capture_state =
  cs_files :: "(string \<times> string) list"
  cs_workspace :: virt_workspace
  cs_store :: memory_blob_store

definition output_lines :: "('w, command_output) io \<Rightarrow> ('w, string list) io" where
  "output_lines m = io_bind (io_try m) (\<lambda>r. io_ok (case r of Ok out \<Rightarrow> str_lines (co_stdout out) | _ \<Rightarrow> []))"

definition read_or_default :: "'w disk_ops \<Rightarrow> string \<Rightarrow> 'w \<Rightarrow> string" where
  "read_or_default D path w = (case dk_read D path w of Ok c \<Rightarrow> c | _ \<Rightarrow> [])"

definition capture_file ::
  "('s, 'w) swarm_runner \<Rightarrow> bool \<Rightarrow> string \<Rightarrow> 'w \<Rightarrow> string \<Rightarrow> capture_state \<Rightarrow> capture_state" where
  "capture_file R toml_changed ws w path c =
     (if starts_with path ''target/'' \<or> (ends_with path ''Cargo.lock'' \<and> \<not> toml_changed) then c
      else
        (let S = memory_ops (content_hash (sw_libs R));
             orig = read_or_default (sw_disk R) (path_join (sw_repo_path R) path) w;
             (vw, st) = load_file S (cs_workspace c) (cs_store c) path orig;
             c = c\<lparr>cs_workspace := vw, cs_store := st\<rparr> in
         case dk_read (sw_disk R) (path_join ws path) w of
           Ok modified \<Rightarrow>
             (if modified \<noteq> orig then
                (let (vw, st) = write_file S vw st path modified in
                 c\<lparr>cs_files := cs_files c @ [(path, modified)], cs_workspace := vw, cs_store := st\<rparr>)
              else c)
         | _ \<Rightarrow> c))"

definition was_applied :: "task_result \<Rightarrow> bool" where
  "was_applied r \<longleftrightarrow> (case tr_agent_result r of Some ar \<Rightarrow> ar_applied ar | None \<Rightarrow> False)"

definition capture_result ::
  "('s, 'w) swarm_runner \<Rightarrow> mem_tree \<Rightarrow> task_result \<Rightarrow> capture_state \<Rightarrow> ('w, capture_state) io" where
  "capture_result R m r c =
     (if was_applied r then
        (case workspace_path m (t_id (tr_task r)) of
           None \<Rightarrow> io_ok c
         | Some ws \<Rightarrow>
             io_bind (output_lines (dk_command (sw_disk R) ''git'' [''diff'', ''--name-only'', ''HEAD''] ws)) (\<lambda>changed.
             io_bind (output_lines (dk_command (sw_disk R) ''git'' [''ls-files'', ''--others'', ''--exclude-standard''] ws)) (\<lambda>new_files.
             (let files = changed @ new_files; toml_changed = list_ex (\<lambda>f. ends_with f ''Cargo.toml'') files in
              (\<lambda>w. (Ok (fold (capture_file R toml_changed ws w) files c), w))))))
      else io_ok c)"

fun capture_results ::
  "('s, 'w) swarm_runner \<Rightarrow> mem_tree \<Rightarrow> task_result list \<Rightarrow> capture_state \<Rightarrow> ('w, capture_state) io" where
  "capture_results R m [] c = io_ok c"
| "capture_results R m (r # rs) c = io_bind (capture_result R m r c) (capture_results R m rs)"

definition capture_new :: capture_state where
  "capture_new = \<lparr>cs_files = [], cs_workspace = workspace_new, cs_store = memory_new\<rparr>"

section \<open>A whole run\<close>

definition run_state_new :: "('s, 'w) swarm_runner \<Rightarrow> 'w \<Rightarrow> 'w run_state" where
  "run_state_new R w =
     \<lparr>rs_completed = [], rs_summaries = [], rs_applied = False, rs_halted = False,
      rs_mem = mem_tree_new (sw_repo_path R), rs_world = w\<rparr>"

definition diff_of :: "('s, 'w) swarm_runner \<Rightarrow> capture_state \<Rightarrow> string option" where
  "diff_of R c =
     (let d = (if has_changes (cs_workspace c) then
                 workspace_diff_text (sw_libs R) (memory_ops (content_hash (sw_libs R))) (cs_workspace c) (cs_store c)
               else []) in
      if d = [] then None else Some d)"

text \<open>Everything after the waves. Every branch of the quality gate of the source answers \<open>true\<close> and
  does nothing, so it takes no time here.\<close>

definition after_waves ::
  "('s, 'w) swarm_runner \<Rightarrow> string \<Rightarrow> sub_task list \<Rightarrow> nat \<Rightarrow> nat \<Rightarrow> string list \<Rightarrow> 'w \<Rightarrow> 'w run_state
    \<Rightarrow> swarm_result outcome \<times> 'w" where
  "after_waves R goal tasks rag_ms planning_ms pattern_ids w0 s =
     (let results = take_results tasks (rs_completed s) in
      io_bind (if rs_applied s then capture_results R (rs_mem s) results capture_new else io_ok capture_new) (\<lambda>c.
      io_bind (\<lambda>w. let (_, m, w) = mt_cleanup (sw_disk R) (rs_mem s, w) in (Ok (), w)) (\<lambda>_ w.
      (let ms = ko_elapsed (sw_ops R) w0 w in
       (Ok \<lparr>sr_goal = goal, sr_tasks = tasks, sr_results = results, sr_merged_diff = diff_of R c,
           sr_quality_passed = True, sr_total_duration_ms = ms, sr_modified_files = cs_files c,
           sr_phase_timings = \<lparr>pt_rag_ms = rag_ms, pt_planning_ms = planning_ms, pt_agent_execution_ms = ms,
             pt_quality_gate_ms = 0, pt_total_ms = ms\<rparr>,
           sr_halted = rs_halted s, sr_retrieved_pattern_ids = pattern_ids\<rparr>, w)))) (rs_world s))"

definition execute_tasks ::
  "('s, 'w) swarm_runner \<Rightarrow> nat \<Rightarrow> string \<Rightarrow> sub_task list \<Rightarrow> nat \<Rightarrow> nat \<Rightarrow> string list \<Rightarrow> 'w
    \<Rightarrow> (swarm_result outcome \<times> 'w) option" where
  "execute_tasks R fuel goal tasks rag_ms planning_ms pattern_ids w0 =
     (let w1 = emit_run_start (sw_hooks R)
            \<lparr>rx_run_id = (case sw_parent_run_id R of Some i \<Rightarrow> i | None \<Rightarrow> []), rx_project = sw_project R,
             rx_goal = goal, rx_planned_task_count = length tasks\<rparr> w0 in
      map_option (\<lambda>(r, s).
        (case r of
           Ok _ \<Rightarrow> after_waves R goal tasks rag_ms planning_ms pattern_ids w0 s
         | Err e \<Rightarrow> (Err e, snd (snd (mt_cleanup (sw_disk R) (rs_mem s, rs_world s))))
         | Panic \<Rightarrow> (Panic, snd (snd (mt_cleanup (sw_disk R) (rs_mem s, rs_world s))))))
        (run_waves R tasks fuel (run_state_new R w1)))"

definition run_planned ::
  "('s, 'w) swarm_runner \<Rightarrow> nat \<Rightarrow> string \<Rightarrow> sub_task list \<Rightarrow> 'w \<Rightarrow> (swarm_result outcome \<times> 'w) option" where
  "run_planned R fuel goal tasks w = execute_tasks R fuel goal tasks 0 0 [] w"

end
