(* ===== verification/AgentFacts.thy ===== *)
theory AgentFacts
  imports AgentLoop VirtFacts WfEngine
begin

text \<open>
  What an agent may do to files: the paths it is screened for, the edits as changes of a map from paths
  to contents, and what the loops do with results they cannot use.
\<close>

section \<open>The screen of the one-shot run\<close>

text \<open>The provider is sound and reads \<open>r\<close> at \<open>q\<close>.\<close>

definition reads_same :: "vg_libs \<Rightarrow> string \<Rightarrow> string outcome \<Rightarrow> (virt_file_provider, 'w) agent_state \<Rightarrow> bool" where
  "reads_same L q r s \<longleftrightarrow> (\<exists>p. as_provider s = Some p \<and> vp_ok L p \<and> vp_read_file L p q = r)"

lemma keeps_on_world [keeps]: "io_keeps (reads_same L q r) (on_world m)"
  by (simp add: io_keeps_def io_spec_def on_world_def io_zoom_def reads_same_def split: prod.split)

lemma keeps_publish [keeps]: "io_keeps (reads_same L q r) (agent_publish A e)"
  unfolding agent_publish_def agent_now_def by (intro keeps)







lemma keeps_record_end [keeps]: "io_keeps (reads_same L q r) (record_end A task resp u run)"
  unfolding record_end_def agent_now_def embed_or_empty_def
  by (cases "ag_knowledge A"; cases run) (auto intro!: keeps split: outcome.split)

lemma keeps_record_start [keeps]: "io_keeps (reads_same L q r) (record_start A task fs i j n)"
  unfolding record_start_def agent_now_def by (intro keeps)

lemma keeps_consult [keeps]: "io_keeps (reads_same L q r) (consult_knowledge A task)"
  unfolding consult_knowledge_def embed_or_empty_def Let_def by (auto intro!: keeps split: option.split outcome.split)








section \<open>Edits as changes of a map\<close>

text \<open>The files of a provider as a partial map, and an edit on such maps: \<open>None\<close> is an error. A deletion
  leaves the provider as it is; it only ever reaches the disk.\<close>

definition provider_map :: "vg_libs \<Rightarrow> virt_file_provider \<Rightarrow> string \<Rightarrow> string option" where
  "provider_map L p = (\<lambda>q. case vp_read_file L p q of Ok c \<Rightarrow> Some c | _ \<Rightarrow> None)"

fun edit_map :: "(string \<Rightarrow> string option) \<Rightarrow> file_edit \<Rightarrow> (string \<Rightarrow> string option) option" where
  "edit_map m (Edit path old new) =
     (case m path of
        None \<Rightarrow> None
      | Some content \<Rightarrow> Some (case edit_content content old new of None \<Rightarrow> m | Some c \<Rightarrow> m(path \<mapsto> c)))"
| "edit_map m (Create path content) = Some (m(path \<mapsto> content))"
| "edit_map m (Delete path) = Some m"

text \<open>The edits up to the first that fails, and whether none did.\<close>

fun edits_map :: "(string \<Rightarrow> string option) \<Rightarrow> file_edit list \<Rightarrow> bool \<times> (string \<Rightarrow> string option)" where
  "edits_map m [] = (True, m)"
| "edits_map m (e # es) = (case edit_map m e of None \<Rightarrow> (False, m) | Some m' \<Rightarrow> edits_map m' es)"

text \<open>What an edit writes, the provider after it, and that no content written collides with a blob.\<close>

fun written :: "vg_libs \<Rightarrow> virt_file_provider \<Rightarrow> file_edit \<Rightarrow> (string \<times> string) option" where
  "written L p (Edit path old new) =
     (case vp_read_file L p path of Ok c \<Rightarrow> map_option (Pair path) (edit_content c old new) | _ \<Rightarrow> None)"
| "written L p (Create path content) = Some (path, content)"
| "written L p (Delete path) = None"

definition after_edit :: "vg_libs \<Rightarrow> virt_file_provider \<Rightarrow> file_edit \<Rightarrow> virt_file_provider" where
  "after_edit L p e = (case written L p e of None \<Rightarrow> p | Some (path, c) \<Rightarrow> snd (vp_write_file L p path c))"

fun edits_fit :: "vg_libs \<Rightarrow> virt_file_provider \<Rightarrow> file_edit list \<Rightarrow> bool" where
  "edits_fit L p [] = True"
| "edits_fit L p (e # es) =
     ((case written L p e of None \<Rightarrow> True | Some (path, c) \<Rightarrow> vp_fits L p c) \<and> edits_fit L (after_edit L p e) es)"

definition deletes_ok :: "'w disk_ops \<Rightarrow> bool" where
  "deletes_ok D \<longleftrightarrow> (\<forall>path w. fst (dk_remove_file D path w) = Ok ())"

lemma vp_read_no_panic: "vp_read_file L p q \<noteq> Panic"
  by (simp add: vp_read_file_def split: option.split)

lemma provider_map_write:
  assumes "vp_ok L p" "vp_fits L p c"
  shows "provider_map L (snd (vp_write_file L p path c)) = (provider_map L p)(path \<mapsto> c)"
    "vp_ok L (snd (vp_write_file L p path c))"
  using vp.read_back[OF assms, of path] vp.read_other[OF assms, where path = path] vp.write_ok[OF assms(1), of path c]
  by (auto simp: provider_map_def virt_provider_def fun_eq_iff)

lemma provider_write_virt:
  "af_provider F = virt_provider L \<Longrightarrow>
    provider_write F p path c s = (Ok (), s\<lparr>as_provider := Some (snd (vp_write_file L p path c))\<rparr>)"
  by (simp add: provider_write_def virt_provider_def vp_write_split)

lemma apply_edit_step:
  assumes F: "af_provider F = virt_provider L" "deletes_ok (af_disk F)" and s: "as_provider s = Some p" "vp_ok L p"
    and fit: "case written L p e of None \<Rightarrow> True | Some (path, c) \<Rightarrow> vp_fits L p c"
  shows "case edit_map (provider_map L p) e of
      None \<Rightarrow> \<exists>err. apply_edit F e s = (Err err, s)
    | Some m \<Rightarrow> \<exists>s'. apply_edit F e s = (Ok (), s') \<and> as_provider s' = Some (after_edit L p e)
        \<and> provider_map L (after_edit L p e) = m \<and> vp_ok L (after_edit L p e)"
proof (cases e)
  case (Edit path old new)
  show ?thesis
  proof (cases "vp_read_file L p path")
    case (Ok c)
    then have m: "provider_map L p path = Some c"
      by (simp add: provider_map_def)
    have r: "read_for_edit F path s = (Ok c, s)"
      using F(1) s(1) Ok by (simp add: read_for_edit_def virt_provider_def)
    show ?thesis
    proof (cases "edit_content c old new")
      case None
      then show ?thesis
        using Edit Ok m r s by (simp add: after_edit_def io_bind_def io_ok_def)
    next
      case (Some u)
      then have "vp_fits L p u"
        using fit Edit Ok by simp
      from provider_map_write[OF s(2) this, of path] show ?thesis
        using Edit Ok m r s Some by (simp add: after_edit_def io_bind_def io_get_def provider_write_virt[OF F(1)])
    qed
  qed (use Edit F s vp_read_no_panic in \<open>auto simp: provider_map_def read_for_edit_def io_defs virt_provider_def\<close>)
next
  case (Create path c)
  then show ?thesis
    using F s fit provider_map_write[OF s(2), of c path] provider_write_virt[OF F(1)]
    by (simp add: after_edit_def io_defs)
next
  case (Delete path)
  obtain w' where "dk_remove_file (af_disk F) (af_path F path) (as_world s) = (Ok (), w')"
    using F(2) unfolding deletes_ok_def by (metis prod.collapse)
  then have "\<exists>s'. apply_edit F (Delete path) s = (Ok (), s') \<and> as_provider s' = as_provider s"
    by (simp add: io_defs on_world_def)
  then show ?thesis
    using Delete s by (simp add: after_edit_def)
qed

text \<open>C22: applying edits through the workspace provider implements the edits on a map from paths to
  contents: they take effect in order up to the first edit of a file that does not exist, which is the
  only failure; an edit whose old text is not found changes nothing and is no failure; a deletion does
  not remove the file.\<close>

theorem provider_edits_refine:
  assumes "af_provider F = virt_provider L" "deletes_ok (af_disk F)" "as_provider s = Some p" "vp_ok L p"
    "edits_fit L p es" "apply_edits F es s = (r, s')"
  shows "\<exists>p'. as_provider s' = Some p' \<and> provider_map L p' = snd (edits_map (provider_map L p) es)
    \<and> (r = Ok () \<longleftrightarrow> fst (edits_map (provider_map L p) es)) \<and> r \<noteq> Panic"
  using assms(3-6)
proof (induction es arbitrary: s p)
  case Nil
  then show ?case by (auto simp: apply_edits_def io_ok_def)
next
  case (Cons e es)
  note step = apply_edit_step[OF assms(1,2) Cons.prems(1,2), of e]
  show ?case
  proof (cases "edit_map (provider_map L p) e")
    case None
    then show ?thesis
      using step Cons.prems by (auto simp: apply_edits_def io_bind_def)
  next
    case (Some m)
    then obtain s1 where s1: "apply_edit F e s = (Ok (), s1)" "as_provider s1 = Some (after_edit L p e)"
      "provider_map L (after_edit L p e) = m" "vp_ok L (after_edit L p e)"
      using step Cons.prems(3) by auto
    then show ?thesis
      using Cons.IH[OF s1(2,4)] Cons.prems Some by (simp add: apply_edits_def io_bind_def)
  qed
qed

section \<open>Results that look applied\<close>

text \<open>C23: an edit whose old text is not in the file is skipped, yet the run reports that it was applied:
  with such an edit as the only one of the response, nothing changes, the result says \<open>applied\<close>, and
  the workflow engine marks the step of the task as passed.\<close>

theorem unmatched_edit_reported_applied:
  assumes "af_provider (ag_files A) = virt_provider L" "as_provider s = Some p" "vp_read_file L p path = Ok content"
    and "parse_edits (ir_content response) = Ok [Edit path old new]" "is_valid_file_path path"
    and "edit_content content old new = None" "ag_knowledge A = None" "\<not> ag_events A"
  shows "\<exists>res. finish_run A task files agent_id response run s = (Ok res, s) \<and> ar_applied res
    \<and> s_state (absorb_result \<lparr>tr_task = t, tr_agent_result = Some res, tr_error = None\<rparr> step) = StPassed"
proof -
  have "apply_edits (ag_files A) [Edit path old new] s = (Ok (), s)"
    using assms(1-3,6) by (simp add: apply_edits_def read_for_edit_def virt_provider_def io_bind_def io_ok_def)
  then have "finish_run A task files agent_id response run s = (Ok (run_result [Edit path old new] response run), s)"
    using assms(4,5,7,8) by (simp add: finish_run_def parsed_or_wrapped_def validate_edits_def record_end_def
        agent_publish_def io_bind_def io_when_def io_ok_def Let_def)
  then show ?thesis
    by (simp add: run_result_def absorb_result_def)
qed

text \<open>C24: outside the one-shot run there is no screen: when a response of the tool loop has no action but
  a plain block that creates a file, the file is written whatever its path.\<close>

theorem loose_edits_unscreened:
  assumes "af_provider (ag_files A) = virt_provider L" "as_provider s = Some p" "vp_ok L p" "vp_fits L p content"
    and "parse_edits text = Ok [Create path content]"
  shows "\<exists>s' p'. loose_edits A text files s = (Ok [Create path content], s') \<and> as_provider s' = Some p'
    \<and> vp_read_file L p' path = Ok content"
proof -
  let ?p = "snd (vp_write_file L p path content)"
  have "apply_edits (ag_files A) [Create path content] s = (Ok (), s\<lparr>as_provider := Some ?p\<rparr>)"
    using assms(1,2) by (simp add: apply_edits_def io_bind_def io_ok_def io_get_def provider_write_virt)
  then have "loose_edits A text files s = (Ok [Create path content], s\<lparr>as_provider := Some ?p\<rparr>)"
    using assms(5) by (simp add: loose_edits_def unwrap_or_default_def apply_each_def io_defs)
  moreover have "vp_read_file L ?p path = Ok content"
    using vp.read_back[OF assms(3,4), of path] by (simp add: virt_provider_def)
  ultimately show ?thesis
    by simp
qed

section \<open>Examples\<close>

definition ex_answer :: "string \<Rightarrow> inference_response" where
  "ex_answer content = \<lparr>ir_content = content, ir_model = ''m'', ir_backend = Ollama, ir_tokens_input = 1,
     ir_tokens_output = 1, ir_cached_tokens = 0, ir_duration_ms = 1\<rparr>"

text \<open>A host that gives one answer, tools with one result, a disk that is empty, and no knowledge base.\<close>

definition ex_host :: "string \<Rightarrow> unit router" where
  "ex_host content = add_backend (router_new ())
     \<lparr>ib_kind = Ollama, ib_chat = (\<lambda>m msgs opts w. (Ok (ex_answer content), w)), ib_list_models = (\<lambda>w. (Ok [], w)),
      ib_health_check = (\<lambda>w. (Ok (), w))\<rparr>"

definition ex_disk :: "'w disk_ops" where
  "ex_disk = \<lparr>dk_exists = (\<lambda>_ _. False), dk_read = (\<lambda>_ _. Err ''not found''), dk_write = (\<lambda>_ _. io_ok ()),
     dk_create_dir_all = (\<lambda>_. io_ok ()), dk_remove_file = (\<lambda>_. io_ok ()), dk_remove_dir_all = (\<lambda>_. io_ok ()),
     dk_copy = (\<lambda>_ _. io_ok ()),
     dk_command = (\<lambda>_ _ _. io_ok \<lparr>co_code = Some 0, co_success = True, co_stdout = [], co_stderr = []\<rparr>)\<rparr>"

definition ex_agent_ops :: "('w \<Rightarrow> 's router) \<Rightarrow> ('s router \<Rightarrow> 'w \<Rightarrow> 'w) \<Rightarrow> string \<Rightarrow> ('s, 'w) agent_ops" where
  "ex_agent_ops get put tool_output =
     \<lparr>ko_router = get, ko_set_router = put, ko_uuid = io_ok ''agent'', ko_embed = (\<lambda>_ _. io_ok []),
      ko_task_already_done = (\<lambda>_ _ _. io_ok None), ko_find_past_errors = (\<lambda>_ _ _. io_ok []),
      ko_running_agents = (\<lambda>_. io_ok []), ko_store_run = (\<lambda>_. io_ok ''run''), ko_update_run = (\<lambda>_ _. io_ok ()),
      ko_store_embedding = (\<lambda>_ _. io_ok ()), ko_db_query_raw = (\<lambda>_. io_ok ()), ko_publish = (\<lambda>_. io_ok ()),
      ko_now = (\<lambda>_. ''now''), ko_elapsed = (\<lambda>_ _. 0), ko_messages_json = (\<lambda>_. []), ko_attempts_json = (\<lambda>_. []),
      ko_tool_names = [''read_file''],
      ko_tool_execute = (\<lambda>_ _ _ _. io_ok \<lparr>tx_content = tool_output, tx_is_error = False, tx_duration_ms = 0\<rparr>),
      ko_drain = (\<lambda>w. ([], w)), ko_progress = (\<lambda>_ w. w)\<rparr>"

definition ex_tier :: tier_config where
  "ex_tier = \<lparr>tc_model = ''m'', tc_context_window = 8192, tc_time_limit_secs = 0, tc_token_limit = 0,
     tc_max_iterations = 0, tc_max_backoff_secs = 0, tc_max_context_files = 10\<rparr>"

definition ex_agent :: "(virt_file_provider, unit, unit router) agent" where
  "ex_agent = \<lparr>ag_files = \<lparr>af_provider = virt_provider ex_libs, af_disk = ex_disk, af_repo_path = ''/repo''\<rparr>,
     ag_ops = ex_agent_ops id (\<lambda>r _. r) [], ag_project = ''p'', ag_knowledge = None, ag_events = False, ag_tier = ex_tier\<rparr>"

definition ex_files :: virt_file_provider where
  "ex_files = vp_load_file ex_libs vp_new ''src/a.rs'' ''fn a() {}''"

definition ex_state :: "string \<Rightarrow> (virt_file_provider, unit router) agent_state" where
  "ex_state content = \<lparr>as_provider = Some ex_files, as_world = ex_host content\<rparr>"

lemma ex_files_ok: "vp_ok ex_libs ex_files"
proof -
  have "ws_reach ex_libs (vp_workspace ex_files) (vp_store ex_files)"
    unfolding ex_files_def vp_load_file_def vp_new_def
    by (auto intro!: reach_load[OF reach_new] split: prod.split)
  then show ?thesis
    using ws_reach_ok by (fastforce simp: vp_ok_def ws_ok_def sound_tree_def)
qed

lemma ex_files_read: "vp_read_file ex_libs ex_files ''src/a.rs'' = Ok ''fn a() {}''"
  by code_simp





lemma vp_fits_code [code]: "vp_fits L p c \<longleftrightarrow> utf8_valid c
    \<and> (case memory_get (vp_store p) (content_hash L c) of None \<Rightarrow> True | Some b \<Rightarrow> b = c)"
  by (simp add: vp_fits_def split: option.split)

lemma provider_edits_refine_witness:
  "\<exists>p' e. as_provider (snd (apply_edits (ag_files ex_agent)
       [Create ''src/b.rs'' ''y'', Edit ''src/b.rs'' ''y'' ''z'', Delete ''src/a.rs'', Edit ''none.rs'' ''a'' ''b''] (ex_state []))) = Some p'
     \<and> provider_map ex_libs p' ''src/b.rs'' = Some ''z'' \<and> provider_map ex_libs p' ''src/a.rs'' = Some ''fn a() {}''"
proof -
  let ?es = "[Create ''src/b.rs'' ''y'', Edit ''src/b.rs'' ''y'' ''z'', Delete ''src/a.rs'', Edit ''none.rs'' ''a'' ''b'']"
  obtain r s' where run: "apply_edits (ag_files ex_agent) ?es (ex_state []) = (r, s')"
    by fastforce
  have fit: "edits_fit ex_libs ex_files ?es"
    by code_simp
  have m: "snd (edits_map (provider_map ex_libs ex_files) ?es) ''src/b.rs'' = Some ''z''"
    "snd (edits_map (provider_map ex_libs ex_files) ?es) ''src/a.rs'' = Some ''fn a() {}''"
    by code_simp+
  have F: "af_provider (ag_files ex_agent) = virt_provider ex_libs" "deletes_ok (af_disk (ag_files ex_agent))"
    "as_provider (ex_state []) = Some ex_files"
    by (simp_all add: ex_agent_def ex_state_def deletes_ok_def ex_disk_def io_ok_def)
  obtain p' where "as_provider s' = Some p'" "provider_map ex_libs p' = snd (edits_map (provider_map ex_libs ex_files) ?es)"
    using provider_edits_refine[OF F ex_files_ok fit run] by blast
  then show ?thesis
    unfolding run using m by simp
qed

lemma unmatched_edit_reported_applied_witness:
  "\<exists>res. finish_run ex_agent ''t'' [''src/a.rs''] ''agent'' (ex_answer (''<<<EDIT src/a.rs'' @ [NL] @ ''--- OLD'' @ [NL]
        @ ''fn b() {}'' @ [NL] @ ''--- NEW'' @ [NL] @ ''fn c() {}'' @ [NL] @ ''>>>'')) None (ex_state []) = (Ok res, ex_state [])
     \<and> ar_applied res"
proof -
  let ?text = "''<<<EDIT src/a.rs'' @ [NL] @ ''--- OLD'' @ [NL] @ ''fn b() {}'' @ [NL] @ ''--- NEW'' @ [NL] @ ''fn c() {}'' @ [NL] @ ''>>>''"
  have "parse_edits ?text = Ok [Edit ''src/a.rs'' ''fn b() {}'' ''fn c() {}'']"
    by code_simp
  then have p: "parse_edits (ir_content (ex_answer ?text)) = Ok [Edit ''src/a.rs'' ''fn b() {}'' ''fn c() {}'']"
    by (simp add: ex_answer_def)
  have v: "is_valid_file_path ''src/a.rs''" "edit_content ''fn a() {}'' ''fn b() {}'' ''fn c() {}'' = None"
    by code_simp+
  have F: "af_provider (ag_files ex_agent) = virt_provider ex_libs" "as_provider (ex_state []) = Some ex_files"
    "ag_knowledge ex_agent = None" "\<not> ag_events ex_agent"
    by (simp_all add: ex_agent_def ex_state_def)
  show ?thesis
    using unmatched_edit_reported_applied[OF F(1,2) ex_files_read p v F(3,4)] by blast
qed

lemma loose_edits_unscreened_witness:
  "\<not> is_valid_file_path ''/etc/hosts''
    \<and> (\<exists>s' p'. loose_edits ex_agent (''<<<CREATE /etc/hosts'' @ [NL] @ ''x'' @ [NL] @ ''>>>'') [] (ex_state [])
          = (Ok [Create ''/etc/hosts'' ''x''], s') \<and> as_provider s' = Some p'
        \<and> vp_read_file ex_libs p' ''/etc/hosts'' = Ok ''x'')"
proof
  show "\<not> is_valid_file_path ''/etc/hosts''"
    by code_simp
  have p: "parse_edits (''<<<CREATE /etc/hosts'' @ [NL] @ ''x'' @ [NL] @ ''>>>'') = Ok [Create ''/etc/hosts'' ''x'']"
    by code_simp
  have fit: "vp_fits ex_libs ex_files ''x''"
    by code_simp
  show "\<exists>s' p'. loose_edits ex_agent (''<<<CREATE /etc/hosts'' @ [NL] @ ''x'' @ [NL] @ ''>>>'') [] (ex_state [])
          = (Ok [Create ''/etc/hosts'' ''x''], s') \<and> as_provider s' = Some p'
        \<and> vp_read_file ex_libs p' ''/etc/hosts'' = Ok ''x''"
    by (rule loose_edits_unscreened[OF _ _ ex_files_ok fit p]) (simp_all add: ex_agent_def ex_state_def)
qed

end
