(* ===== verification/RunnerFacts.thy ===== *)
theory RunnerFacts
  imports Runner AgentFacts WfEngineFacts
begin

text \<open>
  The waves of the runner: which tasks they finish, when they end, and what the workflow engine sees of
  them round after round.
\<close>

section \<open>Rounds of dependent tasks\<close>

text \<open>The waves count a dependency as met when it was run in the same call. The engine sends the ready
  steps of a round only, and their dependencies passed in earlier rounds.\<close>

lemma dependent_not_ready: "\<forall>t\<in>set tasks. t_depends_on t \<noteq> [] \<Longrightarrow> runner_ready tasks [] = []"
  by (auto simp: runner_ready_def om_has_def filter_empty_conv neq_Nil_conv)

lemma take_results_Nil [simp]: "take_results tasks [] = []"
  by (induction tasks) (auto simp: om_get_def)

lemma idle_run:
  assumes "\<forall>t\<in>set tasks. t_depends_on t \<noteq> []"
  shows "\<exists>r w'. run_planned R (Suc 0) goal tasks w = Some (Ok r, w') \<and> sr_results r = [] \<and> sr_modified_files r = []"
  using dependent_not_ready[OF assms]
  by (simp add: run_planned_def execute_tasks_def Let_def run_state_new_def after_waves_def capture_new_def
    io_defs mt_cleanup_def mem_tree_new_def)

text \<open>The engine's runner is a runner as modelled here, whatever fuel it needs.\<close>

definition runs_planned :: "'w engine_ops \<Rightarrow> ('s, 'w) swarm_runner \<Rightarrow> bool" where
  "runs_planned ops R \<longleftrightarrow>
     (\<forall>n goal tasks w r. run_planned R n goal tasks w = Some r \<longrightarrow> op_run_planned ops goal tasks w = r)"

text \<open>The store works, nobody asks for a pause, and the document is at a round of dependent tasks.\<close>

definition undisturbed :: "'w engine_ops \<Rightarrow> bool" where
  "undisturbed ops \<longleftrightarrow> (\<forall>d w. fst (op_update ops d w) = Ok ()) \<and> (\<forall>w. fst (op_control ops w) = Continue)"

definition unconditional :: "workflow_run \<Rightarrow> bool" where
  "unconditional doc \<longleftrightarrow> (\<forall>s\<in>set (w_steps doc). s_preconditions s = [] \<and> s_effects s = [])"

definition dependent_round :: "workflow_run \<Rightarrow> bool" where
  "dependent_round doc \<longleftrightarrow> unconditional doc \<and> failed_step doc = None \<and> ready_control_step doc = None
     \<and> ready_agent_tasks doc \<noteq> [] \<and> (\<forall>t\<in>set (ready_agent_tasks doc). t_depends_on t \<noteq> [])"

lemma unconditional_checks:
  assumes "unconditional doc"
  shows "check_preconditions ex doc = doc" "check_effects round doc = doc"
  using assms by (auto simp: unconditional_def check_preconditions_def check_effects_def
    check_precondition_step_def check_effect_step_def intro!: map_idI workflow_run.equality)

lemma ready_has_pending: "ready_agent_tasks doc \<noteq> [] \<Longrightarrow> has_pending doc"
  by (auto simp: ready_agent_tasks_def has_pending_def is_ready_def list_ex_iff filter_empty_conv)

lemma dependent_turn:
  assumes "runs_planned ops R" "undisturbed ops" "dependent_round doc"
  shows "\<exists>agg' w'. engine_turn ops doc agg w = Next doc agg' w'"
proof -
  obtain w1 where c: "op_control ops w = (Continue, w1)"
    using assms(2) by (cases "op_control ops w") (auto simp: undisturbed_def dest: spec[of _ w])
  have d: "unconditional doc" "failed_step doc = None" "ready_control_step doc = None" "ready_agent_tasks doc \<noteq> []"
    "\<forall>t\<in>set (ready_agent_tasks doc). t_depends_on t \<noteq> []"
    using assms(3) by (simp_all add: dependent_round_def)
  obtain r w2 where run: "op_run_planned ops (w_goal doc) (ready_agent_tasks doc) w1 = (Ok r, w2)"
    and r: "sr_results r = []" "sr_modified_files r = []"
    using idle_run[OF d(5), of R "w_goal doc" w1] assms(1) unfolding runs_planned_def by blast
  have "absorb_round r doc = doc"
    by (simp add: absorb_round_def r)
  then have doc': "absorb_captured (sr_modified_files r) (check_effects r (absorb_round r doc)) = doc"
    by (simp add: unconditional_checks[OF d(1)] absorb_captured_def r)
  obtain w3 where u: "op_update ops doc w2 = (Ok (), w3)"
    using assms(2) unfolding undisturbed_def by (metis prod.collapse)
  show ?thesis
    by (simp add: engine_turn_def c d unconditional_checks[OF d(1)] ready_has_pending[OF d(4)] round_turn_def
      run doc' saved_def u Let_def)
qed

lemma dependent_loop:
  assumes "runs_planned ops R" "undisturbed ops" "dependent_round doc"
  shows "engine_loop ops n doc agg w = None"
proof (induction n arbitrary: agg w)
  case (Suc n)
  then show ?case
    using dependent_turn[OF assms, of agg w] by auto
qed simp

section \<open>What the waves finish\<close>

text \<open>A task is runnable when all it depends on is, among the tasks of the same call.\<close>

inductive runnable :: "sub_task list \<Rightarrow> string \<Rightarrow> bool" for tasks where
  runnableI: "t \<in> set tasks \<Longrightarrow> \<forall>d\<in>set (t_depends_on t). runnable tasks d \<Longrightarrow> runnable tasks (t_id t)"

inductive_cases runnableE: "runnable tasks i"

definition runnable_task :: "sub_task list \<Rightarrow> sub_task \<Rightarrow> bool" where
  "runnable_task tasks t \<longleftrightarrow> t \<in> set tasks \<and> runnable tasks (t_id t)"

text \<open>A result belongs to a runnable task, and either holds what the agent answered or an error.\<close>

definition sound_result :: "sub_task list \<Rightarrow> task_result \<Rightarrow> bool" where
  "sound_result tasks r \<longleftrightarrow> runnable_task tasks (tr_task r) \<and> (tr_agent_result r = None \<longleftrightarrow> tr_error r \<noteq> None)"

definition sound_run :: "sub_task list \<Rightarrow> 'w run_state \<Rightarrow> bool" where
  "sound_run tasks s \<longleftrightarrow> om_ok (rs_completed s)
     \<and> (\<forall>k r. om_get (rs_completed s) k = Some r \<longrightarrow> t_id (tr_task r) = k \<and> sound_result tasks r)"

lemma keeps_rs_io [keeps]: "(\<And>w s. P (s\<lparr>rs_world := w\<rparr>) = P s) \<Longrightarrow> io_keeps P (rs_io m)"
  by (simp add: io_keeps_def io_spec_def rs_io_def io_zoom_def split: prod.split)

lemma keeps_rs_mem_io:
  "(\<And>w s. P (s\<lparr>rs_world := w\<rparr>) = P s) \<Longrightarrow> (\<And>m s. P (s\<lparr>rs_mem := m\<rparr>) = P s) \<Longrightarrow> io_keeps P (rs_mem_io m)"
proof -
  assume "\<And>w s. P (s\<lparr>rs_world := w\<rparr>) = P s" "\<And>m s. P (s\<lparr>rs_mem := m\<rparr>) = P s"
  then have "P (s\<lparr>rs_mem := m, rs_world := w\<rparr>) = P s" for m w s
    by simp
  then show ?thesis
    by (simp add: io_keeps_def io_spec_def rs_mem_io_def io_zoom_def split: prod.split)
qed

text \<open>Anything about the finished tasks and the halt flag.\<close>

definition about_completed :: "('w run_state \<Rightarrow> bool) \<Rightarrow> bool" where
  "about_completed P \<longleftrightarrow> (\<forall>s s'. rs_completed s = rs_completed s' \<longrightarrow> rs_halted s = rs_halted s' \<longrightarrow> P s = P s')"

lemma about_completedE:
  "about_completed P \<Longrightarrow> rs_completed s = rs_completed s' \<Longrightarrow> rs_halted s = rs_halted s' \<Longrightarrow> P s = P s'"
  unfolding about_completed_def by blast

lemma about_completedD:
  "about_completed P \<Longrightarrow> P (s\<lparr>rs_world := w\<rparr>) = P s" "about_completed P \<Longrightarrow> P (s\<lparr>rs_mem := m\<rparr>) = P s"
  "about_completed P \<Longrightarrow> P (s\<lparr>rs_applied := b\<rparr>) = P s"
  by (erule about_completedE; simp)+

lemma prepare_task_keeps [keeps]: "about_completed P \<Longrightarrow> io_keeps P (prepare_task R tasks i)"
  unfolding prepare_task_def copy_dependency_def
  by (intro keeps keeps_rs_mem_io) (auto simp: about_completedD io_keeps_def io_spec_def intro: io_keepsD[OF keeps_rs_io] split: option.split)

lemma prepare_wave_keeps [keeps]: "about_completed P \<Longrightarrow> io_keeps P (prepare_wave R tasks is)"
  by (induction "is") (auto intro!: keeps)

lemma about_sound_run: "about_completed (sound_run tasks)"
  by (simp add: about_completed_def sound_run_def)

definition completed_keys :: "'w run_state \<Rightarrow> string set" where
  "completed_keys s = set (om_keys (rs_completed s))"

lemma about_keys: "about_completed (\<lambda>s. K \<subseteq> completed_keys s)"
  by (simp add: about_completed_def completed_keys_def)

lemma complete_task_sound:
  "sound_result tasks r \<Longrightarrow> io_keeps (sound_run tasks) (complete_task R r summary)"
  by (auto simp: complete_task_def io_keeps_def io_spec_def io_put_def sound_run_def)

lemma complete_task_keys:
  "completed_keys (snd (complete_task R r summary s)) = insert (t_id (tr_task r)) (completed_keys s)"
  by (auto simp: complete_task_def io_put_def completed_keys_def set_om_keys)

lemma complete_task_grows [keeps]: "io_keeps (\<lambda>s. K \<subseteq> completed_keys s) (complete_task R r summary)"
  by (auto simp: io_keeps_def io_spec_def complete_task_keys)

lemma mark_applied_keeps [keeps]: "about_completed P \<Longrightarrow> io_keeps P (mark_applied b)"
  by (simp add: mark_applied_def io_keeps_def io_spec_def io_put_def about_completedD)

text \<open>A path that may finish a task keeps the run sound, and finishes the task when it says so.\<close>

lemma try_direct_sound:
  assumes "runnable_task tasks task"
  shows "io_keeps (sound_run tasks) (try_direct R task wt_path)"
  unfolding try_direct_def
  by (intro keeps complete_task_sound) (use assms in \<open>simp_all add: about_completedD about_sound_run sound_result_def\<close>)

lemma try_graph_sound:
  assumes "runnable_task tasks task"
  shows "io_keeps (sound_run tasks) (try_graph R task wt_path desc)"
  unfolding try_graph_def
  by (intro keeps complete_task_sound) (use assms in \<open>simp_all add: about_completedD about_sound_run sound_result_def\<close>)

lemma collect_result_sound:
  assumes "runnable_task tasks (fst out)"
  shows "io_keeps (sound_run tasks) (collect_result R out)"
  using assms by (cases "(R, out)" rule: collect_result.cases)
    (auto intro!: keeps complete_task_sound simp: about_sound_run sound_result_def)

lemma fast_paths_sound:
  "\<forall>p\<in>set ps. runnable_task tasks (fst p) \<Longrightarrow> io_keeps (sound_run tasks) (fast_paths R ps)"
  by (induction R ps rule: fast_paths.induct) (auto intro!: keeps try_direct_sound try_graph_sound)

lemma fast_paths_subset: "io_yields (\<lambda>rest. set rest \<subseteq> set ps) (fast_paths R ps)"
proof (induction R ps rule: fast_paths.induct)
  case (2 R task wt_path desc ps)
  have "io_yields (\<lambda>rest. set rest \<subseteq> set ((task, wt_path, desc) # ps))
      (io_bind (fast_paths R ps) (\<lambda>rest. io_ok (if fin then rest else (task, wt_path, desc) # rest)))" for fin
    by (rule yields_bind'[OF 2]) (auto intro!: yields_ok)
  then show ?case
    unfolding fast_paths.simps by (blast intro: yields_bind)
qed (simp add: yields_ok)

lemma map_fst_spawn_all: "map fst (fst (spawn_all R ps w)) = map fst ps"
  by (induction R ps w rule: spawn_all.induct) (auto simp: Let_def split: prod.splits)

lemma task_map_Some: "task_map tasks i = Some t \<Longrightarrow> t \<in> set tasks \<and> t_id t = i"
  unfolding task_map_def by (auto dest!: map_of_SomeD)

lemma prepare_task_yields: "io_yields (\<lambda>p. fst p \<in> set tasks \<and> t_id (fst p) = i) (prepare_task R tasks i)"
proof (cases "task_map tasks i")
  case (Some t)
  then show ?thesis
    using task_map_Some[OF Some] unfolding prepare_task_def by (auto intro!: yields_bind yields_ok)
qed (auto simp: prepare_task_def intro!: yields_lift)

lemma prepare_wave_yields:
  "io_yields (\<lambda>ps. map (t_id \<circ> fst) ps = is \<and> (\<forall>p\<in>set ps. fst p \<in> set tasks)) (prepare_wave R tasks is)"
proof (induction "is")
  case (Cons i "is")
  show ?case
    unfolding prepare_wave.simps
    by (rule yields_bind'[OF prepare_task_yields], rule yields_bind'[OF Cons]) (auto intro!: yields_ok)
qed (simp add: yields_ok)

lemma keeps_bind': "io_keeps P m \<Longrightarrow> io_yields Q m \<Longrightarrow> (\<And>a. Q a \<Longrightarrow> io_keeps P (f a)) \<Longrightarrow> io_keeps P (io_bind m f)"
  by (force simp: io_keeps_def io_spec_def io_yields_def io_bind_def split: outcome.splits prod.splits)

lemma yields_rs_io: "(\<And>w. Q (fst (f w))) \<Longrightarrow> io_yields Q (rs_io (\<lambda>w. apfst Ok (f w)))"
  by (simp add: io_yields_def rs_io_def io_zoom_def case_prod_unfold)

lemma run_wave_sound:
  assumes "\<forall>i\<in>set ready. runnable tasks i" "\<forall>rs. set (sw_join R rs) = set rs"
  shows "io_keeps (sound_run tasks) (run_wave R tasks ready)"
  unfolding run_wave_def
proof (rule keeps_bind'[OF prepare_wave_keeps[OF about_sound_run] prepare_wave_yields])
  fix ps :: "(sub_task \<times> string \<times> string) list"
  assume ps: "map (t_id \<circ> fst) ps = take (min (length ready) (sw_max_concurrent R)) ready \<and> (\<forall>p\<in>set ps. fst p \<in> set tasks)"
  have ok: "runnable_task tasks (fst p)" if "p \<in> set ps" for p
  proof -
    have "t_id (fst p) \<in> set (map (t_id \<circ> fst) ps)"
      using that by simp
    then have "t_id (fst p) \<in> set ready"
      using ps by (metis in_set_takeD)
    then show ?thesis
      using assms(1) ps that by (simp add: runnable_task_def)
  qed
  show "io_keeps (sound_run tasks) (io_bind (fast_paths R ps) (\<lambda>to_spawn.
      io_bind (rs_io (\<lambda>w. apfst Ok (spawn_all R to_spawn w))) (\<lambda>outcomes. io_each (collect_result R) (sw_join R outcomes))))"
  proof (rule keeps_bind'[OF fast_paths_sound fast_paths_subset])
    fix rest :: "(sub_task \<times> string \<times> string) list"
    assume rest: "set rest \<subseteq> set ps"
    have y: "io_yields (\<lambda>os. map fst os = map fst rest) (rs_io (\<lambda>w. apfst Ok (spawn_all R rest w)))"
      by (rule yields_rs_io) (simp add: map_fst_spawn_all)
    show "io_keeps (sound_run tasks) (io_bind (rs_io (\<lambda>w. apfst Ok (spawn_all R rest w)))
        (\<lambda>outcomes. io_each (collect_result R) (sw_join R outcomes)))"
    proof (rule keeps_bind'[OF keeps_rs_io y])
      fix os :: "(sub_task \<times> agent_result outcome) list"
      assume "map fst os = map fst rest"
      then have "fst ` set os = fst ` set rest"
        by (metis list.set_map)
      then have "runnable_task tasks (fst x)" if "x \<in> set os" for x
        using rest ok imageI[OF that, of fst] by auto
      then show "io_keeps (sound_run tasks) (io_each (collect_result R) (sw_join R os))"
        using assms(2) by (intro keeps collect_result_sound) simp
    qed (simp add: about_completedD about_sound_run)
  qed (use ok in blast)
qed

lemma runner_ready_iff:
  "i \<in> set (runner_ready tasks c) \<longleftrightarrow>
     (\<exists>t\<in>set tasks. i = t_id t \<and> i \<notin> set (om_keys c) \<and> (\<forall>d\<in>set (t_depends_on t). d \<in> set (om_keys c)))"
  by (auto simp: runner_ready_def om_has_iff list_all_iff)

lemma sound_run_key: "sound_run tasks s \<Longrightarrow> i \<in> completed_keys s \<Longrightarrow> runnable tasks i"
  by (auto simp: sound_run_def completed_keys_def set_om_keys sound_result_def runnable_task_def)

lemma ready_runnable:
  "sound_run tasks s \<Longrightarrow> i \<in> set (runner_ready tasks (rs_completed s)) \<Longrightarrow> runnable tasks i"
  by (auto simp: runner_ready_iff simp flip: completed_keys_def intro!: runnableI dest: sound_run_key)

lemma sound_run_halted: "sound_run tasks (s\<lparr>rs_halted := b\<rparr>) = sound_run tasks s"
  by (simp add: sound_run_def)

lemma run_waves_sound:
  assumes "\<forall>rs. set (sw_join R rs) = set rs"
  shows "run_waves R tasks fuel s = Some (r, s') \<Longrightarrow> sound_run tasks s \<Longrightarrow> sound_run tasks s'"
proof (induction fuel arbitrary: s)
  case (Suc fuel)
  let ?ready = "runner_ready tasks (rs_completed s)"
  have wave: "sound_run tasks (snd (run_wave R tasks ?ready s))"
    by (rule io_keepsD[OF run_wave_sound Suc.prems(2)]) (use assms Suc.prems(2) ready_runnable in blast)+
  obtain r1 s1 where r1: "run_wave R tasks ?ready s = (r1, s1)"
    by fastforce
  show ?case
    using Suc wave by (auto simp: r1 Let_def sound_run_halted split: if_splits outcome.splits)
qed simp

lemma run_waves_end:
  "run_waves R tasks fuel s = Some (Ok u, s') \<Longrightarrow> \<not> rs_halted s' \<Longrightarrow>
     length tasks \<le> length (rs_completed s') \<or> runner_ready tasks (rs_completed s') = []"
  by (induction fuel arbitrary: s) (auto simp: Let_def split: if_splits outcome.splits prod.splits)

lemma sound_keys_subset: "sound_run tasks s \<Longrightarrow> completed_keys s \<subseteq> set (map t_id tasks)"
  by (auto simp: sound_run_def completed_keys_def set_om_keys sound_result_def runnable_task_def)

lemma card_completed: "sound_run tasks s \<Longrightarrow> card (completed_keys s) = length (rs_completed s)"
  unfolding sound_run_def completed_keys_def using om_ok_distinct distinct_card
  by (metis length_map om_keys_def)

lemma all_completed:
  assumes "sound_run tasks s" "length tasks \<le> length (rs_completed s)"
  shows "completed_keys s = set (map t_id tasks)"
proof (rule card_seteq[OF _ sound_keys_subset[OF assms(1)]])
  show "card (set (map t_id tasks)) \<le> card (completed_keys s)"
    unfolding card_completed[OF assms(1)] using card_length[of "map t_id tasks"] assms(2) by simp
qed simp

lemma none_ready_closed:
  assumes "runner_ready tasks (rs_completed s) = []"
  shows "runnable tasks i \<Longrightarrow> i \<in> completed_keys s"
proof (induction rule: runnable.induct)
  case (runnableI t)
  then show ?case
    using assms runner_ready_iff[of "t_id t" tasks "rs_completed s"] by (auto simp: completed_keys_def)
qed

lemma runnable_id: "runnable tasks i \<Longrightarrow> i \<in> set (map t_id tasks)"
  by (auto elim: runnable.cases)

text \<open>Waves that end without a request to halt have finished the runnable tasks, and no others.\<close>

lemma run_waves_exact:
  assumes "\<forall>rs. set (sw_join R rs) = set rs" "run_waves R tasks fuel s = Some (Ok u, s')" "sound_run tasks s" "\<not> rs_halted s'"
  shows "i \<in> completed_keys s' \<longleftrightarrow> runnable tasks i"
  using run_waves_sound[OF assms(1-3)] run_waves_end[OF assms(2,4)] all_completed none_ready_closed sound_run_key runnable_id
  by metis

lemma take_results_eq:
  "distinct (map t_id tasks) \<Longrightarrow> take_results tasks c = List.map_filter (\<lambda>t. om_get c (t_id t)) tasks"
proof (induction tasks c rule: take_results.induct)
  case (2 t ts c)
  have "List.map_filter (\<lambda>x. om_get (om_remove (t_id t) c) (t_id x)) ts = List.map_filter (\<lambda>x. om_get c (t_id x)) ts"
    using 2(3) by (auto simp: List.map_filter_def image_iff intro!: map_cong filter_cong) metis+
  then show ?case
    using 2 by (auto simp: List.map_filter_simps split: option.split)
qed (simp add: List.map_filter_simps)

lemma map_filter_key_on:
  "(\<And>x y. x \<in> set xs \<Longrightarrow> f x = Some y \<Longrightarrow> k y = g x) \<Longrightarrow>
    map k (List.map_filter f xs) = map g (filter (\<lambda>x. f x \<noteq> None) xs)"
  by (induction xs) (auto simp: List.map_filter_simps split: option.splits)

lemma take_results_exact:
  assumes "distinct (map t_id tasks)" "sound_run tasks s"
  shows "map tr_task (take_results tasks (rs_completed s)) = filter (\<lambda>t. t_id t \<in> completed_keys s) tasks"
    and "\<forall>r\<in>set (take_results tasks (rs_completed s)). tr_agent_result r = None \<longleftrightarrow> tr_error r \<noteq> None"
proof -
  have "tr_task r = t" if "t \<in> set tasks" "om_get (rs_completed s) (t_id t) = Some r" for t r
    using assms that by (auto simp: sound_run_def sound_result_def runnable_task_def distinct_map inj_on_def)
  then show "map tr_task (take_results tasks (rs_completed s)) = filter (\<lambda>t. t_id t \<in> completed_keys s) tasks"
    unfolding take_results_eq[OF assms(1)] by (subst map_filter_key_on[where g = id]) (auto simp: completed_keys_def set_om_keys dom_def)
  show "\<forall>r\<in>set (take_results tasks (rs_completed s)). tr_agent_result r = None \<longleftrightarrow> tr_error r \<noteq> None"
    unfolding take_results_eq[OF assms(1)] using assms(2) by (auto simp: set_map_filter sound_run_def sound_result_def)
qed

lemma after_waves_result:
  assumes "after_waves R goal tasks a b p w0 s = (Ok r, w')"
  shows "sr_results r = take_results tasks (rs_completed s) \<and> sr_halted r = rs_halted s"
  using assms by (auto simp: after_waves_def Let_def io_bind_Ok io_ok_Ok case_prod_unfold split: if_splits)

lemma run_planned_results:
  assumes "run_planned R fuel goal tasks w = Some (Ok r, w')"
  obtains s0 u s where "rs_completed s0 = []" "run_waves R tasks fuel s0 = Some (Ok u, s)"
    "sr_results r = take_results tasks (rs_completed s)" "sr_halted r = rs_halted s"
proof -
  define w1 where "w1 = emit_run_start (sw_hooks R)
            \<lparr>rx_run_id = (case sw_parent_run_id R of Some i \<Rightarrow> i | None \<Rightarrow> []), rx_project = sw_project R,
             rx_goal = goal, rx_planned_task_count = length tasks\<rparr> w"
  obtain x s where run: "run_waves R tasks fuel (run_state_new R w1) = Some (x, s)"
    and x: "(case x of Ok _ \<Rightarrow> after_waves R goal tasks 0 0 [] w s
           | Err e \<Rightarrow> (Err e, snd (snd (mt_cleanup (sw_disk R) (rs_mem s, rs_world s))))
           | Panic \<Rightarrow> (Panic, snd (snd (mt_cleanup (sw_disk R) (rs_mem s, rs_world s))))) = (Ok r, w')"
    using assms unfolding run_planned_def execute_tasks_def Let_def w1_def[symmetric] by auto
  obtain u where u: "x = Ok u" "after_waves R goal tasks 0 0 [] w s = (Ok r, w')"
    using x by (cases x) auto
  show thesis
    using that[of "run_state_new R w1"] run u after_waves_result[OF u(2)] by (simp add: run_state_new_def)
qed

lemma sound_run_new: "rs_completed s = [] \<Longrightarrow> sound_run tasks s"
  by (simp add: sound_run_def)

text \<open>C17: Planned tasks of distinct ids, on a runner that collects every result it spawned: a call of
  \<open>run_planned\<close> that returns without having been halted has exactly one result for each task whose
  dependencies can be met within the call, in the order of the plan, and none for any other task; each
  result is either the answer of an agent or an error.\<close>

theorem runner_exact:
  assumes "distinct (map t_id tasks)" "\<forall>rs. set (sw_join R rs) = set rs"
    "run_planned R fuel goal tasks w = Some (Ok r, w')" "\<not> sr_halted r"
  shows "map tr_task (sr_results r) = filter (\<lambda>t. runnable tasks (t_id t)) tasks
    \<and> (\<forall>x\<in>set (sr_results r). tr_agent_result x = None \<longleftrightarrow> tr_error x \<noteq> None)"
proof -
  obtain s0 u s where s: "rs_completed s0 = []" "run_waves R tasks fuel s0 = Some (Ok u, s)"
    "sr_results r = take_results tasks (rs_completed s)" "sr_halted r = rs_halted s"
    using run_planned_results[OF assms(3)] by metis
  have sound: "sound_run tasks s"
    using run_waves_sound[OF assms(2) s(2) sound_run_new[OF s(1)]] .
  have keys: "t_id t \<in> completed_keys s \<longleftrightarrow> runnable tasks (t_id t)" for t
    using run_waves_exact[OF assms(2) s(2) sound_run_new[OF s(1)]] assms(4) s(4) by simp
  show ?thesis
    unfolding s(3) using take_results_exact[OF assms(1) sound] by (simp only: keys)
qed

section \<open>When the waves end\<close>

text \<open>No agent of the run panics, whatever it is asked.\<close>

definition agents_return :: "('s, 'w) swarm_runner \<Rightarrow> bool" where
  "agents_return R \<longleftrightarrow> (\<forall>task wt_path desc w. fst (spawn_agent R task wt_path desc w) \<noteq> Panic)"

lemma completed_keys_world [simp]: "completed_keys (s\<lparr>rs_world := w\<rparr>) = completed_keys s"
  by (simp add: completed_keys_def)

lemma complete_marks: "complete_task R r summary s = (u, s') \<Longrightarrow> t_id (tr_task r) \<in> completed_keys s'"
  using complete_task_keys[of R r summary s] by simp

lemma keys_keeps:
  "io_keeps (\<lambda>s. K \<subseteq> completed_keys s) (prepare_wave R tasks is)"
  "io_keeps (\<lambda>s. K \<subseteq> completed_keys s) (try_direct R task wt_path)"
  "io_keeps (\<lambda>s. K \<subseteq> completed_keys s) (try_graph R task wt_path desc)"
  by (auto simp: try_direct_def try_graph_def about_completedD about_keys Let_def intro!: keeps
    split: option.split outcome.split)

lemma fast_paths_keys: "io_keeps (\<lambda>s. K \<subseteq> completed_keys s) (fast_paths R ps)"
  by (induction R ps rule: fast_paths.induct) (auto intro!: keeps keys_keeps)

lemma collect_keys: "io_keeps (\<lambda>s. K \<subseteq> completed_keys s) (collect_result R out)"
  by (cases "(R, out)" rule: collect_result.cases) (auto intro!: keeps simp: about_keys)

lemma keys_grow: "io_keeps (\<lambda>s. completed_keys s0 \<subseteq> completed_keys s) m \<Longrightarrow> m s0 = (r, s') \<Longrightarrow> completed_keys s0 \<subseteq> completed_keys s'"
  using io_keepsD[of "\<lambda>s. completed_keys s0 \<subseteq> completed_keys s" m s0] by simp

text \<open>A step that answers \<open>True\<close> only when the task \<open>i\<close> is finished.\<close>

definition marks :: "string \<Rightarrow> ('w run_state, bool) io \<Rightarrow> bool" where
  "marks i m \<longleftrightarrow> (\<forall>s s'. m s = (Ok True, s') \<longrightarrow> i \<in> completed_keys s')"

lemma marks_bind: "(\<And>a. marks i (f a)) \<Longrightarrow> marks i (io_bind m f)"
  unfolding marks_def io_bind_Ok by blast

lemma marks_False: "marks i (io_ok False)"
  by (simp add: marks_def io_ok_def)

lemma marks_complete: "t_id (tr_task r) = i \<Longrightarrow> marks i (io_bind (complete_task R r summary) (\<lambda>_. io_ok True))"
  by (auto simp: marks_def io_bind_Ok io_ok_Ok dest!: complete_marks)

lemma try_direct_marks: "marks (t_id task) (try_direct R task wt_path)"
  by (auto simp: try_direct_def split: option.split
    intro!: marks_False marks_complete marks_bind[of _ _ "rs_io _"] marks_bind[of _ _ "mark_applied _"])

lemma try_graph_marks: "marks (t_id task) (try_graph R task wt_path desc)"
  by (auto simp: try_graph_def Let_def intro!: marks_False marks_bind[of _ _ "io_try _"] split: option.split outcome.split)
    (simp add: marks_complete marks_bind)

definition ids_of :: "(sub_task \<times> 'a) list \<Rightarrow> string set" where
  "ids_of ps = t_id ` fst ` set ps"

lemma ids_of_simps [simp]: "ids_of [] = {}" "ids_of (p # ps) = insert (t_id (fst p)) (ids_of ps)"
  by (simp_all add: ids_of_def)

lemma fast_paths_cover:
  "fast_paths R ps s = (Ok rest, s') \<Longrightarrow> completed_keys s \<union> ids_of ps \<subseteq> completed_keys s' \<union> ids_of rest"
proof (induction R ps arbitrary: s rest rule: fast_paths.induct)
  case (2 R task wt_path desc ps)
  obtain direct s1 fin s2 rest' where
    d: "try_direct R task wt_path s = (Ok direct, s1)"
    and f: "(if direct then io_ok True else try_graph R task wt_path desc) s1 = (Ok fin, s2)"
    and r: "fast_paths R ps s2 = (Ok rest', s')" "rest = (if fin then rest' else (task, wt_path, desc) # rest')"
    using 2(2) by (auto simp: io_bind_Ok io_ok_Ok)
  have fin: "t_id task \<in> completed_keys s2" if fin
    using that f d try_direct_marks[of task R wt_path] try_graph_marks[of task R wt_path desc] keys_grow[OF keys_keeps(3)]
    by (cases direct) (auto simp: io_ok_Ok marks_def)
  have "completed_keys s \<subseteq> completed_keys s1" "completed_keys s1 \<subseteq> completed_keys s2"
    using keys_grow[OF keys_keeps(2) d] keys_grow[OF keys_keeps(3), of R task wt_path desc s1 "Ok fin" s2] f
    by (auto simp: io_ok_Ok split: if_splits)
  then show ?case
    using 2(1)[OF r(1)] fin r(2) by auto
qed (simp add: io_ok_Ok)

lemma collect_cover:
  "\<forall>x\<in>set os. snd x \<noteq> Panic \<Longrightarrow> io_each (collect_result R) os s = (Ok u, s') \<Longrightarrow> completed_keys s \<union> ids_of os \<subseteq> completed_keys s'"
proof (induction os arbitrary: s)
  case (Cons x os)
  obtain v s1 where x: "collect_result R x s = (Ok v, s1)" and r: "io_each (collect_result R) os s1 = (Ok u, s')"
    using Cons(3) by (auto simp: io_bind_Ok)
  have "t_id (fst x) \<in> completed_keys s1"
    using x Cons(2) by (cases "(R, x)" rule: collect_result.cases)
      (auto simp: io_bind_Ok dest!: complete_marks)
  then show ?case
    using Cons.IH[OF _ r] Cons(2) keys_grow[OF collect_keys x] by auto
qed (simp add: io_ok_Ok)

lemma spawn_all_returns: "agents_return R \<Longrightarrow> \<forall>x\<in>set (fst (spawn_all R ps w)). snd x \<noteq> Panic"
proof (induction ps arbitrary: w)
  case (Cons p ps)
  obtain task wt_path desc where p: "p = (task, wt_path, desc)"
    using prod_cases3 by blast
  show ?case
    using Cons by (simp add: p Let_def case_prod_unfold) (simp add: agents_return_def)
qed simp

lemma run_wave_cover:
  assumes "agents_return R" "\<forall>rs. set (sw_join R rs) = set rs" "run_wave R tasks ready s = (Ok u, s')"
  shows "completed_keys s \<union> set (take (min (length ready) (sw_max_concurrent R)) ready) \<subseteq> completed_keys s'"
proof -
  let ?ids = "take (min (length ready) (sw_max_concurrent R)) ready"
  obtain ps s1 rest s2 os s3 where
    p: "prepare_wave R tasks ?ids s = (Ok ps, s1)" and f: "fast_paths R ps s1 = (Ok rest, s2)"
    and o: "rs_io (\<lambda>w. apfst Ok (spawn_all R rest w)) s2 = (Ok os, s3)"
    and c: "io_each (collect_result R) (sw_join R os) s3 = (Ok u, s')"
    using assms(3) by (auto simp: run_wave_def io_bind_Ok)
  have "?ids = map (t_id \<circ> fst) ps"
    using prepare_wave_yields[of "?ids" tasks R] p unfolding io_yields_def by metis
  then have ids: "set ?ids = ids_of ps"
    by (simp add: ids_of_def image_comp)
  have os: "os = fst (spawn_all R rest (rs_world s2))" "s3 = s2\<lparr>rs_world := snd (spawn_all R rest (rs_world s2))\<rparr>"
    using o by (auto simp: rs_io_def io_zoom_def case_prod_unfold)
  have "ids_of os = ids_of rest"
    unfolding os(1) using map_fst_spawn_all[of R rest "rs_world s2"] unfolding ids_of_def by (metis list.set_map)
  moreover have "ids_of (sw_join R os) = ids_of os" "\<forall>x\<in>set (sw_join R os). snd x \<noteq> Panic"
    using assms(2) spawn_all_returns[OF assms(1)] os(1) by (simp_all add: ids_of_def)
  moreover have "completed_keys s3 = completed_keys s2"
    by (simp add: os(2) completed_keys_def)
  ultimately show ?thesis
    using keys_grow[OF keys_keeps(1) p] fast_paths_cover[OF f] collect_cover[OF _ c] unfolding ids by auto
qed

lemma run_waves_total:
  assumes "agents_return R" "\<forall>rs. set (sw_join R rs) = set rs" "1 \<le> sw_max_concurrent R"
  shows "card (set (map t_id tasks) - completed_keys s) < fuel \<Longrightarrow> \<exists>x. run_waves R tasks fuel s = Some x"
proof (induction fuel arbitrary: s)
  case (Suc fuel)
  let ?ready = "runner_ready tasks (rs_completed s)"
  show ?case
  proof (cases "?ready = []")
    case False
    then obtain i rest where r: "?ready = i # rest"
      by (cases ?ready) auto
    obtain n where n: "min (length ?ready) (sw_max_concurrent R) = Suc n"
      using r assms(3) by (cases "min (length ?ready) (sw_max_concurrent R)") (auto simp: min_def split: if_splits)
    have i: "i \<in> set (map t_id tasks)" "i \<notin> completed_keys s"
      using runner_ready_iff[of i tasks "rs_completed s"] r by (auto simp: completed_keys_def)
    have "\<exists>x. run_waves R tasks fuel s' = Some x" if "run_wave R tasks ?ready s = (Ok u, s')" for u s'
    proof (rule Suc.IH)
      have sub: "completed_keys s \<subseteq> completed_keys s'" "i \<in> completed_keys s'"
        using run_wave_cover[OF assms(1,2) that] unfolding n by (auto simp: r)
      have less: "set (map t_id tasks) - completed_keys s' \<subset> set (map t_id tasks) - completed_keys s"
        using i sub by blast
      show "card (set (map t_id tasks) - completed_keys s') < fuel"
        using psubset_card_mono[OF _ less] Suc.prems by simp
    qed
    then show ?thesis
      using False by (cases "run_wave R tasks ?ready s") (auto simp: Let_def split: outcome.split)
  qed simp
qed simp

lemma map_option_total: "x \<noteq> None \<Longrightarrow> \<exists>a b. map_option f x = Some (a, b)"
  by auto

lemma run_planned_total:
  assumes "agents_return R" "\<forall>rs. set (sw_join R rs) = set rs" "1 \<le> sw_max_concurrent R" "length tasks < fuel"
  shows "\<exists>r w'. run_planned R fuel goal tasks w = Some (r, w')"
proof -
  have "card (set (map t_id tasks) - completed_keys s) < fuel" for s :: "'b run_state"
    using assms(4) card_mono[of "set (map t_id tasks)" "set (map t_id tasks) - completed_keys s"] card_length[of "map t_id tasks"]
    by simp
  then have "\<exists>x. run_waves R tasks fuel s = Some x" for s
    using run_waves_total[OF assms(1-3)] by blast
  then show ?thesis
    unfolding run_planned_def execute_tasks_def Let_def by (intro map_option_total) auto
qed

text \<open>C18: On a runner whose agents return (with an answer or an error), whatever the tasks, their ids and
  their dependencies, \<open>run_planned\<close> returns, in at most one wave per task: a cycle of dependencies or a
  dependency on a task of another call ends the waves, it does not block them.\<close>

theorem runner_returns:
  assumes "agents_return R" "\<forall>rs. set (sw_join R rs) = set rs" "1 \<le> sw_max_concurrent R" "length tasks < fuel"
  shows "\<exists>r w'. run_planned R fuel goal tasks w = Some (r, w')"
  using assms by (rule run_planned_total)

lemma run_waves_more:
  "run_waves R tasks n s = Some x \<Longrightarrow> run_waves R tasks (n + k) s = Some x"
proof (induction n arbitrary: s)
  case (Suc n)
  then show ?case
    by (auto simp: Let_def split: if_splits outcome.splits prod.splits)
qed simp

lemma run_planned_more:
  assumes "run_planned R n goal tasks w = Some x" "n \<le> m"
  shows "run_planned R m goal tasks w = Some x"
proof -
  obtain k where m: "m = n + k"
    using assms(2) le_Suc_ex by blast
  show ?thesis
    using assms(1) run_waves_more[of R tasks n _ _ k] unfolding m run_planned_def execute_tasks_def Let_def by auto
qed

section \<open>Example runners\<close>

text \<open>A runner on a disk without files; every call to a model is answered by the given router.\<close>

definition ex_runner :: "'s router \<Rightarrow> string \<Rightarrow> ('s, unit) swarm_runner" where
  "ex_runner router tool_output =
     \<lparr>sw_ops = ex_agent_ops (\<lambda>_. router) (\<lambda>_ _. ()) tool_output, sw_disk = ex_disk, sw_symlink = (\<lambda>_ _ _. ()),
      sw_libs = ex_libs, sw_hooks = [], sw_control = None, sw_join = id, sw_repo_path = ''/tmp/clone'',
      sw_project = ''p'', sw_parent_run_id = None, sw_max_concurrent = 2, sw_has_store = False,
      sw_embed_model = [], sw_config_tier = ex_tier, sw_planner_tier = ex_tier, sw_agent_tier = ex_tier\<rparr>"

lemma ex_runner_joins: "\<forall>rs. set (sw_join (ex_runner router out) rs) = set rs" "1 \<le> sw_max_concurrent (ex_runner router out)"
  by (simp_all add: ex_runner_def)

lemma no_backend_models: "list_models_indexed (router_new v) = ([], router_new v)"
  by (simp add: list_models_indexed_def router_new_def)

lemma no_backend_chat: "\<exists>e. router_chat (router_new v) msgs c opts = (Err e, router_new v)"
proof -
  have "try_preferred_model msgs opts (router_new v) = (Err [], router_new v)"
    "try_preferred_backend msgs opts (router_new v) = (Err [], router_new v)"
    by (simp_all add: try_preferred_model_def try_preferred_backend_def router_new_def split: option.split)
  then show ?thesis
    by (simp add: router_chat_def or_next_def pick_model_and_hosts_def no_backend_models)
qed

lemma silent_agent:
  assumes "ag_knowledge A = None" "\<not> ag_events A" "af_disk (ag_files A) = ex_disk"
    "ag_ops A = (ex_agent_ops (\<lambda>_. router_new ()) (\<lambda>_ _. ()) out)\<lparr>ko_drain := (\<lambda>w. ([], w))\<rparr>"
    "as_provider s = None"
  shows "\<exists>e. fst (agent_run_task A task files c s) = Err e" "\<exists>e. fst (run_with_tools A task files c (Suc n) s) = Err e"
proof -
  have same: "s\<lparr>as_world := v\<rparr> = s" for v
    by (cases s) simp
  have reads: "read_files (ag_files A) s fs = Ok (map (\<lambda>f. (f, [])) fs)" for fs
    by (induction fs) (simp_all add: read_one_def assms(3,5) ex_disk_def)
  have chat: "\<exists>e. agent_chat A msgs c opts s = (Err e, s)" for msgs opts c
    using no_backend_chat[of "()" msgs c opts]
    by (auto simp: agent_chat_def on_world_def io_zoom_def assms(4) ex_agent_ops_def)
  define f where "f msgs c opts = (case fst (agent_chat A msgs c opts s) of Err e \<Rightarrow> e | _ \<Rightarrow> [])" for msgs c opts
  have f: "agent_chat A msgs c opts s = (Err (f msgs c opts), s)" for msgs c opts
    using chat[of msgs c opts] by (auto simp: f_def)
  have run: "\<exists>e. fst (agent_run_task A task files c s) = Err e" for task files c
    by (simp add: agent_run_task_def io_bind_def on_world_def io_zoom_def assms ex_agent_ops_def io_ok_def consult_knowledge_def
          reads agent_publish_def io_when_def agent_now_def io_get_def record_start_def f same)
  then show "\<exists>e. fst (agent_run_task A task files c s) = Err e" .
  have "[1..<Suc (Suc n)] = 1 # [2..<Suc (Suc n)]"
    by (simp add: upt_conv_Cons numeral_2_eq_2)
  moreover have "ko_drain (ag_ops A) w = ([], w)" for w
    by (simp add: assms(4))
  ultimately show "\<exists>e. fst (run_with_tools A task files c (Suc n) s) = Err e"
    using run by (simp add: run_with_tools_def io_bind_def reads io_try_def f on_world_def io_zoom_def Let_def peer_messages_def same)
qed

lemma ex_runner_returns: "agents_return (ex_runner (router_new ()) out)"
  unfolding agents_return_def
proof (intro allI)
  fix task wt_path desc w
  have "MAX_TOOL_STEPS = Suc 9"
    by (simp add: MAX_TOOL_STEPS_def)
  then show "fst (spawn_agent (ex_runner (router_new ()) out) task wt_path desc w) \<noteq> Panic"
    using silent_agent(2)[of "wave_agent (ex_runner (router_new ()) out) wt_path" out "\<lparr>as_provider = None, as_world = w\<rparr>" desc "t_files task" "t_complexity task" 9]
    by (auto simp: spawn_agent_def case_prod_unfold wave_agent_def ex_runner_def)
qed

definition ex_planned :: "sub_task list" where
  "ex_planned = [ex_task ''b'' [''src/b.rs''] [''a''], ex_task ''a'' [''src/a.rs''] [], ex_task ''c'' [] [''gone'']]"

lemma ex_planned_runnable: "runnable ex_planned ''a''" "runnable ex_planned ''b''" "\<not> runnable ex_planned ''c''"
proof -
  show a: "runnable ex_planned ''a''"
    using runnableI[of "ex_task ''a'' [''src/a.rs''] []" ex_planned] by (simp add: ex_planned_def ex_task_def)
  show "runnable ex_planned ''b''"
    using runnableI[of "ex_task ''b'' [''src/b.rs''] [''a'']" ex_planned] a by (simp add: ex_planned_def ex_task_def)
  have "\<not> runnable ex_planned ''gone''"
    using runnable_id[of ex_planned "''gone''"] by (auto simp: ex_planned_def ex_task_def)
  moreover have "''gone'' \<in> set (t_depends_on t)" if "t \<in> set ex_planned" "t_id t = ''c''" for t
    using that by (auto simp: ex_planned_def ex_task_def)
  ultimately show "\<not> runnable ex_planned ''c''"
    by (metis runnable.cases)
qed

theorem runner_returns_witness:
  "\<exists>r w'. run_planned (ex_runner (router_new ()) []) 4 ''g'' ex_planned () = Some (r, w')"
  by (rule runner_returns[OF ex_runner_returns ex_runner_joins]) (simp add: ex_planned_def)

text \<open>The engine on top of a runner.\<close>

definition engine_on :: "('s, unit) swarm_runner \<Rightarrow> unit engine_ops" where
  "engine_on R = WfEngineFacts.ex_ops\<lparr>op_run_planned := \<lambda>goal tasks w.
     (case run_planned R (Suc (length tasks)) goal tasks w of Some r \<Rightarrow> r | None \<Rightarrow> (Panic, w))\<rparr>"

lemma run_planned_unique: "run_planned R n goal tasks w = Some x \<Longrightarrow> run_planned R m goal tasks w = Some y \<Longrightarrow> x = y"
  using run_planned_more[of R n goal tasks w x "max n m"] run_planned_more[of R m goal tasks w y "max n m"] by simp

lemma engine_on_runs:
  assumes "agents_return R" "\<forall>rs. set (sw_join R rs) = set rs" "1 \<le> sw_max_concurrent R"
  shows "runs_planned (engine_on R) R"
  unfolding runs_planned_def
proof (intro allI impI)
  fix n goal tasks w r
  assume r: "run_planned R n goal tasks w = Some r"
  obtain x where x: "run_planned R (Suc (length tasks)) goal tasks w = Some x"
    using run_planned_total[OF assms lessI] by fastforce
  then show "op_run_planned (engine_on R) goal tasks w = r"
    using run_planned_unique[OF x r] by (simp add: engine_on_def)
qed

text \<open>C19: The engine sends the runner the steps whose dependencies have passed, with their dependencies;
  the runner waits for dependencies within the call. So at a round whose ready steps all depend on
  earlier ones, with no control step ready, nothing failed, and no precondition or effect to check,
  the runner returns at once without a result and the engine asks again, for ever: no fuel makes the
  loop return, although the store answers and no pause is asked for.\<close>

theorem dependent_step_livelocks:
  assumes "runs_planned ops R" "undisturbed ops" "dependent_round doc"
  shows "engine_loop ops fuel doc agg w = None"
  using assms by (rule dependent_loop)

theorem dependent_step_livelocks_witness:
  "\<forall>fuel. engine_loop (engine_on (ex_runner (router_new ()) [])) fuel
     (ex_run [ex_step ''a'' [] StPassed, ex_step ''b'' [''a''] StPending]) None () = None"
proof
  fix fuel
  let ?doc = "ex_run [ex_step ''a'' [] StPassed, ex_step ''b'' [''a''] StPending]"
  have "dependent_round ?doc"
    by (simp add: dependent_round_def unconditional_def ex_run_def ex_step_def ex_task_def from_task_def from_tasks_def
      failed_step_def ready_control_step_def ready_agent_tasks_def is_ready_def completed_ids_def is_control_def)
  moreover have "undisturbed (engine_on (ex_runner (router_new ()) []))"
    by (simp add: undisturbed_def engine_on_def WfEngineFacts.ex_ops_def)
  ultimately show "engine_loop (engine_on (ex_runner (router_new ()) [])) fuel ?doc None () = None"
    using dependent_step_livelocks[OF engine_on_runs[OF ex_runner_returns ex_runner_joins]] by blast
qed

text \<open>Nothing but the agents fails on the example disk.\<close>

definition succeeds :: "('h, 'a) io \<Rightarrow> bool" where
  "succeeds m \<longleftrightarrow> (\<forall>s. \<exists>a s'. m s = (Ok a, s'))"

lemma succeeds_bind: "succeeds m \<Longrightarrow> (\<And>a. succeeds (f a)) \<Longrightarrow> succeeds (io_bind m f)"
  unfolding succeeds_def io_bind_Ok by blast

lemma succeeds_ok: "succeeds (io_ok a)" and succeeds_get: "succeeds (io_get g)" and succeeds_put: "succeeds (io_put h)"
  by (simp_all add: succeeds_def io_defs)

lemma succeeds_each: "(\<And>x. x \<in> set xs \<Longrightarrow> succeeds (f x)) \<Longrightarrow> succeeds (io_each f xs)"
  by (induction xs) (auto intro!: succeeds_bind succeeds_ok)

lemma succeeds_zoom: "succeeds m \<Longrightarrow> succeeds (io_zoom get put m)"
  unfolding succeeds_def io_zoom_def by (metis case_prod_conv)

lemma ex_mt_create: "succeeds (mt_create ex_disk symlink i)"
  by (auto simp: succeeds_def mt_create_def ex_disk_def io_defs mt_world_def Let_def)

lemma ex_copy: "copy_file ex_disk a b f = io_ok ()"
  by (simp add: copy_file_def ex_disk_def io_when_def io_ok_def fun_eq_iff)

lemma ex_copy_dependency: "succeeds (copy_dependency (ex_runner router out) p d)"
proof -
  have "succeeds (rs_io (io_each (copy_file (sw_disk (ex_runner router out)) a b) fs))" for a b fs
    unfolding rs_io_def by (intro succeeds_zoom succeeds_each) (simp add: ex_runner_def ex_copy succeeds_ok)
  then show ?thesis
    by (auto simp: succeeds_def copy_dependency_def split: option.split)
qed

lemma ex_prepare_task:
  assumes "task_map tasks i \<noteq> None"
  shows "succeeds (prepare_task (ex_runner router out) tasks i)"
proof -
  obtain t where t: "task_map tasks i = Some t"
    using assms by auto
  have "succeeds (rs_mem_io (mt_create ex_disk sl i))" for sl i
    unfolding rs_mem_io_def by (rule succeeds_zoom[OF ex_mt_create])
  then have c: "succeeds (\<lambda>s. apfst (map_err f) (rs_mem_io (mt_create ex_disk sl i) s))" for f sl i
    unfolding succeeds_def by (metis apfst_conv map_err.simps(1))
  show ?thesis
    unfolding prepare_task_def t option.case
    by (intro succeeds_bind succeeds_each ex_copy_dependency succeeds_get succeeds_ok) (simp add: ex_runner_def c)
qed

lemma ex_prepare_wave: "\<forall>i\<in>set is. task_map tasks i \<noteq> None \<Longrightarrow> succeeds (prepare_wave (ex_runner router out) tasks is)"
  by (induction "is") (auto intro!: succeeds_bind succeeds_ok ex_prepare_task)

lemma plain_fast_paths: "\<forall>p\<in>set ps. t_edit (fst p) = None \<and> t_template (fst p) = None \<Longrightarrow> fast_paths R ps = io_ok ps"
  by (induction ps) (auto simp: try_direct_def try_graph_def io_defs fun_eq_iff)

lemma collect_succeeds: "snd x \<noteq> Panic \<Longrightarrow> succeeds (collect_result R x)"
  by (cases "(R, x)" rule: collect_result.cases)
    (auto simp: mark_applied_def complete_task_def intro!: succeeds_bind succeeds_put)

lemma ex_run_wave:
  assumes "\<forall>t\<in>set tasks. t_edit t = None \<and> t_template t = None" "\<forall>i\<in>set ready. task_map tasks i \<noteq> None"
  shows "succeeds (run_wave (ex_runner (router_new ()) out) tasks ready)"
  unfolding succeeds_def
proof
  fix s :: "unit run_state"
  let ?R = "ex_runner (router_new ()) out"
  let ?ids = "take (min (length ready) (sw_max_concurrent ?R)) ready"
  obtain ps s1 where p: "prepare_wave ?R tasks ?ids s = (Ok ps, s1)"
    using ex_prepare_wave[of ?ids tasks "router_new ()" out] assms(2) unfolding succeeds_def by (meson in_set_takeD)
  have "\<forall>p\<in>set ps. fst p \<in> set tasks"
    using prepare_wave_yields[of ?ids tasks ?R] p unfolding io_yields_def by blast
  then have f: "fast_paths ?R ps = io_ok ps"
    using assms(1) by (intro plain_fast_paths) blast
  have "succeeds (io_each (collect_result ?R) (sw_join ?R (fst (spawn_all ?R ps w))))" for w
    using spawn_all_returns[OF ex_runner_returns, of out ps w] ex_runner_joins(1)[of "router_new ()" out]
    by (intro succeeds_each collect_succeeds) simp
  then show "\<exists>a s'. run_wave ?R tasks ready s = (Ok a, s')"
    by (simp add: run_wave_def io_bind_def p f io_ok_def rs_io_def io_zoom_def case_prod_unfold succeeds_def)
qed

lemma collect_halted: "io_keeps (\<lambda>s. rs_halted s = h) (collect_result R x)"
  by (cases "(R, x)" rule: collect_result.cases)
    (auto simp: io_keeps_def io_spec_def mark_applied_def complete_task_def io_defs)

lemma try_halted: "io_keeps (\<lambda>s. rs_halted s = h) (try_direct R task p)" "io_keeps (\<lambda>s. rs_halted s = h) (try_graph R task p d)"
  unfolding try_direct_def try_graph_def complete_task_def mark_applied_def io_put_def
  by (intro keeps; simp add: io_keeps_def io_spec_def)+

lemma run_wave_halted: "io_keeps (\<lambda>s. rs_halted s = h) (run_wave R tasks ready)"
proof -
  have f: "io_keeps (\<lambda>s. rs_halted s = h) (fast_paths R ps)" for ps
    by (induction R ps rule: fast_paths.induct) (auto intro!: keeps try_halted)
  show ?thesis
    unfolding run_wave_def by (intro keeps f collect_halted) (simp_all add: about_completed_def)
qed

lemma ex_run_waves:
  assumes "\<forall>t\<in>set tasks. t_edit t = None \<and> t_template t = None"
  shows "run_waves (ex_runner (router_new ()) out) tasks n s = Some (r, s') \<Longrightarrow> r = Ok () \<and> rs_halted s' = rs_halted s"
proof (induction n arbitrary: s)
  case (Suc n)
  let ?R = "ex_runner (router_new ()) out" and ?ready = "runner_ready tasks (rs_completed s)"
  have "task_map tasks i \<noteq> None" if "i \<in> set ?ready" for i
    using that by (auto simp: runner_ready_def task_map_def map_of_eq_None_iff image_image)
  then obtain u s1 where w: "run_wave ?R tasks ?ready s = (Ok u, s1)"
    using ex_run_wave[OF assms, of ?ready out] unfolding succeeds_def by blast
  have h: "rs_halted s1 = rs_halted s"
    using io_keepsD[OF run_wave_halted[of "rs_halted s" ?R tasks ?ready], of s] w by simp
  have "sw_control ?R = None"
    by (simp add: ex_runner_def)
  then show ?case
    using Suc.prems Suc.IH[of s1] h by (auto simp: w Let_def split: if_splits)
qed simp

lemma ex_capture: "succeeds (capture_results (ex_runner router out) m rs c)"
proof (induction rs arbitrary: c)
  case (Cons r rs)
  have "succeeds (output_lines (dk_command ex_disk a b d))" for a b d
    by (simp add: output_lines_def ex_disk_def succeeds_def io_defs)
  then have "succeeds (capture_result (ex_runner router out) m r c)"
    unfolding capture_result_def Let_def
    by (auto simp: ex_runner_def succeeds_ok split: option.split intro!: succeeds_bind) (simp add: succeeds_def)
  then show ?case
    unfolding capture_results.simps by (intro succeeds_bind Cons.IH)
qed (simp add: succeeds_ok)

lemma ex_after_waves: "\<exists>r w'. after_waves (ex_runner router out) goal tasks a b p w0 s = (Ok r, w')"
proof -
  have "succeeds (if rs_applied s then capture_results (ex_runner router out) (rs_mem s) rs capture_new else io_ok capture_new)" for rs
    by (simp add: ex_capture succeeds_ok)
  then show ?thesis
    unfolding after_waves_def Let_def succeeds_def io_bind_Ok by (simp add: case_prod_unfold)
qed

lemma ex_run_planned:
  assumes "\<forall>t\<in>set tasks. t_edit t = None \<and> t_template t = None"
    "run_planned (ex_runner (router_new ()) out) n goal tasks w = Some (x, w')"
  shows "\<exists>r. x = Ok r \<and> \<not> sr_halted r"
proof -
  let ?R = "ex_runner (router_new ()) out"
  obtain s0 v s where run: "run_waves ?R tasks n s0 = Some (v, s)" "\<not> rs_halted s0"
    and x: "(case v of Ok _ \<Rightarrow> after_waves ?R goal tasks 0 0 [] w s
           | Err e \<Rightarrow> (Err e, snd (snd (mt_cleanup (sw_disk ?R) (rs_mem s, rs_world s))))
           | Panic \<Rightarrow> (Panic, snd (snd (mt_cleanup (sw_disk ?R) (rs_mem s, rs_world s))))) = (x, w')"
    using assms(2) unfolding run_planned_def execute_tasks_def Let_def run_state_new_def by auto
  have "v = Ok ()" "\<not> rs_halted s"
    using ex_run_waves[OF assms(1) run(1)] run(2) by simp_all
  then show ?thesis
    using x ex_after_waves[of "router_new ()" out goal tasks 0 0 "[]" w s] after_waves_result[of ?R goal tasks 0 0 "[]" w s] by fastforce
qed

theorem runner_exact_witness:
  "\<exists>r w'. run_planned (ex_runner (router_new ()) []) 4 ''g'' ex_planned () = Some (Ok r, w')
     \<and> map (t_id \<circ> tr_task) (sr_results r) = [''b'', ''a'']"
proof -
  let ?R = "ex_runner (router_new ()) []"
  have plain: "\<forall>t\<in>set ex_planned. t_edit t = None \<and> t_template t = None" "distinct (map t_id ex_planned)"
    by (simp_all add: ex_planned_def ex_task_def)
  obtain x w' where x: "run_planned ?R 4 ''g'' ex_planned () = Some (x, w')"
    using run_planned_total[OF ex_runner_returns ex_runner_joins, of ex_planned 4] by (auto simp: ex_planned_def)
  then obtain r where r: "x = Ok r" "\<not> sr_halted r"
    using ex_run_planned[OF plain(1)] by blast
  have "map tr_task (sr_results r) = filter (\<lambda>t. runnable ex_planned (t_id t)) ex_planned"
    using runner_exact[OF plain(2) ex_runner_joins(1) x[unfolded r] r(2)] by blast
  then have "map t_id (map tr_task (sr_results r)) = [''b'', ''a'']"
    using ex_planned_runnable by (simp add: ex_planned_def ex_task_def)
  then show ?thesis
    using x r by auto
qed

section \<open>Agents that panic\<close>

text \<open>The task is a single one without a fast path, its workspace can be created, and its agent panics.\<close>

definition always_panics :: "('s, 'w) swarm_runner \<Rightarrow> sub_task \<Rightarrow> bool" where
  "always_panics R t \<longleftrightarrow> (\<forall>wt_path desc w. fst (spawn_agent R t wt_path desc w) = Panic)"

definition plain_task :: "sub_task \<Rightarrow> bool" where
  "plain_task t \<longleftrightarrow> t_depends_on t = [] \<and> t_edit t = None \<and> t_template t = None"

definition workspaces_work :: "('s, 'w) swarm_runner \<Rightarrow> bool" where
  "workspaces_work R \<longleftrightarrow> (\<forall>i. succeeds (mt_create (sw_disk R) (sw_symlink R) i))"

lemma panicked_ignored: "\<forall>x\<in>set os. snd x = Panic \<Longrightarrow> io_each (collect_result R) os s = (Ok (), s)"
proof (induction os)
  case (Cons x os)
  then show ?case
    by (cases x) (auto simp: io_bind_def io_ok_def)
qed (simp add: io_ok_def)

lemma panicked_wave:
  assumes "always_panics R t" "plain_task t" "workspaces_work R" "\<forall>rs. set (sw_join R rs) = set rs" "1 \<le> sw_max_concurrent R"
  shows "\<exists>u s'. run_wave R [t] [t_id t] s = (Ok u, s') \<and> rs_completed s' = rs_completed s"
proof -
  have ids: "take (min (length [t_id t]) (sw_max_concurrent R)) [t_id t] = [t_id t]"
    using assms(5) by simp
  have deps: "t_depends_on t = []" "t_edit t = None" "t_template t = None"
    using assms(2) by (simp_all add: plain_task_def)
  obtain wsp m w where c: "mt_create (sw_disk R) (sw_symlink R) (t_id t) (rs_mem s, rs_world s) = (Ok wsp, (m, w))"
    using assms(3) unfolding workspaces_work_def succeeds_def by (metis prod.collapse)
  have p: "prepare_wave R [t] [t_id t] s = (Ok [(t, wsp, augmented (rs_summaries s) t)], s\<lparr>rs_mem := m, rs_world := w\<rparr>)"
    by (simp add: prepare_task_def task_map_def io_bind_def rs_mem_io_def io_zoom_def c deps io_ok_def io_get_def)
  have f: "fast_paths R [(t, wsp, d)] = io_ok [(t, wsp, d)]" for d
    by (rule plain_fast_paths) (simp add: deps)
  obtain w' where sp: "spawn_all R [(t, wsp, augmented (rs_summaries s) t)] w = ([(t, Panic)], w')"
    using assms(1) unfolding always_panics_def by (simp add: Let_def case_prod_unfold)
  have "\<forall>x\<in>set (sw_join R [(t, Panic)]). snd x = Panic"
    using assms(4) by simp
  then show ?thesis
    unfolding run_wave_def ids
    by (simp add: io_bind_def p f io_ok_def rs_io_def io_zoom_def sp panicked_ignored del: prepare_wave.simps fast_paths.simps spawn_all.simps)
qed

lemma panicked_waves:
  assumes "always_panics R t" "plain_task t" "workspaces_work R" "\<forall>rs. set (sw_join R rs) = set rs" "1 \<le> sw_max_concurrent R"
    "sw_control R = None"
  shows "rs_completed s = [] \<Longrightarrow> run_waves R [t] n s = None"
proof (induction n arbitrary: s)
  case (Suc n)
  have "runner_ready [t] [] = [t_id t]"
    using assms(2) by (simp add: runner_ready_def om_has_def plain_task_def)
  moreover obtain u s' where "run_wave R [t] [t_id t] s = (Ok u, s')" "rs_completed s' = []"
    using panicked_wave[OF assms(1-5), of s] Suc.prems by metis
  ultimately show ?case
    using Suc assms(6) by (simp add: Let_def)
qed simp

text \<open>C20: A panic of an agent is only logged: its task stays unfinished and ready, so the runner clones a
  workspace and starts it again. An agent that panics on a task each time (it does when the result of a
  tool is longer than 2000 bytes and the cut at byte 2000 falls inside a character) keeps the run from
  ever ending: no fuel makes \<open>run_planned\<close> return.\<close>

theorem panicking_agent_never_ends:
  assumes "always_panics R t" "plain_task t" "workspaces_work R" "\<forall>rs. set (sw_join R rs) = set rs" "1 \<le> sw_max_concurrent R"
    "sw_control R = None"
  shows "run_planned R fuel goal [t] w = None"
  using panicked_waves[OF assms] by (simp add: run_planned_def execute_tasks_def Let_def run_state_new_def)

lemma ex_host_chat: "router_chat (ex_host text) msgs c (tier_options ex_tier) = (Ok (ex_answer text), ex_host text)"
  by (simp add: router_chat_def or_next_def try_preferred_model_def try_preferred_backend_def tier_options_def ex_host_def
    add_backend_def router_new_def backend_chat_def default_inference_options_def)

lemma cut_inside_character: "shown_result (replicate 1999 CHR ''x'' @ [CHR 0xC3, CHR 0xA9]) = Panic"
  by (simp add: shown_result_def TOOL_RESULT_MAX_CHARS_def str_slice_to_def is_char_boundary_def nth_append cont_byte_def)

definition ex_tool_text :: string where
  "ex_tool_text = ''<<<TOOL read_file'' @ [NL] @ ''{}'' @ [NL] @ ''>>>''"

definition ex_long_output :: string where
  "ex_long_output = replicate 1999 CHR ''x'' @ [CHR 0xC3, CHR 0xA9]"

lemma ex_panics: "always_panics (ex_runner (ex_host ex_tool_text) ex_long_output) t"
  unfolding always_panics_def
proof (intro allI)
  fix wt_path desc and w :: unit
  let ?R = "ex_runner (ex_host ex_tool_text) ex_long_output"
  let ?A = "wave_agent ?R wt_path" and ?s = "\<lparr>as_provider = None, as_world = ()\<rparr> :: (unit, unit) agent_state"
  have A: "ag_ops ?A = (ex_agent_ops (\<lambda>_. ex_host ex_tool_text) (\<lambda>_ _. ()) ex_long_output)\<lparr>ko_drain := (\<lambda>w. ([], w))\<rparr>"
    "af_disk (ag_files ?A) = ex_disk" "ag_tier ?A = ex_tier"
    by (simp_all add: wave_agent_def ex_runner_def)
  have same: "s\<lparr>as_world := v\<rparr> = s" for s :: "(unit, unit) agent_state" and v
    by (cases s) simp
  have reads: "read_files (ag_files ?A) ?s fs = Ok (map (\<lambda>f. (f, [])) fs)" for fs
    by (induction fs) (simp_all add: read_one_def A ex_disk_def)
  have chat: "agent_chat ?A msgs c (tier_options ex_tier) ?s = (Ok (ex_answer ex_tool_text), ?s)" for msgs c
    by (simp add: agent_chat_def on_world_def io_zoom_def A ex_agent_ops_def ex_host_chat same)
  have parse: "parse_actions (trim (ir_content (ex_answer ex_tool_text))) = Ok [ActTool \<lparr>tc_name = ''read_file'', tc_params_json = ''{}''\<rparr>]"
    unfolding ex_answer_def ex_tool_text_def by code_simp
  have shown: "shown_result ex_long_output = Panic"
    unfolding ex_long_output_def by (rule cut_inside_character)
  have tool: "fst (do_actions ?A c (Suc 0) MAX_TOOL_STEPS [ActTool call] (lo, fb, fin) ?s) = Panic" for c call lo fb fin
    by (simp add: do_tool_def io_bind_def on_world_def io_zoom_def A ex_agent_ops_def io_ok_def Let_def progress_def io_put_def
      same io_lift_def shown)
  have steps: "[Suc 0..<Suc MAX_TOOL_STEPS] = Suc 0 # [2..<Suc MAX_TOOL_STEPS]"
    by (simp add: MAX_TOOL_STEPS_def upt_conv_Cons numeral_2_eq_2)
  have drain: "ko_drain (ag_ops ?A) v = ([], v)" for v
    by (simp add: A)
  have "fst (run_with_tools ?A desc fs c MAX_TOOL_STEPS ?s) = Panic" for fs c
    using tool
    by (simp add: run_with_tools_def io_bind_def reads steps io_try_def chat A(3) drain on_world_def io_zoom_def same Let_def parse io_lift_def
      unwrap_or_default_def case_prod_unfold split: outcome.split
      del: upt_Suc do_actions.simps)
  then show "fst (spawn_agent ?R t wt_path desc w) = Panic"
    by (simp add: spawn_agent_def case_prod_unfold)
qed

theorem panicking_agent_never_ends_witness:
  "\<forall>fuel. run_planned (ex_runner (ex_host ex_tool_text) ex_long_output) fuel ''g'' [ex_task ''a'' [''src/a.rs''] []] () = None"
proof
  fix fuel
  have "workspaces_work (ex_runner (ex_host ex_tool_text) ex_long_output)"
    by (simp add: workspaces_work_def ex_runner_def ex_mt_create)
  moreover have "sw_control (ex_runner (ex_host ex_tool_text) ex_long_output) = None" "plain_task (ex_task ''a'' [''src/a.rs''] [])"
    by (simp_all add: ex_runner_def plain_task_def ex_task_def)
  ultimately show "run_planned (ex_runner (ex_host ex_tool_text) ex_long_output) fuel ''g'' [ex_task ''a'' [''src/a.rs''] []] () = None"
    using panicking_agent_never_ends[OF ex_panics] ex_runner_joins by blast
qed

end
