(* ===== verification/SecurityScan.thy ===== *)
theory SecurityScan
  imports Disk
begin

text \<open>
  The security scan of the daemon's quality gate (\<open>crates/agent-daemon/src/security_scan.rs\<close>): the
  severities, the rules on one added line, the scan of a run's files against the committed versions,
  and its report. \<open>git show\<close> is a command of the disk.
\<close>

section \<open>Severities and configuration\<close>

datatype severity = Low | Medium | High | Critical

fun severity_rank :: "severity \<Rightarrow> nat" where
  "severity_rank Low = 0"
| "severity_rank Medium = 1"
| "severity_rank High = 2"
| "severity_rank Critical = 3"

lemma severity_rank_inj: "severity_rank a = severity_rank b \<Longrightarrow> a = b"
  by (cases a; cases b) simp_all

text \<open>The derived order: as the variants are listed.\<close>

instantiation severity :: linorder
begin

definition less_eq_severity :: "severity \<Rightarrow> severity \<Rightarrow> bool" where
  "less_eq_severity a b \<longleftrightarrow> severity_rank a \<le> severity_rank b"

definition less_severity :: "severity \<Rightarrow> severity \<Rightarrow> bool" where
  "less_severity a b \<longleftrightarrow> severity_rank a < severity_rank b"

instance
  by standard (auto simp: less_eq_severity_def less_severity_def dest: severity_rank_inj)

end

lemmas severity_order = less_eq_severity_def less_severity_def

record security_config =
  sec_rules_enabled :: bool
  sec_fail_severity :: string

definition default_security_config :: security_config where
  "default_security_config = \<lparr>sec_rules_enabled = True, sec_fail_severity = ''high''\<rparr>"

definition parse_severity :: "string \<Rightarrow> severity" where
  "parse_severity s =
     (let t = to_lowercase (trim s) in
      if t = ''low'' then Low else if t = ''medium'' then Medium else if t = ''critical'' then Critical
      else High)"

section \<open>The rules\<close>

definition SCAN_SNIPPET_MAX_CHARS :: nat where "SCAN_SNIPPET_MAX_CHARS = 160"
definition SCAN_FINDINGS_MAX :: nat where "SCAN_FINDINGS_MAX = 40"
definition SCAN_MIN_SECRET_LEN :: nat where "SCAN_MIN_SECRET_LEN = 20"

definition SCAN_SCANNABLE_EXTS :: "string list" where
  "SCAN_SCANNABLE_EXTS =
     [''rs'', ''ts'', ''js'', ''go'', ''py'', ''sh'', ''toml'', ''yaml'', ''yml'', ''env'']"

definition SECRET_PREFIXES :: "string list" where
  "SECRET_PREFIXES =
     [''AKIA'', ''ghp_'', ''gho_'', ''github_pat_'', ''-----BEGIN '', ''Authorization: Bearer '']"

definition PLACEHOLDER_MARKERS :: "string list" where
  "PLACEHOLDER_MARKERS =
     [''example'', ''dummy'', ''placeholder'', ''your_'', ''changeme'', ''redacted'', ''xxxxx'',
      ''env::var'', ''getenv'']"

definition SECRET_KEYWORDS :: "string list" where
  "SECRET_KEYWORDS =
     [''key'', ''token'', ''secret'', ''password'', ''passwd'', ''apikey'', ''api_key'', ''credential'']"

definition RULE_ID_SECRET :: string where "RULE_ID_SECRET = ''SEC001-hardcoded-secret''"
definition RULE_ID_UNSAFE :: string where "RULE_ID_UNSAFE = ''SEC002-new-unsafe-block''"
definition RULE_ID_CMD_INJECT :: string where "RULE_ID_CMD_INJECT = ''SEC003-command-injection''"
definition RULE_ID_PATH_TRAVERSAL :: string where "RULE_ID_PATH_TRAVERSAL = ''SEC004-path-traversal''"
definition RULE_ID_NET_BIND :: string where "RULE_ID_NET_BIND = ''SEC005-unrestricted-bind''"

text \<open>The right-hand side of an assignment of a string literal.\<close>

definition assigned_string_value :: "string \<Rightarrow> string option" where
  "assigned_string_value line =
     (case str_find ''='' line of None \<Rightarrow> None
      | Some i \<Rightarrow> (let after_eq = drop (i + 1) line in
          case str_find [DQ] after_eq of None \<Rightarrow> None
          | Some q \<Rightarrow> (let rest = drop (q + 1) after_eq in
              case str_find [DQ] rest of None \<Rightarrow> None | Some close \<Rightarrow> Some (take close rest))))"

definition is_placeholder :: "string \<Rightarrow> bool" where
  "is_placeholder line \<longleftrightarrow> list_ex (contains (to_lowercase line)) PLACEHOLDER_MARKERS"

definition is_secret :: "string \<Rightarrow> bool" where
  "is_secret line \<longleftrightarrow> list_ex (contains line) SECRET_PREFIXES
     \<or> (case assigned_string_value line of None \<Rightarrow> False
        | Some val \<Rightarrow> SCAN_MIN_SECRET_LEN \<le> length val \<and> list_ex (contains (to_lowercase line)) SECRET_KEYWORDS)"

definition classify :: "string \<Rightarrow> string \<Rightarrow> (string \<times> severity) option" where
  "classify line ext =
     (let lower = to_lowercase line;
          spawns = contains line ''Command::new('' \<or> contains line ''.arg('' \<or> contains lower ''exec(''
                   \<or> contains lower ''system('' in
      if \<not> is_placeholder line \<and> is_secret line then Some (RULE_ID_SECRET, High)
      else if ext = ''rs'' \<and> (contains line ''unsafe {'' \<or> contains line ''unsafe fn'')
        then Some (RULE_ID_UNSAFE, High)
      else if spawns \<and> (contains line ''format!'' \<or> contains line ''{}'' \<or> contains line '' + '')
        then Some (RULE_ID_CMD_INJECT, Medium)
      else if contains lower ''..'' \<and> (contains line ''.join('' \<or> contains lower ''fs::'') \<and> contains line ''format!''
        then Some (RULE_ID_PATH_TRAVERSAL, Medium)
      else if contains line ''0.0.0.0'' \<and> (contains lower ''bind'' \<or> contains lower ''listen'')
        then Some (RULE_ID_NET_BIND, Medium)
      else None)"

section \<open>The scan\<close>

record scan_finding =
  fd_rule_id :: string
  fd_severity :: severity
  fd_file :: string
  fd_line :: nat
  fd_snippet :: string

text \<open>The committed content of a path, empty when \<open>git show\<close> fails.\<close>

definition head_version :: "'w disk_ops \<Rightarrow> string \<Rightarrow> string \<Rightarrow> ('w, string) io" where
  "head_version D worktree path =
     io_bind (io_try (dk_command D ''git'' [''show'', ''HEAD:'' @ path] worktree)) (\<lambda>r.
     io_ok (case r of Ok out \<Rightarrow> (if co_success out then co_stdout out else []) | _ \<Rightarrow> []))"

text \<open>The lines of one file; the flag says that the limit of the report has been reached.\<close>

fun scan_lines ::
  "string \<Rightarrow> string \<Rightarrow> string list \<Rightarrow> nat \<Rightarrow> string list \<Rightarrow> scan_finding list \<Rightarrow> scan_finding list \<times> bool" where
  "scan_lines path ext old_lines idx [] findings = (findings, False)"
| "scan_lines path ext old_lines idx (raw # raws) findings =
     (let line = trim raw in
      if line = [] \<or> line \<in> set old_lines then scan_lines path ext old_lines (idx + 1) raws findings
      else case classify line ext of
          None \<Rightarrow> scan_lines path ext old_lines (idx + 1) raws findings
        | Some (rule_id, severity) \<Rightarrow>
            (let findings' = findings @ [\<lparr>fd_rule_id = rule_id, fd_severity = severity, fd_file = path,
                 fd_line = idx + 1, fd_snippet = chars_take SCAN_SNIPPET_MAX_CHARS line\<rparr>] in
             if SCAN_FINDINGS_MAX \<le> length findings' then (findings', True)
             else scan_lines path ext old_lines (idx + 1) raws findings'))"

definition scannable :: "string \<times> string \<Rightarrow> bool" where
  "scannable f \<longleftrightarrow> file_extension (fst f) \<in> set SCAN_SCANNABLE_EXTS \<and> utf8_valid (snd f)"

fun scan_files ::
  "'w disk_ops \<Rightarrow> string \<Rightarrow> (string \<times> string) list \<Rightarrow> scan_finding list \<Rightarrow> ('w, scan_finding list) io" where
  "scan_files D worktree [] findings = io_ok findings"
| "scan_files D worktree ((path, new_bytes) # files) findings =
     (if \<not> scannable (path, new_bytes) then scan_files D worktree files findings
      else io_bind (head_version D worktree path) (\<lambda>old_text.
        case scan_lines path (file_extension path) (map trim (str_lines old_text)) 0 (str_lines new_bytes) findings of
          (findings', True) \<Rightarrow> io_ok findings'
        | (findings', False) \<Rightarrow> scan_files D worktree files findings'))"

definition finding_text :: "scan_finding \<Rightarrow> string" where
  "finding_text f =
     fd_rule_id f @ '' @ '' @ fd_file f @ '':'' @ show_nat (fd_line f) @ '': '' @ fd_snippet f"

definition scan_report :: "scan_finding list \<Rightarrow> string" where
  "scan_report blocking =
     ''security scan: '' @ show_nat (length blocking) @ '' blocking finding(s): ''
     @ str_join ''; '' (map finding_text blocking)"

definition scan ::
  "'w disk_ops \<Rightarrow> (string \<times> string) list \<Rightarrow> string \<Rightarrow> security_config \<Rightarrow> ('w, unit) io" where
  "scan D files gate_worktree sec =
     io_bind (scan_files D gate_worktree files []) (\<lambda>findings.
     let blocking = filter (\<lambda>f. parse_severity (sec_fail_severity sec) \<le> fd_severity f) findings in
     if blocking = [] then io_ok () else io_lift (Err (scan_report blocking)))"

end
