(* ===== verification/Config.thy ===== *)
theory Config
  imports Agent SecurityScan Base64
begin

text \<open>
  The configuration (\<open>crates/config/src/lib.rs\<close>): its sections with their compiled-in defaults, the
  layers default, file and environment, the roles of models, and the credentials of the database. The
  environment is a partial map, a TOML parser is a parameter, and a \<open>f64\<close> nobody computes with here is
  its bit pattern.
\<close>

type_synonym f64_bits = "64 word"

section \<open>Sections\<close>

record learning_config =
  lc_enabled :: bool
  lc_distill_on_success :: bool
  lc_max_proven_plans :: nat
  lc_min_similarity :: f32_bits
  lc_proven_plans_char_budget :: nat
  lc_verify_diffs :: bool

record autopilot_config =
  ac_enabled :: bool
  ac_tick_secs :: nat
  ac_max_runs_per_day :: nat
  ac_auto_approve :: bool
  ac_continuous :: bool

record github_issues_config =
  gi_enabled :: bool
  gi_repo :: string
  gi_trigger_label :: string
  gi_poll_secs :: nat
  gi_base_branch :: string
  gi_project :: string

record knowledge_export_config =
  kc_export :: bool
  kc_import_on_start :: bool
  kc_export_interval_secs :: nat
  kc_auto_commit :: bool
  kc_commit_branch :: string

record wasm_tool_config =
  wt_wasm :: string
  wt_fs_read :: "string list"
  wt_fs_write :: "string list"
  wt_net :: "string list"

record wassette_config =
  wc_enabled :: bool
  wc_component_dir :: string
  wc_tools :: "wasm_tool_config list"

record provider_config =
  pc_provider_type :: string
  pc_url :: string
  pc_priority :: nat
  pc_api_key :: string
  pc_model :: string
  pc_models :: "string list"

record host_config =
  hc_name :: string
  hc_host_type :: string
  hc_ollama_url :: string

record resource_config =
  rc_max_cpu_percent :: f64_bits
  rc_max_ram_percent :: f64_bits
  rc_check_interval_secs :: nat
  rc_max_concurrent_agents :: nat
  rc_max_concurrent_runs :: nat
  rc_dynamic_slots :: bool
  rc_max_sub_plan_depth :: nat
  rc_max_graph_retries :: nat
  rc_hosts :: "host_config list"

record tiers_config =
  ts_orchestrator :: tier_config
  ts_agent :: tier_config
  ts_worker :: tier_config

record ollama_config =
  oc_url :: string
  oc_keep_alive :: string

datatype surreal_mode = Embedded | Remote | Nats

record surreal_config =
  sc_mode :: surreal_mode
  sc_path :: string
  sc_url :: string
  sc_namespace :: string
  sc_database :: string
  sc_username :: string
  sc_password :: string
  sc_bridge_timeout_secs :: nat
  sc_ruvector_path :: string

record nats_config =
  nc_url :: string

record claude_config =
  cc_api_key :: string
  cc_model :: string

record defaults_config =
  dc_embed_model :: string
  dc_simple_model :: string
  dc_project :: string

record swarm_config =
  cf_ollama :: ollama_config
  cf_surrealdb :: surreal_config
  cf_nats :: nats_config
  cf_claude :: claude_config
  cf_defaults :: defaults_config
  cf_tiers :: tiers_config
  cf_resources :: resource_config
  cf_learning :: learning_config
  cf_autopilot :: autopilot_config
  cf_wassette :: wassette_config
  cf_security :: security_config
  cf_providers :: "provider_config list"
  cf_github :: github_issues_config
  cf_knowledge :: knowledge_export_config

section \<open>Defaults\<close>

definition default_learning_config :: learning_config where
  "default_learning_config = \<lparr>lc_enabled = True, lc_distill_on_success = True, lc_max_proven_plans = 3,
     lc_min_similarity = 0x3F000000, lc_proven_plans_char_budget = 1200, lc_verify_diffs = True\<rparr>"

definition default_autopilot_config :: autopilot_config where
  "default_autopilot_config = \<lparr>ac_enabled = False, ac_tick_secs = 300, ac_max_runs_per_day = 5,
     ac_auto_approve = True, ac_continuous = False\<rparr>"

definition default_issues_config :: github_issues_config where
  "default_issues_config = \<lparr>gi_enabled = False, gi_repo = [], gi_trigger_label = ''swarm'', gi_poll_secs = 60,
     gi_base_branch = [], gi_project = ''default''\<rparr>"

definition default_knowledge_config :: knowledge_export_config where
  "default_knowledge_config = \<lparr>kc_export = False, kc_import_on_start = True, kc_export_interval_secs = 900,
     kc_auto_commit = False, kc_commit_branch = ''swarm/knowledge''\<rparr>"

definition default_wassette_config :: wassette_config where
  "default_wassette_config =
     \<lparr>wc_enabled = False, wc_component_dir = ''/tmp/alpha-swarm/wassette/components'', wc_tools = []\<rparr>"

definition default_hosts :: "host_config list" where
  "default_hosts = [\<lparr>hc_name = ''local'', hc_host_type = ''local'', hc_ollama_url = []\<rparr>]"

definition default_resource_config :: resource_config where
  "default_resource_config = \<lparr>rc_max_cpu_percent = 0x4052C00000000000, rc_max_ram_percent = 0x4052C00000000000,
     rc_check_interval_secs = 10, rc_max_concurrent_agents = 2, rc_max_concurrent_runs = 2,
     rc_dynamic_slots = False, rc_max_sub_plan_depth = 3, rc_max_graph_retries = 3, rc_hosts = default_hosts\<rparr>"

definition orchestrator_tier :: tier_config where
  "orchestrator_tier = \<lparr>tc_model = ''codellama:34b'', tc_context_window = 32768, tc_time_limit_secs = 14400,
     tc_token_limit = 1000000, tc_max_iterations = 20, tc_max_backoff_secs = 60, tc_max_context_files = 100\<rparr>"

definition agent_tier :: tier_config where
  "agent_tier = \<lparr>tc_model = ''deepseek-coder:33b'', tc_context_window = 16384, tc_time_limit_secs = 1800,
     tc_token_limit = 300000, tc_max_iterations = 10, tc_max_backoff_secs = 30, tc_max_context_files = 50\<rparr>"

definition worker_tier :: tier_config where
  "worker_tier = \<lparr>tc_model = ''qwen2.5-coder:7b'', tc_context_window = 8192, tc_time_limit_secs = 300,
     tc_token_limit = 100000, tc_max_iterations = 5, tc_max_backoff_secs = 10, tc_max_context_files = 20\<rparr>"

definition default_tiers_config :: tiers_config where
  "default_tiers_config = \<lparr>ts_orchestrator = orchestrator_tier, ts_agent = agent_tier, ts_worker = worker_tier\<rparr>"

definition default_ollama_config :: ollama_config where
  "default_ollama_config = \<lparr>oc_url = ''http://100.81.10.8:11434'', oc_keep_alive = ''-1''\<rparr>"

definition default_surreal_config :: surreal_config where
  "default_surreal_config = \<lparr>sc_mode = Embedded, sc_path = ''/tmp/alpha-swarm/surrealdb/embedded'',
     sc_url = ''127.0.0.1:8001'', sc_namespace = ''alpha_swarm'', sc_database = ''swarm'', sc_username = ''root'',
     sc_password = ''root'', sc_bridge_timeout_secs = 30, sc_ruvector_path = ''/tmp/alpha-swarm/ruvector/index''\<rparr>"

definition default_nats_config :: nats_config where
  "default_nats_config = \<lparr>nc_url = ''nats://127.0.0.1:4223''\<rparr>"

definition default_claude_config :: claude_config where
  "default_claude_config = \<lparr>cc_api_key = [], cc_model = ''claude-sonnet-4-20250514''\<rparr>"

definition default_defaults_config :: defaults_config where
  "default_defaults_config =
     \<lparr>dc_embed_model = ''nomic-embed-text'', dc_simple_model = ''qwen2.5-coder:7b'', dc_project = ''default''\<rparr>"

definition default_swarm_config :: swarm_config where
  "default_swarm_config = \<lparr>cf_ollama = default_ollama_config, cf_surrealdb = default_surreal_config,
     cf_nats = default_nats_config, cf_claude = default_claude_config, cf_defaults = default_defaults_config,
     cf_tiers = default_tiers_config, cf_resources = default_resource_config, cf_learning = default_learning_config,
     cf_autopilot = default_autopilot_config, cf_wassette = default_wassette_config,
     cf_security = default_security_config, cf_providers = [], cf_github = default_issues_config,
     cf_knowledge = default_knowledge_config\<rparr>"

section \<open>Model roles\<close>

record model_role_config =
  mr_name :: string
  mr_role :: string
  mr_good_for :: "string list"
  mr_complexity :: string

definition default_model_roles :: "model_role_config list" where
  "default_model_roles =
     [\<lparr>mr_name = ''qwen2.5-coder:7b'', mr_role = ''Fast code edits'',
       mr_good_for = [''lint fixes'', ''rename'', ''add simple function'', ''fmt''], mr_complexity = ''simple''\<rparr>,
      \<lparr>mr_name = ''deepseek-coder:33b'', mr_role = ''Medium complexity tasks'',
       mr_good_for = [''refactoring'', ''add features'', ''write tests'', ''error handling''], mr_complexity = ''medium''\<rparr>,
      \<lparr>mr_name = ''codellama:34b'', mr_role = ''Complex reasoning'',
       mr_good_for = [''architecture changes'', ''algorithms'', ''multi-file edits'', ''debugging''], mr_complexity = ''complex''\<rparr>,
      \<lparr>mr_name = ''claude-sonnet-4-20250514'', mr_role = ''Orchestration & planning'',
       mr_good_for = [''task decomposition'', ''code review'', ''complex refactors'', ''design decisions''],
       mr_complexity = ''complex''\<rparr>]"

definition model_role :: "string \<Rightarrow> model_role_config option" where
  "model_role name = List.find (\<lambda>r. contains name (mr_name r) \<or> contains (mr_name r) name) default_model_roles"

section \<open>Layers\<close>

text \<open>\<open>if let Ok(v) = std::env::var(name) { .. }\<close>.\<close>

definition env_set :: "(string \<rightharpoonup> string) \<Rightarrow> string \<Rightarrow> (string \<Rightarrow> 'c \<Rightarrow> 'c) \<Rightarrow> 'c \<Rightarrow> 'c" where
  "env_set env name f c = (case env name of Some v \<Rightarrow> f v c | None \<Rightarrow> c)"

definition env_switch :: "string \<Rightarrow> bool" where
  "env_switch v \<longleftrightarrow> to_lowercase v \<in> {''1'', ''true'', ''on''}"

definition mode_of :: "string \<Rightarrow> surreal_mode \<Rightarrow> surreal_mode" where
  "mode_of v mode = (let m = to_lowercase v in
     if m = ''embedded'' then Embedded else if m = ''remote'' then Remote else if m = ''nats'' then Nats else mode)"

definition apply_env :: "(string \<rightharpoonup> string) \<Rightarrow> swarm_config \<Rightarrow> swarm_config" where
  "apply_env env c =
     env_set env ''ALPHA_SWARM_AUTOPILOT''
       (\<lambda>v. cf_autopilot_update (ac_enabled_update (\<lambda>_. env_switch v)))
     (env_set env ''ALPHA_SWARM_LEARNING''
       (\<lambda>v. cf_learning_update (lc_enabled_update (\<lambda>_. env_switch v)))
     (env_set env ''ALPHA_SWARM_EMBED_MODEL'' (\<lambda>v. cf_defaults_update (dc_embed_model_update (\<lambda>_. v)))
     (env_set env ''ALPHA_SWARM_CLAUDE_MODEL'' (\<lambda>v. cf_claude_update (cc_model_update (\<lambda>_. v)))
     (env_set env ''ANTHROPIC_API_KEY'' (\<lambda>v. cf_claude_update (cc_api_key_update (\<lambda>_. v)))
     (env_set env ''ALPHA_SWARM_NATS_URL'' (\<lambda>v. cf_nats_update (nc_url_update (\<lambda>_. v)))
     (env_set env ''ALPHA_SWARM_SURREALDB_PASS'' (\<lambda>v. cf_surrealdb_update (sc_password_update (\<lambda>_. v)))
     (env_set env ''ALPHA_SWARM_SURREALDB_USER'' (\<lambda>v. cf_surrealdb_update (sc_username_update (\<lambda>_. v)))
     (env_set env ''ALPHA_SWARM_SURREALDB_DB'' (\<lambda>v. cf_surrealdb_update (sc_database_update (\<lambda>_. v)))
     (env_set env ''ALPHA_SWARM_SURREALDB_NS'' (\<lambda>v. cf_surrealdb_update (sc_namespace_update (\<lambda>_. v)))
     (env_set env ''ALPHA_SWARM_SURREALDB_URL'' (\<lambda>v. cf_surrealdb_update (sc_url_update (\<lambda>_. v)))
     (env_set env ''ALPHA_SWARM_SURREALDB_PATH'' (\<lambda>v. cf_surrealdb_update (sc_path_update (\<lambda>_. v)))
     (env_set env ''ALPHA_SWARM_SURREALDB_MODE'' (\<lambda>v. cf_surrealdb_update (sc_mode_update (mode_of v)))
     (env_set env ''ALPHA_SWARM_OLLAMA_URL'' (\<lambda>v. cf_ollama_update (oc_url_update (\<lambda>_. v))) c)))))))))))))"

text \<open>The first file that can be read and parsed; \<open>toml\<close> is the parser.\<close>

fun config_from_file :: "(string \<Rightarrow> swarm_config option) \<Rightarrow> (string \<rightharpoonup> string) \<Rightarrow> string list \<Rightarrow> swarm_config option" where
  "config_from_file toml files [] = None"
| "config_from_file toml files (path # paths) =
     (case files path of None \<Rightarrow> config_from_file toml files paths
      | Some content \<Rightarrow> (case toml content of Some config \<Rightarrow> Some config
          | None \<Rightarrow> config_from_file toml files paths))"

definition CONFIG_PATHS :: "string list" where
  "CONFIG_PATHS = [''alpha-swarm.toml'', ''.alpha-swarm.toml'']"

text \<open>\<open>Self::from_file().unwrap_or_default()\<close>.\<close>

definition base_config :: "(string \<Rightarrow> swarm_config option) \<Rightarrow> (string \<rightharpoonup> string) \<Rightarrow> swarm_config" where
  "base_config toml files =
     (case config_from_file toml files CONFIG_PATHS of Some c \<Rightarrow> c | None \<Rightarrow> default_swarm_config)"

definition load_config ::
  "(string \<Rightarrow> swarm_config option) \<Rightarrow> (string \<rightharpoonup> string) \<Rightarrow> (string \<rightharpoonup> string) \<Rightarrow> swarm_config" where
  "load_config toml files env = apply_env env (base_config toml files)"

definition config_from_env :: "(string \<rightharpoonup> string) \<Rightarrow> swarm_config" where
  "config_from_env env = apply_env env default_swarm_config"

section \<open>Database access\<close>

text \<open>The encoder of this crate, a copy of the one of the pull request writer.\<close>

definition config_encode_chunk :: "string \<Rightarrow> string" where
  "config_encode_chunk chunk =
     (let b0 = of_char (chunk ! 0) :: 32 word;
          b1 = (if 1 < length chunk then of_char (chunk ! 1) else 0) :: 32 word;
          b2 = (if 2 < length chunk then of_char (chunk ! 2) else 0) :: 32 word;
          combined = push_bit 16 b0 OR push_bit 8 b1 OR b2;
          char = (\<lambda>w. BASE64_CHARS ! unat (w AND 0x3F)) in
      [char (drop_bit 18 combined), char (drop_bit 12 combined),
       if 1 < length chunk then char (drop_bit 6 combined) else CHR ''='',
       if 2 < length chunk then char combined else CHR ''=''])"

definition config_base64_encode :: "string \<Rightarrow> string" where
  "config_base64_encode input = concat (map config_encode_chunk (chunks 3 input))"

definition surrealdb_auth_header :: "swarm_config \<Rightarrow> string" where
  "surrealdb_auth_header c =
     ''Basic '' @ config_base64_encode (sc_username (cf_surrealdb c) @ '':'' @ sc_password (cf_surrealdb c))"

definition surrealdb_init_sql :: "swarm_config \<Rightarrow> string" where
  "surrealdb_init_sql c =
     ''USE NS '' @ sc_namespace (cf_surrealdb c) @ '' DB '' @ sc_database (cf_surrealdb c)
     @ ''; DEFINE TABLE IF NOT EXISTS agent_run SCHEMALESS; DEFINE TABLE IF NOT EXISTS project SCHEMALESS''"

section \<open>Properties\<close>

text \<open>A variable of one section is an update of that section.\<close>

definition env_part :: "(string \<rightharpoonup> string) \<Rightarrow> string \<Rightarrow> (string \<Rightarrow> 'a \<Rightarrow> 'a) \<Rightarrow> 'a \<Rightarrow> 'a" where
  "env_part env n h x = (case env n of Some v \<Rightarrow> h v x | None \<Rightarrow> x)"

lemma env_set_ollama: "env_set env n (\<lambda>v. cf_ollama_update (h0 v)) c = cf_ollama_update (env_part env n h0) c"
  and env_set_surrealdb: "env_set env n (\<lambda>v. cf_surrealdb_update (h1 v)) c = cf_surrealdb_update (env_part env n h1) c"
  and env_set_nats: "env_set env n (\<lambda>v. cf_nats_update (h2 v)) c = cf_nats_update (env_part env n h2) c"
  and env_set_claude: "env_set env n (\<lambda>v. cf_claude_update (h3 v)) c = cf_claude_update (env_part env n h3) c"
  and env_set_defaults: "env_set env n (\<lambda>v. cf_defaults_update (h4 v)) c = cf_defaults_update (env_part env n h4) c"
  and env_set_learning: "env_set env n (\<lambda>v. cf_learning_update (h5 v)) c = cf_learning_update (env_part env n h5) c"
  and env_set_autopilot: "env_set env n (\<lambda>v. cf_autopilot_update (h6 v)) c = cf_autopilot_update (env_part env n h6) c"
  by (simp_all add: env_set_def env_part_def split: option.split)

lemmas env_sections = apply_env_def env_set_ollama env_set_surrealdb env_set_nats env_set_claude env_set_defaults env_set_learning env_set_autopilot

text \<open>What the environment does to the database section.\<close>

definition surreal_env :: "(string \<rightharpoonup> string) \<Rightarrow> surreal_config \<Rightarrow> surreal_config" where
  "surreal_env env = env_part env ''ALPHA_SWARM_SURREALDB_PASS'' (\<lambda>v. sc_password_update (\<lambda>_. v))
     \<circ> env_part env ''ALPHA_SWARM_SURREALDB_USER'' (\<lambda>v. sc_username_update (\<lambda>_. v))
     \<circ> env_part env ''ALPHA_SWARM_SURREALDB_DB'' (\<lambda>v. sc_database_update (\<lambda>_. v))
     \<circ> env_part env ''ALPHA_SWARM_SURREALDB_NS'' (\<lambda>v. sc_namespace_update (\<lambda>_. v))
     \<circ> env_part env ''ALPHA_SWARM_SURREALDB_URL'' (\<lambda>v. sc_url_update (\<lambda>_. v))
     \<circ> env_part env ''ALPHA_SWARM_SURREALDB_PATH'' (\<lambda>v. sc_path_update (\<lambda>_. v))
     \<circ> env_part env ''ALPHA_SWARM_SURREALDB_MODE'' (\<lambda>v. sc_mode_update (mode_of v))"

lemma apply_env_surreal: "cf_surrealdb (apply_env env c) = surreal_env env (cf_surrealdb c)"
  by (simp add: env_sections surreal_env_def)

lemma mode_of_idem: "mode_of v (mode_of v m) = mode_of v m"
  by (simp add: mode_of_def Let_def)

lemma surreal_env_fields:
  "sc_mode (surreal_env env c) = (case env ''ALPHA_SWARM_SURREALDB_MODE'' of Some v \<Rightarrow> mode_of v (sc_mode c) | None \<Rightarrow> sc_mode c)"
  "sc_path (surreal_env env c) = (case env ''ALPHA_SWARM_SURREALDB_PATH'' of Some v \<Rightarrow> v | None \<Rightarrow> sc_path c)"
  "sc_url (surreal_env env c) = (case env ''ALPHA_SWARM_SURREALDB_URL'' of Some v \<Rightarrow> v | None \<Rightarrow> sc_url c)"
  "sc_namespace (surreal_env env c) = (case env ''ALPHA_SWARM_SURREALDB_NS'' of Some v \<Rightarrow> v | None \<Rightarrow> sc_namespace c)"
  "sc_database (surreal_env env c) = (case env ''ALPHA_SWARM_SURREALDB_DB'' of Some v \<Rightarrow> v | None \<Rightarrow> sc_database c)"
  "sc_username (surreal_env env c) = (case env ''ALPHA_SWARM_SURREALDB_USER'' of Some v \<Rightarrow> v | None \<Rightarrow> sc_username c)"
  "sc_password (surreal_env env c) = (case env ''ALPHA_SWARM_SURREALDB_PASS'' of Some v \<Rightarrow> v | None \<Rightarrow> sc_password c)"
  "sc_bridge_timeout_secs (surreal_env env c) = sc_bridge_timeout_secs c"
  "sc_ruvector_path (surreal_env env c) = sc_ruvector_path c"
  by (simp_all add: surreal_env_def env_part_def split: option.split)

lemma surreal_env_idem: "surreal_env env (surreal_env env c) = surreal_env env c"
  by (rule surreal_config.equality) (simp_all add: surreal_env_fields mode_of_idem split: option.split)

lemma apply_env_idem: "apply_env env (apply_env env c) = apply_env env c"
proof (rule swarm_config.equality)
  show "cf_surrealdb (apply_env env (apply_env env c)) = cf_surrealdb (apply_env env c)"
    by (simp add: apply_env_surreal surreal_env_idem)
qed (simp_all add: env_sections env_part_def split: option.split)

lemma chunks_nonempty: "c \<in> set (chunks n xs) \<Longrightarrow> c \<noteq> []"
  by (induction n xs rule: chunks.induct) (subst (asm) (2) chunks.simps, auto split: if_splits)

lemma config_encode_chunk_eq: "chunk \<noteq> [] \<Longrightarrow> config_encode_chunk chunk = encode_chunk chunk"
  by (simp add: config_encode_chunk_def encode_chunk_def chunk_bits_def base64_char_def Let_def)

lemma config_encode_eq: "config_base64_encode s = base64_encode s"
  unfolding config_base64_encode_def base64_encode_def
  by (rule arg_cong[where f = concat], rule map_cong) (auto simp: config_encode_chunk_eq dest: chunks_nonempty)

definition or_else :: "'a option \<Rightarrow> 'a \<Rightarrow> 'a" where
  "or_else x d = (case x of Some v \<Rightarrow> v | None \<Rightarrow> d)"

text \<open>Each setting the environment can override is the variable if it is set, else the first readable
  and parseable file's, else the default; the sections without a variable are the file's or the default's
  unchanged, and applying the environment twice is applying it once.\<close>

theorem config_layers:
  "let base = base_config toml files; c = load_config toml files env in
   oc_url (cf_ollama c) = or_else (env ''ALPHA_SWARM_OLLAMA_URL'') (oc_url (cf_ollama base))
   \<and> nc_url (cf_nats c) = or_else (env ''ALPHA_SWARM_NATS_URL'') (nc_url (cf_nats base))
   \<and> sc_url (cf_surrealdb c) = or_else (env ''ALPHA_SWARM_SURREALDB_URL'') (sc_url (cf_surrealdb base))
   \<and> sc_path (cf_surrealdb c) = or_else (env ''ALPHA_SWARM_SURREALDB_PATH'') (sc_path (cf_surrealdb base))
   \<and> sc_namespace (cf_surrealdb c) = or_else (env ''ALPHA_SWARM_SURREALDB_NS'') (sc_namespace (cf_surrealdb base))
   \<and> sc_database (cf_surrealdb c) = or_else (env ''ALPHA_SWARM_SURREALDB_DB'') (sc_database (cf_surrealdb base))
   \<and> sc_username (cf_surrealdb c) = or_else (env ''ALPHA_SWARM_SURREALDB_USER'') (sc_username (cf_surrealdb base))
   \<and> sc_password (cf_surrealdb c) = or_else (env ''ALPHA_SWARM_SURREALDB_PASS'') (sc_password (cf_surrealdb base))
   \<and> cc_api_key (cf_claude c) = or_else (env ''ANTHROPIC_API_KEY'') (cc_api_key (cf_claude base))
   \<and> cc_model (cf_claude c) = or_else (env ''ALPHA_SWARM_CLAUDE_MODEL'') (cc_model (cf_claude base))
   \<and> dc_embed_model (cf_defaults c) = or_else (env ''ALPHA_SWARM_EMBED_MODEL'') (dc_embed_model (cf_defaults base))
   \<and> sc_mode (cf_surrealdb c) = or_else (map_option (\<lambda>v. mode_of v (sc_mode (cf_surrealdb base))) (env ''ALPHA_SWARM_SURREALDB_MODE'')) (sc_mode (cf_surrealdb base))
   \<and> ac_enabled (cf_autopilot c) = or_else (map_option env_switch (env ''ALPHA_SWARM_AUTOPILOT'')) (ac_enabled (cf_autopilot base))
   \<and> lc_enabled (cf_learning c) = or_else (map_option env_switch (env ''ALPHA_SWARM_LEARNING'')) (lc_enabled (cf_learning base))
   \<and> (cf_tiers c, cf_resources c, cf_wassette c, cf_security c, cf_providers c, cf_github c, cf_knowledge c) = (cf_tiers base, cf_resources base, cf_wassette base, cf_security base, cf_providers base, cf_github base, cf_knowledge base)
   \<and> apply_env env c = c"
  unfolding Let_def load_config_def apply_env_idem apply_env_surreal surreal_env_fields
  by (intro conjI; simp add: env_sections env_part_def or_else_def split: option.split)

text \<open>The base64 encoder of the configuration is the one of the pull request writer, and the
  database's authorization header decodes to the user and the password it was made of.\<close>

theorem auth_header_decodes:
  "config_base64_encode s = base64_encode s \<and>
   (\<exists>e. surrealdb_auth_header c = ''Basic '' @ e
      \<and> base64_decode e = Ok (sc_username (cf_surrealdb c) @ '':'' @ sc_password (cf_surrealdb c)))"
  by (simp add: surrealdb_auth_header_def config_encode_eq base64_decode_encode)

end
