(* ===== verification/Landing.thy ===== *)
theory Landing
  imports SecurityScan AgentEdits PlanTypes
begin

text \<open>
  What the daemon does to repositories: the working copies of a run (\<open>repo.rs\<close>), the sync with the
  project's branch, the quality gate on a run's files and the landing of a gated run
  (\<open>run_quality_gate\<close>, \<open>sync_repo_to_branch\<close> and \<open>land_to_branch\<close> of \<open>executor.rs\<close>, all in
  \<open>crates/agent-daemon/src\<close>). The environment of a command is not part of the model; log lines are dropped.
\<close>

section \<open>Commands\<close>

text \<open>\<open>Command::new(..).output().map(|o| o.status.success()).unwrap_or(false)\<close>.\<close>

definition cmd_ok :: "'w disk_ops \<Rightarrow> string \<Rightarrow> string list \<Rightarrow> string \<Rightarrow> ('w, bool) io" where
  "cmd_ok D prog args cwd =
     io_bind (io_try (dk_command D prog args cwd)) (\<lambda>r.
     io_ok (case r of Ok out \<Rightarrow> co_success out | _ \<Rightarrow> False))"

definition git_ok :: "'w disk_ops \<Rightarrow> string \<Rightarrow> string list \<Rightarrow> ('w, bool) io" where
  "git_ok D dir args = cmd_ok D ''git'' args dir"

text \<open>\<open>if let Some(parent) = full.parent() { create_dir_all(parent) }; fs::write(&full, content)\<close>, errors ignored.\<close>

definition put_file :: "'w disk_ops \<Rightarrow> string \<Rightarrow> string \<Rightarrow> ('w, unit) io" where
  "put_file D full content =
     io_bind (case path_parent full of Some p \<Rightarrow> io_ignore (dk_create_dir_all D p) | None \<Rightarrow> io_ok ()) (\<lambda>_.
     io_ignore (dk_write D full content))"

section \<open>Working copies\<close>

definition REPOS_BASE :: string where "REPOS_BASE = ''/tmp/alpha-swarm/repos''"
definition RUNS_BASE :: string where "RUNS_BASE = ''/tmp/alpha-swarm/runs''"

text \<open>Run ids are ASCII: the table and a key of letters and digits.\<close>

definition run_slug :: "string \<Rightarrow> string" where
  "run_slug run_id =
     map (\<lambda>c. if is_alphanumeric c \<or> c = CHR ''-'' \<or> c = CHR ''_'' then c else CHR ''_'') run_id"

definition run_workspace_path :: "string \<Rightarrow> string" where
  "run_workspace_path run_id = path_join (path_join RUNS_BASE (run_slug run_id)) ''repo''"

definition run_gate_path :: "string \<Rightarrow> string" where
  "run_gate_path run_id = path_join (path_join RUNS_BASE (run_slug run_id)) ''gate''"

definition cleanup_run_workspace :: "'w disk_ops \<Rightarrow> string \<Rightarrow> ('w, unit) io" where
  "cleanup_run_workspace D run_id = io_ignore (dk_remove_dir_all D (path_join RUNS_BASE (run_slug run_id)))"

text \<open>A command whose failure to start is an error with a context, and one that must also succeed.\<close>

definition run_output :: "'w disk_ops \<Rightarrow> string \<Rightarrow> string list \<Rightarrow> string \<Rightarrow> string \<Rightarrow> ('w, command_output) io" where
  "run_output D prog args cwd ctx = (\<lambda>w. apfst (map_err (\<lambda>_. ctx)) (dk_command D prog args cwd w))"

definition isolate_run_workspace :: "'w disk_ops \<Rightarrow> string \<Rightarrow> string \<Rightarrow> string \<Rightarrow> string \<Rightarrow> ('w, string) io" where
  "isolate_run_workspace D cwd base run_id repo_url =
     (let work = run_workspace_path run_id in
      io_bind (io_get (dk_exists D (path_join work ''.git''))) (\<lambda>present.
      if present then io_ok work
      else
        io_bind (case path_parent work of
            Some p \<Rightarrow> (\<lambda>w. apfst (map_err (\<lambda>_. ''create run workspace dir'')) (dk_create_dir_all D p w))
          | None \<Rightarrow> io_ok ()) (\<lambda>_.
        io_bind (run_output D ''git'' [''clone'', ''--local'', base, work] cwd
                   ''git clone --local (run workspace) failed'') (\<lambda>out.
        if \<not> co_success out then io_lift (Err (''git clone --local failed: '' @ co_stderr out))
        else
          io_bind (io_ignore (dk_command D ''git'' [''remote'', ''set-url'', ''origin'', repo_url] work)) (\<lambda>_.
          io_ok work)))))"

definition ensure_repo :: "'w disk_ops \<Rightarrow> string \<Rightarrow> string \<Rightarrow> string \<Rightarrow> ('w, string) io" where
  "ensure_repo D cwd project repo_url =
     (let repo_path = path_join REPOS_BASE project in
      io_bind (\<lambda>w. apfst (map_err (\<lambda>_. ''Failed to create repos directory'')) (dk_create_dir_all D REPOS_BASE w)) (\<lambda>_.
      io_bind (io_get (dk_exists D (path_join repo_path ''.git''))) (\<lambda>present.
      if present then
        io_bind (run_output D ''git'' [''pull'', ''--ff-only''] repo_path ''git pull failed'') (\<lambda>_. io_ok repo_path)
      else
        io_bind (run_output D ''git'' [''clone'', repo_url, repo_path] cwd ''git clone failed'') (\<lambda>out.
        if \<not> co_success out then io_lift (Err (''git clone failed: '' @ co_stderr out)) else io_ok repo_path))))"

text \<open>The project's branch, as the database has it.\<close>

definition branch_or_main :: "string option \<Rightarrow> string" where
  "branch_or_main row = (case row of Some b \<Rightarrow> if b = [] then ''main'' else b | None \<Rightarrow> ''main'')"

definition sync_repo_to_branch :: "'w disk_ops \<Rightarrow> string option \<Rightarrow> string \<Rightarrow> ('w, unit) io" where
  "sync_repo_to_branch D row repo_path =
     (let git = git_ok D repo_path; project_branch = branch_or_main row in
      io_bind (git [''fetch'', ''origin'', project_branch]) (\<lambda>_.
      io_bind (git [''fetch'', ''origin'', ''swarm/auto'']) (\<lambda>_.
      io_bind (git [''rev-parse'', ''--verify'', ''--quiet'', ''origin/swarm/auto'']) (\<lambda>auto.
      let branch = if auto then ''swarm/auto'' else project_branch; origin_ref = ''origin/'' @ branch in
      io_bind (git [''checkout'', ''-B'', branch, origin_ref]) (\<lambda>forced.
      io_bind (if forced then io_ok True else git [''checkout'', branch]) (\<lambda>out.
      if out then
        io_bind (git [''reset'', ''--hard'', origin_ref]) (\<lambda>_.
        io_bind (git [''clean'', ''-fd'']) (\<lambda>_. io_ok ()))
      else io_ok ()))))))"

section \<open>The quality gate\<close>

definition GATE_TARGET_DIR :: string where
  "GATE_TARGET_DIR = ''/tmp/alpha-swarm/gate-target''"

text \<open>The package a changed file belongs to, from the manifest in the gate's worktree.\<close>

definition file_package :: "'w disk_ops \<Rightarrow> string \<Rightarrow> string \<Rightarrow> 'w \<Rightarrow> string option" where
  "file_package D gate p w =
     (case strip_prefix ''crates/'' p of
        None \<Rightarrow> None
      | Some rest \<Rightarrow>
          (case dk_read D (path_join (path_join (path_join gate ''crates'') (hd (split_char CHR ''/'' rest))) ''Cargo.toml'') w of
             Ok toml \<Rightarrow> manifest_name toml
           | _ \<Rightarrow> None))"

fun gate_files :: "'w disk_ops \<Rightarrow> string \<Rightarrow> (string \<times> string) list \<Rightarrow> string list \<Rightarrow> ('w, string list) io" where
  "gate_files D gate [] pkgs = io_ok pkgs"
| "gate_files D gate ((p, content) # files) pkgs =
     io_bind (put_file D (path_join gate p) content) (\<lambda>_.
     io_bind (io_get (file_package D gate p)) (\<lambda>pkg.
     gate_files D gate files (case pkg of None \<Rightarrow> pkgs | Some n \<Rightarrow> push_new pkgs n)))"

definition gate_cargo :: "'w disk_ops \<Rightarrow> string \<Rightarrow> string list \<Rightarrow> ('w, unit) io" where
  "gate_cargo D gate args =
     io_bind (dk_command D ''cargo'' args gate) (\<lambda>out.
     if co_success out then io_ok ()
     else io_lift (Err ([CHR 0x60] @ ''cargo '' @ str_join '' '' args @ [CHR 0x60] @ '' failed: ''
            @ str_join '' '' (take 4 (rev (str_lines (co_stderr out)))))))"

text \<open>The tiers of the gate: the first failure is the verdict and ends them.\<close>

definition gate_tiers ::
  "'w disk_ops \<Rightarrow> string \<Rightarrow> (string \<times> string) list \<Rightarrow> security_config \<Rightarrow> string list \<Rightarrow> ('w, unit) io" where
  "gate_tiers D gate files sec pkgs =
     io_bind (if pkgs = [] then gate_cargo D gate [''check'']
              else io_bind (io_each (\<lambda>pkg. gate_cargo D gate [''check'', ''-p'', pkg]) pkgs) (\<lambda>_.
                   io_each (\<lambda>pkg. gate_cargo D gate [''test'', ''-p'', pkg]) pkgs)) (\<lambda>_.
     if sec_rules_enabled sec then scan D files gate sec else io_ok ())"

definition run_quality_gate ::
  "'w disk_ops \<Rightarrow> string \<Rightarrow> string \<Rightarrow> (string \<times> string) list \<Rightarrow> security_config \<Rightarrow> ('w, unit) io" where
  "run_quality_gate D repo_path gate files sec =
     (if files = [] then io_ok ()
      else
        (let git = git_ok D repo_path in
         io_bind (git [''worktree'', ''prune'']) (\<lambda>_.
         io_bind (git [''worktree'', ''remove'', ''--force'', gate]) (\<lambda>_.
         io_bind (git [''worktree'', ''add'', ''--force'', ''--detach'', gate, ''HEAD'']) (\<lambda>added.
         if \<not> added then io_lift (Err ''quality gate: worktree add failed'')
         else
           io_bind (io_ignore (dk_create_dir_all D GATE_TARGET_DIR)) (\<lambda>_.
           io_bind (gate_files D gate files []) (\<lambda>pkgs.
           io_bind (io_try (gate_tiers D gate files sec pkgs)) (\<lambda>verdict.
           io_bind (git [''worktree'', ''remove'', ''--force'', gate]) (\<lambda>_.
           io_lift verdict)))))))))"

section \<open>Landing\<close>

definition land_dir :: "string \<Rightarrow> string" where
  "land_dir run_id =
     ''/tmp/alpha-swarm/land/'' @ map (\<lambda>c. if c = CHR '':'' \<or> c = CHR ''/'' then CHR ''_'' else c) run_id"

definition show_int :: "int \<Rightarrow> string" where
  "show_int n = (if n < 0 then ''-'' @ show_nat (nat (- n)) else show_nat (nat n))"

definition land_branch :: "int option \<Rightarrow> string" where
  "land_branch issue = (case issue of Some n \<Rightarrow> ''swarm/issue-'' @ show_int n | None \<Rightarrow> ''swarm/auto'')"

definition land_message :: "string \<Rightarrow> int option \<Rightarrow> string \<Rightarrow> string" where
  "land_message goal issue run_id =
     ''swarm: '' @ chars_take 60 goal
     @ (case issue of Some n \<Rightarrow> '' (#'' @ show_int n @ '')'' | None \<Rightarrow> []) @ '' ['' @ run_id @ '']''"

text \<open>The robot emoji and the dash of the body are their UTF-8 bytes.\<close>

definition land_title_body :: "string \<Rightarrow> int option \<Rightarrow> string \<times> string" where
  "land_title_body goal issue =
     (case issue of
        Some n \<Rightarrow>
          (''swarm: '' @ chars_take 60 goal,
           ''Fixes #'' @ show_int n @ [NL, NL] @ chars_take 500 goal @ [NL, NL]
           @ [CHR 0xF0, CHR 0x9F, CHR 0xA4, CHR 0x96] @ '' Autonomous change by alpha-swarm ''
           @ [CHR 0xE2, CHR 0x80, CHR 0x94] @ '' quality-gated (cargo check/test). Review before merge.'')
      | None \<Rightarrow>
          (''swarm: autonomous loop changes'',
           ''Quality-gated changes accumulated by the autopilot loop. Review before merge.''))"

definition land_to_branch ::
  "'w disk_ops \<Rightarrow> string \<Rightarrow> string \<Rightarrow> string \<Rightarrow> string \<Rightarrow> (string \<times> string) list \<Rightarrow> int option \<Rightarrow> ('w, unit) io" where
  "land_to_branch D repo_url base_branch run_id goal files issue =
     (if files = [] \<or> contains repo_url ''://'' then io_ok ()
      else io_bind (io_get (dk_exists D (path_join repo_url ''.git''))) (\<lambda>is_repo.
      if \<not> is_repo then io_ok ()
      else
        (let repo = repo_url; ld = land_dir run_id; branch = land_branch issue; git = git_ok D in
         io_bind (io_ignore (dk_remove_dir_all D ld)) (\<lambda>_.
         io_bind (git repo [''worktree'', ''prune'']) (\<lambda>_.
         io_bind (case issue of
             Some _ \<Rightarrow> git repo [''worktree'', ''add'', ''--force'', ''-B'', branch, ld, ''HEAD'']
           | None \<Rightarrow> io_bind (git repo [''worktree'', ''add'', ''--force'', ld, branch]) (\<lambda>reused.
               if reused then io_ok True
               else git repo [''worktree'', ''add'', ''--force'', ''-b'', branch, ld, ''HEAD''])) (\<lambda>added.
         if \<not> added then io_ok ()
         else
           io_bind (io_each (\<lambda>(path, content). put_file D (path_join ld path) content) files) (\<lambda>_.
           io_bind (git ld [''add'', ''-A'']) (\<lambda>_.
           io_bind (git ld [''-c'', ''user.email=swarm@local'', ''-c'', ''user.name=alpha-swarm'', ''commit'', ''-m'',
                            land_message goal issue run_id, ''--no-verify'']) (\<lambda>committed.
           io_bind (git repo [''worktree'', ''remove'', ''--force'', ld]) (\<lambda>_.
           if \<not> committed then io_ok ()
           else
             io_bind (case issue of
                 Some _ \<Rightarrow> git repo [''push'', ''--force-with-lease'', ''-u'', ''origin'', branch]
               | None \<Rightarrow> git repo [''push'', ''-u'', ''origin'', branch]) (\<lambda>pushed.
             if \<not> pushed then io_ok ()
             else
               (let (title, body) = land_title_body goal issue in
                io_ignore (dk_command D ''gh'' [''pr'', ''create'', ''--base'', base_branch, ''--head'', branch,
                  ''--title'', title, ''--body'', body] repo)))))))))))))"

end
