(* ===== verification/Verify.thy ===== *)
theory Verify
  imports Config Landing
begin

text \<open>
  The daemon's judgements of a goal and of a diff (\<open>crates/agent-daemon/src/executor.rs\<close>): the shape of a
  goal and the planner tier learned for it, the files that go with the files a goal names, and the second
  model's review of a diff that passed the gate. Rows of the database are arguments, in the order it
  returned them.
\<close>

section \<open>Goals\<close>

definition TRIVIAL_GOAL_KEYWORDS :: "string list" where
  "TRIVIAL_GOAL_KEYWORDS =
     [''doc comment'', ''/// '', ''add a comment'', ''rename'', ''typo'', ''unused'', ''remove the'', ''add a doc'',
      ''docstring'', ''spelling'', ''whitespace'']"

definition TRIVIAL_GOAL_MAX_CHARS :: nat where "TRIVIAL_GOAL_MAX_CHARS = 240"

definition is_trivial_goal :: "string \<Rightarrow> bool" where
  "is_trivial_goal goal \<longleftrightarrow>
     length goal \<le> TRIVIAL_GOAL_MAX_CHARS \<and> list_ex (contains (to_lowercase goal)) TRIVIAL_GOAL_KEYWORDS"

definition goal_shape :: "string \<Rightarrow> string" where
  "goal_shape goal =
     (let lower = to_lowercase goal in
      if contains lower ''doc comment'' \<or> contains lower ''docstring'' \<or> contains lower ''/// ''
         \<or> contains lower ''add a comment'' then ''doc''
      else if is_trivial_goal goal then ''simple''
      else ''complex'')"

definition ROUTING_TIER_AGENT :: string where "ROUTING_TIER_AGENT = ''agent''"
definition ROUTING_TIER_ORCH :: string where "ROUTING_TIER_ORCH = ''orchestrator''"

definition tier_label_for_model :: "string \<Rightarrow> swarm_config \<Rightarrow> string option" where
  "tier_label_for_model model config =
     (if model = tc_model (ts_agent (cf_tiers config)) then Some ROUTING_TIER_AGENT
      else if model = tc_model (ts_orchestrator (cf_tiers config)) then Some ROUTING_TIER_ORCH
      else None)"

text \<open>A row of \<open>routing_stats\<close>. The score \<open>s/a + sqrt(ln(total)/a)\<close> of a tier with attempts is a function
  of its successes, its attempts and the total, into an ordered type; no score is infinite or a NaN but
  those the code names, as long as the total is positive.\<close>

record routing_row =
  rr_tier :: string
  rr_attempts :: int
  rr_successes :: int

definition tier_stats :: "routing_row list \<Rightarrow> string \<Rightarrow> string \<times> int \<times> int" where
  "tier_stats rows label =
     (case List.find (\<lambda>r. rr_tier r = label) rows of
        Some r \<Rightarrow> (label, rr_attempts r, rr_successes r)
      | None \<Rightarrow> (label, 0, 0))"

datatype 'f score = NegInf | Finite 'f | Inf

fun score_less :: "'f::linorder score \<Rightarrow> 'f score \<Rightarrow> bool" where
  "score_less NegInf b = (b \<noteq> NegInf)"
| "score_less (Finite x) (Finite y) = (x < y)"
| "score_less (Finite x) b = (b = Inf)"
| "score_less Inf b = False"

fun best_tier ::
  "(int \<Rightarrow> int \<Rightarrow> int \<Rightarrow> 'f::linorder) \<Rightarrow> int \<Rightarrow> (string \<times> int \<times> int) list \<Rightarrow> string \<times> 'f score \<Rightarrow> string" where
  "best_tier ucb tot [] (best, best_score) = best"
| "best_tier ucb tot ((label, a, s) # stats) (best, best_score) =
     (let score = if a = 0 then Inf else Finite (ucb tot s a) in
      best_tier ucb tot stats (if score_less best_score score then (label, score) else (best, best_score)))"

definition chosen_tier :: "(int \<Rightarrow> int \<Rightarrow> int \<Rightarrow> 'f::linorder) \<Rightarrow> routing_row list \<Rightarrow> string \<Rightarrow> string" where
  "chosen_tier ucb rows goal =
     (let default_label = if goal_shape goal = ''complex'' then ROUTING_TIER_ORCH else ROUTING_TIER_AGENT;
          stats = map (tier_stats rows) [ROUTING_TIER_AGENT, ROUTING_TIER_ORCH];
          tot = sum_list (map (\<lambda>(_, a, _). a) stats) in
      if tot = 0 then default_label else best_tier ucb tot stats (default_label, NegInf))"

definition recommend_planner_tier ::
  "(int \<Rightarrow> int \<Rightarrow> int \<Rightarrow> 'f::linorder) \<Rightarrow> routing_row list \<Rightarrow> string \<Rightarrow> swarm_config \<Rightarrow> tier_config" where
  "recommend_planner_tier ucb rows goal config =
     (if chosen_tier ucb rows goal = ROUTING_TIER_AGENT then ts_agent (cf_tiers config)
      else ts_orchestrator (cf_tiers config))"

text \<open>The first row of a project, shape and tier, read, changed and written; else a new row, whose project
  has lost its quotes.\<close>

record routing_stat =
  rs_project :: string
  rs_shape :: string
  rs_tier :: string
  rs_attempts :: int
  rs_successes :: int
  rs_total_ms :: int

definition record_routing ::
  "string \<Rightarrow> string \<Rightarrow> string \<Rightarrow> bool \<Rightarrow> int \<Rightarrow> routing_stat list \<Rightarrow> routing_stat list" where
  "record_routing project shape tier success ms table =
     (let succ = if success then 1 else 0;
          mine = (\<lambda>r. rs_project r = project \<and> rs_shape r = shape \<and> rs_tier r = tier) in
      if list_ex mine table
      then update_first mine (\<lambda>r. r\<lparr>rs_attempts := rs_attempts r + 1, rs_successes := rs_successes r + succ,
             rs_total_ms := rs_total_ms r + ms\<rparr>) table
      else table @ [\<lparr>rs_project = filter (\<lambda>c. c \<noteq> CHR 0x27) project, rs_shape = shape, rs_tier = tier,
             rs_attempts = 1, rs_successes = succ, rs_total_ms = ms\<rparr>])"

section \<open>Files that go together\<close>

definition COEDIT_MIN_COOCCURRENCE :: nat where "COEDIT_MIN_COOCCURRENCE = 2"
definition COEDIT_MAX_SUGGESTIONS :: nat where "COEDIT_MAX_SUGGESTIONS = 6"
definition COEDIT_MAX_SEEDS :: nat where "COEDIT_MAX_SEEDS = 5"
definition GRAPH_EXPAND_MAX_NEIGHBORS :: nat where "GRAPH_EXPAND_MAX_NEIGHBORS = 8"

definition extract_goal_files :: "string \<Rightarrow> string list \<Rightarrow> string list" where
  "extract_goal_files goal repo_files = take COEDIT_MAX_SEEDS (filter (contains goal) repo_files)"

text \<open>\<open>*tally.entry(f).or_default()\<close>.\<close>

definition tally_of :: "(string, nat) omap \<Rightarrow> string \<Rightarrow> nat" where
  "tally_of t f = (case om_get t f of Some c \<Rightarrow> c | None \<Rightarrow> 0)"

text \<open>How often each other file was changed together with a seed.\<close>

definition coedit_tally :: "string list \<Rightarrow> string list list \<Rightarrow> (string, nat) omap" where
  "coedit_tally seeds rows =
     fold (\<lambda>files tally.
        if list_ex (\<lambda>f. f \<in> set seeds) files
        then fold (\<lambda>f t. if f \<in> set seeds then t
               else om_insert f (tally_of t f + 1) t) files tally
        else tally) rows []"

text \<open>By falling count, then by name; \<open>sort_by\<close> is stable.\<close>

definition coedit_suggestions :: "string list \<Rightarrow> string list list \<Rightarrow> (string \<times> nat) list" where
  "coedit_suggestions seeds rows =
     take COEDIT_MAX_SUGGESTIONS
       (sort_key (\<lambda>(f, c). - int c)
         (sort_key fst (filter (\<lambda>(f, c). COEDIT_MIN_COOCCURRENCE \<le> c) (coedit_tally seeds rows))))"

definition coedit_hint :: "string \<Rightarrow> string list \<Rightarrow> string list list option \<Rightarrow> string option" where
  "coedit_hint goal repo_files rows =
     (let seeds = extract_goal_files goal repo_files in
      if seeds = [] then None
      else case rows of None \<Rightarrow> None
      | Some rows \<Rightarrow>
          (let suggestions = coedit_suggestions seeds rows in
           if suggestions = [] then None
           else Some (''FILES THAT HISTORICALLY CHANGE TOGETHER with the named file(s) ''
             @ [CHR 0xE2, CHR 0x80, CHR 0x94] @ '' include them if the change needs them:'' @ [NL]
             @ str_join [NL] (map (\<lambda>(f, c). ''- '' @ f @ '' (co-changed '' @ show_nat c @ [CHR 0xC3, CHR 0x97] @ '')'') suggestions))))"

text \<open>One hop over the code graph. The three queries, as functions: the names defined in files, the
  relations that touch names, and the files that define names.\<close>

record code_graph =
  cg_names_in :: "string list \<Rightarrow> string list option"
  cg_related :: "string list \<Rightarrow> (string option \<times> string option) list option"
  cg_files_of :: "string list \<Rightarrow> string list option"

definition related_names :: "string list \<Rightarrow> (string option \<times> string option) list \<Rightarrow> string list" where
  "related_names seed_names rels =
     remdups (filter (\<lambda>n. n \<notin> set seed_names) (concat (map (\<lambda>(src, dst). concat (map (\<lambda>x. case x of Some n \<Rightarrow> [n] | None \<Rightarrow> []) [src, dst])) rels)))"

definition graph_neighbors :: "code_graph \<Rightarrow> string list \<Rightarrow> string list option" where
  "graph_neighbors G seeds =
     Option.bind (cg_names_in G seeds) (\<lambda>seed_names.
     if seed_names = [] then None
     else Option.bind (cg_related G seed_names) (\<lambda>rels.
       let related = related_names seed_names rels in
       if related = [] then None
       else Option.bind (cg_files_of G related) (\<lambda>files.
         let neighbors = take GRAPH_EXPAND_MAX_NEIGHBORS (remdups (sort (filter (\<lambda>f. f \<notin> set seeds) files))) in
         if neighbors = [] then None else Some neighbors)))"

definition graph_expand_hint :: "code_graph \<Rightarrow> string \<Rightarrow> string list \<Rightarrow> string option" where
  "graph_expand_hint G goal repo_files =
     (let seeds = extract_goal_files goal repo_files in
      if seeds = [] then None
      else map_option (\<lambda>neighbors.
        ''STRUCTURALLY RELATED FILES (code-graph neighbors of the named file(s) '' @ [CHR 0xE2, CHR 0x80, CHR 0x94]
        @ '' check if the change affects them):'' @ [NL] @ str_join [NL] (map (\<lambda>f. ''- '' @ f) neighbors))
        (graph_neighbors G seeds))"

section \<open>The review of a diff\<close>

definition VERIFY_DIFF_MAX_CHARS :: nat where "VERIFY_DIFF_MAX_CHARS = 4000"
definition VERIFY_MAX_TOKENS :: nat where "VERIFY_MAX_TOKENS = 256"
definition VERIFY_REASON_MAX_CHARS :: nat where "VERIFY_REASON_MAX_CHARS = 200"

datatype verify_verdict = Accept | Reject string

definition added_line :: "string \<Rightarrow> bool" where
  "added_line l \<longleftrightarrow> starts_with l ''+'' \<and> \<not> starts_with l ''+++''"

definition removed_line :: "string \<Rightarrow> bool" where
  "removed_line l \<longleftrightarrow> starts_with l ''-'' \<and> \<not> starts_with l ''---''"

definition diff_adds_test :: "string \<Rightarrow> bool" where
  "diff_adds_test diff \<longleftrightarrow>
     list_ex (\<lambda>l. let t = trim (tl l) in
        contains t ''#[test]'' \<or> contains t ''#[cfg(test)]'' \<or> starts_with t ''assert'' \<or> contains t ''assert_eq!''
        \<or> contains t ''assert!('') (filter added_line (str_lines diff))"

definition doc_text :: "string \<Rightarrow> bool" where
  "doc_text t \<longleftrightarrow> starts_with t ''///'' \<or> starts_with t ''//!'' \<or> starts_with t ''//'' \<or> starts_with t ''/*''
     \<or> starts_with t ''*''"

fun doc_only_loop :: "bool \<Rightarrow> string list \<Rightarrow> bool" where
  "doc_only_loop any [] = any"
| "doc_only_loop any (l # ls) =
     (if \<not> added_line l \<and> \<not> removed_line l then doc_only_loop any ls
      else (let t = trim (tl l) in
        if t = [] then doc_only_loop any ls
        else if \<not> doc_text t then False
        else doc_only_loop True ls))"

definition diff_is_doc_only :: "string \<Rightarrow> bool" where
  "diff_is_doc_only diff = doc_only_loop False (str_lines diff)"

definition upper_char :: "char \<Rightarrow> char" where
  "upper_char c = (let b = (of_char c :: nat) in if 97 \<le> b \<and> b \<le> 122 then char_of (b - 32) else c)"

definition to_uppercase :: "string \<Rightarrow> string" where
  "to_uppercase s = map upper_char s"

definition VERIFY_SYSTEM :: string where
  "VERIFY_SYSTEM =
    ''You are a rigorous, skeptical code reviewer. You are given a GOAL and a ''
    @ ''unified DIFF. The diff already compiles and passes EXISTING tests, but ''
    @ ''those tests may be thin or absent '' @ [CHR 0xE2, CHR 0x80, CHR 0x94]
    @ '' passing is NOT proof of correctness, do not treat it as such. Decide whether ''
    @ ''the diff DEMONSTRABLY and COMPLETELY accomplishes the goal. REJECT if ANY ''
    @ ''of: it does not actually do what the goal asks; it is a no-op or only cosmetic ''
    @ ''when a real change was expected; it removes or weakens existing logic, ''
    @ ''validation, error handling, or replaces good documentation with worse; ''
    @ ''it is incomplete (e.g. changes one of several call sites that should all ''
    @ ''change); it adds no test for new/changed behaviour that warrants one; or ''
    @ ''it merely looks plausible and you cannot confirm correctness from the diff ''
    @ ''alone. A clean compile is NOT sufficient. When in doubt, REJECT. Reply ''
    @ ''with EXACTLY ONE line: '' @ [CHR 0x27] @ ''VERDICT: ACCEPT'' @ [CHR 0x27] @ '' or ''
    @ [CHR 0x27] @ ''VERDICT: REJECT <one short reason>'' @ [CHR 0x27] @ ''.''"

definition verify_messages :: "string \<Rightarrow> string \<Rightarrow> chat_message list" where
  "verify_messages goal diff =
     (let cov = if diff_adds_test diff then ''The diff INCLUDES a test exercising the change.''
                else ''The diff does NOT include any test.'' in
      [msg_system VERIFY_SYSTEM,
       msg_user (''GOAL: '' @ goal @ [NL, NL] @ cov @ [NL, NL] @ ''DIFF:'' @ [NL] @ chars_take VERIFY_DIFF_MAX_CHARS diff)])"

definition verify_options :: "swarm_config \<Rightarrow> inference_options" where
  "verify_options config = default_inference_options
     \<lparr>io_max_tokens := Some VERIFY_MAX_TOKENS, io_preferred_model := Some (tc_model (ts_orchestrator (cf_tiers config))),
      io_preferred_backend := Some Ollama\<rparr>"

definition says_reject :: "string \<Rightarrow> bool" where
  "says_reject content \<longleftrightarrow> contains (to_uppercase content) ''VERDICT: REJECT''
     \<or> contains (to_uppercase content) ''VERDICT:REJECT''"

definition says_accept :: "string \<Rightarrow> bool" where
  "says_accept content \<longleftrightarrow> contains (to_uppercase content) ''VERDICT: ACCEPT''
     \<or> contains (to_uppercase content) ''VERDICT:ACCEPT''"

definition verdict_of :: "string \<Rightarrow> bool \<Rightarrow> verify_verdict" where
  "verdict_of content doc_only =
     (if says_reject content then
        Reject (chars_take VERIFY_REASON_MAX_CHARS
          (case List.find (\<lambda>l. contains (to_uppercase l) ''REJECT'') (str_lines content) of
             Some l \<Rightarrow> l | None \<Rightarrow> ''semantic verify rejected''))
      else if says_accept content \<or> doc_only then Accept
      else Reject (''verify inconclusive '' @ [CHR 0xE2, CHR 0x80, CHR 0x94] @ '' correctness not confirmed''))"

definition adversarial_verify ::
  "('w \<Rightarrow> 's router) \<Rightarrow> ('s router \<Rightarrow> 'w \<Rightarrow> 'w) \<Rightarrow> swarm_config \<Rightarrow> string \<Rightarrow> string \<Rightarrow> ('w, verify_verdict) io" where
  "adversarial_verify get put config goal diff =
     (if trim diff = [] then io_ok Accept
      else io_bind (io_try (io_zoom get put
             (\<lambda>r. router_chat r (verify_messages goal diff) complexity.Medium (verify_options config)))) (\<lambda>r.
        io_ok (case r of Ok resp \<Rightarrow> verdict_of (ir_content resp) (diff_is_doc_only diff) | _ \<Rightarrow> Accept)))"

end
