(* ===== verification/Executor.thy ===== *)
theory Executor
  imports Verify GitHub WfEngine AgentLoop
begin

text \<open>
  The execution of one task by the daemon (\<open>handle_execute\<close> and its helpers in
  \<open>crates/agent-daemon/src/executor.rs\<close>): the dispatch on the status, the statements it writes, the loop of
  attempts under time, token and iteration limits, the verdict on the last result, the record of the run
  and its pull request. What one attempt does is an operation of the world, as are the clock, the
  backoff and the pull request over the command line.
\<close>

section \<open>Dispatch and statements\<close>

datatype task_handler = HandlePlanning | HandleApproved | HandleExecute

definition handle_task :: "string \<Rightarrow> task_handler" where
  "handle_task status =
     (if status = ''planning'' then HandlePlanning else if status = ''approved'' then HandleApproved else HandleExecute)"

definition contains_char :: "char \<Rightarrow> string \<Rightarrow> bool" where
  "contains_char c s \<longleftrightarrow> c \<in> set s"

definition format_update :: "string \<Rightarrow> string \<Rightarrow> string" where
  "format_update task_id set_clause =
     (if contains_char CHR '':'' task_id then ''UPDATE '' @ task_id @ '' '' @ set_clause
      else ''UPDATE type::thing('' @ [CHR 0x27] @ ''agent_run'' @ [CHR 0x27] @ '', '' @ [CHR 0x27] @ task_id @ [CHR 0x27]
           @ '') '' @ set_clause)"

definition format_update_where :: "string \<Rightarrow> string \<Rightarrow> string \<Rightarrow> string" where
  "format_update_where task_id set_clause where_clause = format_update task_id set_clause @ '' WHERE '' @ where_clause"

text \<open>\<open>replace('\'', "")\<close>.\<close>

definition strip_quotes :: "string \<Rightarrow> string" where
  "strip_quotes s = filter (\<lambda>c. c \<noteq> CHR 0x27) s"

definition update_progress_query :: "string \<Rightarrow> string \<Rightarrow> string \<Rightarrow> string" where
  "update_progress_query task_id now msg =
     format_update task_id (''SET last_activity_at = '' @ [CHR 0x27] @ now @ [CHR 0x27] @ '', progress_message = ''
       @ [CHR 0x27] @ strip_quotes msg @ [CHR 0x27])"

text \<open>A persisted plan step and the sub-task it stands for; the plan step keeps the complexity as text.\<close>

record planned_task =
  pk_id :: string
  pk_description :: string
  pk_files :: "string list"
  pk_complexity :: string
  pk_rationale :: string
  pk_depends_on :: "string list"
  pk_template :: "string option"
  pk_edit :: "direct_edit option"

definition show_complexity :: "complexity \<Rightarrow> string" where
  "show_complexity c = (case c of Simple \<Rightarrow> ''Simple'' | complexity.Medium \<Rightarrow> ''Medium'' | Complex \<Rightarrow> ''Complex'')"

definition subtask_to_planned :: "sub_task \<Rightarrow> planned_task" where
  "subtask_to_planned t =
     \<lparr>pk_id = t_id t, pk_description = t_description t, pk_files = t_files t, pk_complexity = show_complexity (t_complexity t),
      pk_rationale = [], pk_depends_on = t_depends_on t, pk_template = t_template t, pk_edit = t_edit t\<rparr>"

definition planned_to_subtask :: "planned_task \<Rightarrow> sub_task" where
  "planned_to_subtask p =
     (let c = to_lowercase (pk_complexity p) in
      \<lparr>t_id = pk_id p, t_description = pk_description p, t_files = pk_files p,
       t_complexity = (if c = ''medium'' then complexity.Medium else if c = ''complex'' then Complex else Simple),
       t_depends_on = pk_depends_on p, t_edit = pk_edit p, t_template = pk_template p\<rparr>)"

section \<open>Attempts\<close>

datatype attempt = Ran swarm_result | Suspended | Broke string

text \<open>What the loop calls: the milliseconds since its start, one attempt (its number and the goal), the
  sleep, and the reset of the working copy.\<close>

record 'w exec_ops =
  xo_elapsed :: "'w \<Rightarrow> nat"
  xo_attempt :: "nat \<Rightarrow> string \<Rightarrow> 'w \<Rightarrow> attempt \<times> 'w"
  xo_sleep :: "nat \<Rightarrow> 'w \<Rightarrow> 'w"
  xo_reset :: "'w \<Rightarrow> 'w"

text \<open>A release build wraps \<open>2u64.pow(n)\<close>.\<close>

definition backoff_secs :: "nat \<Rightarrow> nat \<Rightarrow> nat" where
  "backoff_secs iteration max_backoff = min (2 ^ (iteration - 1) mod 2 ^ 64) max_backoff"

definition augmented_goal :: "string \<Rightarrow> string \<Rightarrow> string" where
  "augmented_goal goal last_errors =
     (if last_errors = [] then goal
      else goal @ [NL, NL] @ ''PREVIOUS ATTEMPT FAILED:'' @ [NL] @ last_errors @ [NL, NL]
           @ ''Fix the issues from the previous attempt.'')"

definition iter_tokens :: "swarm_result \<Rightarrow> nat" where
  "iter_tokens result =
     fold (\<lambda>a n. u32_add n (u32_add (ir_tokens_input (ar_inference_response a)) (ir_tokens_output (ar_inference_response a))))
       (List.map_filter tr_agent_result (sr_results result)) 0"

definition result_errors :: "swarm_result \<Rightarrow> string list" where
  "result_errors result = List.map_filter tr_error (sr_results result)"

datatype loop_end = LoopSuspended | LoopEnded "swarm_result option" nat string

text \<open>The top of an iteration: the limits, in their order.\<close>

definition out_of_fuel :: "'w exec_ops \<Rightarrow> tier_config \<Rightarrow> nat \<Rightarrow> nat \<Rightarrow> 'w \<Rightarrow> bool" where
  "out_of_fuel X tier iteration tokens w \<longleftrightarrow>
     tc_time_limit_secs tier * 1000 mod 2 ^ 64 < xo_elapsed X w \<or> tc_token_limit tier < tokens \<or> tc_max_iterations tier < iteration"

function attempts ::
  "'w exec_ops \<Rightarrow> tier_config \<Rightarrow> string \<Rightarrow> nat \<Rightarrow> nat \<Rightarrow> string \<Rightarrow> swarm_result option \<Rightarrow> 'w \<Rightarrow> loop_end \<times> 'w" where
  "attempts X tier goal iteration tokens last_errors final w =
     (let iteration = iteration + 1 in
      if out_of_fuel X tier iteration tokens w then (LoopEnded final iteration last_errors, w)
      else
        (let w = (if 1 < iteration then xo_sleep X (backoff_secs iteration (tc_max_backoff_secs tier)) w else w) in
         case xo_attempt X iteration (augmented_goal goal last_errors) w of
           (Suspended, w) \<Rightarrow> (LoopSuspended, w)
         | (Broke e, w) \<Rightarrow> attempts X tier goal iteration tokens e None w
         | (Ran result, w) \<Rightarrow>
             (let tokens = u32_add tokens (iter_tokens result) in
              if sr_quality_passed result then (LoopEnded (Some result) iteration last_errors, w)
              else attempts X tier goal iteration tokens (str_join [NL] (result_errors result)) (Some result) (xo_reset X w))))"
  by pat_completeness auto
termination
  by (relation "measure (\<lambda>(X, tier, goal, iteration, tokens, last_errors, final, w). Suc (tc_max_iterations tier) - iteration)")
    (auto simp: out_of_fuel_def)

declare attempts.simps [simp del]

section \<open>The verdict on a result\<close>

definition any_work_done :: "swarm_result \<Rightarrow> bool" where
  "any_work_done result \<longleftrightarrow> sr_modified_files result \<noteq> []"

text \<open>The gate, if there is work.\<close>

definition gate_result ::
  "'w disk_ops \<Rightarrow> string \<Rightarrow> string \<Rightarrow> swarm_config \<Rightarrow> swarm_result \<Rightarrow> ('w, unit) io" where
  "gate_result D repo_path task_id config result =
     (if any_work_done result
      then run_quality_gate D repo_path (run_gate_path task_id) (sr_modified_files result) (cf_security config)
      else io_lift (Err ''no changes produced''))"

text \<open>The status after the review, and the reason of a downgrade.\<close>

definition judged ::
  "('w, verify_verdict) io \<Rightarrow> swarm_config \<Rightarrow> bool \<Rightarrow> ('w, bool \<times> string option) io" where
  "judged review config gate_passed =
     (if gate_passed \<and> lc_verify_diffs (cf_learning config) then
        io_bind review (\<lambda>v.
        io_ok (case v of Reject reason \<Rightarrow> (False, Some (''verify-reject: '' @ reason)) | Accept \<Rightarrow> (True, None)))
      else io_ok (gate_passed, None))"

definition run_error :: "swarm_result \<Rightarrow> string option \<Rightarrow> string option" where
  "run_error result verify_reason =
     (let agent_errors = result_errors result in
      case verify_reason of
        Some vr \<Rightarrow> Some vr
      | None \<Rightarrow>
          if \<not> any_work_done result then
            Some (if agent_errors = [] then ''All agents completed without making changes''
                  else ''All agents failed:'' @ [NL] @ str_join [NL] agent_errors)
          else if \<not> sr_quality_passed result \<and> agent_errors \<noteq> [] then Some (str_join [NL] agent_errors)
          else None)"

text \<open>The issue a run came from: \<open>ext.rsplit('#').next().and_then(|n| n.parse::<i64>().ok())\<close>.\<close>

definition parse_i64 :: "string \<Rightarrow> int option" where
  "parse_i64 s =
     (let (neg, ds) = (case s of c # r \<Rightarrow> if c = CHR ''-'' then (True, r) else if c = CHR ''+'' then (False, r) else (False, s)
                       | [] \<Rightarrow> (False, s));
          v = (if neg then - int (digits_value ds) else int (digits_value ds)) in
      if ds \<noteq> [] \<and> all_digits ds \<and> - (2 ^ 63) \<le> v \<and> v < 2 ^ 63 then Some v else None)"

definition issue_of :: "string option \<Rightarrow> int option" where
  "issue_of external_id =
     (case external_id of
        None \<Rightarrow> None
      | Some ext \<Rightarrow> if ext = [] then None
          else parse_i64 (case rsplit_once CHR ''#'' ext of Some (_, n) \<Rightarrow> n | None \<Rightarrow> ext))"

text \<open>The record's attempts, one per sub-task.\<close>

definition attempt_record_of :: "string \<Rightarrow> nat \<times> task_result \<Rightarrow> attempt_record" where
  "attempt_record_of now e =
     (let (i, r) = e; resp = map_option ar_inference_response (tr_agent_result r);
          num = (\<lambda>f. case resp of Some x \<Rightarrow> f x | None \<Rightarrow> 0) in
      \<lparr>at_attempt = (i + 1) mod 2 ^ 32, at_model = (case resp of Some x \<Rightarrow> ir_model x | None \<Rightarrow> []),
       at_prompt_preview = chars_take ATTEMPT_PREVIEW_CHARS (t_description (tr_task r)),
       at_response_preview = (case resp of Some x \<Rightarrow> chars_take ATTEMPT_PREVIEW_CHARS (ir_content x) | None \<Rightarrow> []),
       at_tokens_input = num ir_tokens_input, at_tokens_output = num ir_tokens_output, at_duration_ms = num ir_duration_ms,
       at_quality_passed = map_option ar_applied (tr_agent_result r), at_error = tr_error r, at_timestamp = now\<rparr>)"

section \<open>The pull request\<close>

text \<open>Step 5: the captured files are written to the working copy.\<close>

definition apply_captured :: "'w disk_ops \<Rightarrow> string \<Rightarrow> (string \<times> string) list \<Rightarrow> ('w, unit) io" where
  "apply_captured D repo_path files = io_each (\<lambda>(path, content). put_file D (path_join repo_path path) content) files"

text \<open>Step 6: the originals are loaded from the working copy, then the captured versions are written.\<close>

definition load_originals ::
  "'s blob_ops \<Rightarrow> 'w disk_ops \<Rightarrow> string \<Rightarrow> 'w \<Rightarrow> (string \<times> string) list \<Rightarrow> virt_workspace \<times> 's \<Rightarrow> virt_workspace \<times> 's" where
  "load_originals S D repo_path w files =
     fold (\<lambda>(path, _) (ws, st). case dk_read D (path_join repo_path path) w of
         Ok original \<Rightarrow> load_file S ws st path original | _ \<Rightarrow> (ws, st)) files"

definition write_modified ::
  "'s blob_ops \<Rightarrow> (string \<times> string) list \<Rightarrow> virt_workspace \<times> 's \<Rightarrow> virt_workspace \<times> 's" where
  "write_modified S files =
     fold (\<lambda>(path, content) (ws, st). if utf8_valid content then write_file S ws st path content else (ws, st)) files"

definition pr_workspace ::
  "vg_libs \<Rightarrow> 'w disk_ops \<Rightarrow> string \<Rightarrow> (string \<times> string) list \<Rightarrow> 'w \<Rightarrow> virt_workspace \<times> memory_blob_store" where
  "pr_workspace L D repo_path files w =
     (let S = memory_ops (content_hash L) in
      write_modified S files (load_originals S D repo_path w files (workspace_new, memory_new)))"

definition pr_branch :: "string \<Rightarrow> string" where
  "pr_branch task_id = ''agent/'' @ chars_take 40 (map (\<lambda>c. if c = CHR '':'' then CHR ''-'' else c) task_id)"

definition pr_body :: "string \<Rightarrow> string outcome" where
  "pr_body diff_text =
     obind (str_slice_to diff_text (min (length diff_text) 3000)) (\<lambda>d.
     Ok (''Generated by alpha-swarm agent.'' @ [NL, NL] @ replicate 3 (CHR 0x60) @ ''diff'' @ [NL] @ d @ [NL]
       @ replicate 3 (CHR 0x60) @ [NL, NL] @ [CHR 0xF0, CHR 0x9F, CHR 0xA4, CHR 0x96] @ '' alpha-swarm''))"

definition pr_goal_title :: "string \<Rightarrow> string outcome" where
  "pr_goal_title goal = obind (str_slice_to goal (min (length goal) 60)) (\<lambda>g. Ok (''agent: '' @ g))"

text \<open>The pull request over the API. \<open>now_diff\<close> is the diff field of the record afterwards.\<close>

definition api_pr ::
  "vg_libs \<Rightarrow> gh_json \<Rightarrow> 'w disk_ops \<Rightarrow> 'w http \<Rightarrow> string \<Rightarrow> string \<Rightarrow> string \<Rightarrow> string \<Rightarrow> string
    \<Rightarrow> (string \<times> string) list \<Rightarrow> ('w, pr_result) io" where
  "api_pr L J D http repo_path token gh_repo task_id goal files = (\<lambda>w.
     let (owner, repo_name) = (case split_at_char CHR ''/'' gh_repo of (o', Some r) \<Rightarrow> (o', r) | (o', None) \<Rightarrow> (o', []));
         S = memory_ops (content_hash L);
         (ws, st) = pr_workspace L D repo_path files w in
     io_bind (io_lift (pr_body (workspace_diff_text L S ws st))) (\<lambda>body.
     io_bind (io_lift (pr_goal_title goal)) (\<lambda>title.
     create_pr L J S \<lparr>gc_owner = owner, gc_repo = repo_name, gc_token = token, gc_base_branch = ''main''\<rparr> ws st
       title title body (pr_branch task_id) http)) w)"

definition publish_pr ::
  "vg_libs \<Rightarrow> gh_json \<Rightarrow> 'w disk_ops \<Rightarrow> 'w http \<Rightarrow> ('w, string) io \<Rightarrow> string \<Rightarrow> string option \<Rightarrow> string \<Rightarrow> string
    \<Rightarrow> string \<Rightarrow> (string \<times> string) list \<Rightarrow> ('w, string option) io" where
  "publish_pr L J D http cli repo_path token gh_repo task_id goal files =
     (let by_cli = io_bind (io_try cli) (\<lambda>r. io_ok (case r of Ok url \<Rightarrow> Some (''PR: '' @ url) | _ \<Rightarrow> None)) in
      case token of
        Some tok \<Rightarrow>
          if files \<noteq> [] then
            io_bind (io_try (api_pr L J D http repo_path tok gh_repo task_id goal files)) (\<lambda>r.
            case r of Ok pr \<Rightarrow> io_ok (Some (''PR: '' @ pr_url pr)) | _ \<Rightarrow> by_cli)
          else by_cli
      | None \<Rightarrow> by_cli)"

section \<open>The end of a run\<close>

text \<open>The record of the run. A hash set of strings is listed in an unspecified order.\<close>

definition response_texts :: "swarm_result \<Rightarrow> string list" where
  "response_texts result = map (\<lambda>a. ir_content (ar_inference_response a)) (List.map_filter tr_agent_result (sr_results result))"

definition models_used :: "(string list \<Rightarrow> string list) \<Rightarrow> swarm_result \<Rightarrow> string" where
  "models_used order result =
     (let models = order (remdups (filter (\<lambda>m. m \<noteq> [])
            (map (\<lambda>a. ir_model (ar_inference_response a)) (List.map_filter tr_agent_result (sr_results result))))) in
      if models = [] then ''unknown'' else str_join '', '' models)"

definition token_sums :: "swarm_result \<Rightarrow> nat \<times> nat" where
  "token_sums result =
     fold (\<lambda>a (i, o'). (u32_add i (ir_tokens_input (ar_inference_response a)), u32_add o' (ir_tokens_output (ar_inference_response a))))
       (List.map_filter tr_agent_result (sr_results result)) (0, 0)"

text \<open>The readings of the clock a record is made of; all stamps of one record are one reading.\<close>

record run_clock =
  rk_now :: string
  rk_started :: string
  rk_embed_ms :: nat
  rk_duration_ms :: nat

definition final_run ::
  "(string list \<Rightarrow> string list) \<Rightarrow> string \<Rightarrow> string \<Rightarrow> run_clock \<Rightarrow> swarm_result \<Rightarrow> bool \<Rightarrow> string option \<Rightarrow> agent_run" where
  "final_run order project goal clock result passed verify_reason =
     (let (total_in, total_out) = token_sums result; responses = response_texts result; now = rk_now clock;
          pt = sr_phase_timings result in
      (agent_run_new project goal ''daemon'' (models_used order result) now)
        \<lparr>au_status := (if passed then RsPassed else RsFailed), au_duration_ms := rk_duration_ms clock,
         au_started_at := Some (rk_started clock), au_last_activity_at := Some now,
         au_phase_timings := Some \<lparr>ph_embedding_ms = rk_embed_ms clock, ph_rag_ms = pt_rag_ms pt,
           ph_planning_ms = pt_planning_ms pt, ph_agent_execution_ms = pt_agent_execution_ms pt,
           ph_quality_gate_ms = pt_quality_gate_ms pt\<rparr>,
         au_quality_gate_passed := Some passed, au_diff := sr_merged_diff result,
         au_tokens_input := total_in, au_tokens_output := total_out,
         au_attempts := map (attempt_record_of now) (List.enumerate 0 (sr_results result)),
         au_response_text := (if responses = [] then None else Some (str_join ([NL] @ ''---'' @ [NL]) responses)),
         au_files_modified := order (remdups (map fst (sr_modified_files result))),
         au_tool_calls := concat (map ar_tool_calls (List.map_filter tr_agent_result (sr_results result))),
         au_error_message := run_error result verify_reason\<rparr>)"

text \<open>Where the run works, and what it needs of the outside.\<close>

record 'w exec_site =
  xs_libs :: vg_libs
  xs_json :: gh_json
  xs_disk :: "'w disk_ops"
  xs_http :: "'w http"
  xs_cli_pr :: "('w, string) io"
  xs_review :: "('w, verify_verdict) io"
  xs_config :: swarm_config
  xs_repo_url :: string
  xs_repo_path :: string
  xs_branch_row :: "string option"
  xs_external_id :: "string option"
  xs_token :: "string option"
  xs_gh_repo :: string
  xs_order :: "string list \<Rightarrow> string list"

text \<open>From the last result to the record of the run: gate, review, landing, pull request.\<close>

definition finish_execute ::
  "'w exec_site \<Rightarrow> string \<Rightarrow> string \<Rightarrow> string \<Rightarrow> run_clock \<Rightarrow> swarm_result \<Rightarrow> ('w, agent_run) io" where
  "finish_execute E task_id project goal clock result =
     (let D = xs_disk E; files = sr_modified_files result in
      io_bind (io_try (gate_result D (xs_repo_path E) task_id (xs_config E) result)) (\<lambda>gate.
      io_bind (judged (xs_review E) (xs_config E) (gate = Ok ())) (\<lambda>(passed, reason).
      io_bind (if passed then land_to_branch D (xs_repo_url E) (branch_or_main (xs_branch_row E)) task_id goal files
                 (issue_of (xs_external_id E)) else io_ok ()) (\<lambda>_.
      io_bind (io_when (any_work_done result) (apply_captured D (xs_repo_path E) files)) (\<lambda>_.
      io_bind (if any_work_done result
               then publish_pr (xs_libs E) (xs_json E) D (xs_http E) (xs_cli_pr E) (xs_repo_path E) (xs_token E)
                      (xs_gh_repo E) task_id goal files
               else io_ok None) (\<lambda>pr.
      let run = final_run (xs_order E) project goal clock result passed reason in
      io_ok (case pr of Some url \<Rightarrow> run\<lparr>au_diff := Some url\<rparr> | None \<Rightarrow> run)))))))"

end
