(* ===== verification/Autopilot.thy ===== *)
theory Autopilot
  imports Config Executor
begin

text \<open>
  The autopilot (\<open>crates/agent-daemon/src/autopilot.rs\<close>): one tick over the tables \<open>agent_run\<close> and
  \<open>autopilot_goal\<close>. The queries of the source are functions on the rows; a query may fail, as the
  parameter \<open>fails\<close> says for its kind and the tables. The clock of the database is a field.
\<close>

section \<open>Tables\<close>

record run_row =
  rn_source :: string
  rn_status :: string
  rn_project :: string
  rn_goal :: string
  rn_agent_id :: string
  rn_external_id :: "string option"
  rn_created_at :: nat

record goal_row =
  gl_id :: string
  gl_project :: "string option"
  gl_goal :: "string option"
  gl_external_id :: "string option"
  gl_status :: string
  gl_created_at :: nat
  gl_started_at :: "nat option"

record autopilot_db =
  ad_runs :: "run_row list"
  ad_goals :: "goal_row list"
  ad_now :: nat

datatype ap_query = QApprove | QActive | QToday | QNext | QStart | QCreate

type_synonym ap_failures = "ap_query \<Rightarrow> autopilot_db \<Rightarrow> string option"

definition ap_query_io :: "ap_failures \<Rightarrow> ap_query \<Rightarrow> (autopilot_db \<Rightarrow> 'a \<times> autopilot_db) \<Rightarrow> (autopilot_db, 'a) io" where
  "ap_query_io fails q f = (\<lambda>db. case fails q db of Some e \<Rightarrow> (Err e, db) | None \<Rightarrow> (let (a, db') = f db in (Ok a, db')))"

section \<open>Queries\<close>

definition AUTOPILOT_AGENT_ID :: string where "AUTOPILOT_AGENT_ID = ''autopilot''"
definition AUTOPILOT_SOURCE :: string where "AUTOPILOT_SOURCE = ''autopilot''"

text \<open>Milliseconds of a day; \<open>time::floor(time::now(), 1d)\<close>.\<close>

definition DAY_MS :: nat where "DAY_MS = 86400000"

definition day_start :: "nat \<Rightarrow> nat" where
  "day_start now = now - now mod DAY_MS"

definition approvable :: "run_row \<Rightarrow> bool" where
  "approvable r \<longleftrightarrow> rn_source r = AUTOPILOT_SOURCE \<and> rn_status r = ''planned''"

definition auto_approve :: "autopilot_db \<Rightarrow> nat \<times> autopilot_db" where
  "auto_approve db =
     (length (filter approvable (ad_runs db)),
      db\<lparr>ad_runs := map (\<lambda>r. if approvable r then r\<lparr>rn_status := ''approved''\<rparr> else r) (ad_runs db)\<rparr>)"

definition active_row :: "run_row \<Rightarrow> bool" where
  "active_row r \<longleftrightarrow> rn_status r \<in> {''pending'', ''planning'', ''planned'', ''approved'', ''running''}"

definition active_run_count :: "autopilot_db \<Rightarrow> nat" where
  "active_run_count db = length (filter active_row (ad_runs db))"

definition autonomous_runs_today :: "autopilot_db \<Rightarrow> nat" where
  "autonomous_runs_today db =
     length (filter (\<lambda>r. rn_source r = AUTOPILOT_SOURCE \<and> day_start (ad_now db) < rn_created_at r) (ad_runs db))"

text \<open>\<open>WHERE status = 'queued' ORDER BY created_at ASC LIMIT 1\<close>.\<close>

definition next_goal :: "autopilot_db \<Rightarrow> goal_row option" where
  "next_goal db =
     (case sort_key gl_created_at (filter (\<lambda>g. gl_status g = ''queued'') (ad_goals db)) of [] \<Rightarrow> None | g # _ \<Rightarrow> Some g)"

definition mark_started :: "string \<Rightarrow> autopilot_db \<Rightarrow> autopilot_db" where
  "mark_started goal_id db =
     db\<lparr>ad_goals := map (\<lambda>g. if gl_id g = goal_id then g\<lparr>gl_status := ''started'', gl_started_at := Some (ad_now db)\<rparr> else g)
          (ad_goals db)\<rparr>"

definition new_run :: "string \<Rightarrow> string \<Rightarrow> string \<Rightarrow> nat \<Rightarrow> run_row" where
  "new_run project goal external_id now =
     \<lparr>rn_source = AUTOPILOT_SOURCE, rn_status = ''planning'', rn_project = strip_quotes project, rn_goal = strip_quotes goal,
      rn_agent_id = AUTOPILOT_AGENT_ID,
      rn_external_id = (if external_id = [] then None else Some (strip_quotes external_id)), rn_created_at = now\<rparr>"

section \<open>The tick\<close>

definition default_str :: "string \<Rightarrow> string option \<Rightarrow> string" where
  "default_str d v = (case v of Some s \<Rightarrow> s | None \<Rightarrow> d)"

definition start_goal :: "ap_failures \<Rightarrow> goal_row \<Rightarrow> (autopilot_db, unit) io" where
  "start_goal fails row =
     (if default_str [] (gl_goal row) = [] then io_ok ()
      else
        io_bind (ap_query_io fails QStart (\<lambda>db. ((), mark_started (gl_id row) db))) (\<lambda>_.
        ap_query_io fails QCreate (\<lambda>db. ((), db\<lparr>ad_runs := ad_runs db @
          [new_run (default_str ''default'' (gl_project row)) (default_str [] (gl_goal row))
             (default_str [] (gl_external_id row)) (ad_now db)]\<rparr>))))"

definition autopilot_tick :: "ap_failures \<Rightarrow> autopilot_config \<Rightarrow> nat \<Rightarrow> (autopilot_db, unit) io" where
  "autopilot_tick fails cfg max_runs =
     io_bind (io_when (ac_auto_approve cfg)
        (io_bind (ap_query_io fails QApprove auto_approve) (\<lambda>_. io_ok ()))) (\<lambda>_.
     io_bind (ap_query_io fails QActive (\<lambda>db. (active_run_count db, db))) (\<lambda>active.
     if max max_runs 1 \<le> active then io_ok ()
     else
       io_bind (if ac_continuous cfg then io_ok False
                else io_bind (ap_query_io fails QToday (\<lambda>db. (autonomous_runs_today db, db))) (\<lambda>today_count.
                     io_ok (ac_max_runs_per_day cfg \<le> today_count))) (\<lambda>capped.
       if capped then io_ok ()
       else
         io_bind (ap_query_io fails QNext (\<lambda>db. (next_goal db, db))) (\<lambda>row.
         case row of None \<Rightarrow> io_ok () | Some row \<Rightarrow> start_goal fails row))))"

text \<open>The pause between ticks, in seconds; disabled, the driver does not start.\<close>

definition autopilot_interval :: "autopilot_config \<Rightarrow> nat option" where
  "autopilot_interval cfg =
     (if \<not> ac_enabled cfg then None
      else if ac_continuous cfg then Some (min (max (ac_tick_secs cfg) 5) 20)
      else Some (max (ac_tick_secs cfg) 10))"

end
