(* ===== verification/AutopilotFacts.thy ===== *)
theory AutopilotFacts
  imports Autopilot
begin

text \<open>
  What one tick of the autopilot can do to the tables: its caps, what it starts, and the two ways a queued
  goal never runs.
\<close>

section \<open>Steps\<close>

lemma ap_query_cases:
  "ap_query_io fails q f db = (case fails q db of Some e \<Rightarrow> (Err e, db) | None \<Rightarrow> (Ok (fst (f db)), snd (f db)))"
  by (simp add: ap_query_io_def Let_def split_beta split: option.split)

lemma approve_runs:
  "ad_runs (snd (auto_approve db)) = map (\<lambda>r. if approvable r then r\<lparr>rn_status := ''approved''\<rparr> else r) (ad_runs db)"
  "ad_goals (snd (auto_approve db)) = ad_goals db" "ad_now (snd (auto_approve db)) = ad_now db"
  by (simp_all add: auto_approve_def)

lemma approve_active: "active_run_count (snd (auto_approve db)) = active_run_count db"
proof -
  have "length (filter active_row (map (\<lambda>r. if approvable r then r\<lparr>rn_status := ''approved''\<rparr> else r) rs))
      = length (filter active_row rs)" for rs
    by (induction rs) (auto simp: active_row_def approvable_def)
  then show ?thesis
    by (simp add: active_run_count_def approve_runs)
qed

lemma approve_today: "autonomous_runs_today (snd (auto_approve db)) = autonomous_runs_today db"
proof -
  have "length (filter (\<lambda>r. rn_source r = AUTOPILOT_SOURCE \<and> t < rn_created_at r)
        (map (\<lambda>r. if approvable r then r\<lparr>rn_status := ''approved''\<rparr> else r) rs))
      = length (filter (\<lambda>r. rn_source r = AUTOPILOT_SOURCE \<and> t < rn_created_at r) rs)" for rs t
    by (induction rs) auto
  then show ?thesis
    by (simp add: autonomous_runs_today_def approve_runs)
qed

text \<open>Runs the autopilot did not create.\<close>

definition human_runs :: "autopilot_db \<Rightarrow> run_row list" where
  "human_runs db = filter (\<lambda>r. rn_source r \<noteq> AUTOPILOT_SOURCE) (ad_runs db)"

lemma approve_human: "human_runs (snd (auto_approve db)) = human_runs db"
proof -
  have "filter (\<lambda>r. rn_source r \<noteq> AUTOPILOT_SOURCE) (map (\<lambda>r. if approvable r then r\<lparr>rn_status := ''approved''\<rparr> else r) rs)
      = filter (\<lambda>r. rn_source r \<noteq> AUTOPILOT_SOURCE) rs" for rs
    by (induction rs) (auto simp: approvable_def)
  then show ?thesis
    by (simp add: human_runs_def approve_runs)
qed

text \<open>The tables after the approval, and after a start.\<close>

definition approved_db :: "ap_failures \<Rightarrow> autopilot_config \<Rightarrow> autopilot_db \<Rightarrow> autopilot_db" where
  "approved_db fails cfg db =
     (if ac_auto_approve cfg \<and> fails QApprove db = None then snd (auto_approve db) else db)"

lemma approved_facts:
  "active_run_count (approved_db fails cfg db) = active_run_count db"
  "autonomous_runs_today (approved_db fails cfg db) = autonomous_runs_today db"
  "human_runs (approved_db fails cfg db) = human_runs db" "ad_goals (approved_db fails cfg db) = ad_goals db"
  "length (ad_runs (approved_db fails cfg db)) = length (ad_runs db)" "ad_now (approved_db fails cfg db) = ad_now db"
  by (simp_all add: approved_db_def approve_active approve_today approve_human approve_runs)

lemma approved_goal: "next_goal (approved_db fails cfg db) = next_goal db"
  by (simp add: next_goal_def approved_facts)

text \<open>A tick either stops with the approved tables or starts the next goal below the caps.\<close>

lemma tick_cases:
  obtains (idle) r where "autopilot_tick fails cfg n db = (r, approved_db fails cfg db)"
  | (start) row where "next_goal db = Some row" "active_run_count db < max n 1"
      "ac_continuous cfg \<or> autonomous_runs_today db < ac_max_runs_per_day cfg"
      "autopilot_tick fails cfg n db = start_goal fails row (approved_db fails cfg db)"
proof -
  let ?db = "approved_db fails cfg db"
  have "(\<exists>r. autopilot_tick fails cfg n db = (r, ?db)) \<or>
     (\<exists>row. next_goal ?db = Some row \<and> active_run_count ?db < max n 1 \<and>
      (ac_continuous cfg \<or> autonomous_runs_today ?db < ac_max_runs_per_day cfg) \<and>
      autopilot_tick fails cfg n db = start_goal fails row ?db)"
  proof (cases "ac_auto_approve cfg \<and> fails QApprove db \<noteq> None")
    case True
    then show ?thesis
      by (auto simp: autopilot_tick_def io_app ap_query_cases approved_db_def)
  next
    case False
    then have "autopilot_tick fails cfg n db =
      (io_bind (ap_query_io fails QActive (\<lambda>db. (active_run_count db, db))) (\<lambda>active.
       if max n 1 \<le> active then io_ok ()
       else
         io_bind (if ac_continuous cfg then io_ok False
                  else io_bind (ap_query_io fails QToday (\<lambda>db. (autonomous_runs_today db, db))) (\<lambda>today_count.
                       io_ok (ac_max_runs_per_day cfg \<le> today_count))) (\<lambda>capped.
         if capped then io_ok ()
         else
           io_bind (ap_query_io fails QNext (\<lambda>db. (next_goal db, db))) (\<lambda>row.
           case row of None \<Rightarrow> io_ok () | Some row \<Rightarrow> start_goal fails row)))) ?db"
      by (auto simp: autopilot_tick_def io_app ap_query_cases approved_db_def)
    then show ?thesis
      by (auto simp: io_app ap_query_cases not_le split: option.split)
  qed
  then show thesis
    using idle start by (auto simp: approved_goal approved_facts)
qed

lemma start_facts:
  fixes fails row db
  defines "db' \<equiv> snd (start_goal fails row db)"
  shows "active_run_count db' \<le> active_run_count db + 1" "autonomous_runs_today db' \<le> autonomous_runs_today db + 1"
    "human_runs db' = human_runs db" "length (ad_runs db') \<le> length (ad_runs db) + 1"
  by (auto simp: db'_def start_goal_def io_app ap_query_cases mark_started_def active_run_count_def
      autonomous_runs_today_def human_runs_def new_run_def split: option.split)

section \<open>Properties\<close>

text \<open>Whatever queries fail, a tick creates at most one run and never fills the pipeline beyond its size nor,
  unless the mode is continuous, the day beyond its cap; and it never touches a run of another source, so
  only a human approves a human's plan.\<close>

theorem autopilot_caps:
  fixes fails cfg n db
  defines "db' \<equiv> snd (autopilot_tick fails cfg n db)"
  shows "length (ad_runs db') \<le> length (ad_runs db) + 1"
    and "active_run_count db' \<le> max (active_run_count db) (max n 1)"
    and "\<not> ac_continuous cfg \<Longrightarrow> autonomous_runs_today db' \<le> max (autonomous_runs_today db) (ac_max_runs_per_day cfg)"
    and "filter (\<lambda>r. rn_source r \<noteq> AUTOPILOT_SOURCE) (ad_runs db') = filter (\<lambda>r. rn_source r \<noteq> AUTOPILOT_SOURCE) (ad_runs db)"
proof -
  have "length (ad_runs db') \<le> length (ad_runs db) + 1
    \<and> active_run_count db' \<le> max (active_run_count db) (max n 1)
    \<and> (\<not> ac_continuous cfg \<longrightarrow> autonomous_runs_today db' \<le> max (autonomous_runs_today db) (ac_max_runs_per_day cfg))
    \<and> human_runs db' = human_runs db"
  proof (cases rule: tick_cases[of fails cfg n db])
    case (idle r)
    then show ?thesis
      by (simp add: db'_def approved_facts)
  next
    case (start row)
    then show ?thesis
      using start_facts[of fails row "approved_db fails cfg db"] by (auto simp: db'_def approved_facts)
  qed
  then show "length (ad_runs db') \<le> length (ad_runs db) + 1"
    and "active_run_count db' \<le> max (active_run_count db) (max n 1)"
    and "\<not> ac_continuous cfg \<Longrightarrow> autonomous_runs_today db' \<le> max (autonomous_runs_today db) (ac_max_runs_per_day cfg)"
    and "filter (\<lambda>r. rn_source r \<noteq> AUTOPILOT_SOURCE) (ad_runs db') = filter (\<lambda>r. rn_source r \<noteq> AUTOPILOT_SOURCE) (ad_runs db)"
    by (simp_all add: human_runs_def)
qed

definition ex_goal :: "string \<Rightarrow> string \<Rightarrow> nat \<Rightarrow> goal_row" where
  "ex_goal i goal t = \<lparr>gl_id = i, gl_project = None, gl_goal = Some goal, gl_external_id = None, gl_status = ''queued'',
     gl_created_at = t, gl_started_at = None\<rparr>"

definition ex_backlog :: "goal_row list \<Rightarrow> autopilot_db" where
  "ex_backlog goals = \<lparr>ad_runs = [], ad_goals = goals, ad_now = 86400005\<rparr>"

definition ex_up_db :: ap_failures where
  "ex_up_db = (\<lambda>_ _. None)"

lemma autopilot_caps_witness:
  "autonomous_runs_today (snd (autopilot_tick ex_up_db default_autopilot_config 1 (ex_backlog [ex_goal ''g'' ''tidy'' 1]))) \<le> 5"
  using autopilot_caps(3)[of default_autopilot_config ex_up_db 1 "ex_backlog [ex_goal ''g'' ''tidy'' 1]"]
  by (simp add: default_autopilot_config_def autonomous_runs_today_def ex_backlog_def)

text \<open>A queued goal without a text that is the oldest one blocks the autopilot for ever: no tick consumes
  it and no tick starts any of the goals behind it.\<close>

theorem empty_goal_blocks_backlog:
  assumes "next_goal db = Some row" "gl_goal row = None \<or> gl_goal row = Some []"
  shows "ad_goals (((\<lambda>d. snd (autopilot_tick fails cfg n d)) ^^ k) db) = ad_goals db
    \<and> length (ad_runs (((\<lambda>d. snd (autopilot_tick fails cfg n d)) ^^ k) db)) = length (ad_runs db)"
proof (induction k)
  case (Suc k)
  let ?d = "((\<lambda>d. snd (autopilot_tick fails cfg n d)) ^^ k) db"
  have next_row: "next_goal ?d = Some row"
    using assms(1) Suc.IH by (simp add: next_goal_def)
  have "snd (autopilot_tick fails cfg n ?d) = approved_db fails cfg ?d"
  proof (cases rule: tick_cases[of fails cfg n ?d])
    case (start row')
    then show ?thesis
      using next_row assms(2) by (auto simp: start_goal_def default_str_def io_app)
  qed simp
  then show ?case
    using Suc.IH by (simp add: approved_facts)
qed simp

lemma empty_goal_blocks_backlog_witness:
  "ad_goals (((\<lambda>d. snd (autopilot_tick ex_up_db default_autopilot_config 1 d)) ^^ 1000)
      (ex_backlog [ex_goal ''a'' [] 1, ex_goal ''b'' ''tidy'' 2]))
    = [ex_goal ''a'' [] 1, ex_goal ''b'' ''tidy'' 2]"
proof -
  have "next_goal (ex_backlog [ex_goal ''a'' [] 1, ex_goal ''b'' ''tidy'' 2]) = Some (ex_goal ''a'' [] 1)"
    by (simp add: next_goal_def ex_backlog_def ex_goal_def)
  then show ?thesis
    using empty_goal_blocks_backlog[where fails = ex_up_db and cfg = default_autopilot_config and n = 1 and k = 1000]
    by (fastforce simp: ex_backlog_def ex_goal_def)
qed

text \<open>When no query fails and the caps leave room, a tick takes the queued goal that has waited longest: it is
  marked as started and one planning run is created for it. When the creation alone fails the goal is
  marked all the same, so it is neither queued nor run.\<close>

theorem autopilot_starts_oldest:
  assumes "next_goal db = Some row" "default_str [] (gl_goal row) \<noteq> []" "active_run_count db < max n 1"
    and "ac_continuous cfg \<or> autonomous_runs_today db < ac_max_runs_per_day cfg"
    and "\<And>q d. q \<noteq> QCreate \<Longrightarrow> fails q d = None"
  shows "\<forall>g\<in>set (ad_goals db). gl_status g = ''queued'' \<longrightarrow> gl_created_at row \<le> gl_created_at g"
    and "ad_goals (snd (autopilot_tick fails cfg n db)) = ad_goals (mark_started (gl_id row) db)"
    and "(\<And>d. fails QCreate d = None) \<Longrightarrow> \<exists>run rest. ad_runs (snd (autopilot_tick fails cfg n db)) = rest @ [run]
      \<and> length rest = length (ad_runs db) \<and> rn_status run = ''planning'' \<and> rn_source run = AUTOPILOT_SOURCE
      \<and> rn_goal run = strip_quotes (default_str [] (gl_goal row))"
    and "(\<And>d. fails QCreate d = Some e) \<Longrightarrow> fst (autopilot_tick fails cfg n db) = Err e
      \<and> length (ad_runs (snd (autopilot_tick fails cfg n db))) = length (ad_runs db)"
proof -
  define queued where "queued = sort_key gl_created_at (filter (\<lambda>g. gl_status g = ''queued'') (ad_goals db))"
  obtain rest where q: "queued = row # rest"
    using assms(1) by (auto simp: next_goal_def queued_def split: list.splits)
  have "sorted (map gl_created_at queued)" "set queued = {g \<in> set (ad_goals db). gl_status g = ''queued''}"
    by (auto simp: queued_def)
  then show "\<forall>g\<in>set (ad_goals db). gl_status g = ''queued'' \<longrightarrow> gl_created_at row \<le> gl_created_at g"
    unfolding q by auto
  have tick: "autopilot_tick fails cfg n db = start_goal fails row (approved_db fails cfg db)"
  proof (cases "ac_continuous cfg")
    case True
    then show ?thesis
      using assms by (auto simp: autopilot_tick_def io_app ap_query_cases approved_db_def approve_active next_goal_def approve_runs)
  next
    case False
    then show ?thesis
      using assms
      by (auto simp: autopilot_tick_def io_app ap_query_cases approved_db_def approve_active approve_today next_goal_def approve_runs)
  qed
  show "ad_goals (snd (autopilot_tick fails cfg n db)) = ad_goals (mark_started (gl_id row) db)"
    using assms(2,5) by (auto simp: tick start_goal_def io_app ap_query_cases mark_started_def approved_facts split: option.split)
  show "\<exists>run rest. ad_runs (snd (autopilot_tick fails cfg n db)) = rest @ [run]
      \<and> length rest = length (ad_runs db) \<and> rn_status run = ''planning'' \<and> rn_source run = AUTOPILOT_SOURCE
      \<and> rn_goal run = strip_quotes (default_str [] (gl_goal row))" if "\<And>d. fails QCreate d = None"
    using assms(2,5) that by (auto simp: tick start_goal_def io_app ap_query_cases mark_started_def approved_facts new_run_def)
  show "fst (autopilot_tick fails cfg n db) = Err e
      \<and> length (ad_runs (snd (autopilot_tick fails cfg n db))) = length (ad_runs db)" if "\<And>d. fails QCreate d = Some e"
    using assms(2,5) that by (auto simp: tick start_goal_def io_app ap_query_cases mark_started_def approved_facts)
qed

lemma autopilot_starts_oldest_witness:
  "\<exists>run. ad_runs (snd (autopilot_tick ex_up_db default_autopilot_config 1 (ex_backlog [ex_goal ''g'' ''tidy'' 1]))) = [run]
     \<and> rn_goal run = ''tidy''"
proof -
  have "next_goal (ex_backlog [ex_goal ''g'' ''tidy'' 1]) = Some (ex_goal ''g'' ''tidy'' 1)"
    by (simp add: next_goal_def ex_backlog_def ex_goal_def)
  from autopilot_starts_oldest(3)[OF this, of 1 default_autopilot_config ex_up_db] show ?thesis
    by (auto simp: default_str_def ex_goal_def ex_backlog_def active_run_count_def autonomous_runs_today_def
        default_autopilot_config_def ex_up_db_def strip_quotes_def)
qed

end
