(* ===== verification/VerifyFacts.thy ===== *)
theory VerifyFacts
  imports Verify AgentFacts
begin

text \<open>
  When the second model's review rejects a diff, what the learned routing chooses and how its statistics
  grow, and what the suggestions for the planner count.
\<close>

section \<open>The review\<close>

definition changed_texts :: "string \<Rightarrow> string list" where
  "changed_texts diff = filter (\<lambda>t. t \<noteq> [])
     (map (\<lambda>l. trim (tl l)) (filter (\<lambda>l. added_line l \<or> removed_line l) (str_lines diff)))"

lemma doc_only_loop_eq:
  "doc_only_loop any ls \<longleftrightarrow>
    (let ts = filter (\<lambda>t. t \<noteq> []) (map (\<lambda>l. trim (tl l)) (filter (\<lambda>l. added_line l \<or> removed_line l) ls)) in
     list_all doc_text ts \<and> (any \<or> ts \<noteq> []))"
  by (induction any ls rule: doc_only_loop.induct) (auto simp: Let_def)

lemma doc_only_iff: "diff_is_doc_only diff \<longleftrightarrow> changed_texts diff \<noteq> [] \<and> list_all doc_text (changed_texts diff)"
  by (auto simp: diff_is_doc_only_def doc_only_loop_eq changed_texts_def Let_def)

lemma verdict_reject: "(\<exists>why. verdict_of content doc = Reject why) \<longleftrightarrow> says_reject content \<or> (\<not> says_accept content \<and> \<not> doc)"
  by (simp add: verdict_of_def)

text \<open>The review rejects a gated diff exactly when the model answered and its answer either says reject, or
  neither accepts nor concerns a diff whose changed lines are all comments; a line counts as a comment when
  it starts with a star, too. An empty diff and a failed inference are accepted.\<close>

theorem verify_rejects_iff:
  fixes get put config goal diff w
  defines "answer \<equiv> fst (router_chat (get w) (verify_messages goal diff) complexity.Medium (verify_options config))"
  shows "(\<exists>why. fst (adversarial_verify get put config goal diff w) = Ok (Reject why)) \<longleftrightarrow>
      trim diff \<noteq> [] \<and> (\<exists>resp. answer = Ok resp \<and>
        (says_reject (ir_content resp) \<or>
         \<not> says_accept (ir_content resp) \<and>
           \<not> (changed_texts diff \<noteq> [] \<and>
              (\<forall>t\<in>set (changed_texts diff). starts_with t ''//'' \<or> starts_with t ''/*'' \<or> starts_with t ''*''))))"
proof -
  have "doc_text t \<longleftrightarrow> starts_with t ''//'' \<or> starts_with t ''/*'' \<or> starts_with t ''*''" for t
    by (cases t; cases "tl t") (auto simp: doc_text_def starts_with_def)
  then have doc: "diff_is_doc_only diff \<longleftrightarrow> changed_texts diff \<noteq> [] \<and>
      (\<forall>t\<in>set (changed_texts diff). starts_with t ''//'' \<or> starts_with t ''/*'' \<or> starts_with t ''*'')"
    by (simp add: doc_only_iff list_all_iff)
  show ?thesis
    unfolding doc[symmetric] answer_def
    by (auto simp: adversarial_verify_def io_app io_zoom_def Let_def split_beta verdict_reject split: outcome.split)
qed

lemma verify_rejects_iff_witness:
  "\<not> (\<exists>why. fst (adversarial_verify id (\<lambda>r _. r) default_swarm_config ''fix the counter''
      (''-*count += 1;'' @ [NL] @ ''+*count = 0;'') (ex_host ''not sure'')) = Ok (Reject why))"
proof -
  have "changed_texts (''-*count += 1;'' @ [NL] @ ''+*count = 0;'') = [''*count += 1;'', ''*count = 0;'']"
    by code_simp
  moreover have "\<not> says_reject ''not sure''" "trim (''-*count += 1;'' @ [NL] @ ''+*count = 0;'') \<noteq> []"
    by code_simp+
  moreover have "fst (router_chat (ex_host ''not sure'') msgs complexity.Medium (verify_options default_swarm_config))
      = Ok (ex_answer ''not sure'')" for msgs
    by (simp add: router_chat_def or_next_def try_preferred_model_def try_preferred_backend_def verify_options_def
        ex_host_def add_backend_def router_new_def backend_chat_def default_inference_options_def)
  ultimately show ?thesis
    using verify_rejects_iff[of id "\<lambda>r _. r" default_swarm_config "''fix the counter''"
      "''-*count += 1;'' @ [NL] @ ''+*count = 0;''" "ex_host ''not sure''"]
    by (simp add: ex_answer_def starts_with_def)
qed

section \<open>Learned routing\<close>

text \<open>With some history for the shape of a goal the routing tries the agent tier first, then the
  orchestrator tier, then takes the higher score, the agent tier when they are equal; without history it
  takes the orchestrator for complex goals only.\<close>

theorem chosen_tier_spec:
  fixes ucb rows goal
  defines "a \<equiv> fst (snd (tier_stats rows ROUTING_TIER_AGENT))" and "s \<equiv> snd (snd (tier_stats rows ROUTING_TIER_AGENT))"
    and "a' \<equiv> fst (snd (tier_stats rows ROUTING_TIER_ORCH))" and "s' \<equiv> snd (snd (tier_stats rows ROUTING_TIER_ORCH))"
  shows "chosen_tier ucb rows goal =
    (if a + a' = 0 then if goal_shape goal = ''complex'' then ROUTING_TIER_ORCH else ROUTING_TIER_AGENT
     else if a = 0 then ROUTING_TIER_AGENT
     else if a' = 0 \<or> ucb (a + a') s a < ucb (a + a') s' a' then ROUTING_TIER_ORCH
     else ROUTING_TIER_AGENT)"
proof -
  have "fst (tier_stats rows l) = l" for l
    by (simp add: tier_stats_def split: option.split)
  then obtain x where x: "tier_stats rows ROUTING_TIER_AGENT = (ROUTING_TIER_AGENT, x)"
    by (metis prod.collapse)
  moreover obtain y where "tier_stats rows ROUTING_TIER_ORCH = (ROUTING_TIER_ORCH, y)"
    using \<open>\<And>l. fst (tier_stats rows l) = l\<close> by (metis prod.collapse)
  ultimately show ?thesis
    by (cases x; cases y) (simp add: assms chosen_tier_def Let_def)
qed

definition routing_rows :: "string \<Rightarrow> string \<Rightarrow> routing_stat list \<Rightarrow> routing_row list" where
  "routing_rows project shape table =
     map (\<lambda>r. \<lparr>rr_tier = rs_tier r, rr_attempts = rs_attempts r, rr_successes = rs_successes r\<rparr>)
       (filter (\<lambda>r. rs_project r = project \<and> rs_shape r = shape) table)"

section \<open>Suggestions\<close>

definition has_seed :: "string list \<Rightarrow> string list \<Rightarrow> bool" where
  "has_seed seeds files \<longleftrightarrow> (\<exists>f\<in>set files. f \<in> set seeds)"

definition cochanges :: "string list \<Rightarrow> string list list \<Rightarrow> string \<Rightarrow> nat" where
  "cochanges seeds rows f = sum_list (map (\<lambda>files. count_list files f) (filter (has_seed seeds) rows))"

lemma tally_files:
  fixes seeds files t
  defines "t' \<equiv> fold (\<lambda>f t. if f \<in> set seeds then t else om_insert f (tally_of t f + 1) t) files t"
  shows "om_ok t \<Longrightarrow> om_ok t'" "tally_of t' f = tally_of t f + (if f \<in> set seeds then 0 else count_list files f)"
  unfolding t'_def by (induction files arbitrary: t) (auto simp: tally_of_def)

lemma coedit_tally_rows:
  "om_ok t \<Longrightarrow> om_ok (fold (\<lambda>files tally. if list_ex (\<lambda>f. f \<in> set seeds) files
        then fold (\<lambda>f t. if f \<in> set seeds then t else om_insert f (tally_of t f + 1) t) files tally
        else tally) rows t)
   \<and> tally_of (fold (\<lambda>files tally. if list_ex (\<lambda>f. f \<in> set seeds) files
        then fold (\<lambda>f t. if f \<in> set seeds then t else om_insert f (tally_of t f + 1) t) files tally
        else tally) rows t) f = tally_of t f + (if f \<in> set seeds then 0 else cochanges seeds rows f)"
  by (induction rows arbitrary: t)
    (auto simp: cochanges_def has_seed_def list_ex_iff tally_files)

lemma coedit_tally_spec:
  "om_ok (coedit_tally seeds rows)"
  "tally_of (coedit_tally seeds rows) f = (if f \<in> set seeds then 0 else cochanges seeds rows f)"
  using coedit_tally_rows[of "[]" seeds rows f]
  by (simp_all add: coedit_tally_def) (simp add: tally_of_def)

end
