(* ===== verification/Tools.thy ===== *)
theory Tools
  imports Agent
begin

text \<open>
  The agent's tools (\<open>crates/tools/src\<close>): the registry and its dispatch, the file tools over a provider with
  the disk behind it, search, the allowlisted command, tests, git and the quality checks. The tree-sitter
  and web tools are entries of the registry whose behaviour is a parameter. Parameters of a call are the
  string fields and string arrays of its JSON object; a poisoned lock does not occur.
\<close>

section \<open>Calls and results\<close>

record tool_params =
  tp_str :: "string \<Rightarrow> string option"
  tp_list :: "string \<Rightarrow> string list option"

definition tool_ok :: "string \<Rightarrow> tool_result" where
  "tool_ok content = \<lparr>tx_content = content, tx_is_error = False, tx_duration_ms = 0\<rparr>"

definition tool_err :: "string \<Rightarrow> tool_result" where
  "tool_err content = \<lparr>tx_content = content, tx_is_error = True, tx_duration_ms = 0\<rparr>"

definition param_or :: "string \<Rightarrow> tool_params \<Rightarrow> string \<Rightarrow> string" where
  "param_or d ps key = (case tp_str ps key of Some v \<Rightarrow> v | None \<Rightarrow> d)"

text \<open>Files on the disk below a directory, as a walk finds them.\<close>

datatype dir_entry = DirFile string "string outcome" | DirSub string "dir_entry list"

record ('p, 'w) tool_context =
  tl_files :: "('p, 'w) agent_files"
  tl_project :: string
  tl_walk :: "string \<Rightarrow> 'w \<Rightarrow> dir_entry list"

abbreviation tl_disk :: "('p, 'w) tool_context \<Rightarrow> 'w disk_ops" where
  "tl_disk C \<equiv> af_disk (tl_files C)"

abbreviation tl_repo :: "('p, 'w) tool_context \<Rightarrow> string" where
  "tl_repo C \<equiv> af_repo_path (tl_files C)"

type_synonym ('p, 'w) tool = "('p, 'w) tool_context \<Rightarrow> tool_params \<Rightarrow> (('p, 'w) agent_state, tool_result) io"

section \<open>Files\<close>

definition MAX_READ_BYTES :: nat where "MAX_READ_BYTES = 100000"

definition shown_file :: "string \<Rightarrow> tool_result outcome" where
  "shown_file content =
     (if MAX_READ_BYTES < length content
      then obind (str_slice_to content MAX_READ_BYTES) (\<lambda>c. Ok (tool_ok (c @ ''... (truncated)'')))
      else Ok (tool_ok content))"

definition read_file_tool :: "('p, 'w) tool" where
  "read_file_tool C ps = (\<lambda>s.
     let path = param_or [] ps ''path'' in
     if path = [] then (Ok (tool_err ''Missing 'path' parameter''), s)
     else
       (case (case as_provider s of Some p \<Rightarrow> fp_read (af_provider (tl_files C)) p path | None \<Rightarrow> Err []) of
          Ok content \<Rightarrow> (shown_file content, s)
        | Panic \<Rightarrow> (Panic, s)
        | Err _ \<Rightarrow>
            (case dk_read (tl_disk C) (path_join (tl_repo C) path) (as_world s) of
               Ok content \<Rightarrow> (shown_file content, s)
             | Err e \<Rightarrow> (Ok (tool_err (''Cannot read '' @ path @ '': '' @ e)), s)
             | Panic \<Rightarrow> (Panic, s))))"

definition written :: "string \<Rightarrow> string \<Rightarrow> tool_result" where
  "written content path = tool_ok (''Written '' @ show_nat (length content) @ '' bytes to '' @ path)"

definition write_disk_tool :: "('p, 'w) tool_context \<Rightarrow> string \<Rightarrow> string \<Rightarrow> (('p, 'w) agent_state, tool_result) io" where
  "write_disk_tool C path content =
     (let full = path_join (tl_repo C) path in
      io_bind (on_world (case path_parent full of
          Some d \<Rightarrow> io_ignore (dk_create_dir_all (tl_disk C) d) | None \<Rightarrow> io_ok ())) (\<lambda>_.
      io_bind (io_try (on_world (dk_write (tl_disk C) full content))) (\<lambda>r.
      io_ok (case r of Ok _ \<Rightarrow> written content path
        | Err e \<Rightarrow> tool_err (''Cannot write '' @ path @ '': '' @ e) | Panic \<Rightarrow> written content path))))"

definition write_file_tool :: "('p, 'w) tool" where
  "write_file_tool C ps = (\<lambda>s.
     let path = param_or [] ps ''path''; content = param_or [] ps ''content'' in
     if path = [] then (Ok (tool_err ''Missing 'path' parameter''), s)
     else
       (case as_provider s of
          None \<Rightarrow> write_disk_tool C path content s
        | Some p \<Rightarrow>
            (case fp_write (af_provider (tl_files C)) p path content of
               (Ok _, p') \<Rightarrow> (Ok (written content path), s\<lparr>as_provider := Some p'\<rparr>)
             | (Err _, p') \<Rightarrow> write_disk_tool C path content (s\<lparr>as_provider := Some p'\<rparr>)
             | (Panic, p') \<Rightarrow> (Panic, s\<lparr>as_provider := Some p'\<rparr>))))"

definition delete_file_tool :: "('p, 'w) tool" where
  "delete_file_tool C ps =
     (let path = param_or [] ps ''path'' in
      if path = [] then io_ok (tool_err ''Missing 'path' parameter'')
      else
        io_bind (io_try (on_world (dk_remove_file (tl_disk C) (path_join (tl_repo C) path)))) (\<lambda>r.
        io_ok (case r of Err e \<Rightarrow> tool_err (''Cannot delete '' @ path @ '': '' @ e) | _ \<Rightarrow> tool_ok (''Deleted '' @ path))))"

definition list_files_tool :: "('p, 'w) tool" where
  "list_files_tool C ps = (\<lambda>s.
     let pattern = param_or [] ps ''pattern'' in
     case as_provider s of
       Some p \<Rightarrow>
         (let files = fp_list (af_provider (tl_files C)) p in
          (Ok (tool_ok (str_join [NL] (if pattern = [] then files else filter (\<lambda>f. contains f pattern) files))), s))
     | None \<Rightarrow> (Ok (tool_err ''No file provider available''), s))"

section \<open>Search\<close>

definition MAX_MATCHES :: nat where "MAX_MATCHES = 100"

definition match_line :: "string \<Rightarrow> nat \<Rightarrow> string \<Rightarrow> string" where
  "match_line file i line = file @ '':'' @ show_nat (i + 1) @ '':'' @ line"

text \<open>The lines of one text, up to the limit.\<close>

fun grep_lines :: "string \<Rightarrow> string \<Rightarrow> nat \<Rightarrow> string list \<Rightarrow> string list \<Rightarrow> string list" where
  "grep_lines pattern file i [] matches = matches"
| "grep_lines pattern file i (line # ls) matches =
     (if contains line pattern then
        (let matches' = matches @ [match_line file i line] in
         if MAX_MATCHES \<le> length matches' then matches' else grep_lines pattern file (i + 1) ls matches')
      else grep_lines pattern file (i + 1) ls matches)"

definition grep_wanted :: "string \<Rightarrow> string \<Rightarrow> string \<Rightarrow> bool" where
  "grep_wanted search_path filter_ext file \<longleftrightarrow>
     (search_path = [] \<or> starts_with file search_path) \<and> (filter_ext = [] \<or> ends_with file (''.'' @ filter_ext))"

fun grep_files ::
  "(string \<Rightarrow> string outcome) \<Rightarrow> string \<Rightarrow> string \<Rightarrow> string \<Rightarrow> string list \<Rightarrow> string list \<Rightarrow> string list" where
  "grep_files read pattern search_path filter_ext [] matches = matches"
| "grep_files read pattern search_path filter_ext (file # files) matches =
     (if \<not> grep_wanted search_path filter_ext file then grep_files read pattern search_path filter_ext files matches
      else
        (let matches' = (case read file of Ok content \<Rightarrow> grep_lines pattern file 0 (str_lines content) matches
             | _ \<Rightarrow> matches) in
         if MAX_MATCHES \<le> length matches' then matches'
         else grep_files read pattern search_path filter_ext files matches'))"

text \<open>The walk over the disk. \<open>dir\<close> is the full path of the directory, \<open>base\<close> the repository.\<close>

definition skipped_dir :: "string \<Rightarrow> bool" where
  "skipped_dir name \<longleftrightarrow> starts_with name ''.'' \<or> name = ''target'' \<or> name = ''node_modules''"

fun search_dir :: "string \<Rightarrow> string \<Rightarrow> string \<Rightarrow> string \<Rightarrow> dir_entry list \<Rightarrow> string list \<Rightarrow> string list" where
  "search_dir base pattern ext dir [] out = out"
| "search_dir base pattern ext dir (DirSub name subs # es) out =
     (if MAX_MATCHES \<le> length out then out
      else if skipped_dir name then search_dir base pattern ext dir es out
      else search_dir base pattern ext dir es (search_dir base pattern ext (path_join dir name) subs out))"
| "search_dir base pattern ext dir (DirFile name content # es) out =
     (if MAX_MATCHES \<le> length out then out
      else if ext \<noteq> [] \<and> file_extension name \<noteq> ext then search_dir base pattern ext dir es out
      else
        (let full = path_join dir name;
             rel = (case path_strip_prefix full base of Some r \<Rightarrow> r | None \<Rightarrow> full) in
         search_dir base pattern ext dir es
           (case content of Ok c \<Rightarrow> grep_lines pattern rel 0 (str_lines c) out | _ \<Rightarrow> out)))"

definition grep_result :: "string list \<Rightarrow> tool_result" where
  "grep_result matches = tool_ok (if matches = [] then ''No matches found'' else str_join [NL] matches)"

definition grep_tool :: "('p, 'w) tool" where
  "grep_tool C ps = (\<lambda>s.
     let pattern = param_or [] ps ''pattern''; ext = param_or [] ps ''glob''; search_path = param_or [] ps ''path'' in
     if pattern = [] then (Ok (tool_err ''Missing 'pattern' parameter''), s)
     else
       (case as_provider s of
          Some p \<Rightarrow>
            (Ok (grep_result (grep_files (fp_read (af_provider (tl_files C)) p) pattern search_path ext
                  (fp_list (af_provider (tl_files C)) p) [])), s)
        | None \<Rightarrow>
            (let dir = (if search_path = [] then tl_repo C else path_join (tl_repo C) search_path) in
             (Ok (grep_result (search_dir (tl_repo C) pattern ext dir (tl_walk C dir (as_world s)) [])), s))))"

section \<open>Commands\<close>

definition MAX_OUTPUT_BYTES :: nat where "MAX_OUTPUT_BYTES = 10000"
definition MAX_DIFF_BYTES :: nat where "MAX_DIFF_BYTES = 20000"

definition ALLOWED_COMMANDS :: "string list" where
  "ALLOWED_COMMANDS =
     [''cargo'', ''rustc'', ''rustfmt'', ''clippy-driver'', ''npm'', ''npx'', ''node'', ''go'', ''gofmt'', ''python3'',
      ''pip3'', ''wc'', ''sort'', ''uniq'', ''head'', ''tail'', ''cat'', ''ls'', ''find'', ''tree'']"

definition exit_code :: "command_output \<Rightarrow> int" where
  "exit_code out = (case co_code out of Some c \<Rightarrow> c | None \<Rightarrow> - 1)"

definition show_exit :: "int \<Rightarrow> string" where
  "show_exit n = (if n < 0 then ''-'' @ show_nat (nat (- n)) else show_nat (nat n))"

definition cut_output :: "nat \<Rightarrow> (string \<Rightarrow> string) \<Rightarrow> string \<Rightarrow> string outcome" where
  "cut_output limit mark s = (if limit < length s then obind (str_slice_to s limit) (\<lambda>c. Ok (mark c)) else Ok s)"

definition run_command_tool :: "('p, 'w) tool" where
  "run_command_tool C ps =
     (let command = param_or [] ps ''command'' in
      if command = [] then io_ok (tool_err ''Missing 'command' parameter'')
      else if command \<notin> set ALLOWED_COMMANDS then
        io_ok (tool_err (''Command '' @ [CHR 0x27] @ command @ [CHR 0x27] @ '' not in allowlist. Allowed: ''
          @ str_join '', '' ALLOWED_COMMANDS))
      else
        (let args = (case tp_list ps ''args'' of Some xs \<Rightarrow> xs | None \<Rightarrow> []) in
         io_bind (io_try (on_world (dk_command (tl_disk C) command args (tl_repo C)))) (\<lambda>r.
         case r of
           Ok out \<Rightarrow>
             io_bind (io_lift (cut_output MAX_OUTPUT_BYTES (\<lambda>c. c @ ''...'' @ [NL] @ ''(truncated)'')
                 (co_stdout out @ co_stderr out))) (\<lambda>truncated.
             let text = ''exit '' @ show_exit (exit_code out) @ [NL] @ truncated in
             io_ok (if co_success out then tool_ok text else tool_err text))
         | Err e \<Rightarrow> io_ok (tool_err (''Failed to run '' @ command @ '': '' @ e))
         | Panic \<Rightarrow> io_lift Panic)))"

definition test_command :: "(string \<Rightarrow> bool) \<Rightarrow> string \<Rightarrow> string \<Rightarrow> (string \<times> string list) option" where
  "test_command present repo pattern =
     (if present (path_join repo ''Cargo.toml'') then
        Some (''cargo'', if pattern = [] then [''test'', ''--'', ''--nocapture''] else [''test'', pattern, ''--'', ''--nocapture''])
      else if present (path_join repo ''package.json'') then
        Some (''npm'', if pattern = [] then [''test''] else [''test'', ''--'', pattern])
      else if present (path_join repo ''go.mod'') then
        Some (''go'', if pattern = [] then [''test'', ''./...''] else [''test'', ''-run'', pattern, ''./...''])
      else None)"

definition run_tests_tool :: "('p, 'w) tool" where
  "run_tests_tool C ps = (\<lambda>s.
     case test_command (\<lambda>p. dk_exists (tl_disk C) p (as_world s)) (tl_repo C) (param_or [] ps ''pattern'') of
       None \<Rightarrow> (Ok (tool_err ''No recognized test toolchain found (Cargo.toml, package.json, go.mod)''), s)
     | Some (cmd, args) \<Rightarrow>
         io_bind (io_try (on_world (dk_command (tl_disk C) cmd args (tl_repo C)))) (\<lambda>r.
         case r of
           Ok out \<Rightarrow>
             (let combined = co_stdout out @ [NL] @ co_stderr out in
              io_bind (io_lift (cut_output MAX_OUTPUT_BYTES
                 (\<lambda>c. c @ ''...'' @ [NL] @ ''(truncated, '' @ show_nat (length combined) @ '' bytes total)'') combined)) (\<lambda>truncated.
              io_ok (if co_success out then tool_ok (''TESTS PASSED'' @ [NL] @ truncated)
                     else tool_err (''TESTS FAILED'' @ [NL] @ truncated))))
         | Err e \<Rightarrow> io_ok (tool_err (''Failed to run '' @ cmd @ '': '' @ e))
         | Panic \<Rightarrow> io_lift Panic) s)"

definition git_diff_tool :: "('p, 'w) tool" where
  "git_diff_tool C ps =
     io_bind (io_try (on_world (dk_command (tl_disk C) ''git''
         (''diff'' # (case tp_str ps ''path'' of Some p \<Rightarrow> [p] | None \<Rightarrow> [])) (tl_repo C)))) (\<lambda>r.
     case r of
       Ok out \<Rightarrow>
         (let diff = co_stdout out in
          if diff = [] then io_ok (tool_ok ''No changes'')
          else io_bind (io_lift (cut_output MAX_DIFF_BYTES
                 (\<lambda>c. c @ ''...'' @ [NL] @ ''(truncated, '' @ show_nat (length diff) @ '' bytes total)'') diff)) (\<lambda>d.
               io_ok (tool_ok d)))
     | Err e \<Rightarrow> io_ok (tool_err (''git diff failed: '' @ e))
     | Panic \<Rightarrow> io_lift Panic)"

definition git_status_tool :: "('p, 'w) tool" where
  "git_status_tool C ps =
     io_bind (io_try (on_world (dk_command (tl_disk C) ''git'' [''status'', ''--short''] (tl_repo C)))) (\<lambda>r.
     io_ok (case r of
         Ok out \<Rightarrow> tool_ok (if co_stdout out = [] then ''Working tree clean'' else co_stdout out)
       | Err e \<Rightarrow> tool_err (''git status failed: '' @ e)
       | Panic \<Rightarrow> tool_ok []))"

end
