(* ===== verification/ToolRegistry.thy ===== *)
theory ToolRegistry
  imports Tools Graph
begin

text \<open>
  The quality tools (\<open>crates/tools/src/quality_tools.rs\<close>) and the registry with its dispatch
  (\<open>registry.rs\<close>). The checks that the code runs on three threads run in the order they are spawned.
\<close>

section \<open>The crate of a path\<close>

text \<open>Up the directories, with the test for the repository after the step.\<close>

function tool_crate_search :: "'w disk_ops \<Rightarrow> string \<Rightarrow> 'w \<Rightarrow> string \<Rightarrow> string option" where
  "tool_crate_search D repo w d =
     (let cargo = path_join d ''Cargo.toml'';
          up = (case path_parent d of None \<Rightarrow> None
                | Some d' \<Rightarrow> if d' = repo then None else tool_crate_search D repo w d') in
      if dk_exists D cargo w then
        (case dk_read D cargo w of
           Ok content \<Rightarrow> (case crate_of_manifest content of Some n \<Rightarrow> Some n | None \<Rightarrow> up)
         | _ \<Rightarrow> None)
      else up)"
  by pat_completeness auto
termination
  by (relation "measure (\<lambda>(_, _, _, d). length d)") (auto simp: path_parent_shorter)

declare tool_crate_search.simps [simp del]

definition tool_detect_crate :: "'w disk_ops \<Rightarrow> string \<Rightarrow> string \<Rightarrow> 'w \<Rightarrow> string option" where
  "tool_detect_crate D repo file_path w =
     Option.bind (path_parent (path_join repo file_path)) (tool_crate_search D repo w)"

definition scoped_check_cmd :: "('p, 'w) tool_context \<Rightarrow> 'w \<Rightarrow> string" where
  "scoped_check_cmd C w =
     (if dk_exists (tl_disk C) (path_join (tl_repo C) ''crates'') w then
        (case tool_detect_crate (tl_disk C) (tl_repo C) (tl_project C) w of
           Some crate_name \<Rightarrow> ''cargo check -p '' @ crate_name
         | None \<Rightarrow> ''cargo check'')
      else ''cargo check'')"

section \<open>Running a check\<close>

definition MAX_OUTPUT_CHARS :: nat where "MAX_OUTPUT_CHARS = 3000"

text \<open>\<open>str::ceil_char_boundary\<close>: the first boundary from an index on.\<close>

function ceil_char_boundary :: "string \<Rightarrow> nat \<Rightarrow> nat" where
  "ceil_char_boundary s n =
     (if length s \<le> n then length s else if is_char_boundary s n then n else ceil_char_boundary s (n + 1))"
  by pat_completeness auto
termination
  by (relation "measure (\<lambda>(s, n). length s - n)") auto

declare ceil_char_boundary.simps [simp del]

definition truncate_end :: "string \<Rightarrow> nat \<Rightarrow> string outcome" where
  "truncate_end s limit =
     (if length s \<le> limit then Ok s
      else
        (let skip = length s - limit; boundary = ceil_char_boundary s skip in
         obind (str_slice s boundary (length s)) (\<lambda>tail.
         Ok (''...['' @ show_nat skip @ '' chars truncated]'' @ [NL] @ tail))))"

text \<open>\<open>elapsed\<close> is the milliseconds between two worlds.\<close>

definition run_cmd ::
  "'w disk_ops \<Rightarrow> ('w \<Rightarrow> 'w \<Rightarrow> nat) \<Rightarrow> string \<Rightarrow> string \<Rightarrow> ('w, tool_result) io" where
  "run_cmd D elapsed cmd cwd = (\<lambda>start.
     let (program, args) = (case split_whitespace cmd of [] \<Rightarrow> (''echo'', []) | p # as \<Rightarrow> (p, as)) in
     io_bind (io_try (dk_command D program args cwd)) (\<lambda>r.
     case r of
       Ok out \<Rightarrow>
         io_bind (io_get (elapsed start)) (\<lambda>duration.
         io_bind (io_lift
            (if co_success out then
               Ok (if co_stdout out = [] \<and> co_stderr out = [] then ''OK''
                   else chars_take MAX_OUTPUT_CHARS (''OK'' @ [NL] @ co_stdout out @ co_stderr out))
             else truncate_end (''FAILED (exit '' @ show_exit (exit_code out) @ '')'' @ [NL] @ co_stderr out @ co_stdout out)
                    MAX_OUTPUT_CHARS)) (\<lambda>content.
         io_ok \<lparr>tx_content = content, tx_is_error = \<not> co_success out, tx_duration_ms = duration\<rparr>))
     | Err e \<Rightarrow> io_ok (tool_err (''Command failed: '' @ e))
     | Panic \<Rightarrow> io_lift Panic) start)"

text \<open>The tools: formatting, lint, build, tests, and all checks at once.\<close>

definition cmd_tool :: "('w \<Rightarrow> 'w \<Rightarrow> nat) \<Rightarrow> (('p, 'w) tool_context \<Rightarrow> tool_params \<Rightarrow> 'w \<Rightarrow> string) \<Rightarrow> ('p, 'w) tool" where
  "cmd_tool elapsed cmd C ps = (\<lambda>s. on_world (run_cmd (tl_disk C) elapsed (cmd C ps (as_world s)) (tl_repo C)) s)"

definition run_fmt_tool :: "('w \<Rightarrow> 'w \<Rightarrow> nat) \<Rightarrow> ('p, 'w) tool" where
  "run_fmt_tool el = cmd_tool el (\<lambda>C ps w. ''cargo fmt -- --check'')"

definition run_lint_tool :: "('w \<Rightarrow> 'w \<Rightarrow> nat) \<Rightarrow> ('p, 'w) tool" where
  "run_lint_tool el = cmd_tool el (\<lambda>C ps w. ''cargo clippy'')"

definition run_build_tool :: "('w \<Rightarrow> 'w \<Rightarrow> nat) \<Rightarrow> ('p, 'w) tool" where
  "run_build_tool el = cmd_tool el (\<lambda>C ps w.
     case tp_str ps ''crate_name'' of Some name \<Rightarrow> ''cargo check -p '' @ name | None \<Rightarrow> scoped_check_cmd C w)"

definition run_test_tool :: "('w \<Rightarrow> 'w \<Rightarrow> nat) \<Rightarrow> ('p, 'w) tool" where
  "run_test_tool el = cmd_tool el (\<lambda>C ps w.
     case tp_str ps ''crate_name'' of Some name \<Rightarrow> ''cargo test --lib -p '' @ name | None \<Rightarrow> ''cargo test --lib'')"

definition check_commands :: "string \<Rightarrow> (string \<times> string) list" where
  "check_commands crate_flag =
     [(''fmt'', ''cargo fmt -- --check''), (''build'', ''cargo check'' @ crate_flag), (''clippy'', ''cargo clippy'' @ crate_flag)]"

text \<open>A thread that panics is left out.\<close>

fun run_each_check ::
  "'w disk_ops \<Rightarrow> ('w \<Rightarrow> 'w \<Rightarrow> nat) \<Rightarrow> string \<Rightarrow> (string \<times> string) list \<Rightarrow> 'w \<Rightarrow> (string \<times> tool_result) list \<times> 'w" where
  "run_each_check D el cwd [] w = ([], w)"
| "run_each_check D el cwd ((name, cmd) # cmds) w =
     (let (r, w1) = run_cmd D el cmd cwd w; (rs, w2) = run_each_check D el cwd cmds w1 in
      (case r of Ok res \<Rightarrow> ((name, res) # rs, w2) | _ \<Rightarrow> (rs, w2)))"

fun check_parts :: "nat \<Rightarrow> (string \<times> tool_result) list \<Rightarrow> string list outcome" where
  "check_parts limit [] = Ok []"
| "check_parts limit ((name, r) # rs) =
     obind (truncate_end (tx_content r) limit) (\<lambda>content.
     obind (check_parts limit rs) (\<lambda>parts. Ok ((''['' @ name @ ''] '' @ content) # parts)))"

definition run_check_tool :: "('w \<Rightarrow> 'w \<Rightarrow> nat) \<Rightarrow> ('p, 'w) tool" where
  "run_check_tool el C ps = (\<lambda>s.
     let start = as_world s;
         crate_flag = (case tp_str ps ''crate_name'' of
             Some name \<Rightarrow> '' -p '' @ name | None \<Rightarrow> str_replace ''cargo check'' [] (scoped_check_cmd C start));
         (results, w) = run_each_check (tl_disk C) el (tl_repo C) (check_commands crate_flag) start in
     (obind (check_parts (MAX_OUTPUT_CHARS div 3) results) (\<lambda>parts.
        Ok \<lparr>tx_content = str_join [NL, NL] parts, tx_is_error = list_ex (\<lambda>(_, r). tx_is_error r) results,
            tx_duration_ms = el start w\<rparr>),
      s\<lparr>as_world := w\<rparr>))"

section \<open>The registry\<close>

type_synonym ('p, 'w) tool_registry = "(string, ('p, 'w) tool) omap"

definition register_tool :: "string \<Rightarrow> ('p, 'w) tool \<Rightarrow> ('p, 'w) tool_registry \<Rightarrow> ('p, 'w) tool_registry" where
  "register_tool name t reg = om_insert name t reg"

definition with_virt_defaults :: "('p, 'w) tool_registry" where
  "with_virt_defaults = fold (\<lambda>(n, t). register_tool n t)
     [(''read_file'', read_file_tool), (''write_file'', write_file_tool), (''list_files'', list_files_tool), (''grep'', grep_tool)] []"

definition with_defaults :: "('w \<Rightarrow> 'w \<Rightarrow> nat) \<Rightarrow> (string \<Rightarrow> ('p, 'w) tool) \<Rightarrow> ('p, 'w) tool_registry" where
  "with_defaults el other = fold (\<lambda>(n, t). register_tool n t)
     [(''read_file'', read_file_tool), (''write_file'', write_file_tool), (''delete_file'', delete_file_tool),
      (''list_files'', list_files_tool), (''grep'', grep_tool), (''run_tests'', run_tests_tool),
      (''git_diff'', git_diff_tool), (''git_status'', git_status_tool), (''run_command'', run_command_tool),
      (''ts_rename'', other ''ts_rename''), (''ts_find'', other ''ts_find''),
      (''ts_signatures'', other ''ts_signatures''), (''web_search'', other ''web_search''),
      (''fetch_url'', other ''fetch_url''), (''search_crates'', other ''search_crates''),
      (''run_check'', run_check_tool el), (''run_fmt'', run_fmt_tool el), (''run_lint'', run_lint_tool el),
      (''run_build'', run_build_tool el), (''run_test'', run_test_tool el)] []"

definition tool_names :: "('p, 'w) tool_registry \<Rightarrow> string list" where
  "tool_names reg = om_keys reg"

text \<open>A remote worker first, if there is a dispatcher; then the local tool.\<close>

definition execute_tool ::
  "(string \<Rightarrow> tool_params \<Rightarrow> (('p, 'w) agent_state, tool_result) io) option \<Rightarrow> ('w \<Rightarrow> 'w \<Rightarrow> nat)
    \<Rightarrow> ('p, 'w) tool_registry \<Rightarrow> ('p, 'w) tool_context \<Rightarrow> string \<Rightarrow> tool_params \<Rightarrow> (('p, 'w) agent_state, tool_result) io" where
  "execute_tool remote el reg C name ps = (\<lambda>s0.
     let local = (\<lambda>s. case om_get reg name of
           Some t \<Rightarrow> io_bind (t C ps) (\<lambda>r. io_bind (io_get (\<lambda>s'. el (as_world s0) (as_world s'))) (\<lambda>d.
             io_ok (r\<lparr>tx_duration_ms := d\<rparr>))) s
         | None \<Rightarrow> (Ok (tool_err (''Unknown tool: '' @ name)), s)) in
     case remote of
       None \<Rightarrow> local s0
     | Some call \<Rightarrow>
         (case call name ps s0 of
            (Ok r, s) \<Rightarrow> (Ok r, s)
          | (Err _, s) \<Rightarrow> local s
          | (Panic, s) \<Rightarrow> (Panic, s)))"

end
