(* ===== verification/SecurityFacts.thy ===== *)
theory SecurityFacts
  imports SecurityScan
begin

text \<open>
  The scan against a declarative reading of it: the findings of the added lines in order, cut at the
  limit of the report; when the scan is complete, what the limit hides, what a placeholder and a
  configured threshold exempt.
\<close>

section \<open>Findings, declaratively\<close>

definition line_finding :: "string \<Rightarrow> string list \<Rightarrow> nat \<times> string \<Rightarrow> scan_finding option" where
  "line_finding path old_lines e =
     (let line = trim (snd e) in
      if line = [] \<or> line \<in> set old_lines then None
      else map_option (\<lambda>(rule_id, severity). \<lparr>fd_rule_id = rule_id, fd_severity = severity,
             fd_file = path, fd_line = fst e + 1, fd_snippet = chars_take SCAN_SNIPPET_MAX_CHARS line\<rparr>)
           (classify line (file_extension path)))"

definition file_findings :: "(string \<Rightarrow> string) \<Rightarrow> string \<times> string \<Rightarrow> scan_finding list" where
  "file_findings head f =
     (if scannable f
      then List.map_filter (line_finding (fst f) (map trim (str_lines (head (fst f)))))
             (List.enumerate 0 (str_lines (snd f)))
      else [])"

definition new_findings :: "(string \<Rightarrow> string) \<Rightarrow> (string \<times> string) list \<Rightarrow> scan_finding list" where
  "new_findings head files = concat (map (file_findings head) files)"

text \<open>What \<open>git show\<close> answers in a world, and that it only reads.\<close>

definition committed :: "'w disk_ops \<Rightarrow> string \<Rightarrow> 'w \<Rightarrow> string \<Rightarrow> string" where
  "committed D worktree w path =
     (case fst (dk_command D ''git'' [''show'', ''HEAD:'' @ path] worktree w) of
        Ok out \<Rightarrow> (if co_success out then co_stdout out else []) | _ \<Rightarrow> [])"

definition git_show_reads :: "'w disk_ops \<Rightarrow> bool" where
  "git_show_reads D \<longleftrightarrow> (\<forall>arg worktree w. snd (dk_command D ''git'' [''show'', arg] worktree w) = w
     \<and> fst (dk_command D ''git'' [''show'', arg] worktree w) \<noteq> Panic)"

section \<open>The loops\<close>

lemma map_filter_Cons: "List.map_filter f (x # xs) = (case f x of None \<Rightarrow> [] | Some y \<Rightarrow> [y]) @ List.map_filter f xs"
  by (simp add: List.map_filter_def split: option.split)

lemma map_filter_Nil: "List.map_filter f [] = []"
  by (simp add: List.map_filter_def)

lemma scan_lines_take:
  assumes "length acc < SCAN_FINDINGS_MAX"
  shows "scan_lines path (file_extension path) old idx raws acc =
    (let all = acc @ List.map_filter (line_finding path old) (List.enumerate idx raws) in
     (take SCAN_FINDINGS_MAX all, SCAN_FINDINGS_MAX \<le> length all))"
  using assms
proof (induction raws arbitrary: idx acc)
  case (Cons raw raws)
  show ?case
  proof (cases "line_finding path old (idx, raw)")
    case None
    then have "trim raw = [] \<or> trim raw \<in> set old \<or> classify (trim raw) (file_extension path) = None"
      by (auto simp: line_finding_def Let_def split: if_splits)
    then show ?thesis
      using Cons.IH[OF Cons.prems, of "Suc idx"] None by (auto simp: map_filter_Cons Let_def)
  next
    case (Some fd)
    then obtain rule severity where fd: "trim raw \<noteq> []" "trim raw \<notin> set old"
        "classify (trim raw) (file_extension path) = Some (rule, severity)"
        "fd = \<lparr>fd_rule_id = rule, fd_severity = severity, fd_file = path, fd_line = idx + 1,
           fd_snippet = chars_take SCAN_SNIPPET_MAX_CHARS (trim raw)\<rparr>"
      by (auto simp: line_finding_def Let_def split: if_splits)
    show ?thesis
    proof (cases "SCAN_FINDINGS_MAX \<le> length (acc @ [fd])")
      case True
      then have "SCAN_FINDINGS_MAX = Suc (length acc)" "SCAN_FINDINGS_MAX - length acc = Suc 0"
        using Cons.prems by simp_all
      then show ?thesis
        using fd Some by (simp add: map_filter_Cons Let_def)
    next
      case False
      then show ?thesis
        using fd Some Cons.IH[of "acc @ [fd]" "Suc idx"] by (simp add: map_filter_Cons Let_def)
    qed
  qed
qed (simp add: map_filter_Nil)

lemma head_version_reads:
  assumes "git_show_reads D"
  shows "head_version D worktree path w = (Ok (committed D worktree w path), w)"
proof -
  obtain r where "dk_command D ''git'' [''show'', ''HEAD:'' @ path] worktree w = (r, w)" "r \<noteq> Panic"
    using assms unfolding git_show_reads_def by (metis prod.collapse)
  then show ?thesis
    by (cases r) (simp_all add: head_version_def committed_def io_defs)
qed

lemma scan_files_take:
  assumes "git_show_reads D" "length acc < SCAN_FINDINGS_MAX"
  shows "scan_files D worktree files acc w
    = (Ok (take SCAN_FINDINGS_MAX (acc @ new_findings (committed D worktree w) files)), w)"
  using assms(2)
proof (induction files arbitrary: acc)
  case (Cons f files)
  obtain path bytes where f: "f = (path, bytes)"
    by (cases f)
  let ?fs = "List.map_filter (line_finding path (map trim (str_lines (committed D worktree w path))))
    (List.enumerate 0 (str_lines bytes))"
  show ?case
  proof (cases "scannable (path, bytes) \<and> SCAN_FINDINGS_MAX \<le> length (acc @ ?fs)")
    case True
    then show ?thesis
      using Cons.prems
      by (simp add: f io_bind_def head_version_reads[OF assms(1)] scan_lines_take new_findings_def
          file_findings_def Let_def io_ok_def)
  next
    case False
    then show ?thesis
      using Cons.prems Cons.IH[of acc] Cons.IH[of "acc @ ?fs"]
      by (auto simp: f io_bind_def head_version_reads[OF assms(1)] scan_lines_take new_findings_def
          file_findings_def Let_def io_ok_def)
  qed
qed (simp add: new_findings_def io_ok_def)

lemma scan_eq:
  assumes "git_show_reads D"
  shows "scan D files worktree sec w =
    (let blocking = filter (\<lambda>f. parse_severity (sec_fail_severity sec) \<le> fd_severity f)
       (take SCAN_FINDINGS_MAX (new_findings (committed D worktree w) files)) in
     (if blocking = [] then Ok () else Err (scan_report blocking), w))"
proof -
  have files: "scan_files D worktree files [] w
      = (Ok (take SCAN_FINDINGS_MAX (new_findings (committed D worktree w) files)), w)"
    using scan_files_take[OF assms, of "[]" worktree files w] by (simp add: SCAN_FINDINGS_MAX_def)
  show ?thesis
    by (simp add: scan_def io_bind_def files Let_def io_lift_def io_ok_def)
qed

lemma set_file_findings:
  "fd \<in> set (file_findings head (path, bytes)) \<longleftrightarrow>
    scannable (path, bytes) \<and> (\<exists>i<length (str_lines bytes).
      line_finding path (map trim (str_lines (head path))) (i, str_lines bytes ! i) = Some fd)"
  by (force simp: file_findings_def set_map_filter in_set_enumerate_eq)

text \<open>An added line the rules object to at a severity.\<close>

definition risky_line :: "(string \<Rightarrow> string) \<Rightarrow> severity \<Rightarrow> string \<Rightarrow> string \<Rightarrow> bool" where
  "risky_line head threshold path raw \<longleftrightarrow> trim raw \<noteq> []
     \<and> trim raw \<notin> trim ` set (str_lines (head path))
     \<and> (case classify (trim raw) (file_extension path) of
           None \<Rightarrow> False | Some (rule, severity) \<Rightarrow> threshold \<le> severity)"

lemma line_finding_risky:
  "(\<exists>fd. line_finding path (map trim (str_lines (head path))) (i, raw) = Some fd \<and> threshold \<le> fd_severity fd)
    \<longleftrightarrow> risky_line head threshold path raw"
  by (auto simp: line_finding_def risky_line_def Let_def split_beta split: option.split)

lemma file_finding_risky:
  "(\<exists>fd\<in>set (file_findings head (path, bytes)). threshold \<le> fd_severity fd) \<longleftrightarrow>
    scannable (path, bytes) \<and> (\<exists>raw\<in>set (str_lines bytes). risky_line head threshold path raw)"
proof -
  let ?lf = "\<lambda>i. line_finding path (map trim (str_lines (head path))) (i, str_lines bytes ! i)"
  have "(\<exists>fd\<in>set (file_findings head (path, bytes)). threshold \<le> fd_severity fd) \<longleftrightarrow>
      scannable (path, bytes) \<and> (\<exists>i<length (str_lines bytes). \<exists>fd. ?lf i = Some fd \<and> threshold \<le> fd_severity fd)"
    unfolding Bex_def set_file_findings by blast
  then show ?thesis
    unfolding line_finding_risky in_set_conv_nth Bex_def by blast
qed

lemma finding_risky:
  "(\<exists>fd\<in>set (new_findings head files). threshold \<le> fd_severity fd) \<longleftrightarrow>
   (\<exists>f\<in>set files. scannable f \<and> (\<exists>raw\<in>set (str_lines (snd f)). risky_line head threshold (fst f) raw))"
proof -
  have "(\<exists>fd\<in>set (file_findings head f). threshold \<le> fd_severity fd) \<longleftrightarrow>
      scannable f \<and> (\<exists>raw\<in>set (str_lines (snd f)). risky_line head threshold (fst f) raw)" for f
    using file_finding_risky[of head "fst f" "snd f"] by simp
  moreover have "set (new_findings head files) = (\<Union>f\<in>set files. set (file_findings head f))"
    by (simp add: new_findings_def)
  ultimately show ?thesis
    by simp
qed

lemma filter_Nil_iff: "filter P xs = [] \<longleftrightarrow> \<not> (\<exists>x\<in>set xs. P x)"
  by (simp add: filter_empty_conv)

section \<open>Properties\<close>

text \<open>A disk on which nothing is committed.\<close>

definition ex_scan_disk :: "unit disk_ops" where
  "ex_scan_disk = \<lparr>dk_exists = (\<lambda>_ _. False), dk_read = (\<lambda>_ _. Err ''no such file''),
     dk_write = (\<lambda>_ _. io_ok ()), dk_create_dir_all = (\<lambda>_. io_ok ()), dk_remove_file = (\<lambda>_. io_ok ()),
     dk_remove_dir_all = (\<lambda>_. io_ok ()), dk_copy = (\<lambda>_ _. io_ok ()),
     dk_command = (\<lambda>_ _ _. io_ok \<lparr>co_code = Some 128, co_success = False, co_stdout = [], co_stderr = ''fatal''\<rparr>)\<rparr>"

lemma ex_scan_reads: "git_show_reads ex_scan_disk"
  by (simp add: git_show_reads_def ex_scan_disk_def io_ok_def)

lemma ex_committed: "committed ex_scan_disk worktree w = (\<lambda>_. [])"
  by (simp add: committed_def ex_scan_disk_def io_ok_def fun_eq_iff)

definition ex_key_line :: string where
  "ex_key_line = ''let api_key = '' @ [DQ] @ ''AKIA1234567890ABCDEF'' @ [DQ] @ '';''"

text \<open>As long as a diff has no more findings than the report holds, the security scan passes exactly
  when no scannable file has an added line that a rule puts at or above the configured severity. It
  changes nothing and never panics.\<close>

theorem scan_passes_iff:
  assumes "git_show_reads D"
    and "length (new_findings (committed D worktree w) files) \<le> SCAN_FINDINGS_MAX"
  shows "fst (scan D files worktree sec w) = Ok () \<longleftrightarrow>
      (\<forall>f\<in>set files. scannable f \<longrightarrow> (\<forall>raw\<in>set (str_lines (snd f)).
         \<not> risky_line (committed D worktree w) (parse_severity (sec_fail_severity sec)) (fst f) raw))"
    and "snd (scan D files worktree sec w) = w \<and> fst (scan D files worktree sec w) \<noteq> Panic"
proof -
  show "fst (scan D files worktree sec w) = Ok () \<longleftrightarrow>
      (\<forall>f\<in>set files. scannable f \<longrightarrow> (\<forall>raw\<in>set (str_lines (snd f)).
         \<not> risky_line (committed D worktree w) (parse_severity (sec_fail_severity sec)) (fst f) raw))"
    using finding_risky[of "committed D worktree w" files] assms(2)
    by (simp add: scan_eq[OF assms(1)] Let_def filter_empty_conv) blast
  show "snd (scan D files worktree sec w) = w \<and> fst (scan D files worktree sec w) \<noteq> Panic"
    by (simp add: scan_eq[OF assms(1)] Let_def)
qed

lemma ex_key_findings:
  "new_findings (\<lambda>_. []) [(''src/a.rs'', ex_key_line)] =
    [\<lparr>fd_rule_id = RULE_ID_SECRET, fd_severity = High, fd_file = ''src/a.rs'', fd_line = 1, fd_snippet = ex_key_line\<rparr>]"
  by code_simp

lemma scan_passes_iff_witness:
  "fst (scan ex_scan_disk [(''src/a.rs'', ex_key_line)] ''/gate'' default_security_config ()) \<noteq> Ok ()"
proof -
  have "risky_line (\<lambda>_. []) High ''src/a.rs'' ex_key_line" "scannable (''src/a.rs'', ex_key_line)"
    "str_lines ex_key_line = [ex_key_line]" "parse_severity (sec_fail_severity default_security_config) = High"
    using finding_risky[of "\<lambda>_. []" "[(''src/a.rs'', ex_key_line)]" High]
    by (simp_all add: ex_key_findings) (code_simp+)
  then show ?thesis
    using scan_passes_iff(1)[OF ex_scan_reads, of "''/gate''" "()" "[(''src/a.rs'', ex_key_line)]" default_security_config]
    by (simp add: ex_committed ex_key_findings SCAN_FINDINGS_MAX_def)
qed

text \<open>The report's limit counts findings of every severity. Once a diff's first findings fill the
  report below the threshold, every file after them passes the scan whatever it holds.\<close>

theorem scan_limit_hides_findings:
  assumes "git_show_reads D"
    and "SCAN_FINDINGS_MAX \<le> length (new_findings (committed D worktree w) files)"
    and "\<forall>fd\<in>set (take SCAN_FINDINGS_MAX (new_findings (committed D worktree w) files)).
       fd_severity fd < parse_severity (sec_fail_severity sec)"
  shows "scan D (files @ later) worktree sec w = (Ok (), w)"
proof -
  have "take SCAN_FINDINGS_MAX (new_findings (committed D worktree w) (files @ later))
      = take SCAN_FINDINGS_MAX (new_findings (committed D worktree w) files)"
    using assms(2) by (simp add: new_findings_def)
  then show ?thesis
    using assms(3) by (auto simp: scan_eq[OF assms(1)] Let_def filter_empty_conv)
qed

definition ex_bind_line :: string where
  "ex_bind_line = ''server.bind(0.0.0.0)''"

lemma ex_bind_findings:
  "map fd_severity (new_findings (\<lambda>_. []) [(''src/net.rs'', concat (replicate 40 (ex_bind_line @ [NL])))])
    = replicate 40 Medium"
proof -
  have lines: "str_lines (concat (replicate n (ex_bind_line @ [NL]))) = replicate n ex_bind_line" for n
    by (induction n) (simp_all add: ex_bind_line_def str_lines_def drop_cr_def)
  have nil: "str_lines [] = []"
    by (simp add: str_lines_def)
  have "utf8_valid (concat (replicate 40 (ex_bind_line @ [NL])))"
    by (rule utf8_valid_ascii) (auto simp: ex_bind_line_def)
  moreover have "file_extension ''src/net.rs'' \<in> set SCAN_SCANNABLE_EXTS"
    by code_simp
  ultimately have ok: "scannable (''src/net.rs'', concat (replicate 40 (ex_bind_line @ [NL])))"
    by (simp only: scannable_def fst_conv snd_conv)
  have cl: "trim ex_bind_line = ex_bind_line" "ex_bind_line \<noteq> []"
      "classify ex_bind_line (file_extension ''src/net.rs'') = Some (RULE_ID_NET_BIND, Medium)"
    by code_simp+
  have "map fd_severity (List.map_filter (line_finding ''src/net.rs'' []) (List.enumerate i (replicate n ex_bind_line)))
      = replicate n Medium" for i n
    by (induction n arbitrary: i) (simp_all add: map_filter_Nil map_filter_Cons line_finding_def cl)
  then show ?thesis
    using ok by (simp add: new_findings_def file_findings_def lines nil)
qed

lemma scan_limit_hides_findings_witness:
  "scan ex_scan_disk ([(''src/net.rs'', concat (replicate 40 (ex_bind_line @ [NL])))] @ [(''src/a.rs'', ex_key_line)])
     ''/gate'' default_security_config () = (Ok (), ())"
proof (rule scan_limit_hides_findings[OF ex_scan_reads])
  let ?fs = "new_findings (\<lambda>_. []) [(''src/net.rs'', concat (replicate 40 (ex_bind_line @ [NL])))]"
  have len: "length ?fs = 40"
    using arg_cong[OF ex_bind_findings, of length] by simp
  have sev: "fd_severity fd = Medium" if "fd \<in> set ?fs" for fd
    using arg_cong[OF ex_bind_findings, of set] that by auto
  have thr: "parse_severity (sec_fail_severity default_security_config) = High"
    by code_simp
  show "SCAN_FINDINGS_MAX \<le> length (new_findings (committed ex_scan_disk ''/gate'' ())
      [(''src/net.rs'', concat (replicate 40 (ex_bind_line @ [NL])))])"
    unfolding ex_committed SCAN_FINDINGS_MAX_def by (simp only: len)
  show "\<forall>fd\<in>set (take SCAN_FINDINGS_MAX (new_findings (committed ex_scan_disk ''/gate'' ())
      [(''src/net.rs'', concat (replicate 40 (ex_bind_line @ [NL])))])).
      fd_severity fd < parse_severity (sec_fail_severity default_security_config)"
    unfolding ex_committed thr by (auto dest!: in_set_takeD simp: sev less_severity_def)
qed

lemma classify_not_critical: "classify line ext = Some (rule, severity) \<Longrightarrow> severity \<in> {Medium, High}"
  by (auto simp: classify_def Let_def split: if_splits)

lemma finding_not_critical:
  "fd \<in> set (new_findings head files) \<Longrightarrow> fd_severity fd \<in> {Medium, High}"
  by (auto simp: new_findings_def file_findings_def set_map_filter line_finding_def Let_def
      split: if_splits dest: classify_not_critical)

lemma scan_files_skip:
  "\<not> scannable f \<Longrightarrow> scan_files D worktree (pre @ f # post) acc w = scan_files D worktree (pre @ post) acc w"
proof (induction pre arbitrary: acc w)
  case (Cons g pre)
  then show ?case
    by (cases g) (auto simp: io_bind_def split: outcome.split prod.split bool.split)
qed (cases f, simp)

text \<open>A file named \<open>.env\<close> is never scanned, although its extension is in the list of the scanned ones;
  and with the threshold \<open>critical\<close> nothing ever fails, since no rule is that severe.\<close>

theorem scan_blind_spots:
  assumes "file_name path = ''.env''"
  shows "scan D (pre @ (path, bytes) # post) worktree sec w = scan D (pre @ post) worktree sec w"
    and "git_show_reads D \<Longrightarrow> parse_severity (sec_fail_severity sec') = Critical \<Longrightarrow>
      scan D files worktree sec' w = (Ok (), w)"
proof -
  have "file_extension path = []"
    using assms by (simp add: file_extension_def rsplit_once_def)
  then have "\<not> scannable (path, bytes)"
    by (simp add: scannable_def SCAN_SCANNABLE_EXTS_def)
  then show "scan D (pre @ (path, bytes) # post) worktree sec w = scan D (pre @ post) worktree sec w"
    by (simp add: scan_def io_bind_def scan_files_skip)
  assume "git_show_reads D" "parse_severity (sec_fail_severity sec') = Critical"
  then show "scan D files worktree sec' w = (Ok (), w)"
    by (force simp: scan_eq Let_def filter_empty_conv severity_order dest: in_set_takeD finding_not_critical)
qed

lemma scan_blind_spots_witness:
  "scan ex_scan_disk [(''conf/.env'', ''TOKEN='' @ ex_key_line)] ''/gate'' default_security_config () = (Ok (), ())
   \<and> scan ex_scan_disk [(''src/a.rs'', ex_key_line)] ''/gate'' \<lparr>sec_rules_enabled = True, sec_fail_severity = ''critical''\<rparr> ()
       = (Ok (), ())"
proof
  have env: "file_name ''conf/.env'' = ''.env''"
    by code_simp
  show "scan ex_scan_disk [(''conf/.env'', ''TOKEN='' @ ex_key_line)] ''/gate'' default_security_config () = (Ok (), ())"
    using scan_blind_spots(1)[OF env, of ex_scan_disk "[]" "''TOKEN='' @ ex_key_line" "[]" "''/gate''" default_security_config "()"]
    by (simp add: scan_def io_defs)
  show "scan ex_scan_disk [(''src/a.rs'', ex_key_line)] ''/gate'' \<lparr>sec_rules_enabled = True, sec_fail_severity = ''critical''\<rparr> ()
       = (Ok (), ())"
    by (rule scan_blind_spots(2)[OF env ex_scan_reads]) code_simp
qed

end
