(* ===== verification/LandingFacts.thy ===== *)
theory LandingFacts
  imports Landing SecurityFacts
begin

text \<open>
  What the gate and the landing run: every command is observed with its success, and the log of a run is
  compared with what the code promises.
\<close>

section \<open>Observing the commands\<close>

type_synonym command_log = "(string \<times> string list \<times> string \<times> bool) list"

definition below :: "('w, 'a) io \<Rightarrow> (command_log \<times> 'w, 'a) io" where
  "below = io_zoom snd (\<lambda>w s. (fst s, w))"

definition succeeded :: "command_output outcome \<Rightarrow> bool" where
  "succeeded r = (case r of Ok out \<Rightarrow> co_success out | _ \<Rightarrow> False)"

definition watched :: "'w disk_ops \<Rightarrow> (command_log \<times> 'w) disk_ops" where
  "watched D = \<lparr>dk_exists = (\<lambda>p s. dk_exists D p (snd s)), dk_read = (\<lambda>p s. dk_read D p (snd s)),
     dk_write = (\<lambda>p c. below (dk_write D p c)), dk_create_dir_all = (\<lambda>p. below (dk_create_dir_all D p)),
     dk_remove_file = (\<lambda>p. below (dk_remove_file D p)), dk_remove_dir_all = (\<lambda>p. below (dk_remove_dir_all D p)),
     dk_copy = (\<lambda>a b. below (dk_copy D a b)),
     dk_command = (\<lambda>prog args cwd s. let (r, w) = dk_command D prog args cwd (snd s) in
        (r, (fst s @ [(prog, args, cwd, succeeded r)], w)))\<rparr>"

text \<open>The log after a step, and steps that run no command.\<close>

definition silent :: "(command_log \<times> 'w, 'a) io \<Rightarrow> bool" where
  "silent m \<longleftrightarrow> (\<forall>s. fst (snd (m s)) = fst s)"

named_theorems silent

lemma silent_below [silent]: "silent (below m)"
  by (simp add: silent_def below_def io_zoom_def Let_def split_beta)

lemma silent_ops [silent]: "silent (dk_write (watched D) p c)" "silent (dk_create_dir_all (watched D) p)"
    "silent (dk_remove_dir_all (watched D) p)"
  by (simp_all add: watched_def silent_below)

lemma silent_basic [silent]: "silent (io_ok a)" "silent (io_get f)" "silent (io_lift r)"
  by (simp_all add: silent_def io_defs)

lemma silent_bind [silent]: "silent m \<Longrightarrow> (\<And>a. silent (f a)) \<Longrightarrow> silent (io_bind m f)"
  unfolding silent_def io_bind_def by (auto split: outcome.split prod.split) (metis fst_conv snd_conv)+

lemma silent_try [silent]: "silent m \<Longrightarrow> silent (io_try m)"
  unfolding silent_def io_try_def by (auto split: outcome.split prod.split) (metis fst_conv snd_conv)+

lemma silent_ignore [silent]: "silent m \<Longrightarrow> silent (io_ignore m)"
  unfolding io_ignore_def by (intro silent)

lemma silent_put_file [silent]: "silent (put_file (watched D) full content)"
  unfolding put_file_def by (cases "path_parent full") (auto intro!: silent)

lemma silent_each [silent]: "(\<And>x. silent (f x)) \<Longrightarrow> silent (io_each f xs)"
  by (induction xs) (auto intro!: silent)

lemma silent_Ok: "silent m \<Longrightarrow> m s = (r, s') \<Longrightarrow> fst s' = fst s"
  unfolding silent_def by (metis snd_conv)

lemma watched_command:
  "dk_command (watched D) prog args cwd s = (r, s') \<Longrightarrow> fst s' = fst s @ [(prog, args, cwd, succeeded r)]"
  by (auto simp: watched_def Let_def split: prod.splits)

lemma cmd_ok_log:
  "cmd_ok (watched D) prog args cwd s = (Ok b, s') \<Longrightarrow> fst s' = fst s @ [(prog, args, cwd, b)]"
  by (auto simp: cmd_ok_def io_bind_Ok io_try_def io_ok_def succeeded_def dest: watched_command
      split: prod.splits outcome.splits)

lemma git_ok_log:
  "git_ok (watched D) dir args s = (Ok b, s') \<Longrightarrow> fst s' = fst s @ [(''git'', args, dir, b)]"
  by (simp add: git_ok_def cmd_ok_log)

section \<open>The gate\<close>

definition cargo_cmds :: "command_log \<Rightarrow> command_log" where
  "cargo_cmds = filter (\<lambda>e. fst e = ''cargo'')"

lemma cargo_cmds_append: "cargo_cmds (a @ b) = cargo_cmds a @ cargo_cmds b"
  by (simp add: cargo_cmds_def)

lemma gate_cargo_log:
  "gate_cargo (watched D) gate args s = (Ok u, s') \<Longrightarrow> fst s' = fst s @ [(''cargo'', args, gate, True)]"
  by (auto simp: gate_cargo_def io_bind_Ok io_ok_Ok io_lift_Ok succeeded_def dest!: watched_command split: if_splits)

lemma gate_each_log:
  "io_each (\<lambda>p. gate_cargo (watched D) gate (args p)) ps s = (Ok u, s') \<Longrightarrow>
    fst s' = fst s @ map (\<lambda>p. (''cargo'', args p, gate, True)) ps"
  by (induction ps arbitrary: s) (auto simp: io_ok_Ok io_bind_Ok dest!: gate_cargo_log)

lemma gate_files_log:
  "gate_files (watched D) gate files pkgs s = (Ok ps, s') \<Longrightarrow> fst s' = fst s
    \<and> (\<forall>p\<in>set ps. p \<in> set pkgs \<or> (\<exists>f\<in>set files. starts_with (fst f) ''crates/''))"
proof (induction files arbitrary: pkgs s)
  case (Cons f files)
  obtain path content where f: "f = (path, content)"
    by (cases f)
  obtain s1 where s1: "put_file (watched D) (path_join gate path) content s = (Ok (), s1)"
    "gate_files (watched D) gate files (case file_package (watched D) gate path s1 of None \<Rightarrow> pkgs | Some n \<Rightarrow> push_new pkgs n) s1
      = (Ok ps, s')"
    using Cons.prems by (auto simp: f io_bind_Ok io_get_def)
  have "starts_with path ''crates/''" if "file_package (watched D) gate path s1 \<noteq> None"
    using that by (auto simp: file_package_def strip_prefix_def starts_with_def split: option.splits if_splits)
  then show ?case
    using Cons.IH[OF s1(2)] silent_Ok[OF silent_put_file s1(1)] by (auto simp: f push_new_def split: option.splits if_splits)
qed (simp add: io_ok_Ok)

lemma scan_no_cargo: "scan (watched D) files gate sec s = (r, s') \<Longrightarrow> cargo_cmds (fst s') = cargo_cmds (fst s)"
proof -
  let ?P = "\<lambda>t :: command_log \<times> _. cargo_cmds (fst t) = cargo_cmds (fst s)"
  have cmd: "io_keeps ?P (dk_command (watched D) ''git'' args gate)" for args
    by (auto intro!: io_keepsI simp: watched_def Let_def cargo_cmds_def split: prod.split)
  have head: "io_keeps ?P (head_version (watched D) gate path)" for path
    unfolding head_version_def by (intro keeps cmd)
  have "io_keeps ?P (scan_files (watched D) gate files acc)" for acc
    by (induction files arbitrary: acc) (auto intro!: keeps head split: prod.split bool.split)
  then have "io_keeps ?P (scan (watched D) files gate sec)"
    unfolding scan_def by (intro keeps)
  then show "scan (watched D) files gate sec s = (r, s') \<Longrightarrow> cargo_cmds (fst s') = cargo_cmds (fst s)"
    using io_keepsD[of ?P "scan (watched D) files gate sec" s] by simp
qed

definition gate_plan :: "string \<Rightarrow> string list \<Rightarrow> command_log" where
  "gate_plan gate pkgs =
     (if pkgs = [] then [(''cargo'', [''check''], gate, True)]
      else map (\<lambda>p. (''cargo'', [''check'', ''-p'', p], gate, True)) pkgs
           @ map (\<lambda>p. (''cargo'', [''test'', ''-p'', p], gate, True)) pkgs)"

lemma gate_plan_cargo: "cargo_cmds (gate_plan gate pkgs) = gate_plan gate pkgs"
  by (auto simp: gate_plan_def cargo_cmds_def intro!: filter_True)

lemma gate_tiers_log:
  assumes "gate_tiers (watched D) gate files sec pkgs s = (Ok u, s')"
  shows "cargo_cmds (fst s') = cargo_cmds (fst s) @ gate_plan gate pkgs
    \<and> (sec_rules_enabled sec \<longrightarrow> (\<exists>t. fst (scan (watched D) files gate sec t) = Ok ()))"
proof -
  obtain s1 where s1: "fst s1 = fst s @ gate_plan gate pkgs"
    "(if sec_rules_enabled sec then scan (watched D) files gate sec else io_ok ()) s1 = (Ok (), s')"
    using assms unfolding gate_tiers_def io_bind_Ok gate_plan_def
    by (auto simp: io_bind_Ok dest!: gate_cargo_log gate_each_log split: if_splits)
  show ?thesis
  proof (cases "sec_rules_enabled sec")
    case True
    then have "scan (watched D) files gate sec s1 = (Ok (), s')"
      using s1 by simp
    then show ?thesis
      using scan_no_cargo s1(1) by (metis cargo_cmds_append fst_conv gate_plan_cargo)
  next
    case False
    then show ?thesis
      using s1 by (simp add: io_ok_Ok cargo_cmds_append gate_plan_cargo)
  qed
qed

text \<open>An entry of the log stays.\<close>

lemma keeps_logged [keeps]: "io_keeps (\<lambda>s. e \<in> set (fst s)) (dk_command (watched D) prog args cwd)"
  by (auto intro!: io_keepsI simp: watched_def Let_def split: prod.split)

lemma keeps_silent: "silent m \<Longrightarrow> io_keeps (\<lambda>s. e \<in> set (fst s)) m"
  by (auto intro!: io_keepsI simp: silent_def)

lemma keeps_logged_scan [keeps]: "io_keeps (\<lambda>s. e \<in> set (fst s)) (scan (watched D) files gate sec)"
proof -
  have "io_keeps (\<lambda>s. e \<in> set (fst s)) (scan_files (watched D) gate files acc)" for acc
    by (induction files arbitrary: acc) (auto simp: head_version_def intro!: keeps split: prod.split bool.split)
  then show ?thesis
    unfolding scan_def by (intro keeps)
qed

lemma keeps_logged_tiers: "io_keeps (\<lambda>s. e \<in> set (fst s)) (gate_tiers (watched D) gate files sec pkgs)"
proof -
  have cargo: "io_keeps (\<lambda>s. e \<in> set (fst s)) (gate_cargo (watched D) gate args)" for args
    unfolding gate_cargo_def by (intro keeps)
  show ?thesis
    unfolding gate_tiers_def by (intro keeps cargo)
qed

lemma gate_run:
  assumes "run_quality_gate (watched D) repo gate files sec s = (Ok (), s')" "files \<noteq> []"
  shows "\<exists>pkgs. (\<forall>p\<in>set pkgs. \<exists>f\<in>set files. starts_with (fst f) ''crates/'')
    \<and> (''git'', [''worktree'', ''add'', ''--force'', ''--detach'', gate, ''HEAD''], repo, True) \<in> set (fst s')
    \<and> cargo_cmds (fst s') = cargo_cmds (fst s) @ gate_plan gate pkgs
    \<and> (sec_rules_enabled sec \<longrightarrow> (\<exists>t. fst (scan (watched D) files gate sec t) = Ok ()))"
proof -
  obtain b1 b2 b4 s1 s2 s3 s4 s5 s6 pkgs verdict where
    r: "git_ok (watched D) repo [''worktree'', ''prune''] s = (Ok b1, s1)"
      "git_ok (watched D) repo [''worktree'', ''remove'', ''--force'', gate] s1 = (Ok b2, s2)"
      "git_ok (watched D) repo [''worktree'', ''add'', ''--force'', ''--detach'', gate, ''HEAD''] s2 = (Ok True, s3)"
      "io_ignore (dk_create_dir_all (watched D) GATE_TARGET_DIR) s3 = (Ok (), s4)"
      "gate_files (watched D) gate files [] s4 = (Ok pkgs, s5)"
      "io_try (gate_tiers (watched D) gate files sec pkgs) s5 = (Ok verdict, s6)"
      "git_ok (watched D) repo [''worktree'', ''remove'', ''--force'', gate] s6 = (Ok b4, s')" "verdict = Ok ()"
    using assms unfolding run_quality_gate_def Let_def io_bind_Ok
    by (auto simp: io_bind_Ok io_lift_Ok split: if_splits)
  let ?add = "(''git'', [''worktree'', ''add'', ''--force'', ''--detach'', gate, ''HEAD''], repo, True)"
  have t: "gate_tiers (watched D) gate files sec pkgs s5 = (Ok (), s6)"
    using r(6,8) by (auto simp: io_try_def split: prod.splits outcome.splits)
  have dir: "fst s4 = fst s3"
    using silent_Ok[OF silent_ignore[OF silent_ops(2)] r(4)] .
  note logs = git_ok_log[OF r(1)] git_ok_log[OF r(2)] git_ok_log[OF r(3)] git_ok_log[OF r(7)]
    gate_files_log[OF r(5)] dir
  have "?add \<in> set (fst s5)" "cargo_cmds (fst s5) = cargo_cmds (fst s)"
    using logs by (simp_all add: cargo_cmds_def)
  moreover from this(1) have "?add \<in> set (fst s6)"
    using io_keepsD[OF keeps_logged_tiers, of ?add s5 D gate files sec pkgs] t by simp
  moreover have "cargo_cmds (fst s') = cargo_cmds (fst s6)" "?add \<in> set (fst s6) \<Longrightarrow> ?add \<in> set (fst s')"
    using logs(4) by (simp_all add: cargo_cmds_def)
  moreover have "\<forall>p\<in>set pkgs. \<exists>f\<in>set files. starts_with (fst f) ''crates/''"
    using logs(5) by simp
  ultimately show ?thesis
    using gate_tiers_log[OF t] by (intro exI[of _ pkgs]) simp
qed

section \<open>Properties\<close>

text \<open>The gate accepts a run with changes only when its worktree of the committed state could be added,
  \<open>cargo check\<close> and then \<open>cargo test\<close> succeeded for every package it found, no other cargo command ran,
  and the security scan passed if it is enabled. The packages come from files under \<open>crates/\<close> only: once
  there is one, changed files elsewhere are not compiled.\<close>

theorem gate_accepts_checked:
  assumes "files \<noteq> []" "fst (run_quality_gate (watched D) repo gate files sec ([], w)) = Ok ()"
  shows "\<exists>pkgs. (\<forall>p\<in>set pkgs. \<exists>f\<in>set files. starts_with (fst f) ''crates/'')
    \<and> (let log = fst (snd (run_quality_gate (watched D) repo gate files sec ([], w))) in
        (''git'', [''worktree'', ''add'', ''--force'', ''--detach'', gate, ''HEAD''], repo, True) \<in> set log
        \<and> filter (\<lambda>e. fst e = ''cargo'') log =
            (if pkgs = [] then [(''cargo'', [''check''], gate, True)]
             else map (\<lambda>p. (''cargo'', [''check'', ''-p'', p], gate, True)) pkgs
                  @ map (\<lambda>p. (''cargo'', [''test'', ''-p'', p], gate, True)) pkgs))
    \<and> (sec_rules_enabled sec \<longrightarrow> (\<exists>t. fst (scan (watched D) files gate sec t) = Ok ()))"
proof -
  obtain s' where s': "run_quality_gate (watched D) repo gate files sec ([], w) = (Ok (), s')"
    using assms(2) by (metis prod.collapse)
  have "fst ([] :: command_log, w) = []"
    by simp
  then show ?thesis
    using gate_run[OF s' assms(1)] by (simp add: s' Let_def cargo_cmds_def gate_plan_def)
qed

text \<open>A disk with one package, on which every command succeeds and \<open>git show\<close> prints nothing.\<close>

definition ex_gate_disk :: "unit disk_ops" where
  "ex_gate_disk = ex_scan_disk\<lparr>dk_exists := \<lambda>p _. p = ''/r/.git'',
     dk_read := \<lambda>p _. if p = ''/g/crates/a/Cargo.toml'' then Ok (''name = '' @ [DQ] @ ''a'' @ [DQ]) else Err ''none'',
     dk_command := \<lambda>prog args cwd. io_ok \<lparr>co_code = Some 0, co_success = True, co_stdout = [], co_stderr = []\<rparr>\<rparr>"

lemma ex_gate_ops:
  "dk_command (watched ex_gate_disk) prog args cwd s =
     (Ok \<lparr>co_code = Some 0, co_success = True, co_stdout = [], co_stderr = []\<rparr>, (fst s @ [(prog, args, cwd, True)], ()))"
  "dk_write (watched ex_gate_disk) p c s = (Ok (), s)" "dk_create_dir_all (watched ex_gate_disk) p s = (Ok (), s)"
  "dk_remove_dir_all (watched ex_gate_disk) p s = (Ok (), s)"
  "dk_read (watched ex_gate_disk) p s = dk_read ex_gate_disk p ()" "dk_exists (watched ex_gate_disk) p s = (p = ''/r/.git'')"
  by (cases s; simp add: watched_def ex_gate_disk_def ex_scan_disk_def below_def io_defs succeeded_def)+

lemma ex_gate_cmd:
  "cmd_ok (watched ex_gate_disk) prog args cwd s = (Ok True, (fst s @ [(prog, args, cwd, True)], ()))"
  "git_ok (watched ex_gate_disk) dir args s = (Ok True, (fst s @ [(''git'', args, dir, True)], ()))"
  "gate_cargo (watched ex_gate_disk) gate args s = (Ok (), (fst s @ [(''cargo'', args, gate, True)], ()))"
  "put_file (watched ex_gate_disk) full content s = (Ok (), s)"
  by (simp_all add: cmd_ok_def git_ok_def gate_cargo_def put_file_def io_defs ex_gate_ops split: option.split)

definition ex_gate_files :: "(string \<times> string) list" where
  "ex_gate_files = [(''crates/a/x.rs'', ''fn f() {}''), (''b.rs'', ''}'')]"

definition ex_no_scan :: security_config where
  "ex_no_scan = \<lparr>sec_rules_enabled = False, sec_fail_severity = ''high''\<rparr>"

lemma ex_packages:
  "file_package (watched ex_gate_disk) ''/g'' ''crates/a/x.rs'' s = Some ''a''"
  "file_package (watched ex_gate_disk) ''/g'' ''b.rs'' s = None"
proof -
  have "path_join (path_join (path_join ''/g'' ''crates'') (hd (split_char CHR ''/'' ''a/x.rs''))) ''Cargo.toml''
      = ''/g/crates/a/Cargo.toml''" "manifest_name (''name = '' @ [DQ] @ ''a'' @ [DQ]) = Some ''a''"
    by code_simp+
  moreover have read: "dk_read ex_gate_disk ''/g/crates/a/Cargo.toml'' () = Ok (''name = '' @ [DQ] @ ''a'' @ [DQ])"
    by (simp add: ex_gate_disk_def)
  ultimately show "file_package (watched ex_gate_disk) ''/g'' ''crates/a/x.rs'' s = Some ''a''"
    using read by (simp add: file_package_def strip_prefix_def ex_gate_ops)
qed (simp add: file_package_def strip_prefix_def)

lemma ex_gate_run:
  "fst (run_quality_gate (watched ex_gate_disk) ''/r'' ''/g'' ex_gate_files ex_no_scan ([], ())) = Ok ()"
  by (simp add: run_quality_gate_def ex_gate_files_def gate_tiers_def ex_no_scan_def ex_packages push_new_def
      io_app ex_gate_cmd ex_gate_ops Let_def)

lemma gate_accepts_checked_witness:
  "\<exists>pkgs. filter (\<lambda>e. fst e = ''cargo'') (fst (snd (run_quality_gate (watched ex_gate_disk) ''/r'' ''/g''
        ex_gate_files ex_no_scan ([], ()))))
      = (if pkgs = [] then [(''cargo'', [''check''], ''/g'', True)]
         else map (\<lambda>p. (''cargo'', [''check'', ''-p'', p], ''/g'', True)) pkgs
              @ map (\<lambda>p. (''cargo'', [''test'', ''-p'', p], ''/g'', True)) pkgs)"
proof -
  have "ex_gate_files \<noteq> []"
    by (simp add: ex_gate_files_def)
  from gate_accepts_checked[OF this ex_gate_run] show ?thesis
    unfolding Let_def by blast
qed

section \<open>The landing\<close>

definition commit_args :: "string \<Rightarrow> int option \<Rightarrow> string \<Rightarrow> string list" where
  "commit_args goal issue run_id =
     [''-c'', ''user.email=swarm@local'', ''-c'', ''user.name=alpha-swarm'', ''commit'', ''-m'',
      land_message goal issue run_id, ''--no-verify'']"

definition push_args :: "int option \<Rightarrow> string list" where
  "push_args issue =
     (case issue of Some _ \<Rightarrow> [''push'', ''--force-with-lease'', ''-u'', ''origin'', land_branch issue]
      | None \<Rightarrow> [''push'', ''-u'', ''origin'', land_branch issue])"

text \<open>Pushes are of the landing branch after a commit; a pull request comes after a push.\<close>

definition land_ok :: "string \<Rightarrow> string \<Rightarrow> string \<Rightarrow> int option \<Rightarrow> command_log \<Rightarrow> bool" where
  "land_ok repo run_id goal issue log \<longleftrightarrow> (\<forall>(prog, args, cwd, ok) \<in> set log.
     (prog = ''git'' \<and> args \<noteq> [] \<and> hd args = ''push'' \<longrightarrow> args = push_args issue
        \<and> (''git'', commit_args goal issue run_id, land_dir run_id, True) \<in> set log)
     \<and> (prog = ''gh'' \<longrightarrow> (''git'', commit_args goal issue run_id, land_dir run_id, True) \<in> set log
        \<and> (''git'', push_args issue, repo, True) \<in> set log))"

lemma keeps_git_bind:
  assumes "io_keeps P (git_ok (watched D) dir args)"
    and "\<And>b. io_keeps (\<lambda>s. P s \<and> (''git'', args, dir, b) \<in> set (fst s)) (f b)"
  shows "io_keeps P (io_bind (git_ok (watched D) dir args) f)"
proof (rule io_keepsI)
  fix s assume P: "P s"
  obtain r s' where m: "git_ok (watched D) dir args s = (r, s')"
    by (cases "git_ok (watched D) dir args s")
  have "P s'"
    using io_keepsD[OF assms(1) P] m by simp
  moreover have "(''git'', args, dir, b) \<in> set (fst s')" if "r = Ok b" for b
    using git_ok_log m that by fastforce
  ultimately show "P (snd (io_bind (git_ok (watched D) dir args) f s))"
    using io_keepsD[OF assms(2)] by (cases r) (simp_all add: io_bind_def m)
qed

lemma keeps_land_git:
  assumes "\<And>l b. P l \<Longrightarrow> P (l @ [(''git'', args, dir, b)])"
  shows "io_keeps (\<lambda>s. P (fst s)) (git_ok (watched D) dir args)"
  unfolding git_ok_def cmd_ok_def io_keeps_def io_spec_def
  using assms by (auto simp: io_defs watched_def Let_def split: prod.split outcome.split)

lemma keeps_silent_log: "silent m \<Longrightarrow> io_keeps (\<lambda>s. P (fst s)) m"
  by (auto intro!: io_keepsI simp: silent_def)

lemma land_ok_snoc:
  "land_ok repo run_id goal issue log \<Longrightarrow>
    \<not> (args \<noteq> [] \<and> hd args = ''push'')
      \<or> args = push_args issue \<and> (''git'', commit_args goal issue run_id, land_dir run_id, True) \<in> set log \<Longrightarrow>
    land_ok repo run_id goal issue (log @ [(''git'', args, dir, b)])"
  by (auto simp: land_ok_def)

lemma land_ok_keeps:
  "io_keeps (\<lambda>s. land_ok repo_url run_id goal issue (fst s))
     (land_to_branch (watched D) repo_url base run_id goal files issue)"
proof -
  let ?P = "\<lambda>l. land_ok repo_url run_id goal issue l"
  let ?C = "(''git'', commit_args goal issue run_id, land_dir run_id, True)"
  let ?U = "(''git'', push_args issue, repo_url, True)"
  let ?K = "\<lambda>s. ?P (fst s)"
  have git: "io_keeps ?K (git_ok (watched D) dir args)" if "args \<noteq> [] \<Longrightarrow> hd args \<noteq> ''push''" for dir args
    using that by (intro keeps_land_git land_ok_snoc) auto
  have git': "io_keeps (\<lambda>s. ?P (fst s) \<and> e \<in> set (fst s)) (git_ok (watched D) dir args)"
    if "args \<noteq> [] \<Longrightarrow> hd args \<noteq> ''push''" for dir args e
    using that by (intro keeps_land_git[of "\<lambda>l. ?P l \<and> e \<in> set l"]) (auto intro!: land_ok_snoc)
  have push: "io_keeps (\<lambda>s. ?P (fst s) \<and> ?C \<in> set (fst s)) (git_ok (watched D) repo_url (push_args issue))"
    by (intro keeps_land_git[of "\<lambda>l. ?P l \<and> ?C \<in> set l"]) (auto intro!: land_ok_snoc)
  have gh: "io_keeps (\<lambda>s. (?P (fst s) \<and> ?C \<in> set (fst s)) \<and> ?U \<in> set (fst s))
      (io_ignore (dk_command (watched D) ''gh'' args repo_url))" for args
    by (intro keeps io_keepsI) (auto simp: watched_def Let_def land_ok_def split: prod.split)
  have final: "io_keeps (\<lambda>s. ?P (fst s) \<and> ?C \<in> set (fst s))
      (io_bind (git_ok (watched D) repo_url (push_args issue)) (\<lambda>pushed. if \<not> pushed then io_ok ()
         else (let (title, body) = land_title_body goal issue in
           io_ignore (dk_command (watched D) ''gh'' [''pr'', ''create'', ''--base'', base, ''--head'',
             land_branch issue, ''--title'', title, ''--body'', body] repo_url))))"
    (is "io_keeps _ ?publish")
  proof (rule keeps_git_bind[OF push])
    show "io_keeps (\<lambda>s. (?P (fst s) \<and> ?C \<in> set (fst s)) \<and> (''git'', push_args issue, repo_url, b) \<in> set (fst s))
      (if \<not> b then io_ok () else (let (title, body) = land_title_body goal issue in
         io_ignore (dk_command (watched D) ''gh'' [''pr'', ''create'', ''--base'', base, ''--head'',
           land_branch issue, ''--title'', title, ''--body'', body] repo_url)))" for b
      using gh by (cases b) (auto simp: split_beta intro: keeps)
  qed
  have commit: "io_keeps ?K (io_bind (git_ok (watched D) (land_dir run_id) (commit_args goal issue run_id)) (\<lambda>committed.
      io_bind (git_ok (watched D) repo_url [''worktree'', ''remove'', ''--force'', land_dir run_id]) (\<lambda>_.
      if \<not> committed then io_ok () else ?publish)))"
  proof (rule keeps_git_bind)
    show "io_keeps (\<lambda>s. ?P (fst s) \<and> (''git'', commit_args goal issue run_id, land_dir run_id, b) \<in> set (fst s))
      (io_bind (git_ok (watched D) repo_url [''worktree'', ''remove'', ''--force'', land_dir run_id]) (\<lambda>_.
        if \<not> b then io_ok () else ?publish))" for b
      using final by (cases b) (auto intro!: keeps git')
  qed (intro git, simp add: commit_args_def)
  have push_eq: "(case issue of None \<Rightarrow> git_ok (watched D) repo_url [''push'', ''-u'', ''origin'', land_branch issue]
      | Some _ \<Rightarrow> git_ok (watched D) repo_url [''push'', ''--force-with-lease'', ''-u'', ''origin'', land_branch issue])
      = git_ok (watched D) repo_url (push_args issue)"
    by (simp add: push_args_def split: option.split)
  have files: "io_keeps ?K (io_each (\<lambda>(path, content). put_file (watched D) (path_join (land_dir run_id) path) content) files)"
    by (intro keeps_silent_log silent) (auto intro: silent)
  have fresh: "io_keeps ?K (io_ignore (dk_remove_dir_all (watched D) (land_dir run_id)))"
    by (intro keeps_silent_log silent)
  have added: "io_keeps ?K (case issue of
      None \<Rightarrow> io_bind (git_ok (watched D) repo_url [''worktree'', ''add'', ''--force'', land_dir run_id, land_branch issue])
        (\<lambda>reused. if reused then io_ok True
          else git_ok (watched D) repo_url [''worktree'', ''add'', ''--force'', ''-b'', land_branch issue, land_dir run_id, ''HEAD''])
    | Some _ \<Rightarrow> git_ok (watched D) repo_url [''worktree'', ''add'', ''--force'', ''-B'', land_branch issue, land_dir run_id, ''HEAD''])"
    by (rule keeps_option_case keeps_if keeps_ok keeps_bind git | simp)+
  show ?thesis
    unfolding land_to_branch_def Let_def push_eq commit_args_def[symmetric]
    by (rule keeps_if keeps_ok commit[unfolded Let_def] fresh files added keeps_get keeps_bind git | simp)+
qed

text \<open>A landing publishes only committed work on its own branch: whatever the commands answer, every push
  it runs is of the branch \<open>swarm/auto\<close> or the issue's branch and follows a successful commit, and a pull
  request is opened only after that push succeeded. Nothing is run for an empty change set or a remote URL.\<close>

theorem land_publishes_committed:
  fixes D w repo_url base run_id goal files issue
  defines "log \<equiv> fst (snd (land_to_branch (watched D) repo_url base run_id goal files issue ([], w)))"
  shows "(''git'', args, cwd, ok) \<in> set log \<Longrightarrow> args \<noteq> [] \<Longrightarrow> hd args = ''push'' \<Longrightarrow>
      last args = (case issue of Some n \<Rightarrow> ''swarm/issue-'' @ show_int n | None \<Rightarrow> ''swarm/auto'')
      \<and> (''git'', commit_args goal issue run_id, land_dir run_id, True) \<in> set log"
    and "(''gh'', args', cwd', ok') \<in> set log \<Longrightarrow>
      (''git'', push_args issue, repo_url, True) \<in> set log
      \<and> (''git'', commit_args goal issue run_id, land_dir run_id, True) \<in> set log"
    and "files = [] \<or> contains repo_url ''://'' \<Longrightarrow> log = []"
proof -
  have ok: "land_ok repo_url run_id goal issue log"
    using io_keepsD[OF land_ok_keeps, of repo_url run_id goal issue "([], w)" D base files]
    by (simp add: log_def land_ok_def)
  show "(''git'', args, cwd, ok) \<in> set log \<Longrightarrow> args \<noteq> [] \<Longrightarrow> hd args = ''push'' \<Longrightarrow>
      last args = (case issue of Some n \<Rightarrow> ''swarm/issue-'' @ show_int n | None \<Rightarrow> ''swarm/auto'')
      \<and> (''git'', commit_args goal issue run_id, land_dir run_id, True) \<in> set log"
    using ok by (fastforce simp: land_ok_def push_args_def land_branch_def split: option.splits)
  show "(''gh'', args', cwd', ok') \<in> set log \<Longrightarrow>
      (''git'', push_args issue, repo_url, True) \<in> set log
      \<and> (''git'', commit_args goal issue run_id, land_dir run_id, True) \<in> set log"
    using ok by (fastforce simp: land_ok_def)
  show "files = [] \<or> contains repo_url ''://'' \<Longrightarrow> log = []"
    by (auto simp: log_def land_to_branch_def io_ok_def)
qed

lemma ex_land_run:
  "fst (snd (land_to_branch (watched ex_gate_disk) ''/r'' ''main'' ''id'' ''goal'' [(''a.rs'', ''x'')] (Some 7) ([], ()))) =
    [(''git'', [''worktree'', ''prune''], ''/r'', True),
     (''git'', [''worktree'', ''add'', ''--force'', ''-B'', land_branch (Some 7), land_dir ''id'', ''HEAD''], ''/r'', True),
     (''git'', [''add'', ''-A''], land_dir ''id'', True),
     (''git'', commit_args ''goal'' (Some 7) ''id'', land_dir ''id'', True),
     (''git'', [''worktree'', ''remove'', ''--force'', land_dir ''id''], ''/r'', True),
     (''git'', push_args (Some 7), ''/r'', True),
     (''gh'', [''pr'', ''create'', ''--base'', ''main'', ''--head'', land_branch (Some 7), ''--title'',
        fst (land_title_body ''goal'' (Some 7)), ''--body'', snd (land_title_body ''goal'' (Some 7))], ''/r'', True)]"
proof -
  have "\<not> contains ''/r'' ''://''" "path_join ''/r'' ''.git'' = ''/r/.git''"
    by code_simp+
  then show ?thesis
    by (simp add: land_to_branch_def io_app ex_gate_cmd ex_gate_ops Let_def commit_args_def push_args_def split_beta)
qed

lemma land_publishes_committed_witness:
  "(''git'', commit_args ''goal'' (Some 7) ''id'', land_dir ''id'', True) \<in> set (fst (snd
     (land_to_branch (watched ex_gate_disk) ''/r'' ''main'' ''id'' ''goal'' [(''a.rs'', ''x'')] (Some 7) ([], ()))))
   \<and> last (push_args (Some 7)) = ''swarm/issue-'' @ show_int 7"
  using land_publishes_committed(1)[of "push_args (Some 7)" "''/r''" True ex_gate_disk "''/r''" "''main''" "''id''" "''goal''"
      "[(''a.rs'', ''x'')]" "Some 7" "()"]
    land_publishes_committed(2)[of "[''pr'', ''create'', ''--base'', ''main'', ''--head'', land_branch (Some 7), ''--title'',
        fst (land_title_body ''goal'' (Some 7)), ''--body'', snd (land_title_body ''goal'' (Some 7))]" "''/r''" True ex_gate_disk
      "''/r''" "''main''" "''id''" "''goal''" "[(''a.rs'', ''x'')]" "Some 7" "()"]
  by (simp add: ex_land_run) (simp add: push_args_def)

end
