(* ===== verification/ExecutorFacts.thy ===== *)
theory ExecutorFacts
  imports Executor LandingFacts GitHubFacts
begin

text \<open>
  The loop of attempts stays within its limits; a passed run was gated and reviewed; a pull request does
  not depend on the verdict, and over the API it never has a change to show.
\<close>

section \<open>Attempts\<close>

text \<open>The attempts made, by number.\<close>

definition counted :: "'w exec_ops \<Rightarrow> (nat list \<times> 'w) exec_ops" where
  "counted X = \<lparr>xo_elapsed = (\<lambda>s. xo_elapsed X (snd s)),
     xo_attempt = (\<lambda>n g s. let (a, w) = xo_attempt X n g (snd s) in (a, (fst s @ [n], w))),
     xo_sleep = (\<lambda>n s. (fst s, xo_sleep X n (snd s))), xo_reset = (\<lambda>s. (fst s, xo_reset X (snd s)))\<rparr>"

lemma counted_simps [simp]:
  "xo_elapsed (counted X) s = xo_elapsed X (snd s)"
  "xo_attempt (counted X) n g s = (fst (xo_attempt X n g (snd s)), (fst s @ [n], snd (xo_attempt X n g (snd s))))"
  "fst (xo_sleep (counted X) n s) = fst s" "fst (xo_reset (counted X) s) = fst s"
  by (simp_all add: counted_def split_beta Let_def)

lemma attempts_upto:
  "fst s = [1..<Suc it] \<Longrightarrow> it \<le> tc_max_iterations tier \<Longrightarrow>
    (final = None \<or> (\<exists>r. final = Some r \<and> \<not> sr_quality_passed r)) \<Longrightarrow>
    attempts (counted X) tier goal it tokens errs final s = (e, s') \<Longrightarrow>
    \<exists>m\<le>tc_max_iterations tier. fst s' = [1..<Suc m] \<and>
      (\<forall>f n errs'. e = LoopEnded f n errs' \<longrightarrow> (\<exists>r. f = Some r \<and> sr_quality_passed r) \<and> n = m \<or>
         (\<forall>r. f = Some r \<longrightarrow> \<not> sr_quality_passed r) \<and> n = Suc m)"
proof (induction "Suc (tc_max_iterations tier) - it" arbitrary: it tokens errs final s rule: less_induct)
  case less
  show ?case
  proof (cases "out_of_fuel (counted X) tier (Suc it) tokens s")
    case True
    then have "e = LoopEnded final (Suc it) errs" "s' = s"
      using less.prems(4) by (simp_all add: attempts.simps[of "counted X" tier goal it tokens errs final s] Let_def)
    then show ?thesis
      using less.prems(1-3) by (intro exI[of _ it]) auto
  next
    case False
    define s1 where "s1 = (if 1 < Suc it then xo_sleep (counted X) (backoff_secs (Suc it) (tc_max_backoff_secs tier)) s else s)"
    define a where "a = xo_attempt X (Suc it) (augmented_goal goal errs) (snd s1)"
    have lt: "Suc it \<le> tc_max_iterations tier"
      using False by (simp add: out_of_fuel_def)
    have f1: "fst s1 @ [Suc it] = [1..<Suc (Suc it)]"
      using less.prems(1) by (simp add: s1_def del: upt_Suc) simp
    have step: "attempts (counted X) tier goal it tokens errs final s =
      (case (fst a, (fst s1 @ [Suc it], snd a)) of
         (Suspended, w) \<Rightarrow> (LoopSuspended, w)
       | (Broke e, w) \<Rightarrow> attempts (counted X) tier goal (Suc it) tokens e None w
       | (Ran result, w) \<Rightarrow>
             (let tokens = u32_add tokens (iter_tokens result) in
              if sr_quality_passed result then (LoopEnded (Some result) (Suc it) errs, w)
              else attempts (counted X) tier goal (Suc it) tokens (str_join [NL] (result_errors result)) (Some result)
                     (xo_reset (counted X) w)))"
      using False by (subst attempts.simps) (simp add: Let_def s1_def a_def)
    have less': "Suc (tc_max_iterations tier) - Suc it < Suc (tc_max_iterations tier) - it"
      using lt by simp
    show ?thesis
    proof (cases "fst a")
      case (Ran r)
      show ?thesis
      proof (cases "sr_quality_passed r")
        case True
        then show ?thesis
          using less.prems(4) lt f1 unfolding step Ran by (auto simp: Let_def simp del: upt_Suc intro!: exI[of _ "Suc it"])
      next
        case False
        then show ?thesis
          using less.hyps[OF less', of "xo_reset (counted X) (fst s1 @ [Suc it], snd a)" "Some r"] less.prems(4) lt f1
          unfolding step Ran by (simp add: Let_def del: upt_Suc)
      qed
    next
      case Suspended
      then show ?thesis
        using less.prems(4) lt f1 unfolding step by (auto simp del: upt_Suc intro!: exI[of _ "Suc it"])
    next
      case (Broke err)
      then show ?thesis
        using less.hyps[OF less', of "(fst s1 @ [Suc it], snd a)" None] less.prems(4) lt f1
        unfolding step by (simp del: upt_Suc)
    qed
  qed
qed

text \<open>Whatever the attempts, the clock and the token counts do, the loop ends: it makes the attempts
  1 to m in order, with m at most the tier's limit, and it ends with a passed result only right after the
  attempt that passed; otherwise what is left is the result of a failed attempt or nothing.\<close>

theorem attempts_bounded:
  fixes X tier goal w
  defines "r \<equiv> attempts (counted X) tier goal 0 0 [] None ([], w)"
  shows "\<exists>m\<le>tc_max_iterations tier. fst (snd r) = [1..<Suc m] \<and>
    (\<forall>f n errs. fst r = LoopEnded f n errs \<longrightarrow> (\<exists>x. f = Some x \<and> sr_quality_passed x) \<and> n = m \<or>
       (\<forall>x. f = Some x \<longrightarrow> \<not> sr_quality_passed x) \<and> n = Suc m)"
  using attempts_upto[of "([], w)" 0 tier None X goal 0 "[]" "fst r" "snd r"] by (simp add: r_def)

text \<open>A plan that is stored and read back is the same list of sub-tasks.\<close>

theorem plan_roundtrip: "map (planned_to_subtask \<circ> subtask_to_planned) tasks = tasks"
proof -
  have "to_lowercase ''Simple'' = ''simple''" "to_lowercase ''Medium'' = ''medium''" "to_lowercase ''Complex'' = ''complex''"
    by code_simp+
  then have "planned_to_subtask (subtask_to_planned t) = t" for t
    by (cases "t_complexity t") (simp_all add: planned_to_subtask_def subtask_to_planned_def show_complexity_def Let_def)
  then show ?thesis
    by (simp add: map_idI)
qed

section \<open>The API pull request\<close>

text \<open>A disk that keeps what it is given: a write succeeds and is read back as text, and neither it nor a
  new directory changes another file.\<close>

definition keeping_disk :: "'w disk_ops \<Rightarrow> bool" where
  "keeping_disk D \<longleftrightarrow>
     (\<forall>p c w. fst (dk_write D p c w) = Ok ()
        \<and> dk_read D p (snd (dk_write D p c w)) = (if utf8_valid c then Ok c else Err ''stream did not contain valid UTF-8'')
        \<and> (\<forall>q. q \<noteq> p \<longrightarrow> dk_read D q (snd (dk_write D p c w)) = dk_read D q w))
     \<and> (\<forall>p w. fst (dk_create_dir_all D p w) \<noteq> Panic \<and> (\<forall>q. dk_read D q (snd (dk_create_dir_all D p w)) = dk_read D q w))"

lemma put_file_keeps:
  assumes "keeping_disk D"
  shows "\<exists>w'. put_file D full c w = (Ok (), w') \<and>
     dk_read D full w' = (if utf8_valid c then Ok c else Err ''stream did not contain valid UTF-8'') \<and>
     (\<forall>q. q \<noteq> full \<longrightarrow> dk_read D q w' = dk_read D q w)"
proof -
  obtain w1 where w1: "(case path_parent full of Some p \<Rightarrow> io_ignore (dk_create_dir_all D p) | None \<Rightarrow> io_ok ()) w = (Ok (), w1)"
    "\<forall>q. dk_read D q w1 = dk_read D q w"
  proof (cases "path_parent full")
    case None
    then show ?thesis using that by (simp add: io_ok_def)
  next
    case (Some p)
    obtain r w1 where "dk_create_dir_all D p w = (r, w1)"
      by fastforce
    moreover from this have "r \<noteq> Panic" "\<forall>q. dk_read D q w1 = dk_read D q w"
      using assms unfolding keeping_disk_def by (metis fst_conv snd_conv)+
    ultimately show ?thesis
      using that[of w1] Some by (cases r) (simp_all add: io_app)
  qed
  obtain w2 where w2: "dk_write D full c w1 = (Ok (), w2)"
    using assms unfolding keeping_disk_def by (metis prod.collapse)
  have "dk_read D full w2 = (if utf8_valid c then Ok c else Err ''stream did not contain valid UTF-8'')"
    "\<forall>q. q \<noteq> full \<longrightarrow> dk_read D q w2 = dk_read D q w1"
    using assms w2 unfolding keeping_disk_def by (metis snd_conv)+
  then show ?thesis
    using w1 w2 by (intro exI[of _ w2]) (simp add: put_file_def io_app)
qed

lemma apply_captured_reads:
  assumes "keeping_disk D"
  shows "distinct (map (path_join repo \<circ> fst) files) \<Longrightarrow> \<exists>w'. apply_captured D repo files w = (Ok (), w') \<and>
     (\<forall>(p, c)\<in>set files. dk_read D (path_join repo p) w' = (if utf8_valid c then Ok c else Err ''stream did not contain valid UTF-8'')) \<and>
     (\<forall>q. q \<notin> path_join repo ` fst ` set files \<longrightarrow> dk_read D q w' = dk_read D q w)"
proof (induction files arbitrary: w)
  case Nil
  then show ?case by (simp add: apply_captured_def io_ok_def)
next
  case (Cons f files)
  obtain p c where f: "f = (p, c)"
    by (cases f)
  obtain w1 where w1: "put_file D (path_join repo p) c w = (Ok (), w1)"
     "dk_read D (path_join repo p) w1 = (if utf8_valid c then Ok c else Err ''stream did not contain valid UTF-8'')"
     "\<forall>q. q \<noteq> path_join repo p \<longrightarrow> dk_read D q w1 = dk_read D q w"
    using put_file_keeps[OF assms] by blast
  obtain w2 where w2: "apply_captured D repo files w1 = (Ok (), w2)"
     "\<forall>(p, c)\<in>set files. dk_read D (path_join repo p) w2 = (if utf8_valid c then Ok c else Err ''stream did not contain valid UTF-8'')"
     "\<forall>q. q \<notin> path_join repo ` fst ` set files \<longrightarrow> dk_read D q w2 = dk_read D q w1"
    using Cons.IH[of w1] Cons.prems by auto
  have "path_join repo p \<notin> path_join repo ` fst ` set files"
    using Cons.prems by (force simp: f image_iff)
  then have "dk_read D (path_join repo p) w2 = (if utf8_valid c then Ok c else Err ''stream did not contain valid UTF-8'')"
    using w1(2) w2(3) by simp
  then show ?case
    using w1 w2 by (intro exI[of _ w2]) (auto simp: f apply_captured_def io_app)
qed

text \<open>Loading puts the same entry into both trees; writing it again changes neither.\<close>

lemma load_entries:
  "load_file (memory_ops h) ws st p c = (ws', st') \<Longrightarrow>
    ts_entries (vw_base ws') = om_insert p (h c) (ts_entries (vw_base ws)) \<and>
    ts_entries (vw_working ws') = om_insert p (h c) (ts_entries (vw_working ws))"
  by (auto simp: load_file_def tree_insert_split memory_ops_def memory_put_def Let_def split: if_splits prod.splits)

lemma write_entries:
  "write_file (memory_ops h) ws st p c = (ws', st') \<Longrightarrow>
    vw_base ws' = vw_base ws \<and> ts_entries (vw_working ws') = om_insert p (h c) (ts_entries (vw_working ws))"
  by (auto simp: write_file_def tree_insert_split memory_ops_def memory_put_def Let_def split: if_splits prod.splits)

lemma om_insert_same: "om_ok m \<Longrightarrow> om_get m k = Some v \<Longrightarrow> om_insert k v m = m"
  by (rule om_eqI) (auto simp: fun_eq_iff)

text \<open>The workspace has no change and holds every readable file.\<close>

definition unchanged :: "(blob \<Rightarrow> blob_hash) \<Rightarrow> (string \<times> string) set \<Rightarrow> virt_workspace \<Rightarrow> bool" where
  "unchanged h loaded ws \<longleftrightarrow> ts_entries (vw_working ws) = ts_entries (vw_base ws) \<and> om_ok (ts_entries (vw_base ws))
     \<and> (\<forall>(p, c)\<in>loaded. om_get (ts_entries (vw_base ws)) p = Some (h c))"

lemma load_unchanged:
  assumes "\<forall>(p, c)\<in>set files. dk_read D (path_join repo p) w = (if utf8_valid c then Ok c else Err e)"
  shows "distinct (map fst files) \<Longrightarrow> fst ` loaded \<inter> fst ` set files = {} \<Longrightarrow> unchanged h loaded (fst s) \<Longrightarrow>
    unchanged h (loaded \<union> {f \<in> set files. utf8_valid (snd f)}) (fst (load_originals (memory_ops h) D repo w files s))"
  using assms
proof (induction files arbitrary: loaded s)
  case (Cons f files)
  obtain p c where f: "f = (p, c)"
    by (cases f)
  obtain ws st where s: "s = (ws, st)"
    by (cases s)
  have fresh: "p \<notin> fst ` loaded" "p \<notin> fst ` set files"
    using Cons.prems(1,2) by (auto simp: f)
  show ?case
  proof (cases "utf8_valid c")
    case False
    then have "{g \<in> set (f # files). utf8_valid (snd g)} = {g \<in> set files. utf8_valid (snd g)}"
      by (auto simp: f)
    then show ?thesis
      using Cons.IH[of loaded s] Cons.prems False by (simp add: load_originals_def f s)
  next
    case True
    obtain ws' st' where l: "load_file (memory_ops h) ws st p c = (ws', st')"
      by fastforce
    have u: "unchanged h (insert (p, c) loaded) ws'"
      using Cons.prems(3) load_entries[OF l] fresh(1) by (force simp: unchanged_def s)
    have eq: "insert (p, c) loaded \<union> {g \<in> set files. utf8_valid (snd g)} = loaded \<union> {g \<in> set (f # files). utf8_valid (snd g)}"
      using True by (auto simp: f)
    have st: "load_originals (memory_ops h) D repo w (f # files) s = load_originals (memory_ops h) D repo w files (ws', st')"
      using Cons.prems(4) True l by (simp add: load_originals_def f s)
    show ?thesis
      using Cons.IH[of "insert (p, c) loaded" "(ws', st')"] Cons.prems fresh u unfolding eq st by (simp add: f)
  qed
qed (simp add: load_originals_def)

lemma write_unchanged:
  "\<forall>f\<in>set files. utf8_valid (snd f) \<longrightarrow> f \<in> loaded \<Longrightarrow> unchanged h loaded (fst s) \<Longrightarrow>
    unchanged h loaded (fst (write_modified (memory_ops h) files s))"
proof (induction files arbitrary: s)
  case (Cons f files)
  obtain p c where f: "f = (p, c)"
    by (cases f)
  obtain ws st where s: "s = (ws, st)"
    by (cases s)
  obtain ws' st' where l: "write_file (memory_ops h) ws st p c = (ws', st')"
    by fastforce
  show ?case
  proof (cases "utf8_valid c")
    case True
    then have "om_get (ts_entries (vw_base ws)) p = Some (h c)"
      using Cons.prems by (auto simp: f s unchanged_def)
    then have "ts_entries (vw_working ws') = ts_entries (vw_working ws)" "vw_base ws' = vw_base ws"
      using write_entries[OF l] Cons.prems(2) by (auto simp: unchanged_def s intro!: om_insert_same)
    then have "unchanged h loaded ws'"
      using Cons.prems(2) by (simp add: unchanged_def s)
    then show ?thesis
      using Cons.IH[of "(ws', st')"] Cons.prems(1) True l by (simp add: write_modified_def f s)
  next
    case False
    then show ?thesis
      using Cons.IH[of s] Cons.prems by (simp add: write_modified_def f s)
  qed
qed (simp add: write_modified_def)

lemma unchanged_no_diff:
  assumes "unchanged h loaded ws"
  shows "workspace_diff L S ws st = []"
proof -
  have "List.map_filter (old_entry_diff L S st (vw_working ws)) (ts_entries (vw_base ws)) = []"
  proof -
    have "old_entry_diff L S st (vw_working ws) (p, k) = None" if "(p, k) \<in> set (ts_entries (vw_base ws))" for p k
    proof -
      have "om_get (ts_entries (vw_working ws)) p = Some k"
        using that assms by (simp add: unchanged_def om_get_iff)
      then show ?thesis
        by (simp add: old_entry_diff_def)
    qed
    then have "old_entry_diff L S st (vw_working ws) e = None" if "e \<in> set (ts_entries (vw_base ws))" for e
      using that by (cases e) simp
    then show ?thesis
      by (simp add: List.map_filter_def filter_empty_conv)
  qed
  moreover have "filter (\<lambda>p. \<not> om_has (ts_entries (vw_base ws)) p) (om_keys (ts_entries (vw_working ws))) = []"
    using assms by (simp add: unchanged_def filter_empty_conv om_has_iff)
  ultimately show ?thesis
    by (simp add: workspace_diff_def diff_trees_def)
qed

lemma pr_workspace_unchanged:
  assumes "\<forall>(p, c)\<in>set files. dk_read D (path_join repo p) w = (if utf8_valid c then Ok c else Err e)" "distinct (map fst files)"
  shows "\<exists>loaded. unchanged (content_hash L) loaded (fst (pr_workspace L D repo files w))"
proof -
  have "unchanged (content_hash L) {} workspace_new"
    by (simp add: unchanged_def workspace_new_def tree_new_def)
  then have "unchanged (content_hash L) {f \<in> set files. utf8_valid (snd f)}
      (fst (load_originals (memory_ops (content_hash L)) D repo w files (workspace_new, memory_new)))"
    using load_unchanged[OF assms(1,2), of "{}" "content_hash L" "(workspace_new, memory_new)"] by simp
  then show ?thesis
    using write_unchanged[of files "{f \<in> set files. utf8_valid (snd f)}" "content_hash L"
        "load_originals (memory_ops (content_hash L)) D repo w files (workspace_new, memory_new)"]
    by (intro exI[of _ "{f \<in> set files. utf8_valid (snd f)}"]) (simp add: pr_workspace_def Let_def)
qed

text \<open>Once the captured files are in the working copy, the pull request over the API finds no change: the
  originals it compares with are read from the files just written, so it fails before any request is sent
  and the run always falls back to the command line.\<close>

theorem api_pr_never_created:
  assumes "keeping_disk D" "distinct (map fst files)" "distinct (map (path_join repo \<circ> fst) files)"
    and "apply_captured D repo files w = (r, w')"
  shows "fst (api_pr L J D http repo token gh_repo task_id goal files w') = Panic
      \<or> api_pr L J D http repo token gh_repo task_id goal files w' = (Err ''No changes to create PR from'', w')"
proof -
  have reads: "\<forall>(p, c)\<in>set files. dk_read D (path_join repo p) w'
      = (if utf8_valid c then Ok c else Err ''stream did not contain valid UTF-8'')"
    using apply_captured_reads[OF assms(1,3), of w] assms(4) by auto
  obtain loaded where "unchanged (content_hash L) loaded (fst (pr_workspace L D repo files w'))"
    using pr_workspace_unchanged[OF reads assms(2), of L] by blast
  then have diff: "workspace_diff L S (fst (pr_workspace L D repo files w')) st = []"
      for S :: "memory_blob_store blob_ops" and st
    by (rule unchanged_no_diff)
  obtain ws st where ws: "pr_workspace L D repo files w' = (ws, st)"
    by fastforce
  show ?thesis
    using diff
    by (cases "pr_goal_title goal")
      (auto simp: api_pr_def Let_def split_beta io_app ws create_pr_def pr_goal_title_def obind_iffs str_slice_to_def
        pr_body_def workspace_diff_text_def format_diff_def is_char_boundary_def split: outcome.split if_splits)
qed

text \<open>A disk over a map of files.\<close>

definition ex_map_disk :: "(string \<Rightarrow> string option) disk_ops" where
  "ex_map_disk = \<lparr>dk_exists = (\<lambda>p w. w p \<noteq> None),
     dk_read = (\<lambda>p w. case w p of Some c \<Rightarrow> if utf8_valid c then Ok c else Err ''stream did not contain valid UTF-8''
       | None \<Rightarrow> Err ''not found''),
     dk_write = (\<lambda>p c. io_put (\<lambda>w. w(p \<mapsto> c))), dk_create_dir_all = (\<lambda>_. io_ok ()), dk_remove_file = (\<lambda>_. io_ok ()),
     dk_remove_dir_all = (\<lambda>_. io_ok ()), dk_copy = (\<lambda>_ _. io_ok ()),
     dk_command = (\<lambda>_ _ _. io_ok \<lparr>co_code = Some 1, co_success = False, co_stdout = [], co_stderr = []\<rparr>)\<rparr>"

lemma ex_map_keeping: "keeping_disk ex_map_disk"
  by (simp add: keeping_disk_def ex_map_disk_def io_put_def io_ok_def)

lemma api_pr_never_created_witness:
  "fst (api_pr ex_libs ex_json ex_map_disk (\<lambda>_ _ _ _. io_ok []) ''/r'' ''token'' ''o/r'' ''run:1'' ''goal'' [(''a.rs'', ''new'')]
     (snd (apply_captured ex_map_disk ''/r'' [(''a.rs'', ''new'')] (\<lambda>_. Some ''old'')))) \<noteq> Ok pr"
proof -
  obtain r w' where "apply_captured ex_map_disk ''/r'' [(''a.rs'', ''new'')] (\<lambda>_. Some ''old'') = (r, w')"
    by fastforce
  then show ?thesis
    using api_pr_never_created[OF ex_map_keeping, of "[(''a.rs'', ''new'')]" "''/r''" "\<lambda>_. Some ''old''" r w' ex_libs ex_json
        "\<lambda>_ _ _ _. io_ok []" "''token''" "''o/r''" "''run:1''" "''goal''"] by auto
qed

section \<open>The verdict\<close>

text \<open>The status of a run is decided by its gate and its review: it is recorded as passed exactly when it has
  changed files, the quality gate accepted them and the review, if it is on, did not reject the diff.\<close>

theorem passed_iff_gated:
  assumes "finish_execute E task_id project goal clock result w = (Ok run, w')"
  shows "au_status run = RsPassed \<longleftrightarrow>
    sr_modified_files result \<noteq> [] \<and>
    (let (gate, w1) = run_quality_gate (xs_disk E) (xs_repo_path E) (run_gate_path task_id) (sr_modified_files result)
           (cf_security (xs_config E)) w
     in gate = Ok () \<and>
        (lc_verify_diffs (cf_learning (xs_config E)) \<longrightarrow> fst (xs_review E w1) = Ok Accept))"
proof -
  let ?cfg = "xs_config E"
  obtain g w1 p reason w2 pr where
    g: "io_try (gate_result (xs_disk E) (xs_repo_path E) task_id ?cfg result) w = (Ok g, w1)" and
    j: "judged (xs_review E) ?cfg (g = Ok ()) w1 = (Ok (p, reason), w2)" and
    run: "run = (let run = final_run (xs_order E) project goal clock result p reason in
       case pr of Some url \<Rightarrow> run\<lparr>au_diff := Some url\<rparr> | None \<Rightarrow> run)"
    using assms unfolding finish_execute_def Let_def io_bind_Ok by (auto simp: io_bind_Ok io_ok_Ok)
  have "au_status run = RsPassed \<longleftrightarrow> p"
    by (simp add: run final_run_def split_beta Let_def split: option.split)
  also have "p \<longleftrightarrow> g = Ok () \<and> (lc_verify_diffs (cf_learning ?cfg) \<longrightarrow> fst (xs_review E w1) = Ok Accept)"
  proof (cases "g = Ok () \<and> lc_verify_diffs (cf_learning ?cfg)")
    case True
    then obtain v where "xs_review E w1 = (Ok v, w2)"
        "(p, reason) = (case v of Reject reason \<Rightarrow> (False, Some (''verify-reject: '' @ reason)) | Accept \<Rightarrow> (True, None))"
      using j by (auto simp: judged_def io_bind_Ok io_ok_Ok)
    then show ?thesis
      using True by (cases v) simp_all
  next
    case False
    then show ?thesis
      using j by (auto simp: judged_def io_ok_Ok)
  qed
  finally have status: "au_status run = RsPassed \<longleftrightarrow>
      g = Ok () \<and> (lc_verify_diffs (cf_learning ?cfg) \<longrightarrow> fst (xs_review E w1) = Ok Accept)" .
  have "gate_result (xs_disk E) (xs_repo_path E) task_id ?cfg result w = (g, w1)"
    using g by (auto simp: io_try_def split: prod.splits outcome.splits)
  then show ?thesis
    unfolding status by (auto simp: gate_result_def any_work_done_def io_lift_def split: if_splits)
qed

definition ex_clock :: run_clock where
  "ex_clock = \<lparr>rk_now = ''now'', rk_started = ''then'', rk_embed_ms = 0, rk_duration_ms = 1\<rparr>"

text \<open>A site on whose disk no command succeeds, with a command line that always opens a pull request.\<close>

definition ex_site :: "unit exec_site" where
  "ex_site = \<lparr>xs_libs = ex_libs, xs_json = ex_json, xs_disk = ex_scan_disk, xs_http = (\<lambda>_ _ _ _. io_ok []),
     xs_cli_pr = io_ok ''url'', xs_review = io_ok Accept, xs_config = default_swarm_config, xs_repo_url = ''/src'',
     xs_repo_path = ''/r'', xs_branch_row = None, xs_external_id = None, xs_token = None, xs_gh_repo = ''o/r'', xs_order = id\<rparr>"

text \<open>A run with changes gets its pull request whatever the verdict: when the gate rejects it and there is no
  token, nothing is landed, but the files are written to the working copy and the command line opens a
  pull request for the run recorded as failed.\<close>

theorem failed_run_gets_pr:
  assumes "sr_modified_files result \<noteq> []" "xs_token E = None"
    and "run_quality_gate (xs_disk E) (xs_repo_path E) (run_gate_path task_id) (sr_modified_files result)
           (cf_security (xs_config E)) w = (Err why, w1)"
    and "apply_captured (xs_disk E) (xs_repo_path E) (sr_modified_files result) w1 = (Ok (), w2)"
    and "xs_cli_pr E w2 = (Ok url, w3)"
  shows "\<exists>run. finish_execute E task_id project goal clock result w = (Ok run, w3)
    \<and> au_status run = RsFailed \<and> au_quality_gate_passed run = Some False \<and> au_diff run = Some (''PR: '' @ url)"
  using assms
  by (simp add: finish_execute_def Let_def gate_result_def any_work_done_def judged_def publish_pr_def io_app
      final_run_def split_beta)

definition ex_result :: swarm_result where
  "ex_result = empty_result ''goal'' [(''a.rs'', ''new'')]"

lemma ex_site_gate: "run_quality_gate (xs_disk ex_site) (xs_repo_path ex_site) gate [(''a.rs'', ''new'')] sec ()
    = (Err ''quality gate: worktree add failed'', ())"
  by (simp add: ex_site_def ex_scan_disk_def run_quality_gate_def git_ok_def cmd_ok_def io_app Let_def)

lemma ex_site_apply: "apply_captured (xs_disk ex_site) (xs_repo_path ex_site) [(''a.rs'', ''new'')] () = (Ok (), ())"
  by (simp add: ex_site_def ex_scan_disk_def apply_captured_def put_file_def io_app split: option.split)

lemma failed_run_gets_pr_witness:
  "\<exists>run. finish_execute ex_site ''run:1'' ''p'' ''goal'' ex_clock ex_result () = (Ok run, ()) \<and> au_status run = RsFailed
     \<and> au_quality_gate_passed run = Some False \<and> au_diff run = Some ''PR: url''"
  using failed_run_gets_pr[of ex_result ex_site "''run:1''" "()" _ "()" "()" "''url''" "()" "''p''" "''goal''" ex_clock]
    ex_site_gate ex_site_apply
  by (simp add: ex_result_def empty_result_def) (simp add: ex_site_def io_ok_def)

lemma passed_iff_gated_witness:
  "\<exists>run. finish_execute ex_site ''run:1'' ''p'' ''goal'' ex_clock ex_result () = (Ok run, ()) \<and> au_status run \<noteq> RsPassed"
proof -
  obtain run where run: "finish_execute ex_site ''run:1'' ''p'' ''goal'' ex_clock ex_result () = (Ok run, ())"
    using ex_site_gate ex_site_apply
    by (simp add: finish_execute_def Let_def gate_result_def any_work_done_def judged_def publish_pr_def io_app
        ex_result_def empty_result_def) (simp add: ex_site_def io_app)
  show ?thesis
    using passed_iff_gated[OF run] run ex_site_gate by (auto simp: ex_result_def empty_result_def)
qed

end
