(* ===== verification/ToolFacts.thy ===== *)
theory ToolFacts
  imports ToolRegistry ExecutorFacts
begin

text \<open>
  Bounds on what the tools run, write and return: the allowlist, the unscreened write, the cuts of long
  output, search against its declarative reading, and the crate search that leaves the repository.
\<close>

section \<open>Cuts\<close>

lemma ceil_boundary:
  fixes s :: string
  shows "is_char_boundary s (ceil_char_boundary s n)" "n \<le> length s \<Longrightarrow> n \<le> ceil_char_boundary s n"
    "ceil_char_boundary s n \<le> length s"
proof (induction s n rule: ceil_char_boundary.induct)
  case (1 s n)
  { case 1 then show ?case
      using "1.IH"(1) by (subst ceil_char_boundary.simps) (auto simp: is_char_boundary_def) }
  { case 2 then show ?case
      using "1.IH"(2) by (subst ceil_char_boundary.simps) (auto simp: Suc_le_eq) }
  { case 3 then show ?case
      using "1.IH"(3) by (subst ceil_char_boundary.simps) auto }
qed

text \<open>Cutting the end of a long output never panics, whatever its bytes: a short output is returned as it is,
  of a long one a suffix that starts at a character and is at most the limit long, behind a header.\<close>

theorem truncate_end_safe:
  "(length s \<le> limit \<and> truncate_end s limit = Ok s) \<or>
   (limit < length s \<and> (\<exists>tail. suffix tail s \<and> length tail \<le> limit
      \<and> (tail = [] \<or> \<not> cont_byte (hd tail))
      \<and> truncate_end s limit = Ok (''...['' @ show_nat (length s - limit) @ '' chars truncated]'' @ [NL] @ tail)))"
proof (cases "length s \<le> limit")
  case False
  let ?b = "ceil_char_boundary s (length s - limit)"
  have b: "is_char_boundary s ?b" "length s - limit \<le> ?b" "?b \<le> length s"
    using ceil_boundary[where s = s and n = "length s - limit"] by auto
  have "str_slice s ?b (length s) = Ok (drop ?b s)"
    using b by (simp add: str_slice_def is_char_boundary_def)
  moreover have "drop ?b s = [] \<or> \<not> cont_byte (hd (drop ?b s))"
    using b(1) by (auto simp: is_char_boundary_def hd_drop_conv_nth)
  ultimately show ?thesis
    using False b by (auto simp: truncate_end_def Let_def suffix_drop intro!: exI[of _ "drop ?b s"])
qed (simp add: truncate_end_def)

text \<open>Reading a file whose content the provider has panics exactly when the content is longer than the limit and
  the limit falls inside a character.\<close>

theorem read_tool_panics_iff:
  assumes "as_provider s = Some p" "tp_str ps ''path'' = Some path" "path \<noteq> []"
    and "fp_read (af_provider (tl_files C)) p path = Ok content"
  shows "fst (read_file_tool C ps s) = Panic \<longleftrightarrow> MAX_READ_BYTES < length content \<and> cont_byte (content ! MAX_READ_BYTES)"
  using assms
  by (auto simp: read_file_tool_def param_or_def shown_file_def Let_def obind_iffs str_slice_to_def is_char_boundary_def
      split: if_splits)

text \<open>A provider of one text, and a file whose hundred-thousandth byte is the middle of a character.\<close>

definition ex_tools :: "'w disk_ops \<Rightarrow> (string, 'w) tool_context" where
  "ex_tools D = \<lparr>tl_files = \<lparr>af_provider = \<lparr>fp_read = (\<lambda>p _. Ok p), fp_write = (\<lambda>p _ c. (Ok (), c)), fp_exists = (\<lambda>_ _. True),
       fp_list = (\<lambda>_. [])\<rparr>, af_disk = D, af_repo_path = ''/repo''\<rparr>, tl_project = ''app'', tl_walk = (\<lambda>_ _. [])\<rparr>"

definition ex_params :: "(string \<times> string) list \<Rightarrow> tool_params" where
  "ex_params kvs = \<lparr>tp_str = map_of kvs, tp_list = (\<lambda>_. None)\<rparr>"

definition ex_long_text :: string where
  "ex_long_text = replicate 99999 CHR ''a'' @ [CHR 0xC3, CHR 0xA9]"

lemma read_tool_panics_iff_witness:
  "fst (read_file_tool (ex_tools ex_scan_disk) (ex_params [(''path'', ''a.rs'')])
     \<lparr>as_provider = Some ex_long_text, as_world = ()\<rparr>) = Panic"
proof -
  have "MAX_READ_BYTES < length ex_long_text" "cont_byte (ex_long_text ! MAX_READ_BYTES)"
    by (simp_all add: ex_long_text_def MAX_READ_BYTES_def nth_append) code_simp
  then show ?thesis
    by (subst read_tool_panics_iff[where p = ex_long_text and path = "''a.rs''" and content = ex_long_text])
      (simp_all add: ex_tools_def ex_params_def)
qed

section \<open>The command tool\<close>

text \<open>The command tool runs at most one process per call, in the repository, and only a program of the
  allowlist; anything else is an error without a process.\<close>

theorem run_command_allowlisted:
  assumes "af_disk (tl_files C) = watched D"
  shows "fst (as_world (snd (run_command_tool C ps s))) = fst (as_world s) \<or>
    (\<exists>prog\<in>set ALLOWED_COMMANDS. \<exists>args ok. tp_str ps ''command'' = Some prog \<and>
       fst (as_world (snd (run_command_tool C ps s)))
         = fst (as_world s) @ [(prog, args, af_repo_path (tl_files C), ok)])"
proof (cases "param_or [] ps ''command'' = [] \<or> param_or [] ps ''command'' \<notin> set ALLOWED_COMMANDS")
  case True
  then show ?thesis
    by (auto simp: run_command_tool_def io_app Let_def)
next
  case False
  let ?prog = "param_or [] ps ''command''" and ?args = "case tp_list ps ''args'' of Some xs \<Rightarrow> xs | None \<Rightarrow> []"
  obtain r w where d: "dk_command (watched D) ?prog ?args (tl_repo C) (as_world s) = (r, w)"
    by (metis surj_pair)
  have w: "fst w = fst (as_world s) @ [(?prog, ?args, tl_repo C, succeeded r)]"
    using watched_command[OF d] .
  have "as_world (snd (run_command_tool C ps s)) = w"
    using False d by (cases r)
      (auto simp: run_command_tool_def assms io_app Let_def on_world_def io_zoom_def split: outcome.split)
  moreover have "tp_str ps ''command'' = Some ?prog"
    using False by (auto simp: param_or_def split: option.splits)
  ultimately show ?thesis
    using w False by auto
qed

lemma run_command_allowlisted_witness:
  "fst (as_world (snd (run_command_tool (ex_tools (watched ex_scan_disk)) (ex_params [(''command'', ''rm'')])
     \<lparr>as_provider = None, as_world = ([], ())\<rparr>))) = []"
proof -
  have "''rm'' \<notin> set ALLOWED_COMMANDS"
    by (simp add: ALLOWED_COMMANDS_def)
  then show ?thesis
    using run_command_allowlisted[of "ex_tools (watched ex_scan_disk)" ex_scan_disk "ex_params [(''command'', ''rm'')]"
        "\<lparr>as_provider = None, as_world = ([], ())\<rparr>"] by (auto simp: ex_tools_def ex_params_def)
qed

section \<open>The write tool\<close>

lemma keeping_parent:
  assumes "keeping_disk D"
  shows "\<exists>w1. (case path_parent p of Some d \<Rightarrow> io_ignore (dk_create_dir_all D d) | None \<Rightarrow> io_ok ()) w = (Ok (), w1)"
proof (cases "path_parent p")
  case (Some d)
  have "fst (dk_create_dir_all D d w) \<noteq> Panic"
    using assms unfolding keeping_disk_def by blast
  then show ?thesis
    using Some by (cases "dk_create_dir_all D d w") (auto simp: io_app split: outcome.split)
qed (simp add: io_app)

text \<open>The write tool does not apply the screen of the agent's edits: on the disk, an absolute path leaves the
  repository, and the call reports success.\<close>

theorem write_tool_unscreened:
  assumes "keeping_disk (af_disk (tl_files C))" "as_provider s = None" "starts_with path ''/''"
    and "tp_str ps ''path'' = Some path" "tp_str ps ''content'' = Some content" "utf8_valid content"
  shows "dk_read (af_disk (tl_files C)) path (as_world (snd (write_file_tool C ps s))) = Ok content
    \<and> (\<exists>r. fst (write_file_tool C ps s) = Ok r \<and> \<not> tx_is_error r)"
proof -
  have path: "path \<noteq> []" "path_join (tl_repo C) path = path"
    using assms(3) by (auto simp: path_join_def starts_with_def)
  obtain w1 where w1: "(case path_parent path of Some d \<Rightarrow> io_ignore (dk_create_dir_all (tl_disk C) d) | None \<Rightarrow> io_ok ())
      (as_world s) = (Ok (), w1)"
    using keeping_parent[OF assms(1), of path "as_world s"] by blast
  obtain w2 where w2: "dk_write (tl_disk C) path content w1 = (Ok (), w2)" "dk_read (tl_disk C) path w2 = Ok content"
    using assms(1,6) unfolding keeping_disk_def by (metis prod.collapse)
  have "write_file_tool C ps s = (Ok (written content path), s\<lparr>as_world := w2\<rparr>)"
    using path w1 w2 assms(2,4,5)
    by (simp add: write_file_tool_def write_disk_tool_def param_or_def io_app on_world_def io_zoom_def)
  then show ?thesis
    using w2 by (simp add: written_def tool_ok_def)
qed

lemma write_tool_unscreened_witness:
  "dk_read ex_map_disk ''/etc/cron.d/x'' (as_world (snd (write_file_tool (ex_tools ex_map_disk)
     (ex_params [(''path'', ''/etc/cron.d/x''), (''content'', ''job'')])
     \<lparr>as_provider = None, as_world = (\<lambda>_. None)\<rparr>))) = Ok ''job''"
proof -
  have "utf8_valid ''job''" "starts_with ''/etc/cron.d/x'' ''/''"
    by code_simp+
  then show ?thesis
    using write_tool_unscreened[of "ex_tools ex_map_disk" "\<lparr>as_provider = None, as_world = (\<lambda>_. None)\<rparr>" "''/etc/cron.d/x''"
        "ex_params [(''path'', ''/etc/cron.d/x''), (''content'', ''job'')]" "''job''"] ex_map_keeping
    by (simp add: ex_tools_def ex_params_def)
qed

section \<open>The crate of a check\<close>

lemma path_parent_child:
  assumes "CHR ''/'' \<notin> set name" "name \<noteq> []" "dir \<noteq> []"
  shows "path_parent (dir @ ''/'' @ name) = Some dir"
proof -
  have "str_rfind CHR ''/'' (dir @ CHR ''/'' # name) = Some (length dir)"
    using assms(1) str_rfind_None[of "CHR ''/''" name] by (induction dir) simp_all
  then show ?thesis
    using assms(3) by (simp add: path_parent_def rsplit_once_def)
qed

text \<open>The automatic scope of a check looks for the crate of the project's name, so it starts in the repository
  itself: when the repository's manifest names no package, the search goes on in the directories above it.\<close>

theorem check_scope_leaves_repo:
  assumes "CHR ''/'' \<notin> set project" "project \<noteq> []" "repo \<noteq> []" "\<not> ends_with repo ''/''"
    and "path_parent repo = Some parent"
    and "dk_exists D (repo @ ''/Cargo.toml'') w"
    and "dk_read D (repo @ ''/Cargo.toml'') w = Ok manifest" "crate_of_manifest manifest = None"
  shows "tool_detect_crate D repo project w = tool_crate_search D repo w parent"
proof -
  have "\<not> starts_with project ''/''"
    using assms(1,2) by (cases project) (auto simp: starts_with_def)
  then have "path_parent (path_join repo project) = Some repo"
    using assms(3,4) path_parent_child[OF assms(1,2,3)] by (simp add: path_join_def)
  moreover have "path_join repo ''Cargo.toml'' = repo @ ''/Cargo.toml''"
    using assms(3,4) by (simp add: path_join_def starts_with_def)
  moreover have "parent \<noteq> repo"
    using path_parent_shorter[OF assms(5)] by auto
  ultimately show ?thesis
    using assms(5-8) by (simp add: tool_detect_crate_def tool_crate_search.simps[of D repo w repo] Let_def)
qed

lemma check_scope_leaves_repo_witness:
  "tool_detect_crate ex_map_disk ''/home/repo'' ''app''
     [''/home/repo/Cargo.toml'' \<mapsto> ''[workspace]'', ''/home/Cargo.toml'' \<mapsto> ''name = outer''] = Some ''outer''"
proof -
  let ?w = "[''/home/repo/Cargo.toml'' \<mapsto> ''[workspace]'', ''/home/Cargo.toml'' \<mapsto> ''name = outer'']"
  have facts: "path_parent ''/home/repo'' = Some ''/home''" "\<not> ends_with ''/home/repo'' ''/''"
    "utf8_valid ''[workspace]''" "utf8_valid ''name = outer''" "crate_of_manifest ''[workspace]'' = None"
    "crate_of_manifest ''name = outer'' = Some ''outer''" "path_join ''/home'' ''Cargo.toml'' = ''/home/Cargo.toml''"
    by code_simp+
  have "tool_detect_crate ex_map_disk ''/home/repo'' ''app'' ?w = tool_crate_search ex_map_disk ''/home/repo'' ?w ''/home''"
    by (rule check_scope_leaves_repo[where manifest = "''[workspace]''"]) (use facts in \<open>simp_all add: ex_map_disk_def\<close>)
  then show ?thesis
    using facts by (simp add: tool_crate_search.simps Let_def ex_map_disk_def)
qed

section \<open>Search\<close>

definition line_matches :: "string \<Rightarrow> string \<Rightarrow> nat \<Rightarrow> string list \<Rightarrow> string list" where
  "line_matches pattern file i ls =
     map (\<lambda>(j, line). match_line file j line) (filter (\<lambda>(j, line). contains line pattern) (List.enumerate i ls))"

lemma grep_lines_take:
  "length out < MAX_MATCHES \<Longrightarrow>
    grep_lines pattern file i ls out = take MAX_MATCHES (out @ line_matches pattern file i ls)"
proof (induction ls arbitrary: i out)
  case (Cons l ls)
  show ?case
  proof (cases "contains l pattern \<and> MAX_MATCHES \<le> Suc (length out)")
    case True
    then have "MAX_MATCHES = Suc (length out)" "MAX_MATCHES - length out = Suc 0"
      using Cons.prems by linarith+
    then show ?thesis
      using True by (simp add: line_matches_def)
  next
    case False
    then show ?thesis
      using Cons.prems Cons.IH[of out "Suc i"] Cons.IH[of "out @ [match_line file i l]" "Suc i"]
      by (auto simp: line_matches_def)
  qed
qed (simp add: line_matches_def)

definition file_matches :: "(string \<Rightarrow> string outcome) \<Rightarrow> string \<Rightarrow> string \<Rightarrow> string list" where
  "file_matches read pattern file =
     (case read file of Ok content \<Rightarrow> line_matches pattern file 0 (str_lines content) | _ \<Rightarrow> [])"

lemma grep_files_take:
  "length out < MAX_MATCHES \<Longrightarrow> grep_files read pattern sp ext files out
    = take MAX_MATCHES (out @ concat (map (file_matches read pattern) (filter (grep_wanted sp ext) files)))"
proof (induction files arbitrary: out)
  case (Cons f files)
  let ?m = "file_matches read pattern f"
  have lines: "(case read f of Ok content \<Rightarrow> grep_lines pattern f 0 (str_lines content) out | _ \<Rightarrow> out)
      = take MAX_MATCHES (out @ ?m)"
    using Cons.prems by (auto simp: file_matches_def grep_lines_take split: outcome.split)
  show ?case
  proof (cases "grep_wanted sp ext f")
    case False
    then show ?thesis
      using Cons.prems Cons.IH[of out] by simp
  next
    case wanted: True
    show ?thesis
    proof (cases "MAX_MATCHES \<le> length (out @ ?m)")
      case True
      then have "MAX_MATCHES \<le> length (take MAX_MATCHES (out @ ?m))"
        by simp
      then show ?thesis
        using True wanted unfolding grep_files.simps(2) lines Let_def by simp
    next
      case False
      then have "take MAX_MATCHES (out @ ?m) = out @ ?m"
        by simp
      then show ?thesis
        using False wanted Cons.IH[of "out @ ?m"] unfolding grep_files.simps(2) lines Let_def by simp
    qed
  qed
qed simp

text \<open>The search over a provider returns the first hundred matching lines of the files it is asked for, in the
  order of files and lines: the two nested loops with their early exits are the take of one list.\<close>

theorem grep_exact:
  "grep_files read pattern sp ext files [] =
    take MAX_MATCHES (concat (map (\<lambda>file. case read file of
        Ok content \<Rightarrow> map (\<lambda>(i, line). match_line file i line)
            (filter (\<lambda>(i, line). contains line pattern) (List.enumerate 0 (str_lines content)))
      | _ \<Rightarrow> []) (filter (grep_wanted sp ext) files)))"
proof -
  have "(\<lambda>file. case read file of
        Ok content \<Rightarrow> map (\<lambda>(i, line). match_line file i line)
            (filter (\<lambda>(i, line). contains line pattern) (List.enumerate 0 (str_lines content)))
      | _ \<Rightarrow> []) = file_matches read pattern"
    by (simp add: fun_eq_iff file_matches_def line_matches_def split: outcome.split)
  then show ?thesis
    using grep_files_take[of "[]" read pattern sp ext files] by (simp add: MAX_MATCHES_def)
qed

end
