(* ===== verification/Spec2Isabelle.thy ===== *)
theory Spec2Isabelle
  imports WfEngineFacts EditFacts CodeFacts GitHubFacts SchedulerFacts Events RouterFacts RunnerFacts
    AutopilotFacts VerifyFacts ToolFacts
begin

text \<open>
  HEADER
\<close>

end
